(* ===== verification/Prelude.thy ===== *)
theory Prelude
  imports Main "HOL-Library.Char_ord" "HOL-Library.List_Lexorder"
begin

text \<open>
  Prelude of the development: what every component shares.

  \<^item> \<^emph>\<open>Errors.\<close> The error values of the packages under \<open>src/internal\<close> (\<open>types/errors.go\<close>,
    \<open>storage/errors.go\<close>, \<open>rfc8693/errors.go\<close>, \<open>celutils/errors.go\<close>, \<open>httpsrv/errors.go\<close>, ...)
    as one datatype, with Go's \<open>errors.Is\<close> as a walk along the \<open>Unwrap\<close> chain.
  \<^item> \<^emph>\<open>Outcomes and effects.\<close> A Go call that may fail returns \<open>'a res\<close>: a value, an error, or
    a panic (which no \<open>if err != nil\<close> catches). A call with effects is a function of the
    state, \<open>('w, 'a) io\<close>; \<open>bindE\<close> is the idiom \<open>if err != nil { return err }\<close> and \<open>tryE\<close> the
    one that inspects the error first.
  \<^item> \<^emph>\<open>Frames.\<close> \<open>frame R m\<close> says that every run of \<open>m\<close> relates the state before and after by
    \<open>R\<close>; it is closed under the combinators (collection \<open>frame_rules\<close>), so that the frame of
    a handler is found by the rules from the frames of the calls it makes.
  \<^item> \<^emph>\<open>Strings.\<close> The functions of Go's standard library the sources use on strings.
\<close>

named_theorems go_simps \<open>unfolding rules of the outcome and effect combinators\<close>
named_theorems frame_rules \<open>closure rules for frames of effectful calls\<close>

section \<open>Errors\<close>

datatype goerr =
    ErrNotFound
  | ErrInvalidArgument
  | ErrorIssuerNotFound
  | ErrUserInfoNotFound
  | ErrFetchUserInfo
  | ErrInvalidUserInfo string
  | ErrOAuthClientNotFound
  | ErrGroupNotFound
  | ErrGroupExists
  | ErrGroupNameEmpty
  | ErrGroupMemberNotFound
  | ErrInvalidCEL string
  | ErrorInvalidTokenRequest string string
  | ErrorMissingContextTx
  | SqlErrNoRows
  | SqlErrTxDone
  | PqError string
  | DriverError string
  | ErrScanNull
  | ErrMissingClaim string
  | ErrRequiredClaim
  | ErrInvalidClaim
  | ErrMissingUserClaim
  | ErrInvalidUserClaim
  | ErrInvalidClaimCondition
  | ErrorCELParse
  | ErrorCELEval
  | ErrInvalidPaginationCursor string
  | ErrPermissionDenied
  | ErrorWithStatus nat string
  | HTTPError nat httpmsg
  | ErrInvalidKey string
  | ValidationError nat "goerr option"
  | FositeError nat string "goerr option"
  | LibError string
and httpmsg = MsgText string | MsgErr goerr

text \<open>The next error of the \<open>Unwrap\<close> chain: \<open>fmt.Errorf\<close> with \<open>%w\<close> in \<open>types/errors.go\<close>.\<close>

fun unwrap :: "goerr \<Rightarrow> goerr option" where
  "unwrap ErrGroupNotFound = Some ErrNotFound"
| "unwrap ErrGroupExists = Some ErrInvalidArgument"
| "unwrap ErrGroupNameEmpty = Some ErrInvalidArgument"
| "unwrap ErrGroupMemberNotFound = Some ErrNotFound"
| "unwrap (ErrInvalidCEL s) = Some ErrInvalidArgument"
| "unwrap (FositeError c h cause) = cause"
| "unwrap _ = None"

fun errors_Is :: "goerr \<Rightarrow> goerr \<Rightarrow> bool" where
  "errors_Is (FositeError c h (Some cause)) target =
     (FositeError c h (Some cause) = target \<or> errors_Is cause target)"
| "errors_Is e target = (e = target \<or> unwrap e = Some target)"

text \<open>The text of an error, \<open>err.Error()\<close>, for the errors whose text the sources put in a response.\<close>

fun Error :: "goerr \<Rightarrow> string" where
  "Error ErrNotFound = ''not found''"
| "Error ErrInvalidArgument = ''invalid argument''"
| "Error ErrorIssuerNotFound = ''issuer not found''"
| "Error ErrUserInfoNotFound = ''user info does not exist''"
| "Error ErrFetchUserInfo = ''could not fetch user info''"
| "Error (ErrInvalidUserInfo s) = ''failed to store user info: '' @ s"
| "Error ErrOAuthClientNotFound = ''oauth client does not exist''"
| "Error ErrGroupNotFound = ''not found: group not found''"
| "Error ErrGroupExists = ''invalid argument: group already exists''"
| "Error ErrGroupNameEmpty = ''invalid argument: group name is empty''"
| "Error ErrGroupMemberNotFound = ''not found: group member not found''"
| "Error (ErrInvalidCEL s) = ''invalid argument: invalid CEL expression: '' @ s"
| "Error ErrorMissingContextTx = ''no transaction provided in context''"
| "Error ErrorCELParse = ''error parsing CEL expression''"
| "Error ErrorCELEval = ''error evaluating CEL expression''"
| "Error (ErrorWithStatus c m) = m"
| "Error (DriverError s) = s"
| "Error (LibError s) = s"
| "Error _ = ''error''"

section \<open>Outcomes and effects\<close>

datatype 'a res = Ok 'a | Err goerr | Panic string

type_synonym ('w, 'a) io = "'w \<Rightarrow> 'a res \<times> 'w"

definition ret :: "'a \<Rightarrow> ('w, 'a) io" where
  "ret a = (\<lambda>w. (Ok a, w))"

definition fail :: "goerr \<Rightarrow> ('w, 'a) io" where
  "fail e = (\<lambda>w. (Err e, w))"

definition gopanic :: "string \<Rightarrow> ('w, 'a) io" where
  "gopanic s = (\<lambda>w. (Panic s, w))"

definition lift :: "'a res \<Rightarrow> ('w, 'a) io" where
  "lift r = (\<lambda>w. (r, w))"

text \<open>\<open>x, err := m; if err != nil { return err }\<close>, then the rest.\<close>

definition bindE :: "('w, 'a) io \<Rightarrow> ('a \<Rightarrow> ('w, 'b) io) \<Rightarrow> ('w, 'b) io" where
  "bindE m f = (\<lambda>w. case m w of
       (Ok a, w') \<Rightarrow> f a w'
     | (Err e, w') \<Rightarrow> (Err e, w')
     | (Panic s, w') \<Rightarrow> (Panic s, w'))"

text \<open>\<open>x, err := m\<close>, a continuation for each of the two; a panic passes through both.\<close>

definition tryE :: "('w, 'a) io \<Rightarrow> (goerr \<Rightarrow> ('w, 'b) io) \<Rightarrow> ('a \<Rightarrow> ('w, 'b) io) \<Rightarrow> ('w, 'b) io" where
  "tryE m h f = (\<lambda>w. case m w of
       (Ok a, w') \<Rightarrow> f a w'
     | (Err e, w') \<Rightarrow> h e w'
     | (Panic s, w') \<Rightarrow> (Panic s, w'))"

definition get :: "('w, 'w) io" where
  "get = (\<lambda>w. (Ok w, w))"

text \<open>The same two idioms on pure outcomes.\<close>

fun bindR :: "'a res \<Rightarrow> ('a \<Rightarrow> 'b res) \<Rightarrow> 'b res" where
  "bindR (Ok a) f = f a"
| "bindR (Err e) f = Err e"
| "bindR (Panic s) f = Panic s"

fun mapErr :: "(goerr \<Rightarrow> goerr) \<Rightarrow> 'a res \<Rightarrow> 'a res" where
  "mapErr g (Ok a) = Ok a"
| "mapErr g (Err e) = Err (g e)"
| "mapErr g (Panic s) = Panic s"

text \<open>A \<open>for ... range\<close> loop that stops at the first error and collects one value per element.\<close>

fun traverse :: "('a \<Rightarrow> 'b res) \<Rightarrow> 'a list \<Rightarrow> 'b list res" where
  "traverse f [] = Ok []"
| "traverse f (x # xs) = bindR (f x) (\<lambda>y. bindR (traverse f xs) (\<lambda>ys. Ok (y # ys)))"

lemma bindR_eq_Ok [simp]: "bindR r f = Ok b \<longleftrightarrow> (\<exists>a. r = Ok a \<and> f a = Ok b)"
  by (cases r) auto

lemma mapErr_eq_Ok [simp]: "mapErr g r = Ok a \<longleftrightarrow> r = Ok a"
  by (cases r) auto

lemma traverse_Ok_map: "(\<And>x. x \<in> set xs \<Longrightarrow> f x = Ok (g x)) \<Longrightarrow> traverse f xs = Ok (map g xs)"
  by (induction xs) auto

lemma traverse_Ok_length: "traverse f xs = Ok ys \<Longrightarrow> length ys = length xs"
  by (induction xs arbitrary: ys) auto

lemma traverse_Ok_nth:
  "traverse f xs = Ok ys \<Longrightarrow> i < length xs \<Longrightarrow> f (xs ! i) = Ok (ys ! i)"
  by (induction xs arbitrary: ys i) (auto simp: nth_Cons split: nat.splits)

lemma traverse_append_Err:
  "traverse f xs = Ok ys \<Longrightarrow> f x = Err e \<Longrightarrow> traverse f (xs @ x # zs) = Err e"
  by (induction xs arbitrary: ys) auto

lemmas [go_simps] = ret_def fail_def gopanic_def lift_def bindE_def tryE_def get_def

lemma bindE_ret [simp]: "bindE (ret a) f = f a"
  by (simp add: go_simps)

lemma bindE_fail [simp]: "bindE (fail e) f = fail e"
  by (simp add: go_simps)

lemma bindE_lift: "bindE (lift (Ok a)) f = f a" "bindE (lift (Err e)) f = fail e"
  by (simp_all add: go_simps)

lemma tryE_ret [simp]: "tryE (ret a) h f = f a"
  by (simp add: go_simps)

lemma tryE_fail [simp]: "tryE (fail e) h f = h e"
  by (simp add: go_simps)

lemma bindE_assoc: "bindE (bindE m f) g = bindE m (\<lambda>x. bindE (f x) g)"
  by (auto simp: go_simps fun_eq_iff split: prod.splits res.splits)

lemma bindE_eq_Ok:
  "bindE m f w = (Ok b, w') \<longleftrightarrow> (\<exists>a v. m w = (Ok a, v) \<and> f a v = (Ok b, w'))"
  by (auto simp: bindE_def split: prod.splits res.splits)

lemma tryE_eq_Ok:
  "tryE m h f w = (Ok b, w') \<longleftrightarrow>
     (\<exists>a v. m w = (Ok a, v) \<and> f a v = (Ok b, w')) \<or> (\<exists>e v. m w = (Err e, v) \<and> h e v = (Ok b, w'))"
  by (auto simp: tryE_def split: prod.splits res.splits)

lemma ret_eq [simp]: "ret a w = (r, w') \<longleftrightarrow> r = Ok a \<and> w' = w"
  by (auto simp: ret_def)

lemma fail_eq [simp]: "fail e w = (r, w') \<longleftrightarrow> r = Err e \<and> w' = w"
  by (auto simp: fail_def)

lemma lift_eq [simp]: "lift x w = (r, w') \<longleftrightarrow> x = r \<and> w' = w"
  by (auto simp: lift_def)

section \<open>Frames\<close>

definition frame :: "('w \<Rightarrow> 'w \<Rightarrow> bool) \<Rightarrow> ('w, 'a) io \<Rightarrow> bool" where
  "frame R m \<longleftrightarrow> (\<forall>w. R w (snd (m w)))"

lemma frameD: "frame R m \<Longrightarrow> m w = (r, w') \<Longrightarrow> R w w'"
  by (metis frame_def snd_conv)

lemma frameI: "(\<And>w. R w (snd (m w))) \<Longrightarrow> frame R m"
  by (simp add: frame_def)

text \<open>
  A frame relation that is reflexive and transitive is closed under the combinators. The
  locale states this once; each frame relation of the development interprets it.
\<close>

locale frame_rel =
  fixes R :: "'w \<Rightarrow> 'w \<Rightarrow> bool"
  assumes frame_refl: "R w w"
    and frame_trans: "R u v \<Longrightarrow> R v w \<Longrightarrow> R u w"
begin

lemma ret_frame: "frame R (ret a)"
  by (simp add: frame_def ret_def frame_refl)

lemma fail_frame: "frame R (fail e)"
  by (simp add: frame_def fail_def frame_refl)

lemma gopanic_frame: "frame R (gopanic e)"
  by (simp add: frame_def gopanic_def frame_refl)

lemma lift_frame: "frame R (lift e)"
  by (simp add: frame_def lift_def frame_refl)

lemma get_frame: "frame R get"
  by (simp add: frame_def get_def frame_refl)

lemma bindE_frame: "frame R m \<Longrightarrow> (\<And>a. frame R (f a)) \<Longrightarrow> frame R (bindE m f)"
  unfolding frame_def bindE_def
  by (auto split: prod.splits res.splits) (metis frame_trans snd_conv frame_refl)+

lemma tryE_frame:
  "frame R m \<Longrightarrow> (\<And>e. frame R (h e)) \<Longrightarrow> (\<And>a. frame R (f a)) \<Longrightarrow> frame R (tryE m h f)"
  unfolding frame_def tryE_def
  by (auto split: prod.splits res.splits) (metis frame_trans snd_conv frame_refl)+

lemma if_frame: "frame R m \<Longrightarrow> frame R n \<Longrightarrow> frame R (if b then m else n)"
  by simp

lemma option_frame:
  "frame R m \<Longrightarrow> (\<And>a. frame R (f a)) \<Longrightarrow> frame R (case x of None \<Rightarrow> m | Some a \<Rightarrow> f a)"
  by (cases x) simp_all

lemma prod_frame: "(\<And>a b. frame R (f a b)) \<Longrightarrow> frame R (case x of (a, b) \<Rightarrow> f a b)"
  by (cases x) simp

lemma let_frame: "(\<And>a. frame R (f a)) \<Longrightarrow> frame R (let a = x in f a)"
  by (simp add: Let_def)

lemmas closed = ret_frame fail_frame gopanic_frame lift_frame get_frame bindE_frame tryE_frame
  if_frame option_frame prod_frame let_frame

end

section \<open>Strings\<close>

text \<open>\<open>strings.Join\<close>.\<close>

fun Join :: "string list \<Rightarrow> string \<Rightarrow> string" where
  "Join [] sep = []"
| "Join [x] sep = x"
| "Join (x # y # xs) sep = x @ sep @ Join (y # xs) sep"

text \<open>\<open>strings.ReplaceAll\<close> for a pattern of one byte.\<close>

definition ReplaceAll :: "string \<Rightarrow> char \<Rightarrow> string \<Rightarrow> string" where
  "ReplaceAll s c by = concat (map (\<lambda>x. if x = c then by else [x]) s)"

text \<open>\<open>unicode.IsSpace\<close> on ASCII and \<open>strings.Fields\<close>.\<close>

definition is_space :: "char \<Rightarrow> bool" where
  "is_space c = (c = CHR '' '' \<or> of_char c \<in> {9..13 :: nat})"

fun fields_acc :: "string \<Rightarrow> string \<Rightarrow> string list" where
  "fields_acc [] cur = (if cur = [] then [] else [rev cur])"
| "fields_acc (c # cs) cur =
     (if is_space c then (if cur = [] then fields_acc cs [] else rev cur # fields_acc cs [])
      else fields_acc cs (c # cur))"

definition Fields :: "string \<Rightarrow> string list" where
  "Fields s = fields_acc s []"

text \<open>\<open>strconv.Itoa\<close>.\<close>

definition digit :: "nat \<Rightarrow> char" where
  "digit n = char_of (48 + n mod 10)"

fun show_nat :: "nat \<Rightarrow> string" where
  "show_nat n = (if n < 10 then [digit n] else show_nat (n div 10) @ [digit n])"

declare show_nat.simps [simp del]

definition Itoa :: "int \<Rightarrow> string" where
  "Itoa i = (if i < 0 then CHR ''-'' # show_nat (nat (- i)) else show_nat (nat i))"

text \<open>\<open>strconv.Atoi\<close> on 64-bit integers.\<close>

definition is_digit :: "char \<Rightarrow> bool" where
  "is_digit c = (of_char c \<in> {48..57 :: nat})"

fun read_digits :: "int \<Rightarrow> string \<Rightarrow> int option" where
  "read_digits acc [] = Some acc"
| "read_digits acc (c # cs) =
     (if is_digit c then read_digits (acc * 10 + (of_char c - 48)) cs else None)"

definition Atoi :: "string \<Rightarrow> int option" where
  "Atoi s =
    (let (neg, body) = (case s of [] \<Rightarrow> (False, [])
                        | c # cs \<Rightarrow> if c = CHR ''-'' then (True, cs)
                                    else if c = CHR ''+'' then (False, cs) else (False, s))
     in if body = [] then None
        else case read_digits 0 body of
               None \<Rightarrow> None
             | Some n \<Rightarrow> (let v = (if neg then - n else n)
                          in if - (2 ^ 63) \<le> v \<and> v < 2 ^ 63 then Some v else None))"

lemma fields_acc_word:
  "\<forall>c \<in> set w. \<not> is_space c \<Longrightarrow> fields_acc (w @ rest) cur = fields_acc rest (rev w @ cur)"
  by (induction w arbitrary: cur) auto

lemma is_space_blank [simp]: "is_space CHR '' ''"
  by (simp add: is_space_def)

text \<open>Words without blanks survive \<open>strings.Join\<close> with a blank and \<open>strings.Fields\<close>.\<close>

lemma Fields_Join:
  "\<forall>w \<in> set ws. w \<noteq> [] \<and> (\<forall>c \<in> set w. \<not> is_space c) \<Longrightarrow> Fields (Join ws '' '') = ws"
proof (induction ws "'' ''" rule: Join.induct)
  case (2 x)
  then show ?case
    using fields_acc_word [of x "[]" "[]"] by (simp add: Fields_def)
next
  case (3 x y xs)
  then have "Fields (Join (y # xs) '' '') = y # xs" by simp
  with 3 show ?case
    using fields_acc_word [of x "CHR '' '' # Join (y # xs) '' ''" "[]"]
    by (simp add: Fields_def)
qed (simp add: Fields_def)

section \<open>Generic list facts\<close>

lemma map_of_filter_fst:
  "map_of (filter (\<lambda>(k, v). P k) m) = (\<lambda>k. if P k then map_of m k else None)"
  by (induction m) (auto simp: fun_eq_iff)

lemma find_distinct:
  "distinct (map f xs) \<Longrightarrow> x \<in> set xs \<Longrightarrow> find (\<lambda>y. f y = f x) xs = Some x"
  by (induction xs) (auto simp: image_iff)

lemma filter_unique:
  "distinct (map f xs) \<Longrightarrow> x \<in> set xs \<Longrightarrow> filter (\<lambda>y. f y = f x) xs = [x]"
proof (induction xs)
  case (Cons y ys)
  show ?case
  proof (cases "y = x")
    case True
    with Cons.prems have "\<forall>z \<in> set ys. f z \<noteq> f x" by (auto simp: image_iff)
    with True show ?thesis by (simp add: filter_empty_conv)
  next
    case False
    with Cons.prems have "x \<in> set ys" "f y \<noteq> f x" by (auto simp: image_iff)
    with Cons show ?thesis by simp
  qed
qed simp

lemma find_Some_mem: "find P xs = Some x \<Longrightarrow> x \<in> set xs \<and> P x"
  by (induction xs) (auto split: if_splits)

lemma find_None_iff2: "find P xs = None \<longleftrightarrow> (\<forall>x \<in> set xs. \<not> P x)"
  by (induction xs) auto

lemma distinct_map_inj:
  "distinct (map f xs) \<Longrightarrow> x \<in> set xs \<Longrightarrow> y \<in> set xs \<Longrightarrow> f x = f y \<Longrightarrow> x = y"
  by (meson distinct_map inj_onD)

lemma find_SomeD: "find P xs = Some x \<Longrightarrow> x \<in> set xs \<and> P x"
  by (induction xs) (auto split: if_splits)

end
