(* ===== verification/Codec.thy ===== *)
theory Codec
  imports Prelude "HOL-Library.AList"
begin

text \<open>
  The encodings of Go's standard library that the sources use, on byte strings:
  \<open>encoding/base64\<close> (\<open>URLEncoding\<close>, padded, for pagination cursors; \<open>RawURLEncoding\<close>, unpadded,
  for user IDs), and the query strings of \<open>net/url\<close> (\<open>QueryEscape\<close>, \<open>QueryUnescape\<close>,
  \<open>Values.Encode\<close>, \<open>ParseQuery\<close>). A Go map is an association list with distinct keys.
  The round trips proved here carry the round trip of the cursors of theory \<open>Pagination\<close>.
\<close>

section \<open>Base64\<close>

definition b64_alphabet :: string where
  "b64_alphabet = ''ABCDEFGHIJKLMNOPQRSTUVWXYZabcdefghijklmnopqrstuvwxyz0123456789-_''"

definition b64_char :: "nat \<Rightarrow> char" where
  "b64_char n = b64_alphabet ! (n mod 64)"

fun index_of :: "'a \<Rightarrow> 'a list \<Rightarrow> nat option" where
  "index_of x [] = None"
| "index_of x (y # ys) = (if x = y then Some 0 else map_option Suc (index_of x ys))"

definition b64_val :: "char \<Rightarrow> nat option" where
  "b64_val c = index_of c b64_alphabet"

fun b64_enc :: "string \<Rightarrow> nat list \<Rightarrow> string" where
  "b64_enc pad [] = []"
| "b64_enc pad [a] = [b64_char (a div 4), b64_char ((a mod 4) * 16)] @ pad @ pad"
| "b64_enc pad [a, b] =
     [b64_char (a div 4), b64_char ((a mod 4) * 16 + b div 16), b64_char ((b mod 16) * 4)] @ pad"
| "b64_enc pad (a # b # c # r) =
     b64_char (a div 4) # b64_char ((a mod 4) * 16 + b div 16) #
     b64_char ((b mod 16) * 4 + c div 64) # b64_char (c mod 64) # b64_enc pad r"

fun b64_dec :: "string \<Rightarrow> nat list option" where
  "b64_dec [] = Some []"
| "b64_dec (a # b # c # d # r) =
     (if r = [] \<and> d = CHR ''='' then
        (if c = CHR ''='' then
           (case (b64_val a, b64_val b) of
              (Some x, Some y) \<Rightarrow> Some [x * 4 + y div 16]
            | _ \<Rightarrow> None)
         else
           (case (b64_val a, b64_val b, b64_val c) of
              (Some x, Some y, Some z) \<Rightarrow> Some [x * 4 + y div 16, (y mod 16) * 16 + z div 4]
            | _ \<Rightarrow> None))
      else
        (case (b64_val a, b64_val b, b64_val c, b64_val d) of
           (Some x, Some y, Some z, Some u) \<Rightarrow>
             map_option (\<lambda>bs. (x * 4 + y div 16) # ((y mod 16) * 16 + z div 4) #
                              ((z mod 4) * 64 + u) # bs) (b64_dec r)
         | _ \<Rightarrow> None))"
| "b64_dec _ = None"

definition bytes :: "string \<Rightarrow> nat list" where
  "bytes s = map of_char s"

definition of_bytes :: "nat list \<Rightarrow> string" where
  "of_bytes bs = map char_of bs"

text \<open>\<open>base64.URLEncoding.EncodeToString\<close>, its \<open>DecodeString\<close> (which skips line breaks), and
  \<open>base64.RawURLEncoding.EncodeToString\<close>.\<close>

definition URLEncoding_EncodeToString :: "string \<Rightarrow> string" where
  "URLEncoding_EncodeToString s = b64_enc ''='' (bytes s)"

definition URLEncoding_DecodeString :: "string \<Rightarrow> string option" where
  "URLEncoding_DecodeString s =
     map_option of_bytes (b64_dec (filter (\<lambda>c. c \<noteq> CHR 0x0A \<and> c \<noteq> CHR 0x0D) s))"

definition RawURLEncoding_EncodeToString :: "nat list \<Rightarrow> string" where
  "RawURLEncoding_EncodeToString bs = b64_enc [] bs"

lemma of_bytes_bytes [simp]: "of_bytes (bytes s) = s"
  by (simp add: of_bytes_def bytes_def comp_def)

lemma bytes_lt: "b \<in> set (bytes s) \<Longrightarrow> b < 256"
  by (auto simp: bytes_def)

lemma b64_val_all: "\<forall>n \<in> set [0..<64]. b64_val (b64_char n) = Some n"
  by code_simp

lemma b64_val_char [simp]: "n < 64 \<Longrightarrow> b64_val (b64_char n) = Some n"
  using b64_val_all by auto

lemma b64_char_range: "b64_char n \<in> set b64_alphabet"
proof -
  have "length b64_alphabet = 64" by code_simp
  then show ?thesis by (simp add: b64_char_def)
qed

lemma b64_alphabet_plain: "c \<in> set b64_alphabet \<Longrightarrow> c \<noteq> CHR ''='' \<and> c \<noteq> CHR 0x0A \<and> c \<noteq> CHR 0x0D"
proof -
  have "\<forall>c \<in> set b64_alphabet. c \<noteq> CHR ''='' \<and> c \<noteq> CHR 0x0A \<and> c \<noteq> CHR 0x0D"
    by code_simp
  then show "c \<in> set b64_alphabet \<Longrightarrow> ?thesis" by blast
qed

lemma b64_char_plain [simp]:
  "b64_char n \<noteq> CHR ''=''" "b64_char n \<noteq> CHR 0x0A" "b64_char n \<noteq> CHR 0x0D"
  using b64_alphabet_plain [OF b64_char_range] by blast+

lemma digit_split [simp]:
  "(q::nat) < d \<Longrightarrow> (p * d + q) div d = p" "q < d \<Longrightarrow> (p * d + q) mod d = q"
  by (simp_all add: div_add1_eq)

lemma six_bits:
  "a < 256 \<Longrightarrow> a div 4 < (64::nat)" "b < 256 \<Longrightarrow> b div 16 < (16::nat)" "c < 256 \<Longrightarrow> c div 64 < (4::nat)"
  "q < 16 \<Longrightarrow> a mod 4 * 16 + q < (64::nat)" "q < 4 \<Longrightarrow> b mod 16 * 4 + q < (64::nat)"
  "a mod 4 * 16 < (64::nat)" "b mod 16 * 4 < (64::nat)"
  using mod_less_divisor [of 4 a] mod_less_divisor [of 16 b]
  by (simp_all add: less_mult_imp_div_less)

lemma b64_round: "\<forall>b \<in> set bs. b < 256 \<Longrightarrow> b64_dec (b64_enc ''='' bs) = Some bs"
  by (induction "''=''" bs rule: b64_enc.induct) (simp_all add: six_bits)

lemma b64_enc_no_newline:
  "filter (\<lambda>c. c \<noteq> CHR 0x0A \<and> c \<noteq> CHR 0x0D) (b64_enc ''='' bs) = b64_enc ''='' bs"
  by (induction "''=''" bs rule: b64_enc.induct) simp_all

theorem URLEncoding_round_trip: "URLEncoding_DecodeString (URLEncoding_EncodeToString s) = Some s"
  by (simp add: URLEncoding_DecodeString_def URLEncoding_EncodeToString_def
      b64_enc_no_newline b64_round bytes_lt)

lemma URLEncoding_nonempty: "URLEncoding_EncodeToString s = [] \<longleftrightarrow> s = []"
  by (cases "(''='', bytes s)" rule: b64_enc.cases)
    (auto simp: URLEncoding_EncodeToString_def bytes_def)

section \<open>Query strings\<close>

definition unreserved :: "char \<Rightarrow> bool" where
  "unreserved c = (let n = (of_char c :: nat) in
     (48 \<le> n \<and> n \<le> 57) \<or> (65 \<le> n \<and> n \<le> 90) \<or> (97 \<le> n \<and> n \<le> 122) \<or>
     c = CHR ''-'' \<or> c = CHR ''_'' \<or> c = CHR ''.'' \<or> c = CHR ''~'')"

definition upper_hex :: "nat \<Rightarrow> char" where
  "upper_hex n = ''0123456789ABCDEF'' ! (n mod 16)"

definition unhex :: "char \<Rightarrow> nat option" where
  "unhex c = (let n = (of_char c :: nat) in
     if 48 \<le> n \<and> n \<le> 57 then Some (n - 48)
     else if 65 \<le> n \<and> n \<le> 70 then Some (n - 55)
     else if 97 \<le> n \<and> n \<le> 102 then Some (n - 87) else None)"

definition escape_char :: "char \<Rightarrow> string" where
  "escape_char c =
     (if unreserved c then [c] else if c = CHR '' '' then ''+''
      else [CHR ''%'', upper_hex (of_char c div 16), upper_hex (of_char c)])"

definition QueryEscape :: "string \<Rightarrow> string" where
  "QueryEscape s = concat (map escape_char s)"

fun QueryUnescape :: "string \<Rightarrow> string option" where
  "QueryUnescape [] = Some []"
| "QueryUnescape (c # r) =
     (if c = CHR ''%'' then
        (case r of h # l # r' \<Rightarrow>
           (case (unhex h, unhex l) of
              (Some x, Some y) \<Rightarrow> map_option (Cons (char_of (16 * x + y))) (QueryUnescape r')
            | _ \<Rightarrow> None)
         | _ \<Rightarrow> None)
      else map_option (Cons (if c = CHR ''+'' then CHR '' '' else c)) (QueryUnescape r))"

lemma unhex_all: "\<forall>n \<in> set [0..<16]. unhex (upper_hex n) = Some n \<and> unreserved (upper_hex n)"
  by code_simp

lemma unhex_upper_hex [simp]: "unhex (upper_hex n) = Some (n mod 16)"
proof -
  have "n mod 16 \<in> set [0..<16]" by simp
  then have "unhex (upper_hex (n mod 16)) = Some (n mod 16)" using unhex_all by blast
  then show ?thesis by (simp add: upper_hex_def)
qed

lemma upper_hex_unreserved: "unreserved (upper_hex n)"
proof -
  have "n mod 16 \<in> set [0..<16]" by simp
  then have "unreserved (upper_hex (n mod 16))" using unhex_all by blast
  then show ?thesis by (simp add: upper_hex_def)
qed

lemma unreserved_plain: "unreserved c \<Longrightarrow>
    c \<noteq> CHR ''%'' \<and> c \<noteq> CHR ''+'' \<and> c \<noteq> CHR ''&'' \<and> c \<noteq> CHR ''='' \<and> c \<noteq> CHR '';''"
  by (auto simp: unreserved_def Let_def)

text \<open>An escaped string holds none of the separators of a query.\<close>

lemma escape_char_safe:
  assumes "c \<in> set (escape_char x)"
  shows "c \<noteq> CHR ''&'' \<and> c \<noteq> CHR ''='' \<and> c \<noteq> CHR '';''"
proof -
  from assms have "unreserved c \<or> c = CHR ''+'' \<or> c = CHR ''%''"
    using upper_hex_unreserved by (auto simp: escape_char_def split: if_splits)
  then show ?thesis using unreserved_plain by auto
qed

lemma QueryEscape_safe:
  "c \<in> set (QueryEscape s) \<Longrightarrow> c \<noteq> CHR ''&'' \<and> c \<noteq> CHR ''='' \<and> c \<noteq> CHR '';''"
  using escape_char_safe by (fastforce simp: QueryEscape_def)

lemma byte_split: "16 * (of_char c div 16 mod 16) + of_char c mod 16 = (of_char c :: nat)"
proof -
  have "(of_char c :: nat) div 16 < 16" by (simp add: less_mult_imp_div_less)
  then show ?thesis by simp
qed

lemma QueryUnescape_escape_char:
  "QueryUnescape (escape_char c @ s) = map_option (Cons c) (QueryUnescape s)"
  using unreserved_plain [of c]
  by (auto simp: escape_char_def byte_split)

lemma QueryUnescape_Escape [simp]: "QueryUnescape (QueryEscape s) = Some s"
proof (induction s)
  case (Cons c s)
  then show ?case
    by (simp add: QueryEscape_def QueryUnescape_escape_char)
qed (simp add: QueryEscape_def)

section \<open>Values\<close>

type_synonym url_values = "(string \<times> string list) list"

definition Values_Set :: "string \<Rightarrow> string \<Rightarrow> url_values \<Rightarrow> url_values" where
  "Values_Set k v m = AList.update k [v] m"

definition Values_Get :: "url_values \<Rightarrow> string \<Rightarrow> string" where
  "Values_Get m k = (case map_of m k of Some (v # vs) \<Rightarrow> v | _ \<Rightarrow> [])"

definition Values_Encode :: "url_values \<Rightarrow> string" where
  "Values_Encode m =
     Join (concat (map (\<lambda>k. map (\<lambda>v. QueryEscape k @ ''='' @ QueryEscape v)
                                (case map_of m k of Some vs \<Rightarrow> vs | None \<Rightarrow> []))
                       (sort (map fst m)))) ''&''"

text \<open>\<open>strings.Cut\<close> at a byte, and the split of a query at its ampersands.\<close>

fun Cut :: "char \<Rightarrow> string \<Rightarrow> string \<times> string" where
  "Cut sep [] = ([], [])"
| "Cut sep (c # s) = (if c = sep then ([], s) else (let (a, b) = Cut sep s in (c # a, b)))"

fun split_on :: "char \<Rightarrow> string \<Rightarrow> string list" where
  "split_on sep [] = [[]]"
| "split_on sep (c # s) =
     (if c = sep then [] # split_on sep s
      else (case split_on sep s of [] \<Rightarrow> [[c]] | p # ps \<Rightarrow> (c # p) # ps))"

definition append_value :: "string \<Rightarrow> string \<Rightarrow> url_values \<Rightarrow> url_values" where
  "append_value k v m = AList.update k ((case map_of m k of Some vs \<Rightarrow> vs | None \<Rightarrow> []) @ [v]) m"

fun parse_pieces :: "string list \<Rightarrow> url_values \<Rightarrow> url_values option" where
  "parse_pieces [] m = Some m"
| "parse_pieces (p # ps) m =
     (if CHR '';'' \<in> set p then None
      else if p = [] then parse_pieces ps m
      else (let (k, v) = Cut CHR ''='' p in
            case (QueryUnescape k, QueryUnescape v) of
              (Some k', Some v') \<Rightarrow> parse_pieces ps (append_value k' v' m)
            | _ \<Rightarrow> None))"

text \<open>\<open>url.ParseQuery\<close>; the callers drop the values that come with an error.\<close>

definition ParseQuery :: "string \<Rightarrow> url_values option" where
  "ParseQuery q = parse_pieces (split_on CHR ''&'' q) []"

lemma split_on_nonempty [simp]: "split_on sep s \<noteq> []"
  by (induction s) (auto split: list.splits)

lemma split_on_append: "sep \<notin> set x \<Longrightarrow> split_on sep (x @ sep # s) = x # split_on sep s"
  by (induction x) auto

lemma split_on_none: "sep \<notin> set x \<Longrightarrow> split_on sep x = [x]"
  by (induction x) auto

lemma split_on_Join:
  "xs \<noteq> [] \<Longrightarrow> \<forall>x \<in> set xs. sep \<notin> set x \<Longrightarrow> split_on sep (Join xs [sep]) = xs"
  by (induction xs "[sep]" rule: Join.induct) (auto simp: split_on_none split_on_append)

lemma Cut_append: "sep \<notin> set x \<Longrightarrow> Cut sep (x @ sep # y) = (x, y)"
  by (induction x) auto

definition pair_piece :: "string \<times> string \<Rightarrow> string" where
  "pair_piece kv = QueryEscape (fst kv) @ ''='' @ QueryEscape (snd kv)"

lemma pair_piece_safe:
  "CHR ''&'' \<notin> set (pair_piece kv)" "CHR '';'' \<notin> set (pair_piece kv)" "pair_piece kv \<noteq> []"
  using QueryEscape_safe by (fastforce simp: pair_piece_def)+

lemma parse_pieces_pairs:
  "parse_pieces (map pair_piece kvs) m = Some (fold (\<lambda>(k, v). append_value k v) kvs m)"
proof (induction kvs arbitrary: m)
  case (Cons kv kvs)
  have "Cut CHR ''='' (pair_piece kv) = (QueryEscape (fst kv), QueryEscape (snd kv))"
    using Cut_append [of "CHR ''=''" "QueryEscape (fst kv)"] QueryEscape_safe
    by (fastforce simp: pair_piece_def)
  then show ?case using Cons pair_piece_safe by (simp add: case_prod_beta)
qed simp

text \<open>The pairs of a map in the order \<open>Encode\<close> writes them.\<close>

definition sorted_pairs :: "url_values \<Rightarrow> (string \<times> string) list" where
  "sorted_pairs m = concat (map (\<lambda>k. map (Pair k) (case map_of m k of Some vs \<Rightarrow> vs | None \<Rightarrow> []))
                                (sort (map fst m)))"

lemma Values_Encode_pairs: "Values_Encode m = Join (map pair_piece (sorted_pairs m)) ''&''"
  by (simp add: Values_Encode_def sorted_pairs_def pair_piece_def map_concat comp_def)

lemma map_of_append_values:
  "map_of (fold (\<lambda>(k, v). append_value k v) (map (Pair k) vs) m) =
   (if vs = [] then map_of m
    else (map_of m)(k \<mapsto> (case map_of m k of Some us \<Rightarrow> us | None \<Rightarrow> []) @ vs))"
proof (induction vs arbitrary: m)
  case (Cons v vs)
  then show ?case
    by (auto simp: append_value_def update_conv' fun_eq_iff split: option.splits)
qed simp

lemma map_of_fold_keys:
  assumes "distinct ks" and "\<forall>k \<in> set ks. map_of m0 k = None"
  shows "map_of (fold (\<lambda>(k, v). append_value k v) (concat (map (\<lambda>k. map (Pair k) (f k)) ks)) m0) k' =
    (if k' \<in> set ks \<and> f k' \<noteq> [] then Some (f k') else map_of m0 k')"
  using assms
proof (induction ks arbitrary: m0)
  case (Cons k ks)
  let ?m1 = "fold (\<lambda>(k, v). append_value k v) (map (Pair k) (f k)) m0"
  have "\<forall>x \<in> set ks. map_of ?m1 x = None"
    using Cons.prems by (auto simp: map_of_append_values)
  with Cons show ?case
    by (auto simp: map_of_append_values)
qed simp

text \<open>Parsing an encoded query gives the same map back, whatever bytes its keys and values hold.\<close>

theorem ParseQuery_Encode:
  assumes "distinct (map fst m)" and "\<forall>vs \<in> snd ` set m. vs \<noteq> []"
  shows "\<exists>m'. ParseQuery (Values_Encode m) = Some m' \<and> map_of m' = map_of m"
proof (cases "sorted_pairs m = []")
  case True
  have "m = []"
  proof (rule ccontr)
    assume "m \<noteq> []"
    then obtain k vs where kv: "(k, vs) \<in> set m" by (metis list.set_intros(1) neq_Nil_conv surj_pair)
    then have "map_of m k = Some vs" "vs \<noteq> []" using assms by force+
    with kv True show False by (force simp: sorted_pairs_def)
  qed
  then show ?thesis by (simp add: Values_Encode_def ParseQuery_def)
next
  case False
  have "split_on CHR ''&'' (Values_Encode m) = map pair_piece (sorted_pairs m)"
    unfolding Values_Encode_pairs using False pair_piece_safe by (intro split_on_Join) auto
  then have "ParseQuery (Values_Encode m) =
      Some (fold (\<lambda>(k, v). append_value k v) (sorted_pairs m) [])" (is "_ = Some ?m'")
    by (simp add: ParseQuery_def parse_pieces_pairs)
  moreover have "map_of ?m' = map_of m"
  proof
    fix k
    show "map_of ?m' k = map_of m k"
      unfolding sorted_pairs_def using assms
      by (subst map_of_fold_keys)
        (auto simp: map_of_eq_None_iff dest: map_of_SomeD split: option.splits
          intro!: map_of_eq_None_iff [THEN iffD2, symmetric] rev_image_eqI)
  qed
  ultimately show ?thesis by blast
qed

end
