(* ===== verification/Pagination.thy ===== *)
theory Pagination
  imports Codec
begin

text \<open>
  Cursor pagination, \<open>src/internal/crdbx\<close>: cursors (\<open>cursor.go\<close>), the paginator and the limit
  (\<open>pagination.go\<close>), and the clauses of the paged queries (\<open>template_values.go\<close>). The rows
  the clauses select, \<open>select_page\<close>, give the query text its meaning for the storage theories.

  A nil pointer is \<open>None\<close>. A \<open>FormatValues\<close> method that overwrites the slice it is given
  returns the \<open>FormatValues\<close> with the slice as it is after the call.
\<close>

section \<open>Cursors\<close>

type_synonym cursor = "string option"

definition Cursor_Values :: "cursor \<Rightarrow> url_values option res" where
  "Cursor_Values c =
     (case c of
        None \<Rightarrow> Ok None
      | Some s \<Rightarrow>
          (if s = [] then Ok None
           else (case URLEncoding_DecodeString s of
                   None \<Rightarrow> Err (ErrInvalidPaginationCursor ''base64'')
                 | Some q \<Rightarrow>
                     (case ParseQuery q of
                        None \<Rightarrow> Err (ErrInvalidPaginationCursor ''query'')
                      | Some m \<Rightarrow> Ok (Some m)))))"

definition NewCursorFromValues :: "url_values option \<Rightarrow> cursor" where
  "NewCursorFromValues vals = map_option (\<lambda>m. URLEncoding_EncodeToString (Values_Encode m)) vals"

text \<open>\<open>Set\<close> writes through the receiver: the result is the cursor it holds afterwards. A write to
  the nil map that \<open>Values\<close> returns for an empty cursor panics, as does a nil receiver.\<close>

definition Cursor_Set :: "cursor \<Rightarrow> string \<Rightarrow> string \<Rightarrow> cursor res" where
  "Cursor_Set c key v =
     (case c of
        None \<Rightarrow> Panic ''nil pointer dereference''
      | Some s \<Rightarrow>
          bindR (Cursor_Values c) (\<lambda>vals.
            case vals of
              None \<Rightarrow> Panic ''assignment to entry in nil map''
            | Some m \<Rightarrow> Ok (NewCursorFromValues (Some (Values_Set key v m)))))"

definition Cursor_String :: "cursor \<Rightarrow> string" where
  "Cursor_String c = (case c of None \<Rightarrow> [] | Some s \<Rightarrow> s)"

definition StringPtr :: "cursor \<Rightarrow> string option" where
  "StringPtr c = (case c of None \<Rightarrow> None | Some s \<Rightarrow> Some (Cursor_String c))"

fun set_pairs :: "string list \<Rightarrow> url_values \<Rightarrow> url_values" where
  "set_pairs (k # v # r) m = set_pairs r (if v \<noteq> [] then Values_Set k v m else m)"
| "set_pairs _ m = m"

definition NewCursor :: "string list \<Rightarrow> cursor res" where
  "NewCursor kvpairs =
     (if kvpairs = [] then Ok None
      else if odd (length kvpairs)
        then Err (ErrInvalidPaginationCursor ''incorrect key/value pairs'')
      else Ok (NewCursorFromValues (Some (set_pairs kvpairs []))))"

definition MustNewCursor :: "string list \<Rightarrow> cursor res" where
  "MustNewCursor kvpairs =
     (case NewCursor kvpairs of
        Ok c \<Rightarrow> Ok c
      | Err e \<Rightarrow> Panic (Error e)
      | Panic s \<Rightarrow> Panic s)"

section \<open>Paginators and limits\<close>

text \<open>The interface \<open>crdbx.Paginator\<close>: what its three methods return.\<close>

record paginator =
  GetCursor :: cursor
  GetLimit :: int
  GetOnlyFields :: "string list"

definition paginationLimitMax :: int where "paginationLimitMax = 100"
definition paginationLimitDefault :: int where "paginationLimitDefault = 10"

definition Limit :: "int \<Rightarrow> int" where
  "Limit limit =
     (if limit > paginationLimitMax then paginationLimitMax
      else if limit \<le> 0 then paginationLimitDefault
      else limit)"

text \<open>A value for \<open>AS OF SYSTEM TIME\<close>: Go's \<open>any\<close>, of which three dynamic types are recognised.\<close>

record gotime =
  t_year :: nat
  t_month :: nat
  t_day :: nat
  t_hour :: nat
  t_minute :: nat
  t_second :: nat
  t_nsec :: nat
  t_utc :: bool

datatype aost = AostNil | AostString string | AostStringPtr string | AostTime gotime | AostOther

record FormatValues =
  asOfSystemTime :: aost
  fv_fields :: "string list"
  fv_values :: "string list"
  orderFields :: "string list"
  fv_limit :: int
  qualifier :: string

definition FormatValues0 :: FormatValues where
  "FormatValues0 = \<lparr>asOfSystemTime = AostNil, fv_fields = [], fv_values = [], orderFields = [],
                    fv_limit = 0, qualifier = []\<rparr>"

definition Paginate :: "paginator \<Rightarrow> aost \<Rightarrow> FormatValues" where
  "Paginate p ast =
    (let onlyFields = (if GetOnlyFields p = [] then [''id''] else GetOnlyFields p);
         vals = FormatValues0\<lparr>fv_limit := GetLimit p, asOfSystemTime := ast,
                              orderFields := onlyFields\<rparr>
     in case GetCursor p of
          None \<Rightarrow> vals
        | Some c \<Rightarrow>
            (case Cursor_Values (Some c) of
               Ok cValues \<Rightarrow>
                 (let m = (case cValues of None \<Rightarrow> [] | Some m \<Rightarrow> m) in
                  if \<exists>k \<in> set (map fst m). k \<notin> set onlyFields then FormatValues0
                  else (let fs = filter (\<lambda>f. Values_Get m f \<noteq> []) onlyFields
                        in vals\<lparr>fv_fields := fs, fv_values := map (Values_Get m) fs\<rparr>))
             | _ \<Rightarrow> FormatValues0))"

definition ContextAsOfSystemTime :: "aost \<Rightarrow> aost \<Rightarrow> aost" where
  "ContextAsOfSystemTime ctxValue defaultTime =
     (if ctxValue \<noteq> AostNil then ctxValue else defaultTime)"

section \<open>Clauses\<close>

definition WithQualifier :: "FormatValues \<Rightarrow> string \<Rightarrow> FormatValues" where
  "WithQualifier v q = v\<lparr>qualifier := q\<rparr>"

definition quoteField :: "string \<Rightarrow> string \<Rightarrow> string" where
  "quoteField q v =
    (let dq = CHR 0x22;
         prefix = (if q \<noteq> [] then [dq] @ ReplaceAll q dq [dq, dq] @ [dq, CHR ''.''] else [])
     in prefix @ [dq] @ ReplaceAll v dq [dq, dq] @ [dq])"

definition quoteFields :: "string \<Rightarrow> string list \<Rightarrow> string list" where
  "quoteFields q fs = map (quoteField q) fs"

definition quoteValue :: "string \<Rightarrow> string" where
  "quoteValue v = (let sq = CHR 0x27 in [sq] @ ReplaceAll v sq [sq, sq] @ [sq])"

text \<open>The layout \<open>2006-01-02 15:04:05.999999999\<close>: zero-padded fields, then the fraction of the
  second without its trailing zeros, if there is one.\<close>

definition pad :: "nat \<Rightarrow> nat \<Rightarrow> string" where
  "pad k n = (let s = show_nat n in replicate (k - length s) (CHR ''0'') @ s)"

definition discardTimeZone :: "gotime \<Rightarrow> gotime" where
  "discardTimeZone t = (if \<not> t_utc t then t\<lparr>t_utc := True\<rparr> else t)"

definition TruncateMicrosecond :: "gotime \<Rightarrow> gotime" where
  "TruncateMicrosecond t = t\<lparr>t_nsec := t_nsec t - t_nsec t mod 1000\<rparr>"

definition pgTimestampFormat :: "gotime \<Rightarrow> string" where
  "pgTimestampFormat t =
     pad 4 (t_year t) @ ''-'' @ pad 2 (t_month t) @ ''-'' @ pad 2 (t_day t) @ '' '' @
     pad 2 (t_hour t) @ '':'' @ pad 2 (t_minute t) @ '':'' @ pad 2 (t_second t) @
     (if t_nsec t = 0 then []
      else ''.'' @ rev (dropWhile (\<lambda>c. c = CHR ''0'') (rev (pad 9 (t_nsec t)))))"

text \<open>The text of the value, and the clause around it.\<close>

definition aost_text :: "aost \<Rightarrow> string" where
  "aost_text a =
     (case a of
        AostNil \<Rightarrow> []
      | AostString s \<Rightarrow> s
      | AostStringPtr s \<Rightarrow> s
      | AostTime t \<Rightarrow> pgTimestampFormat (TruncateMicrosecond (discardTimeZone t))
      | AostOther \<Rightarrow> [])"

definition AsOfSystemTime :: "FormatValues \<Rightarrow> string" where
  "AsOfSystemTime v =
    (let val = aost_text (asOfSystemTime v)
     in if val = [] then [] else ''AS OF SYSTEM TIME '' @ quoteValue val)"

definition where_conds :: "FormatValues \<Rightarrow> int \<Rightarrow> string list" where
  "where_conds v nxt =
     map (\<lambda>i. quoteField (qualifier v) (fv_fields v ! i) @ ''>$'' @ Itoa (int i + nxt))
       [0..<length (fv_fields v)]"

definition Where :: "FormatValues \<Rightarrow> int \<Rightarrow> string" where
  "Where v nxt =
     (if fv_fields v = [] then []
      else ''('' @ Join (where_conds v nxt) '' AND '' @ '')'')"

definition WhereClause :: "FormatValues \<Rightarrow> int \<Rightarrow> string" where
  "WhereClause v nxt = (let w = Where v nxt in if w = [] then [] else ''WHERE '' @ w)"

definition AndWhere :: "FormatValues \<Rightarrow> int \<Rightarrow> string" where
  "AndWhere v nxt = (let w = Where v nxt in if w = [] then [] else ''AND '' @ w)"

definition defaultLimit :: int where "defaultLimit = 10"

definition effective_limit :: "FormatValues \<Rightarrow> int" where
  "effective_limit v = (if fv_limit v \<le> 0 then defaultLimit else fv_limit v)"

definition LimitClause :: "FormatValues \<Rightarrow> string" where
  "LimitClause v = ''LIMIT '' @ Itoa (effective_limit v)"

text \<open>\<open>quoteFields\<close> overwrites the slice it is given, here the receiver's \<open>orderFields\<close>.\<close>

definition Order :: "FormatValues \<Rightarrow> string list \<Rightarrow> string \<times> FormatValues" where
  "Order v fs =
    (let quoted = quoteFields (qualifier v) (orderFields v);
         fs' = fs @ quoted
     in (if fs' = [] then [] else Join fs' '','', v\<lparr>orderFields := quoted\<rparr>))"

definition OrderClause :: "FormatValues \<Rightarrow> string list \<Rightarrow> string \<times> FormatValues" where
  "OrderClause v fs =
    (let (order, v') = Order v fs
     in (if order = [] then [] else ''ORDER BY '' @ order, v'))"

definition FV_Values :: "FormatValues \<Rightarrow> string list \<Rightarrow> string list" where
  "FV_Values v vals = vals @ fv_values v"

section \<open>The rows the clauses select\<close>

text \<open>
  \<open>col r f\<close> is the value of column \<open>f\<close> in row \<open>r\<close>. Strings compare bytewise, as the
  \<open>VARCHAR\<close> columns of the schema do; without an order clause the rows keep the table's order.
\<close>

definition row_matches :: "FormatValues \<Rightarrow> ('r \<Rightarrow> string \<Rightarrow> string) \<Rightarrow> 'r \<Rightarrow> bool" where
  "row_matches v col r = list_all2 (\<lambda>f x. x < col r f) (fv_fields v) (fv_values v)"

definition select_page :: "FormatValues \<Rightarrow> ('r \<Rightarrow> string \<Rightarrow> string) \<Rightarrow> 'r list \<Rightarrow> 'r list" where
  "select_page v col rows =
     take (nat (effective_limit v))
       (sort_key (\<lambda>r. map (col r) (orderFields v)) (filter (row_matches v col) rows))"

section \<open>Facts\<close>

lemma Limit_bounds: "1 \<le> Limit n \<and> Limit n \<le> 100"
  by (simp add: Limit_def paginationLimitMax_def paginationLimitDefault_def)

lemma Limit_idem: "Limit (Limit n) = Limit n"
  by (simp add: Limit_def paginationLimitMax_def paginationLimitDefault_def)

lemma effective_limit_Limit: "n \<le> 100 \<Longrightarrow> fv_limit v = n \<Longrightarrow> effective_limit v = Limit n"
  by (simp add: effective_limit_def Limit_def defaultLimit_def paginationLimitMax_def
      paginationLimitDefault_def)

lemma Paginate_limit: "effective_limit (Paginate p a) \<le> max 10 (GetLimit p)"
  by (auto simp: Paginate_def effective_limit_def defaultLimit_def FormatValues0_def Let_def split: option.splits res.splits)

text \<open>The map a list of pairs stands for: later pairs win, pairs with an empty value are dropped.\<close>

fun pairs_map :: "string list \<Rightarrow> string \<rightharpoonup> string" where
  "pairs_map (k # v # r) = (\<lambda>x. case pairs_map r x of Some y \<Rightarrow> Some y
                                | None \<Rightarrow> if x = k \<and> v \<noteq> [] then Some v else None)"
| "pairs_map _ = Map.empty"

lemma update_values: "snd ` set (AList.update k v m) \<subseteq> insert v (snd ` set m)"
  by (induction m) auto

lemma set_pairs_wf:
  "distinct (map fst m) \<Longrightarrow> \<forall>vs \<in> snd ` set m. vs \<noteq> [] \<Longrightarrow>
   distinct (map fst (set_pairs kv m)) \<and> (\<forall>vs \<in> snd ` set (set_pairs kv m). vs \<noteq> [])"
proof (induction kv m rule: set_pairs.induct)
  case (1 k v r m)
  let ?m = "if v \<noteq> [] then Values_Set k v m else m"
  have "snd ` set ?m \<subseteq> insert [v] (snd ` set m)"
    by (simp add: Values_Set_def update_values subset_insertI)
  then have "\<forall>vs \<in> snd ` set ?m. vs \<noteq> []" using 1(3) by blast
  moreover have "distinct (map fst ?m)" using 1(2) by (simp add: Values_Set_def distinct_update)
  ultimately show ?case using 1(1) unfolding set_pairs.simps by blast
qed simp_all

lemma map_of_set_pairs:
  "map_of (set_pairs kv m) k = (case pairs_map kv k of Some v \<Rightarrow> Some [v] | None \<Rightarrow> map_of m k)"
  by (induction kv m rule: set_pairs.induct)
    (auto simp: Values_Set_def update_conv' split: option.splits)

lemma Cursor_Values_NewCursorFromValues:
  assumes "distinct (map fst m)" and "\<forall>vs \<in> snd ` set m. vs \<noteq> []" and "m \<noteq> []"
  shows "\<exists>m'. Cursor_Values (NewCursorFromValues (Some m)) = Ok (Some m') \<and> map_of m' = map_of m"
proof -
  obtain m' where m': "ParseQuery (Values_Encode m) = Some m'" "map_of m' = map_of m"
    using ParseQuery_Encode assms by blast
  have "Values_Encode m \<noteq> []"
  proof
    assume "Values_Encode m = []"
    with m' have "m' = []" by (simp add: ParseQuery_def)
    with m' assms(3) show False by (cases m) (auto simp: fun_eq_iff split: if_splits)
  qed
  with m' show ?thesis
    by (simp add: Cursor_Values_def NewCursorFromValues_def URLEncoding_round_trip URLEncoding_nonempty)
qed

lemma map_of_eq_imp_keys: "map_of m' = map_of m \<Longrightarrow> set (map fst m') = set (map fst m)"
  by (metis dom_map_of_conv_image_fst list.set_map)

lemma Values_Get_cong: "map_of m' = map_of m \<Longrightarrow> Values_Get m' = Values_Get m"
  by (simp add: Values_Get_def fun_eq_iff)

text \<open>A cursor made from one pair comes back as a map with that one key.\<close>

lemma NewCursor_single:
  assumes "v \<noteq> []"
  obtains c m where "NewCursor [k, v] = Ok (Some c)" and "c \<noteq> []"
    and "Cursor_Values (Some c) = Ok (Some m)" and "map_of m = [k \<mapsto> [v]]"
proof -
  let ?m = "[(k, [v])]"
  let ?c = "URLEncoding_EncodeToString (Values_Encode ?m)"
  obtain m where m: "Cursor_Values (NewCursorFromValues (Some ?m)) = Ok (Some m)"
      "map_of m = map_of ?m"
    using Cursor_Values_NewCursorFromValues [of ?m] by auto
  then have "Cursor_Values (Some ?c) = Ok (Some m)" by (simp add: NewCursorFromValues_def)
  moreover from this have "?c \<noteq> []" by (auto simp: Cursor_Values_def)
  moreover have "NewCursor [k, v] = Ok (Some ?c)"
    using assms by (simp add: NewCursor_def NewCursorFromValues_def Values_Set_def)
  ultimately show ?thesis using that m by auto
qed

lemma Paginate_first:
  "GetCursor p = None \<Longrightarrow> GetOnlyFields p = [f] \<Longrightarrow>
   Paginate p a = FormatValues0\<lparr>fv_limit := GetLimit p, asOfSystemTime := a, orderFields := [f]\<rparr>"
  by (simp add: Paginate_def)

lemma Paginate_next:
  assumes "Cursor_Values (Some c) = Ok (Some m)" and "map_of m = [f \<mapsto> [x]]" and "x \<noteq> []"
    and "GetCursor p = Some c" and "GetOnlyFields p = [f]"
  shows "Paginate p a = FormatValues0\<lparr>fv_limit := GetLimit p, asOfSystemTime := a,
           orderFields := [f], fv_fields := [f], fv_values := [x]\<rparr>"
proof -
  have "set (map fst m) = {f}"
    using map_of_eq_imp_keys [of m "[(f, [x])]"] assms(2) by simp
  then have "\<not> (\<exists>k \<in> set (map fst m). k \<notin> set [f])" by simp
  moreover have "Values_Get m f = x" using assms(2) by (simp add: Values_Get_def)
  ultimately show ?thesis using assms by (auto simp: Paginate_def Let_def)
qed

lemma Paginate_lengths: "length (fv_fields (Paginate p a)) = length (fv_values (Paginate p a))"
  by (auto simp: Paginate_def FormatValues0_def Let_def split: option.splits res.splits)

lemma Paginate_fields_allowed:
  "set (fv_fields (Paginate p a)) \<subseteq> set (if GetOnlyFields p = [] then [''id''] else GetOnlyFields p)"
  by (auto simp: Paginate_def FormatValues0_def Let_def split: option.splits res.splits)

text \<open>A quoted SQL token, read from just after its opening quote: its text and what follows it.\<close>

fun lex_quoted :: "char \<Rightarrow> string \<Rightarrow> (string \<times> string) option" where
  "lex_quoted q [] = None"
| "lex_quoted q [c] = (if c = q then Some ([], []) else None)"
| "lex_quoted q (c # d # r) =
     (if c = q then (if d = q then map_option (\<lambda>(t, u). (q # t, u)) (lex_quoted q r)
                     else Some ([], d # r))
      else map_option (\<lambda>(t, u). (c # t, u)) (lex_quoted q (d # r)))"

lemma lex_quoted_other:
  "c \<noteq> q \<Longrightarrow> lex_quoted q (c # s) = map_option (\<lambda>(t, u). (c # t, u)) (lex_quoted q s)"
  by (cases s) auto

lemma lex_quoted_ReplaceAll:
  "rest = [] \<or> hd rest \<noteq> q \<Longrightarrow> lex_quoted q (ReplaceAll v q [q, q] @ [q] @ rest) = Some (v, rest)"
proof (induction v)
  case Nil
  then show ?case by (cases rest) (auto simp: ReplaceAll_def)
next
  case (Cons c v)
  then show ?case by (simp add: ReplaceAll_def lex_quoted_other)
qed

section \<open>Properties\<close>

text \<open>C30: a cursor made from key/value pairs reads back as the map the pairs stand for: later pairs win,
  pairs with an empty value are dropped. An odd number of arguments is an error.\<close>

theorem cursor_round_trip:
  assumes "kv \<noteq> []"
  shows "if even (length kv)
    then (\<exists>c vals. NewCursor kv = Ok (Some c) \<and> Cursor_Values (Some c) = Ok vals \<and>
      map_of (case vals of None \<Rightarrow> [] | Some m \<Rightarrow> m) = map_option (\<lambda>v. [v]) \<circ> pairs_map kv)
    else (\<exists>msg. NewCursor kv = Err (ErrInvalidPaginationCursor msg))"
proof (cases "even (length kv)")
  case False
  with assms show ?thesis by (simp add: NewCursor_def)
next
  case True
  let ?m = "set_pairs kv []"
  have new: "NewCursor kv = Ok (NewCursorFromValues (Some ?m))" using True assms by (simp add: NewCursor_def)
  have pm: "map_of ?m = map_option (\<lambda>v. [v]) \<circ> pairs_map kv"
    by (auto simp: fun_eq_iff map_of_set_pairs split: option.splits)
  have wf: "distinct (map fst ?m) \<and> (\<forall>vs \<in> snd ` set ?m. vs \<noteq> [])" by (rule set_pairs_wf) simp_all
  have "\<exists>vals. Cursor_Values (NewCursorFromValues (Some ?m)) = Ok vals \<and>
      map_of (case vals of None \<Rightarrow> [] | Some m \<Rightarrow> m) = map_of ?m"
  proof (cases "?m = []")
    case True
    then show ?thesis
      by (simp add: Cursor_Values_def NewCursorFromValues_def Values_Encode_def URLEncoding_EncodeToString_def bytes_def)
  next
    case False
    with Cursor_Values_NewCursorFromValues [of ?m] wf show ?thesis by (metis option.case(2))
  qed
  with True new pm show ?thesis by (auto simp: NewCursorFromValues_def)
qed

theorem cursor_round_trip_witness:
  "NewCursor [''id'', ''idntgrp-7''] = Ok (Some ''aWQ9aWRudGdycC03'') \<and>
   (\<exists>c vals. NewCursor [''id'', ''idntgrp-7''] = Ok (Some c) \<and> Cursor_Values (Some c) = Ok vals \<and>
     map_of (case vals of None \<Rightarrow> [] | Some m \<Rightarrow> m) ''id'' = Some [''idntgrp-7''])"
proof -
  have "NewCursor [''id'', ''idntgrp-7''] = Ok (Some ''aWQ9aWRudGdycC03'')" by code_simp
  then show ?thesis using cursor_round_trip [of "[''id'', ''idntgrp-7'']"] by fastforce
qed

text \<open>C23: a quoted value or identifier is one token of SQL that reads as the text that was quoted,
  whatever it contains: no text can end the quotation.\<close>

theorem quoting_safe:
  assumes "rest = [] \<or> hd rest \<noteq> CHR 0x27 \<and> hd rest \<noteq> CHR 0x22" and "q \<noteq> []"
  shows "hd (quoteValue v) = CHR 0x27 \<and> lex_quoted (CHR 0x27) (tl (quoteValue v) @ rest) = Some (v, rest) \<and>
    hd (quoteField q f) = CHR 0x22 \<and>
    lex_quoted (CHR 0x22) (tl (quoteField q f) @ rest) = Some (q, CHR ''.'' # quoteField [] f @ rest) \<and>
    lex_quoted (CHR 0x22) (tl (quoteField [] f) @ rest) = Some (f, rest)"
  using lex_quoted_ReplaceAll [of rest "CHR 0x27" v] lex_quoted_ReplaceAll [of rest "CHR 0x22" f]
    lex_quoted_ReplaceAll [of "CHR ''.'' # quoteField [] f @ rest" "CHR 0x22" q] assms
  by (auto simp: quoteValue_def quoteField_def Let_def)

theorem quoting_safe_witness:
  "lex_quoted (CHR 0x27) (tl (quoteValue [CHR 0x27, CHR '';'']) @ '' LIMIT 1'') = Some ([CHR 0x27, CHR '';''], '' LIMIT 1'')"
  using quoting_safe [of "'' LIMIT 1''" "''g''" "[CHR 0x27, CHR '';'']" "''id''"] by simp


end
