(* ===== verification/Database.thy ===== *)
theory Database
  imports Pagination
begin

text \<open>
  The database the service stores its state in, as far as \<open>src/internal/storage\<close> relies on it:
  the tables and constraints of \<open>storage/migrations\<close>, transactions in the request context
  (\<open>storage/context.go\<close>, the transaction manager of \<open>storage/crdb.go\<close>), and the effect of one
  SQL statement. The statements themselves are in the theories of the services that run them.

  A statement fails with SQLSTATE 23505 when it would break a primary key or a unique
  constraint and with 23503 when it would break a reference; it then changes nothing. A
  transaction reads its own writes; \<open>Commit\<close> makes them durable if nothing else was committed
  since \<open>BeginTx\<close> (serialisable isolation, taken at the granularity of the whole database) and
  fails with 40001 otherwise. After \<open>Commit\<close> or \<open>Rollback\<close> the transaction is done, whatever
  they returned, and \<open>database/sql\<close> answers every further call with \<open>ErrTxDone\<close>.

  The world of a run also fixes what the program cannot foresee, as functions of the number of
  calls made so far: which calls fail on the connection (\<open>faults\<close>), after how many rows a
  result set breaks off (\<open>rowcut\<close>), and what historical reads see (\<open>history\<close>); and whether the
  server rejects an \<open>UPSERT\<close> that names one row twice (\<open>upsert_strict\<close>, SQLSTATE 21000). It
  records what leaves the process: the messages the permissions API has acknowledged
  (\<open>published\<close>) the status of the response once it has been sent (\<open>reply\<close>) and the
  body the API has written (\<open>resp_body\<close>).

  The server also refuses further statements in a transaction in which one has failed. No code
  of the service runs a statement after a failed one, it only rolls back, so the model leaves
  this out.
\<close>

named_theorems db_simps \<open>evaluation of database calls\<close>

section \<open>Tables\<close>

record issuer_row =
  ir_owner_id :: string
  ir_id :: string
  ir_name :: string
  ir_uri :: string
  ir_jwksuri :: string
  ir_mappings :: "string option"
  ir_conditions :: "string option"

record user_row =
  ur_id :: string
  ur_name :: string
  ur_email :: string
  ur_sub :: string
  ur_iss_id :: string

record client_row =
  cr_id :: string
  cr_owner_id :: string
  cr_name :: string
  cr_secret :: string
  cr_audience :: string

record group_row =
  gr_id :: string
  gr_owner_id :: string
  gr_name :: string
  gr_description :: string

record member_row =
  mr_group_id :: string
  mr_subject_id :: string

record tables =
  issuers :: "issuer_row list"
  user_info :: "user_row list"
  oauth_clients :: "client_row list"
  groups :: "group_row list"
  group_members :: "member_row list"

definition empty_tables :: tables where
  "empty_tables = \<lparr>issuers = [], user_info = [], oauth_clients = [], groups = [], group_members = []\<rparr>"

text \<open>Primary keys and unique constraints, then references.\<close>

definition keys_ok :: "tables \<Rightarrow> bool" where
  "keys_ok t \<longleftrightarrow>
     distinct (map ir_id (issuers t)) \<and> distinct (map ir_uri (issuers t)) \<and>
     distinct (map ur_id (user_info t)) \<and>
     distinct (map (\<lambda>u. (ur_iss_id u, ur_sub u)) (user_info t)) \<and>
     distinct (map cr_id (oauth_clients t)) \<and>
     distinct (map gr_id (groups t)) \<and> distinct (map (\<lambda>g. (gr_owner_id g, gr_name g)) (groups t)) \<and>
     distinct (map (\<lambda>m. (mr_group_id m, mr_subject_id m)) (group_members t))"

definition refs_ok :: "tables \<Rightarrow> bool" where
  "refs_ok t \<longleftrightarrow>
     list_all (\<lambda>u. ur_iss_id u \<in> set (map ir_id (issuers t))) (user_info t) \<and>
     list_all (\<lambda>m. mr_group_id m \<in> set (map gr_id (groups t))) (group_members t)"

definition schema_ok :: "tables \<Rightarrow> bool" where
  "schema_ok t \<longleftrightarrow> keys_ok t \<and> refs_ok t"

definition pqErrDuplicateKey :: string where "pqErrDuplicateKey = ''23505''"

definition schema_violation :: "tables \<Rightarrow> string option" where
  "schema_violation t =
     (if \<not> keys_ok t then Some pqErrDuplicateKey
      else if \<not> refs_ok t then Some ''23503'' else None)"

lemma schema_violation_None [simp]: "schema_violation t = None \<longleftrightarrow> schema_ok t"
  by (auto simp: schema_violation_def schema_ok_def)

lemma schema_violation_ok [simp]: "schema_ok t \<Longrightarrow> schema_violation t = None"
  by simp

lemma schema_ok_empty: "schema_ok empty_tables"
  by (simp add: schema_ok_def keys_ok_def refs_ok_def empty_tables_def)

section \<open>The world\<close>

datatype tx = TxOpen tables tables | TxDone

datatype relop = CreateRel | DeleteRel

text \<open>A message to the permissions API: operation, topic, resource, (relation, subject) pairs.\<close>

record rel_msg =
  rm_op :: relop
  rm_topic :: string
  rm_resource :: string
  rm_rels :: "(string \<times> string) list"

record world =
  committed :: tables
  history :: "string \<Rightarrow> tables"
  txs :: "tx list"
  faults :: "nat \<Rightarrow> string option"
  rowcut :: "nat \<Rightarrow> nat option"
  upsert_strict :: bool
  ticks :: nat
  published :: "rel_msg list"
  reply :: "nat option"
  resp_body :: string

type_synonym 'a dbio = "(world, 'a) io"

datatype ctxval = CtxNil | CtxTx nat | CtxOther

record ctx =
  ctx_tx :: ctxval
  ctx_aost :: aost
  ctx_actor :: string

definition tick :: "world \<Rightarrow> world" where
  "tick w = w\<lparr>ticks := Suc (ticks w)\<rparr>"

text \<open>One call on the connection.\<close>

definition db_call :: "'a dbio \<Rightarrow> 'a dbio" where
  "db_call f = (\<lambda>w. case faults w (ticks w) of
       Some e \<Rightarrow> (Err (DriverError e), tick w)
     | None \<Rightarrow> f (tick w))"

definition tx_lookup :: "nat \<Rightarrow> world \<Rightarrow> tx" where
  "tx_lookup i w = (if i < length (txs w) then txs w ! i else TxDone)"

definition put_tx :: "nat \<Rightarrow> tx \<Rightarrow> world \<Rightarrow> world" where
  "put_tx i x w = w\<lparr>txs := (txs w)[i := x]\<rparr>"

section \<open>Statements\<close>

text \<open>A statement of a transaction: the tables it leaves and its result.\<close>

definition tx_exec :: "nat \<Rightarrow> (tables \<Rightarrow> tables \<times> 'a) \<Rightarrow> 'a dbio" where
  "tx_exec i f = (\<lambda>w. case tx_lookup i w of
       TxDone \<Rightarrow> (Err SqlErrTxDone, w)
     | TxOpen b t \<Rightarrow> db_call (\<lambda>w.
         let (t', a) = f t in
         case schema_violation t' of
           Some code \<Rightarrow> (Err (PqError code), w)
         | None \<Rightarrow> (Ok a, put_tx i (TxOpen b t') w)) w)"

text \<open>The same for a statement that the server may reject by itself.\<close>

definition tx_exec_check :: "nat \<Rightarrow> (world \<Rightarrow> string option) \<Rightarrow> (tables \<Rightarrow> tables \<times> 'a) \<Rightarrow> 'a dbio" where
  "tx_exec_check i chk f = (\<lambda>w. case tx_lookup i w of
       TxDone \<Rightarrow> (Err SqlErrTxDone, w)
     | TxOpen b t \<Rightarrow>
         (case chk w of
            Some code \<Rightarrow> db_call (\<lambda>w. (Err (PqError code), w)) w
          | None \<Rightarrow> tx_exec i f w))"

definition tx_query :: "nat \<Rightarrow> (tables \<Rightarrow> 'a) \<Rightarrow> 'a dbio" where
  "tx_query i f = (\<lambda>w. case tx_lookup i w of
       TxDone \<Rightarrow> (Err SqlErrTxDone, w)
     | TxOpen b t \<Rightarrow> db_call (\<lambda>w. (Ok (f t), w)) w)"

text \<open>A query outside a transaction, on the durable state or, with a value for
  \<open>AS OF SYSTEM TIME\<close>, on an earlier one.\<close>

definition snapshot :: "world \<Rightarrow> string \<Rightarrow> tables" where
  "snapshot w at = (if at = [] then committed w else history w at)"

definition db_query :: "string \<Rightarrow> (tables \<Rightarrow> 'a) \<Rightarrow> 'a dbio" where
  "db_query at f = db_call (\<lambda>w. (Ok (f (snapshot w at)), w))"

text \<open>The rows that a \<open>for rows.Next()\<close> loop sees: iteration also ends where the result set
  breaks off, and no caller asks \<open>rows.Err()\<close>.\<close>

definition db_query_rows :: "string \<Rightarrow> (tables \<Rightarrow> 'r list) \<Rightarrow> 'r list dbio" where
  "db_query_rows at f = db_call (\<lambda>w.
     (Ok (case rowcut w (ticks w) of None \<Rightarrow> f (snapshot w at)
          | Some k \<Rightarrow> take k (f (snapshot w at))), w))"

text \<open>
  A paged \<open>SELECT\<close>: the rows \<open>rows_of\<close> picks out by the rest of its \<open>WHERE\<close> clause, restricted,
  ordered and cut by the clauses of theory \<open>Pagination\<close>. Naming a column that the query does not
  have is an error (SQLSTATE 42703).
\<close>

definition page_query ::
    "FormatValues \<Rightarrow> string list \<Rightarrow> ('r \<Rightarrow> string \<Rightarrow> string) \<Rightarrow> (tables \<Rightarrow> 'r list) \<Rightarrow> 'r list dbio" where
  "page_query fv cols col rows_of =
     (if list_all (\<lambda>f. f \<in> set cols) (fv_fields fv @ orderFields fv)
      then db_query_rows (aost_text (asOfSystemTime fv)) (\<lambda>t. select_page fv col (rows_of t))
      else db_call (\<lambda>w. (Err (PqError ''42703''), w)))"

text \<open>\<open>row.Scan\<close> after \<open>QueryRowContext\<close>: the first row, or \<open>sql.ErrNoRows\<close>.\<close>

definition scan_row :: "'r list \<Rightarrow> 'r dbio" where
  "scan_row rows = (case rows of [] \<Rightarrow> fail SqlErrNoRows | r # _ \<Rightarrow> ret r)"

definition isPQDuplicateKeyError :: "goerr \<Rightarrow> bool" where
  "isPQDuplicateKeyError err = (case err of PqError code \<Rightarrow> code = pqErrDuplicateKey | _ \<Rightarrow> False)"

section \<open>Transactions in the context\<close>

definition getContextTx :: "ctx \<Rightarrow> nat dbio" where
  "getContextTx c = (case ctx_tx c of
       CtxTx i \<Rightarrow> ret i
     | CtxNil \<Rightarrow> fail ErrorMissingContextTx
     | CtxOther \<Rightarrow> gopanic ''unknown type for context transaction'')"

definition beginTxContext :: "ctx \<Rightarrow> ctx dbio" where
  "beginTxContext c = db_call (\<lambda>w.
     (Ok (c\<lparr>ctx_tx := CtxTx (length (txs w))\<rparr>),
      w\<lparr>txs := txs w @ [TxOpen (committed w) (committed w)]\<rparr>))"

definition tx_Commit :: "nat \<Rightarrow> unit dbio" where
  "tx_Commit i = (\<lambda>w. case tx_lookup i w of
       TxDone \<Rightarrow> (Err SqlErrTxDone, w)
     | TxOpen b t \<Rightarrow> db_call (\<lambda>w.
         if b = committed w then (Ok (), w\<lparr>committed := t\<rparr>)
         else (Err (PqError ''40001''), w)) (put_tx i TxDone w))"

definition tx_Rollback :: "nat \<Rightarrow> unit dbio" where
  "tx_Rollback i = (\<lambda>w. case tx_lookup i w of
       TxDone \<Rightarrow> (Err SqlErrTxDone, w)
     | TxOpen b t \<Rightarrow> db_call (\<lambda>w. (Ok (), w)) (put_tx i TxDone w))"

definition commitContextTx :: "ctx \<Rightarrow> unit dbio" where
  "commitContextTx c = bindE (getContextTx c) tx_Commit"

definition rollbackContextTx :: "ctx \<Rightarrow> unit dbio" where
  "rollbackContextTx c = bindE (getContextTx c) tx_Rollback"

text \<open>The methods of \<open>*engine\<close> that implement \<open>storage.TransactionManager\<close>.\<close>

definition BeginContext :: "ctx \<Rightarrow> ctx dbio" where "BeginContext c = beginTxContext c"
definition CommitContext :: "ctx \<Rightarrow> unit dbio" where "CommitContext c = commitContextTx c"
definition RollbackContext :: "ctx \<Rightarrow> unit dbio" where "RollbackContext c = rollbackContextTx c"

text \<open>
  The choice the read operations make: \<open>tx.QueryRowContext\<close> when the context carries a
  transaction, \<open>db.QueryRowContext\<close> when it carries none.
\<close>

definition ctx_query :: "ctx \<Rightarrow> (tables \<Rightarrow> 'a) \<Rightarrow> 'a dbio" where
  "ctx_query c f =
     tryE (getContextTx c)
       (\<lambda>err. if err = ErrorMissingContextTx then db_query [] f else fail err)
       (\<lambda>tx. tx_query tx f)"

section \<open>Evaluation without faults\<close>

definition healthy :: "world \<Rightarrow> bool" where
  "healthy w \<longleftrightarrow> faults w = (\<lambda>_. None) \<and> rowcut w = (\<lambda>_. None)"

definition tx_view :: "ctx \<Rightarrow> world \<Rightarrow> tables option" where
  "tx_view c w = (case ctx_tx c of
       CtxTx i \<Rightarrow> (case tx_lookup i w of TxOpen b t \<Rightarrow> Some t | TxDone \<Rightarrow> None)
     | _ \<Rightarrow> None)"

definition put_view :: "ctx \<Rightarrow> tables \<Rightarrow> world \<Rightarrow> world" where
  "put_view c t w = (case ctx_tx c of
       CtxTx i \<Rightarrow> (case tx_lookup i w of TxOpen b _ \<Rightarrow> put_tx i (TxOpen b t) w | TxDone \<Rightarrow> w)
     | _ \<Rightarrow> w)"

lemma tick_fields [simp]:
  "committed (tick w) = committed w" "history (tick w) = history w" "txs (tick w) = txs w"
  "faults (tick w) = faults w" "rowcut (tick w) = rowcut w" "ticks (tick w) = Suc (ticks w)"
  "published (tick w) = published w" "upsert_strict (tick w) = upsert_strict w" "reply (tick w) = reply w"
  "resp_body (tick w) = resp_body w"
  by (simp_all add: tick_def)

lemma put_tx_fields [simp]:
  "committed (put_tx i x w) = committed w" "history (put_tx i x w) = history w"
  "faults (put_tx i x w) = faults w" "rowcut (put_tx i x w) = rowcut w"
  "ticks (put_tx i x w) = ticks w" "published (put_tx i x w) = published w"
  "upsert_strict (put_tx i x w) = upsert_strict w" "reply (put_tx i x w) = reply w"
  "resp_body (put_tx i x w) = resp_body w"
  "length (txs (put_tx i x w)) = length (txs w)" "txs (put_tx i x w) = (txs w)[i := x]"
  by (simp_all add: put_tx_def)

lemma put_view_fields [simp]:
  "committed (put_view c t w) = committed w" "history (put_view c t w) = history w"
  "faults (put_view c t w) = faults w" "rowcut (put_view c t w) = rowcut w"
  "ticks (put_view c t w) = ticks w" "published (put_view c t w) = published w"
  "upsert_strict (put_view c t w) = upsert_strict w"
  by (auto simp: put_view_def split: ctxval.splits tx.splits)

lemma tx_lookup_tick [simp]: "tx_lookup i (tick w) = tx_lookup i w"
  by (simp add: tx_lookup_def)

lemma tx_lookup_put_tx:
  "tx_lookup j (put_tx i x w) = (if j = i \<and> i < length (txs w) then x else tx_lookup j w)"
  by (simp add: tx_lookup_def nth_list_update)

lemma tx_lookup_Open: "tx_lookup i w = TxOpen b t \<Longrightarrow> i < length (txs w)"
  by (auto simp: tx_lookup_def split: if_splits)

lemma tx_view_tick [simp]: "tx_view c (tick w) = tx_view c w"
  by (simp add: tx_view_def cong: ctxval.case_cong)

lemma snapshot_tick [simp]: "snapshot (tick w) at = snapshot w at"
  by (simp add: snapshot_def)

lemma put_tx_put_tx [simp]: "put_tx i x (put_tx i y w) = put_tx i x w"
  by (simp add: put_tx_def)

lemma tx_view_put_view [simp]: "tx_view c w = Some t \<Longrightarrow> tx_view c (put_view c t' w) = Some t'"
  by (auto simp: tx_view_def put_view_def tx_lookup_put_tx tx_lookup_Open split: ctxval.splits tx.splits)

lemma healthy_simps [simp]:
  "healthy (tick w) = healthy w" "healthy (put_tx i x w) = healthy w"
  "healthy (put_view c t w) = healthy w"
  by (simp_all add: healthy_def)

lemma put_view_put_view [simp]: "put_view c t (put_view c t' w) = put_view c t w"
  by (auto simp: put_view_def tx_lookup_put_tx tx_lookup_Open split: ctxval.splits tx.splits if_splits)

lemma put_view_tick: "put_view c t (tick w) = tick (put_view c t w)"
  by (auto simp: put_view_def put_tx_def tick_def tx_lookup_def split: ctxval.splits tx.splits)

lemma getContextTx_view:
  "tx_view c w = Some t \<Longrightarrow> \<exists>i b. ctx_tx c = CtxTx i \<and> getContextTx c = ret i \<and> tx_lookup i w = TxOpen b t"
  by (auto simp: tx_view_def getContextTx_def split: ctxval.splits tx.splits)

lemma db_call_healthy [db_simps]: "healthy w \<Longrightarrow> db_call f w = f (tick w)"
  by (simp add: db_call_def healthy_def)

lemma db_query_healthy [db_simps]: "healthy w \<Longrightarrow> db_query at f w = (Ok (f (snapshot w at)), tick w)"
  by (simp add: db_query_def db_call_healthy)

lemma db_query_rows_healthy [db_simps]:
  "healthy w \<Longrightarrow> db_query_rows at f w = (Ok (f (snapshot w at)), tick w)"
  by (simp add: db_query_rows_def db_call_healthy) (simp add: healthy_def)

text \<open>A run without faults inside the context's open transaction, whose view is \<open>t\<close>.\<close>

definition running :: "ctx \<Rightarrow> world \<Rightarrow> tables \<Rightarrow> bool" where
  "running c w t \<longleftrightarrow> healthy w \<and> tx_view c w = Some t"

definition tx_of :: "ctx \<Rightarrow> nat" where
  "tx_of c = (case ctx_tx c of CtxTx i \<Rightarrow> i | _ \<Rightarrow> 0)"

lemma running_tick [simp]: "running c (tick w) t = running c w t"
  by (simp add: running_def)

lemma running_put_view [simp]: "running c w t \<Longrightarrow> running c (put_view c t' w) t'"
  by (simp add: running_def)

lemma running_healthy: "running c w t \<Longrightarrow> healthy w"
  by (simp add: running_def)

lemma running_ctx: "running c w t \<Longrightarrow> ctx_tx c = CtxTx (tx_of c) \<and> (\<exists>b. tx_lookup (tx_of c) w = TxOpen b t)"
  using getContextTx_view [of c w t] by (auto simp: running_def tx_of_def)

lemma getContextTx_running [db_simps]: "running c w t \<Longrightarrow> getContextTx c w = (Ok (tx_of c), w)"
  by (auto simp: getContextTx_def dest: running_ctx)

lemma tx_exec_running [db_simps]:
  assumes "running c w t"
  shows "tx_exec (tx_of c) f w =
    (let (t', a) = f t in case schema_violation t' of
       Some code \<Rightarrow> (Err (PqError code), tick w) | None \<Rightarrow> (Ok a, put_view c t' (tick w)))"
  using running_ctx [OF assms] running_healthy [OF assms]
  by (auto simp: tx_exec_def db_call_healthy put_view_def split: prod.splits option.splits)

lemma tx_exec_check_running [db_simps]:
  assumes "running c w t"
  shows "tx_exec_check (tx_of c) chk f w =
    (case chk w of Some code \<Rightarrow> (Err (PqError code), tick w) | None \<Rightarrow> tx_exec (tx_of c) f w)"
  using running_ctx [OF assms] running_healthy [OF assms]
  by (auto simp: tx_exec_check_def db_call_healthy split: option.splits)

lemma tx_query_running [db_simps]:
  assumes "running c w t"
  shows "tx_query (tx_of c) f w = (Ok (f t), tick w)"
  using running_ctx [OF assms] running_healthy [OF assms]
  by (auto simp: tx_query_def db_call_healthy)

lemma ctx_query_running [db_simps]: "running c w t \<Longrightarrow> ctx_query c f w = (Ok (f t), tick w)"
  by (simp add: ctx_query_def tryE_def db_simps)

lemma page_query_healthy [db_simps]:
  "healthy w \<Longrightarrow> list_all (\<lambda>f. f \<in> set cols) (fv_fields fv @ orderFields fv) \<Longrightarrow>
   page_query fv cols col f w =
     (Ok (select_page fv col (f (snapshot w (aost_text (asOfSystemTime fv))))), tick w)"
  by (simp add: page_query_def db_query_rows_healthy)

lemma ctx_query_no_tx [db_simps]:
  "healthy w \<Longrightarrow> ctx_tx c = CtxNil \<Longrightarrow> ctx_query c f w = (Ok (f (committed w)), tick w)"
  by (simp add: ctx_query_def getContextTx_def db_query_healthy snapshot_def)

lemma scan_row_eq:
  "scan_row rows w = (Ok r, w') \<longleftrightarrow> (\<exists>rs. rows = r # rs) \<and> w' = w"
  "scan_row rows w = (Err e, w') \<longleftrightarrow> rows = [] \<and> e = SqlErrNoRows \<and> w' = w"
  by (cases rows; auto simp: scan_row_def)+

text \<open>A statement that succeeds, in any world.\<close>

lemma tx_exec_eq_Ok:
  "tx_exec i f w = (Ok a, w') \<longleftrightarrow>
     (\<exists>b t t'. tx_lookup i w = TxOpen b t \<and> faults w (ticks w) = None \<and> f t = (t', a) \<and> schema_ok t' \<and>
        w' = put_tx i (TxOpen b t') (tick w))"
  by (cases "tx_lookup i w") (auto simp: tx_exec_def db_call_def put_tx_def
      split: option.splits prod.splits)

lemma tx_Commit_cases:
  "tx_lookup i w = TxOpen b t \<Longrightarrow> tx_Commit i w =
     (case faults w (ticks w) of
        Some e \<Rightarrow> (Err (DriverError e), tick (put_tx i TxDone w))
      | None \<Rightarrow> if b = committed w then (Ok (), (tick (put_tx i TxDone w))\<lparr>committed := t\<rparr>)
                else (Err (PqError ''40001''), tick (put_tx i TxDone w)))"
  by (auto simp: tx_Commit_def db_call_def split: option.splits)

section \<open>How a request evolves the world\<close>

text \<open>
  \<open>evolve o w w'\<close>: between \<open>w\<close> and \<open>w'\<close> nothing was committed and no response sent, no
  transaction but \<open>o\<close> was touched, and \<open>o\<close> was at most written to within the schema or finished. It is the frame of
  every storage operation and of every handler.
\<close>

fun tx_le :: "tx \<Rightarrow> tx \<Rightarrow> bool" where
  "tx_le TxDone x = (x = TxDone)"
| "tx_le (TxOpen b t) x = (case x of TxDone \<Rightarrow> True | TxOpen b' t' \<Rightarrow> b' = b \<and> (schema_ok t \<longrightarrow> schema_ok t'))"

definition evolve :: "nat option \<Rightarrow> world \<Rightarrow> world \<Rightarrow> bool" where
  "evolve o' w w' \<longleftrightarrow>
     committed w' = committed w \<and> history w' = history w \<and> faults w' = faults w \<and>
     rowcut w' = rowcut w \<and> upsert_strict w' = upsert_strict w \<and> reply w' = reply w \<and>
     resp_body w' = resp_body w \<and> ticks w \<le> ticks w' \<and> length (txs w') = length (txs w) \<and>
     (\<forall>j < length (txs w). if o' = Some j then tx_le (txs w ! j) (txs w' ! j) else txs w' ! j = txs w ! j)"

definition ctx_id :: "ctx \<Rightarrow> nat option" where
  "ctx_id c = (case ctx_tx c of CtxTx i \<Rightarrow> Some i | _ \<Rightarrow> None)"

lemma tx_le_refl [simp]: "tx_le x x"
  by (cases x) auto

lemma tx_le_trans: "tx_le x y \<Longrightarrow> tx_le y z \<Longrightarrow> tx_le x z"
  by (cases x; cases y; cases z) auto

lemma evolve_trans: "evolve o' u v \<Longrightarrow> evolve o' v w \<Longrightarrow> evolve o' u w"
  unfolding evolve_def by (auto split: if_splits) (metis tx_le_trans)+

interpretation ev: frame_rel "evolve o'" for o'
  by unfold_locales (simp add: evolve_def, rule evolve_trans)

text \<open>The permission messages of a request are only ever appended to.\<close>

definition silent :: "world \<Rightarrow> world \<Rightarrow> bool" where
  "silent w w' \<longleftrightarrow> published w' = published w"

interpretation si: frame_rel silent
  by unfold_locales (simp_all add: silent_def)

lemmas [frame_rules] = ev.closed si.closed

lemma evolve_tick: "evolve o' w (tick w)"
  by (simp add: evolve_def)

lemma evolve_put_tx:
  "tx_lookup i w = TxOpen b t \<Longrightarrow> (schema_ok t \<longrightarrow> schema_ok t') \<Longrightarrow>
   evolve (Some i) w (tick (put_tx i (TxOpen b t') w))"
  by (auto simp: evolve_def tx_lookup_def nth_list_update split: if_splits)

lemma put_tx_tick: "put_tx i x (tick w) = tick (put_tx i x w)"
  by (simp add: put_tx_def tick_def)

lemma db_call_evolve: "(\<And>w. evolve o' w (snd (f w))) \<Longrightarrow> frame (evolve o') (db_call f)"
  by (auto simp: frame_def db_call_def evolve_tick split: option.splits)
    (meson evolve_tick evolve_trans)

lemma tx_exec_evolve [frame_rules]: "frame (evolve (Some i)) (tx_exec i f)"
proof (rule frameI)
  fix w
  show "evolve (Some i) w (snd (tx_exec i f w))"
    by (auto simp: tx_exec_def db_call_def evolve_tick ev.frame_refl put_tx_tick evolve_put_tx
        split: tx.splits option.splits prod.splits)
qed

lemma tx_exec_check_evolve [frame_rules]: "frame (evolve (Some i)) (tx_exec_check i chk f)"
  using tx_exec_evolve [of i f]
  by (auto simp: frame_def tx_exec_check_def db_call_def evolve_tick ev.frame_refl
      split: tx.splits option.splits)

lemma tx_query_evolve [frame_rules]: "frame (evolve o') (tx_query i f)"
  by (auto simp: frame_def tx_query_def db_call_def evolve_tick ev.frame_refl
      split: tx.splits option.splits)

lemma db_query_evolve [frame_rules]: "frame (evolve o') (db_query at f)"
  by (auto simp: frame_def db_query_def db_call_def evolve_tick split: option.splits)

lemma db_query_rows_evolve [frame_rules]: "frame (evolve o') (db_query_rows at f)"
  by (auto simp: frame_def db_query_rows_def db_call_def evolve_tick split: option.splits)

lemma page_query_evolve [frame_rules]: "frame (evolve o') (page_query fv cols col f)"
  by (auto simp: page_query_def db_query_rows_evolve frame_def db_call_def evolve_tick split: option.splits
      intro: db_query_rows_evolve [unfolded frame_def, rule_format])

lemma scan_row_frames [frame_rules]: "frame (evolve o') (scan_row rs)" "frame silent (scan_row rs)"
  by (cases rs; simp add: scan_row_def ev.closed si.closed)+

lemma getContextTx_frames [frame_rules]:
  "frame (evolve o') (getContextTx c)" "frame silent (getContextTx c)"
  by (cases "ctx_tx c"; simp add: getContextTx_def ev.closed si.closed)+

lemma db_call_silent: "(\<And>w. silent w (snd (f w))) \<Longrightarrow> frame silent (db_call f)"
  by (auto simp: frame_def db_call_def silent_def split: option.splits)

lemma stmt_silent [frame_rules]:
  "frame silent (tx_exec i f)" "frame silent (tx_query i g)"
  "frame silent (db_query at h)" "frame silent (db_query_rows at k)"
  by (auto simp: frame_def tx_exec_def tx_query_def db_query_def db_query_rows_def db_call_def
      silent_def split: option.splits tx.splits prod.splits)

lemma stmt_check_silent [frame_rules]:
  "frame silent (tx_exec_check i chk f)" "frame silent (page_query fv cols col g)"
  by (auto simp: frame_def tx_exec_check_def page_query_def tx_exec_def db_query_rows_def db_call_def
      silent_def split: option.splits tx.splits prod.splits)

lemma ctx_query_frames [frame_rules]: "frame (evolve o') (ctx_query c f)" "frame silent (ctx_query c f)"
  unfolding ctx_query_def by (intro frame_rules)+

text \<open>A statement through the context's transaction stays within that transaction.\<close>

lemma with_tx_evolve:
  "(\<And>i. ctx_tx c = CtxTx i \<Longrightarrow> frame (evolve (Some i)) (f i)) \<Longrightarrow>
   frame (evolve (ctx_id c)) (bindE (getContextTx c) f)"
  by (cases "ctx_tx c") (simp_all add: getContextTx_def ctx_id_def go_simps frame_def ev.frame_refl)

text \<open>Outcomes of the transaction manager.\<close>

lemma beginTxContext_cases:
  "beginTxContext c w =
     (case faults w (ticks w) of
        Some e \<Rightarrow> (Err (DriverError e), tick w)
      | None \<Rightarrow> (Ok (c\<lparr>ctx_tx := CtxTx (length (txs w))\<rparr>),
                 (tick w)\<lparr>txs := txs w @ [TxOpen (committed w) (committed w)]\<rparr>))"
  by (simp add: beginTxContext_def db_call_def split: option.splits)

end
