(* ===== verification/Json.thy ===== *)
theory Json
  imports Codec
begin

text \<open>
  What the sources use of Go's \<open>encoding/json\<close>: \<open>json.Marshal\<close> and \<open>json.Unmarshal\<close> on
  \<open>map[string][]byte\<close> (claims mappings, \<open>src/internal/types/types.go\<close>) and \<open>json.Marshal\<close> on a string
  (cursors, \<open>src/internal/crdbx/cursor.go\<close>), with the packages these rest on: \<open>unicode/utf8\<close>,
  \<open>unicode/utf16\<close> and \<open>base64.StdEncoding\<close>. A string is a list of bytes, a \<open>[]byte\<close> is
  \<open>string option\<close> (\<open>None\<close> the nil slice). Marshalling escapes quotes, control characters,
  \<open><\<close>, \<open>>\<close>, \<open>&\<close>, the line separators and what is not UTF-8; unmarshalling is the library's
  scanner, a state machine with a stack of open objects and arrays, over the tokens of the text. Of
  the error of a refused text the model keeps that it is an error.
\<close>

section \<open>UTF-8\<close>

definition RuneError :: nat where "RuneError = 0xFFFD"

definition in_range :: "nat \<Rightarrow> nat \<Rightarrow> char \<Rightarrow> bool" where
  "in_range lo hi c \<longleftrightarrow> lo \<le> of_char c \<and> of_char c \<le> hi"

definition low6 :: "char \<Rightarrow> nat" where
  "low6 c = of_char c mod 64"

text \<open>The first byte of a longer rune gives its width and the range of its second byte.\<close>

definition lead_byte :: "nat \<Rightarrow> (nat \<times> nat \<times> nat) option" where
  "lead_byte b =
     (if 0xC2 \<le> b \<and> b \<le> 0xDF then Some (2, 0x80, 0xBF)
      else if b = 0xE0 then Some (3, 0xA0, 0xBF)
      else if b = 0xED then Some (3, 0x80, 0x9F)
      else if 0xE1 \<le> b \<and> b \<le> 0xEF then Some (3, 0x80, 0xBF)
      else if b = 0xF0 then Some (4, 0x90, 0xBF)
      else if 0xF1 \<le> b \<and> b \<le> 0xF3 then Some (4, 0x80, 0xBF)
      else if b = 0xF4 then Some (4, 0x80, 0x8F)
      else None)"

text \<open>\<open>utf8.DecodeRune\<close>: the first rune of a text and its width; an ill-formed one is
  \<open>RuneError\<close> of width 1.\<close>

definition DecodeRune :: "string \<Rightarrow> nat \<times> nat" where
  "DecodeRune s =
     (case s of
        [] \<Rightarrow> (RuneError, 0)
      | c # r \<Rightarrow>
         if of_char c < (0x80 :: nat) then (of_char c, 1)
         else
          (case lead_byte (of_char c) of
             None \<Rightarrow> (RuneError, 1)
           | Some (n, lo, hi) \<Rightarrow>
              (let t = take (n - 1) r in
               if length t = n - 1 \<and> in_range lo hi (hd t) \<and> list_all (in_range 0x80 0xBF) (tl t)
               then (foldl (\<lambda>a c. a * 64 + low6 c) (of_char c mod 2 ^ (7 - n)) t, n)
               else (RuneError, 1))))"

text \<open>\<open>utf8.EncodeRune\<close>: surrogates and what is above the last code point are written as
  \<open>RuneError\<close>.\<close>

definition EncodeRune :: "nat \<Rightarrow> string" where
  "EncodeRune r =
     (if r < 0x80 then [char_of r]
      else if r < 0x800 then [char_of (0xC0 + r div 64), char_of (0x80 + r mod 64)]
      else if r > 0x10FFFF \<or> 0xD800 \<le> r \<and> r \<le> 0xDFFF then [CHR 0xEF, CHR 0xBF, CHR 0xBD]
      else if r < 0x10000 then
        [char_of (0xE0 + r div 4096), char_of (0x80 + r div 64 mod 64), char_of (0x80 + r mod 64)]
      else
        [char_of (0xF0 + r div 262144), char_of (0x80 + r div 4096 mod 64),
         char_of (0x80 + r div 64 mod 64), char_of (0x80 + r mod 64)])"

text \<open>\<open>utf8.ValidString\<close>.\<close>

fun ValidString :: "string \<Rightarrow> bool" where
  "ValidString [] = True"
| "ValidString (c # s) =
     (let (r, n) = DecodeRune (c # s)
      in \<not> (r = RuneError \<and> n = 1) \<and> ValidString (drop (n - 1) s))"

section \<open>Base64 with the standard alphabet\<close>

text \<open>\<open>StdEncoding\<close> has \<open>+\<close> and \<open>/\<close> where \<open>URLEncoding\<close> has \<open>-\<close> and \<open>_\<close>.\<close>

definition to_std :: "char \<Rightarrow> char" where
  "to_std c = (if c = CHR ''-'' then CHR ''+'' else if c = CHR ''_'' then CHR ''/'' else c)"

definition of_std :: "char \<Rightarrow> char" where
  "of_std c =
     (if c = CHR ''+'' then CHR ''-'' else if c = CHR ''/'' then CHR ''_''
      else if c = CHR ''-'' \<or> c = CHR ''_'' then CHR ''*'' else c)"

definition StdEncoding_Encode :: "string \<Rightarrow> string" where
  "StdEncoding_Encode s = map to_std (URLEncoding_EncodeToString s)"

definition StdEncoding_Decode :: "string \<Rightarrow> string option" where
  "StdEncoding_Decode s = URLEncoding_DecodeString (map of_std s)"

section \<open>Encoding\<close>

text \<open>\<open>appendString\<close> with HTML escaping on, which is what \<open>json.Marshal\<close> does.\<close>

definition lower_hex :: "nat \<Rightarrow> char" where
  "lower_hex n = ''0123456789abcdef'' ! (n mod 16)"

definition escape_ascii :: "char \<Rightarrow> string" where
  "escape_ascii c =
     (if c = CHR 0x22 \<or> c = CHR 0x5C then [CHR 0x5C, c]
      else if c = CHR 0x08 then [CHR 0x5C, CHR ''b'']
      else if c = CHR 0x0C then [CHR 0x5C, CHR ''f'']
      else if c = CHR 0x0A then [CHR 0x5C, CHR ''n'']
      else if c = CHR 0x0D then [CHR 0x5C, CHR ''r'']
      else if c = CHR 0x09 then [CHR 0x5C, CHR ''t'']
      else if of_char c < (0x20 :: nat) \<or> c = CHR ''<'' \<or> c = CHR ''>'' \<or> c = CHR ''&''
        then CHR 0x5C # ''u00'' @ [lower_hex (of_char c div 16), lower_hex (of_char c)]
      else [c])"

fun escape_body :: "string \<Rightarrow> string" where
  "escape_body [] = []"
| "escape_body (c # s) =
     (if of_char c < (0x80 :: nat) then escape_ascii c @ escape_body s
      else
       (let (r, n) = DecodeRune (c # s) in
        if r = RuneError \<and> n = 1 then (CHR 0x5C # ''ufffd'') @ escape_body s
        else
          (if r = 0x2028 then CHR 0x5C # ''u2028''
           else if r = 0x2029 then CHR 0x5C # ''u2029''
           else take n (c # s)) @ escape_body (drop (n - 1) s)))"

definition encode_string :: "string \<Rightarrow> string" where
  "encode_string s = [CHR 0x22] @ escape_body s @ [CHR 0x22]"

definition encode_bytes :: "string option \<Rightarrow> string" where
  "encode_bytes v =
     (case v of None \<Rightarrow> ''null'' | Some b \<Rightarrow> [CHR 0x22] @ StdEncoding_Encode b @ [CHR 0x22])"

text \<open>\<open>json.Marshal\<close> of a map that is not nil: the keys in ascending order.\<close>

definition json_Marshal :: "(string \<times> string option) list \<Rightarrow> string" where
  "json_Marshal m =
     ''{'' @ Join (map (\<lambda>k. encode_string k @ '':'' @ encode_bytes (the (map_of m k)))
                      (sort (map fst m))) '','' @ ''}''"

section \<open>Tokens\<close>

definition is_hex :: "char \<Rightarrow> bool" where
  "is_hex c \<longleftrightarrow> unhex c \<noteq> None"

text \<open>What may follow a backslash.\<close>

definition scan_escape :: "string \<Rightarrow> (string \<times> string) option" where
  "scan_escape s =
     (case s of
        [] \<Rightarrow> None
      | e # r \<Rightarrow>
         if e \<in> {CHR 0x22, CHR 0x5C, CHR ''/'', CHR ''b'', CHR ''f'', CHR ''n'', CHR ''r'', CHR ''t''} then Some ([e], r)
         else if e = CHR ''u'' \<and> length (take 4 r) = 4 \<and> list_all is_hex (take 4 r)
         then Some (e # take 4 r, drop 4 r)
         else None)"

lemma scan_escape_split: "scan_escape s = Some (e, r) \<Longrightarrow> s = e @ r"
  by (cases s) (auto simp: scan_escape_def split: if_splits)

text \<open>Put what was read before the text of a result.\<close>

definition prefixed :: "string \<Rightarrow> (string \<times> string) option \<Rightarrow> (string \<times> string) option" where
  "prefixed p = map_option (\<lambda>(b, r). (p @ b, r))"

text \<open>A string up to its closing quote: the raw text and what follows.\<close>

function scan_string :: "string \<Rightarrow> (string \<times> string) option" where
  "scan_string [] = None"
| "scan_string (c # s) =
     (if c = CHR 0x22 then Some ([], s)
      else if c = CHR 0x5C then
        (case scan_escape s of
           None \<Rightarrow> None
         | Some (e, s') \<Rightarrow> prefixed (c # e) (scan_string s'))
      else if of_char c < (0x20 :: nat) then None
      else prefixed [c] (scan_string s))"
  by pat_completeness auto
termination by (relation "measure length") (auto dest: scan_escape_split)

text \<open>\<open>getu4\<close>: the four hexadecimal digits of an escape.\<close>

definition getu4 :: "string \<Rightarrow> nat option" where
  "getu4 s =
     (case s of
        c # u # h1 # h2 # h3 # h4 # _ \<Rightarrow>
          if c = CHR 0x5C \<and> u = CHR ''u'' then
            (case (unhex h1, unhex h2, unhex h3, unhex h4) of
               (Some a, Some b, Some d, Some e) \<Rightarrow> Some (a * 4096 + b * 256 + d * 16 + e)
             | _ \<Rightarrow> None)
          else None
      | _ \<Rightarrow> None)"

text \<open>\<open>utf16.DecodeRune\<close>.\<close>

definition decode_surrogates :: "nat \<Rightarrow> nat \<Rightarrow> nat" where
  "decode_surrogates r1 r2 =
     (if 0xD800 \<le> r1 \<and> r1 < 0xDC00 \<and> 0xDC00 \<le> r2 \<and> r2 < 0xE000
      then (r1 - 0xD800) * 1024 + (r2 - 0xDC00) + 0x10000 else RuneError)"

definition unescape :: "char \<Rightarrow> char option" where
  "unescape e =
     (if e \<in> {CHR 0x22, CHR 0x5C, CHR ''/'', CHR 0x27} then Some e
      else if e = CHR ''b'' then Some (CHR 0x08)
      else if e = CHR ''f'' then Some (CHR 0x0C)
      else if e = CHR ''n'' then Some (CHR 0x0A)
      else if e = CHR ''r'' then Some (CHR 0x0D)
      else if e = CHR ''t'' then Some (CHR 0x09)
      else None)"

text \<open>\<open>unquoteBytes\<close>, less its quotes. The library copies a text without escapes as it is; the loop below
  gives the same text.\<close>

function unquote :: "string \<Rightarrow> string option" where
  "unquote [] = Some []"
| "unquote (c # s) =
     (if c = CHR 0x5C then
        (case s of
           [] \<Rightarrow> None
         | e # s' \<Rightarrow>
             if e = CHR ''u'' then
               (case getu4 (c # s) of
                  None \<Rightarrow> None
                | Some rr \<Rightarrow>
                    if 0xD800 \<le> rr \<and> rr < 0xE000 then
                      (case getu4 (drop 5 s) of
                         Some rr1 \<Rightarrow>
                           if decode_surrogates rr rr1 \<noteq> RuneError
                           then map_option ((@) (EncodeRune (decode_surrogates rr rr1))) (unquote (drop 11 s))
                           else map_option ((@) (EncodeRune RuneError)) (unquote (drop 5 s))
                       | None \<Rightarrow> map_option ((@) (EncodeRune RuneError)) (unquote (drop 5 s)))
                    else map_option ((@) (EncodeRune rr)) (unquote (drop 5 s)))
             else
               (case unescape e of
                  None \<Rightarrow> None
                | Some x \<Rightarrow> map_option ((#) x) (unquote s')))
      else if c = CHR 0x22 \<or> of_char c < (0x20 :: nat) then None
      else if of_char c < (0x80 :: nat) then map_option ((#) c) (unquote s)
      else (let (r, n) = DecodeRune (c # s)
            in map_option ((@) (EncodeRune r)) (unquote (drop (n - 1) s))))"
  by pat_completeness auto
termination by (relation "measure length") auto

datatype json_token =
    TBeginObject | TEndObject | TBeginArray | TEndArray | TComma | TColon
  | TNull | TBool bool | TNumber string | TString string

text \<open>At least one digit.\<close>

definition scan_digits :: "string \<Rightarrow> (string \<times> string) option" where
  "scan_digits s = (if takeWhile is_digit s = [] then None else Some (takeWhile is_digit s, dropWhile is_digit s))"

definition scan_integer :: "string \<Rightarrow> (string \<times> string) option" where
  "scan_integer s =
     (case s of
        c # r \<Rightarrow> if c = CHR ''0'' then Some ([c], r) else scan_digits s
      | [] \<Rightarrow> None)"

definition scan_fraction :: "string \<Rightarrow> (string \<times> string) option" where
  "scan_fraction s =
     (case s of
        c # r \<Rightarrow> if c = CHR ''.'' then prefixed [c] (scan_digits r) else Some ([], s)
      | [] \<Rightarrow> Some ([], s))"

definition scan_exponent :: "string \<Rightarrow> (string \<times> string) option" where
  "scan_exponent s =
     (case s of
        c # r \<Rightarrow>
          if c = CHR ''e'' \<or> c = CHR ''E'' then
            (case r of
               g # t \<Rightarrow>
                 if g = CHR ''+'' \<or> g = CHR ''-''
                 then prefixed [c, g] (scan_digits t)
                 else prefixed [c] (scan_digits r)
             | [] \<Rightarrow> None)
          else Some ([], s)
      | [] \<Rightarrow> Some ([], s))"

definition scan_number :: "string \<Rightarrow> (string \<times> string) option" where
  "scan_number s =
     (let (sign, s1) = (case s of c # r \<Rightarrow> if c = CHR ''-'' then ([c], r) else ([], s) | [] \<Rightarrow> ([], s)) in
      case scan_integer s1 of
        None \<Rightarrow> None
      | Some (i, s2) \<Rightarrow>
         (case scan_fraction s2 of
            None \<Rightarrow> None
          | Some (f, s3) \<Rightarrow>
             (case scan_exponent s3 of
                None \<Rightarrow> None
              | Some (e, s4) \<Rightarrow> Some (sign @ i @ f @ e, s4))))"

definition scan_literal :: "string \<Rightarrow> (json_token \<times> string) option" where
  "scan_literal s =
     (if take 4 s = ''null'' then Some (TNull, drop 4 s)
      else if take 4 s = ''true'' then Some (TBool True, drop 4 s)
      else if take 5 s = ''false'' then Some (TBool False, drop 5 s)
      else map_option (\<lambda>(n, r). (TNumber n, r)) (scan_number s))"

definition punctuation :: "char \<Rightarrow> json_token option" where
  "punctuation c = map_of
     [(CHR ''{'', TBeginObject), (CHR ''}'', TEndObject), (CHR ''['', TBeginArray), (CHR '']'', TEndArray),
      (CHR '','', TComma), (CHR '':'', TColon)] c"

text \<open>The first token of a text that does not start with white space.\<close>

definition next_token :: "char \<Rightarrow> string \<Rightarrow> (json_token \<times> string) option" where
  "next_token c s =
     (case punctuation c of
        Some tok \<Rightarrow> Some (tok, s)
      | None \<Rightarrow>
         if c = CHR 0x22 then
           (case scan_string s of
              None \<Rightarrow> None
            | Some (b, r) \<Rightarrow> map_option (\<lambda>x. (TString x, r)) (unquote b))
         else scan_literal (c # s))"

definition json_space :: "char \<Rightarrow> bool" where
  "json_space c \<longleftrightarrow> c \<in> {CHR '' '', CHR 0x09, CHR 0x0D, CHR 0x0A}"

lemma prefixed_Some [simp]: "prefixed p (Some (b, r)) = Some (p @ b, r)" "prefixed p None = None"
  by (simp_all add: prefixed_def)

lemma prefixed_eq_Some: "prefixed p x = Some (b', r) \<longleftrightarrow> (\<exists>b. x = Some (b, r) \<and> b' = p @ b)"
  by (cases x) (auto simp: prefixed_def)

lemma prefixed_prefixed [simp]: "prefixed p (prefixed q x) = prefixed (p @ q) x" "prefixed [] x = x"
  by (cases x; auto simp: prefixed_def)+

lemma scan_string_split: "scan_string s = Some (b, r) \<Longrightarrow> s = b @ CHR 0x22 # r"
proof (induction s arbitrary: b r rule: scan_string.induct)
  case step: (2 c s)
  consider "c = CHR 0x22" | "c = CHR 0x5C" | "c \<noteq> CHR 0x22" "c \<noteq> CHR 0x5C" by blast
  then show ?case
  proof cases
    case 2
    with step.prems obtain e s' b' where "scan_escape s = Some (e, s')" "scan_string s' = Some (b', r)"
      "b = c # e @ b'"
      by (auto simp: prefixed_eq_Some split: option.splits)
    with 2 step.IH(1) [of "(e, s')" e s' b' r] show ?thesis by (auto dest: scan_escape_split)
  next
    case 3
    with step.prems step.IH(2) show ?thesis by (auto simp: prefixed_eq_Some split: if_splits)
  qed (use step.prems in simp)
qed simp

lemma scan_digits_split: "scan_digits s = Some (d, r) \<Longrightarrow> s = d @ r \<and> d \<noteq> []"
  by (auto simp: scan_digits_def split: if_splits)

lemma scan_number_split:
  assumes "scan_number s = Some (d, r)"
  shows "s = d @ r \<and> d \<noteq> []"
proof -
  obtain sign s1 where s1: "(case s of c # r \<Rightarrow> if c = CHR ''-'' then ([c], r) else ([], s) | [] \<Rightarrow> ([], s)) = (sign, s1)"
    by force
  then have "s = sign @ s1" by (auto split: list.splits if_splits)
  moreover obtain i s2 f s3 e where *: "scan_integer s1 = Some (i, s2)" "scan_fraction s2 = Some (f, s3)"
    "scan_exponent s3 = Some (e, r)" "d = sign @ i @ f @ e"
    using assms unfolding scan_number_def s1 by (auto split: option.splits)
  moreover have "s1 = i @ s2 \<and> i \<noteq> []"
    using *(1) by (auto simp: scan_integer_def dest!: scan_digits_split split: list.splits if_splits)
  moreover have "s2 = f @ s3"
    using *(2) by (auto simp: scan_fraction_def prefixed_eq_Some dest!: scan_digits_split split: list.splits if_splits)
  moreover have "s3 = e @ r"
    using *(3) by (auto simp: scan_exponent_def prefixed_eq_Some dest!: scan_digits_split split: list.splits if_splits)
  ultimately show ?thesis by simp
qed

lemma scan_literal_length: "scan_literal (c # s) = Some (tok, r) \<Longrightarrow> length r \<le> length s"
  unfolding scan_literal_def
  by (auto dest!: scan_number_split simp: Cons_eq_append_conv split: if_splits)

lemma next_token_length: "next_token c s = Some (tok, r) \<Longrightarrow> length r \<le> length s"
  unfolding next_token_def
  by (cases "punctuation c"; cases "c = CHR 0x22")
    (auto dest: scan_string_split scan_literal_length split: option.splits)

function json_tokens :: "string \<Rightarrow> json_token list option" where
  "json_tokens [] = Some []"
| "json_tokens (c # s) =
     (if json_space c then json_tokens s
      else
       (case next_token c s of
          None \<Rightarrow> None
        | Some (tok, r) \<Rightarrow> map_option ((#) tok) (json_tokens r)))"
  by pat_completeness auto
termination
  by (relation "measure length") (auto dest: next_token_length)

section \<open>The scanner\<close>

datatype json =
    JNull
  | JBool bool
  | JNumber string
  | JString string
  | JArray "json list"
  | JObject "(string \<times> json) list"

text \<open>The open objects and arrays, with what has been read of them (last element first).\<close>

datatype parse_frame =
    ParseObjectKey "(string \<times> json) list"
  | ParseObjectValue "(string \<times> json) list" string
  | ParseArrayValue "json list"

datatype scan_state =
    BeginValue
  | BeginValueOrEmpty
  | BeginString
  | BeginStringOrEmpty
  | EndValue json

definition maxNestingDepth :: nat where "maxNestingDepth = 10000"

definition pushParseState ::
    "scan_state \<Rightarrow> parse_frame \<Rightarrow> parse_frame list \<Rightarrow> (scan_state \<times> parse_frame list) option" where
  "pushParseState successState newParseState stack =
     (if Suc (length stack) \<le> maxNestingDepth then Some (successState, newParseState # stack) else None)"

fun stateBeginValue :: "json_token \<Rightarrow> parse_frame list \<Rightarrow> (scan_state \<times> parse_frame list) option" where
  "stateBeginValue TBeginObject stack = pushParseState BeginStringOrEmpty (ParseObjectKey []) stack"
| "stateBeginValue TBeginArray stack = pushParseState BeginValueOrEmpty (ParseArrayValue []) stack"
| "stateBeginValue TNull stack = Some (EndValue JNull, stack)"
| "stateBeginValue (TBool b) stack = Some (EndValue (JBool b), stack)"
| "stateBeginValue (TNumber n) stack = Some (EndValue (JNumber n), stack)"
| "stateBeginValue (TString x) stack = Some (EndValue (JString x), stack)"
| "stateBeginValue _ stack = None"

fun stateBeginString :: "json_token \<Rightarrow> parse_frame list \<Rightarrow> (scan_state \<times> parse_frame list) option" where
  "stateBeginString (TString x) stack = Some (EndValue (JString x), stack)"
| "stateBeginString _ stack = None"

definition stateEndValue :: "json \<Rightarrow> json_token \<Rightarrow> parse_frame list \<Rightarrow> (scan_state \<times> parse_frame list) option" where
  "stateEndValue v tok stack =
     (case stack of
        [] \<Rightarrow> None
      | ParseObjectKey kvs # rest \<Rightarrow>
          (case v of
             JString k \<Rightarrow> if tok = TColon then Some (BeginValue, ParseObjectValue kvs k # rest) else None
           | _ \<Rightarrow> None)
      | ParseObjectValue kvs k # rest \<Rightarrow>
          (if tok = TComma then Some (BeginString, ParseObjectKey ((k, v) # kvs) # rest)
           else if tok = TEndObject then Some (EndValue (JObject (rev ((k, v) # kvs))), rest)
           else None)
      | ParseArrayValue vs # rest \<Rightarrow>
          (if tok = TComma then Some (BeginValue, ParseArrayValue (v # vs) # rest)
           else if tok = TEndArray then Some (EndValue (JArray (rev (v # vs))), rest)
           else None))"

fun scan_step :: "scan_state \<Rightarrow> json_token \<Rightarrow> parse_frame list \<Rightarrow> (scan_state \<times> parse_frame list) option" where
  "scan_step BeginValue tok stack = stateBeginValue tok stack"
| "scan_step BeginValueOrEmpty tok stack =
     (if tok = TEndArray then Some (EndValue (JArray []), tl stack) else stateBeginValue tok stack)"
| "scan_step BeginString tok stack = stateBeginString tok stack"
| "scan_step BeginStringOrEmpty tok stack =
     (if tok = TEndObject then Some (EndValue (JObject []), tl stack) else stateBeginString tok stack)"
| "scan_step (EndValue v) tok stack = stateEndValue v tok stack"

text \<open>A text is one value: at its end the value is complete and nothing is open.\<close>

fun json_scan :: "scan_state \<Rightarrow> parse_frame list \<Rightarrow> json_token list \<Rightarrow> json option" where
  "json_scan state stack [] = (case state of EndValue v \<Rightarrow> if stack = [] then Some v else None | _ \<Rightarrow> None)"
| "json_scan state stack (tok # toks) =
     (case scan_step state tok stack of
        None \<Rightarrow> None
      | Some (state', stack') \<Rightarrow> json_scan state' stack' toks)"

section \<open>Decoding into \<open>map[string][]byte\<close>\<close>

definition ParseUint8 :: "string \<Rightarrow> nat option" where
  "ParseUint8 s =
     (if s \<noteq> [] \<and> list_all is_digit s
      then (let n = foldl (\<lambda>a c. a * 10 + (of_char c - 48)) 0 s in if n \<le> 255 then Some n else None)
      else None)"

text \<open>An element of a list of bytes; null leaves the zero of a fresh element.\<close>

definition store_byte :: "json \<Rightarrow> nat option" where
  "store_byte v = (case v of JNull \<Rightarrow> Some 0 | JNumber n \<Rightarrow> ParseUint8 n | _ \<Rightarrow> None)"

definition all_some :: "'a option list \<Rightarrow> 'a list option" where
  "all_some xs = (if None \<in> set xs then None else Some (map the xs))"

definition store_bytes :: "json \<Rightarrow> string option option" where
  "store_bytes v =
     (case v of
        JNull \<Rightarrow> Some None
      | JString s \<Rightarrow> map_option Some (StdEncoding_Decode s)
      | JArray vs \<Rightarrow> map_option (Some \<circ> of_bytes) (all_some (map store_byte vs))
      | _ \<Rightarrow> None)"

definition store_map :: "json \<Rightarrow> (string \<times> string option) list option" where
  "store_map v =
     (case v of
        JNull \<Rightarrow> Some []
      | JObject kvs \<Rightarrow>
          map_option (\<lambda>bs. fold (\<lambda>(k, b). AList.update k b) (zip (map fst kvs) bs) [])
            (all_some (map (store_bytes \<circ> snd) kvs))
      | _ \<Rightarrow> None)"

definition json_Unmarshal :: "string \<Rightarrow> (string \<times> string option) list res" where
  "json_Unmarshal data =
     (case Option.bind (Option.bind (json_tokens data) (json_scan BeginValue [])) store_map of
        None \<Rightarrow> Err (LibError ''invalid JSON'')
      | Some m \<Rightarrow> Ok m)"

section \<open>UTF-8, both ways\<close>

lemma low6_lt [simp]: "low6 c < 64"
  by (simp add: low6_def)

lemma mod_block: "x = k * m + y \<Longrightarrow> y < m \<Longrightarrow> x mod m = (y :: nat)"
  by simp

lemma low6_range:
  assumes "in_range lo hi c" "0x80 \<le> lo" "hi \<le> 0xBF"
  shows "of_char c = 0x80 + low6 c"
proof -
  have "0x80 \<le> (of_char c :: nat)" "of_char c \<le> (0xBF :: nat)" using assms by (auto simp: in_range_def)
  moreover from this have "low6 c = of_char c - 0x80" unfolding low6_def by (intro mod_block [of _ 2]) simp_all
  ultimately show ?thesis by simp
qed

lemma lead_byte_range:
  "lead_byte b = Some (n, lo, hi) \<Longrightarrow> 2 \<le> n \<and> n \<le> 4 \<and> 0x80 \<le> lo \<and> hi \<le> 0xBF"
  by (auto simp: lead_byte_def split: if_splits)

lemma DecodeRune_ascii: "of_char c < (0x80 :: nat) \<Longrightarrow> DecodeRune (c # s) = (of_char c, 1)"
  by (simp add: DecodeRune_def)

lemma DecodeRune_cases:
  assumes "DecodeRune (c # s) = (r, n)" "\<not> (r = RuneError \<and> n = 1)" "\<not> of_char c < (0x80 :: nat)"
  obtains lo hi c1 t u where "lead_byte (of_char c) = Some (n, lo, hi)" "s = c1 # t @ u" "length t = n - 2"
    "in_range lo hi c1" "list_all (in_range 0x80 0xBF) t"
    "r = foldl (\<lambda>a c. a * 64 + low6 c) (of_char c mod 2 ^ (7 - n)) (c1 # t)"
proof -
  from assms obtain lo hi where lead: "lead_byte (of_char c) = Some (n, lo, hi)"
    and t: "length (take (n - 1) s) = n - 1" "in_range lo hi (hd (take (n - 1) s))"
      "list_all (in_range 0x80 0xBF) (tl (take (n - 1) s))"
      "r = foldl (\<lambda>a c. a * 64 + low6 c) (of_char c mod 2 ^ (7 - n)) (take (n - 1) s)"
    by (auto simp: DecodeRune_def Let_def split: option.splits if_splits)
  from lead have "2 \<le> n" by (auto dest: lead_byte_range)
  with t(1) obtain c1 u where s: "s = c1 # u" by (cases s) auto
  then have "take (n - 1) s = c1 # take (n - 2) u" using \<open>2 \<le> n\<close> by (simp add: take_Cons' numeral_2_eq_2)
  with t s lead show ?thesis
    by (intro that [of lo hi c1 "take (n - 2) u" "drop (n - 2) u"]) (use \<open>2 \<le> n\<close> in auto)
qed

lemma DecodeRune_width: "DecodeRune (c # s) = (r, n) \<Longrightarrow> 1 \<le> n \<and> n \<le> Suc (length s)"
  by (auto simp: DecodeRune_def Let_def dest: lead_byte_range split: if_splits option.splits)

lemma DecodeRune_local:
  assumes "DecodeRune (c # s) = (r, n)" "\<not> (r = RuneError \<and> n = 1)" "\<not> of_char c < (0x80 :: nat)"
  shows "DecodeRune (take n (c # s) @ w) = (r, n)"
proof -
  obtain lo hi c1 t u where *: "lead_byte (of_char c) = Some (n, lo, hi)" "s = c1 # t @ u" "length t = n - 2"
    "in_range lo hi c1" "list_all (in_range 0x80 0xBF) t"
    "r = foldl (\<lambda>a c. a * 64 + low6 c) (of_char c mod 2 ^ (7 - n)) (c1 # t)"
    using DecodeRune_cases [OF assms] .
  then obtain m where "n = Suc (Suc m)" by (metis lead_byte_range le_Suc_ex add_2_eq_Suc)
  with * assms(3) show ?thesis by (simp add: DecodeRune_def)
qed

lemma EncodeRune_DecodeRune:
  assumes "DecodeRune (c # s) = (r, n)" "\<not> (r = RuneError \<and> n = 1)" "\<not> of_char c < (0x80 :: nat)"
  shows "EncodeRune r = take n (c # s)"
proof -
  obtain lo hi c1 t u where lead: "lead_byte (of_char c) = Some (n, lo, hi)"
    and s: "s = c1 # t @ u" "length t = n - 2"
    and range: "in_range lo hi c1" "list_all (in_range 0x80 0xBF) t"
    and r: "r = foldl (\<lambda>a c. a * 64 + low6 c) (of_char c mod 2 ^ (7 - n)) (c1 # t)"
    using DecodeRune_cases [OF assms] .
  have c1: "of_char c1 = 0x80 + low6 c1"
    using lead_byte_range [OF lead] low6_range [OF range(1)] by simp
  note low = low6_lt [of c1]
  from lead consider "n = 2" "0xC2 \<le> (of_char c :: nat)" "of_char c \<le> (0xDF :: nat)"
    | "n = 3" "0xE0 \<le> (of_char c :: nat)" "of_char c \<le> (0xEF :: nat)"
    | "n = 4" "0xF0 \<le> (of_char c :: nat)" "of_char c \<le> (0xF4 :: nat)"
    by (auto simp: lead_byte_def split: if_splits)
  then show ?thesis
  proof cases
    case 1
    define b where "b = of_char c - (0xC0 :: nat)"
    with 1 have c: "of_char c = 0xC0 + b" "2 \<le> b" "b < 32" by simp_all
    have "of_char c mod 32 = b" by (rule mod_block [of _ 6]) (use c in simp_all)
    with r s 1 have r: "r = b * 64 + low6 c1" by simp
    then have "r div 64 = b" "r mod 64 = low6 c1" by simp_all
    moreover have "0x80 \<le> r" "r < 0x800" using r low c(2,3) by linarith+
    ultimately show ?thesis using s 1 by (simp add: EncodeRune_def flip: c1 c(1))
  next
    case 2
    define b where "b = of_char c - (0xE0 :: nat)"
    with 2 have c: "of_char c = 0xE0 + b" "b < 16" by simp_all
    have "of_char c mod 16 = b" by (rule mod_block [of _ 14]) (use c in simp_all)
    moreover obtain c2 where t: "t = [c2]" using s(2) 2(1) by (auto simp: length_Suc_conv numeral_eq_Suc)
    ultimately have r: "r = (b * 64 + low6 c1) * 64 + low6 c2" using r 2 by simp
    then have r': "r = 4096 * b + 64 * low6 c1 + low6 c2" by simp
    have "r div 64 = b * 64 + low6 c1" "r mod 64 = low6 c2" unfolding r by (rule digit_split, rule low6_lt)+
    moreover from this have "r div 4096 = b" by (simp add: div_mult2_eq [of r 64 64, simplified])
    moreover have c2: "of_char c2 = 0x80 + low6 c2" using range(2) low6_range [of "0x80" "0xBF" c2] by (simp add: t)
    have first: "1 \<le> b \<or> 0x20 \<le> low6 c1" "b \<le> 0xC \<or> 0xE \<le> b \<or> b \<le> 0xD \<and> low6 c1 < 0x20"
      using lead range(1) c c1 by (auto simp: lead_byte_def in_range_def split: if_splits)
    have "0x800 \<le> r" using first(1) unfolding r' by (elim disjE) linarith+
    moreover have "r < 0x10000" using r' low low6_lt [of c2] c(2) by linarith
    moreover have "\<not> (0xD800 \<le> r \<and> r \<le> 0xDFFF)"
      using first(2) low low6_lt [of c2] unfolding r' by (elim disjE) linarith+
    ultimately show ?thesis using s 2 t by (auto simp: EncodeRune_def simp flip: c1 c2 c(1))
  next
    case 3
    define b where "b = of_char c - (0xF0 :: nat)"
    with 3 have c: "of_char c = 0xF0 + b" "b \<le> 4" by simp_all
    have "of_char c mod 8 = b" by (rule mod_block [of _ 30]) (use c in simp_all)
    moreover obtain c2 c3 where t: "t = [c2, c3]" using s(2) 3(1) by (auto simp: length_Suc_conv numeral_eq_Suc)
    ultimately have r: "r = ((b * 64 + low6 c1) * 64 + low6 c2) * 64 + low6 c3" using r 3 by simp
    then have r': "r = 262144 * b + 4096 * low6 c1 + 64 * low6 c2 + low6 c3" by simp
    have d: "r div 64 = (b * 64 + low6 c1) * 64 + low6 c2" and m: "r mod 64 = low6 c3"
      unfolding r by (rule digit_split, rule low6_lt)+
    have dd: "r div 4096 = b * 64 + low6 c1" "r div 64 mod 64 = low6 c2"
      unfolding div_mult2_eq [of r 64 64, simplified] d by (rule digit_split, rule low6_lt)+
    have "r div 262144 = b" unfolding div_mult2_eq [of r 4096 64, simplified] dd by (rule digit_split, rule low6_lt)
    moreover note m dd
    moreover have c2: "of_char c2 = 0x80 + low6 c2" and c3: "of_char c3 = 0x80 + low6 c3"
      using range(2) low6_range [of "0x80" "0xBF" c2] low6_range [of "0x80" "0xBF" c3] by (simp_all add: t)
    have first: "1 \<le> b \<or> 0x10 \<le> low6 c1" "b \<le> 3 \<or> low6 c1 < 0x10"
      using lead range(1) c c1 by (auto simp: lead_byte_def in_range_def split: if_splits)
    have "0x10000 \<le> r" using first(1) unfolding r' by (elim disjE) linarith+
    moreover have "r \<le> 0x10FFFF"
      using first(2) low low6_lt [of c2] low6_lt [of c3] c(2) unfolding r' by (elim disjE) linarith+
    ultimately show ?thesis using s 3 t by (simp add: EncodeRune_def flip: c1 c2 c3 c(1))
  qed
qed


section \<open>Strings, both ways\<close>

lemma unhex_lower_hex_all: "\<forall>n \<in> set [0..<16]. unhex (lower_hex n) = Some n"
  by code_simp

lemma unhex_lower_hex [simp]: "unhex (lower_hex n) = Some (n mod 16)"
  using unhex_lower_hex_all by (simp add: lower_hex_def atLeast_upt [symmetric])

lemma unhex_zero [simp]: "unhex CHR ''0'' = Some 0"
  by code_simp

lemma escape_ascii_cases:
  obtains (Short) e where "escape_ascii c = [CHR 0x5C, e]" "unescape e = Some c"
      "e \<in> {CHR 0x22, CHR 0x5C, CHR ''/'', CHR ''b'', CHR ''f'', CHR ''n'', CHR ''r'', CHR ''t''}"
  | (Hex) "escape_ascii c = CHR 0x5C # ''u00'' @ [lower_hex (of_char c div 16), lower_hex (of_char c)]"
  | (Plain) "escape_ascii c = [c]" "c \<noteq> CHR 0x22" "c \<noteq> CHR 0x5C" "\<not> of_char c < (0x20 :: nat)"
proof (cases "c \<in> {CHR 0x22, CHR 0x5C, CHR 0x08, CHR 0x0C, CHR 0x0A, CHR 0x0D, CHR 0x09}")
  case True
  then show ?thesis by (auto intro: Short simp: escape_ascii_def unescape_def)
next
  case False
  then show ?thesis
    by (cases "of_char c < (0x20 :: nat) \<or> c = CHR ''<'' \<or> c = CHR ''>'' \<or> c = CHR ''&''")
      (simp_all add: Hex Plain escape_ascii_def)
qed

lemma hex_byte: "of_char c div 16 mod 16 * 16 + of_char c mod 16 = (of_char c :: nat)"
  using byte_split [of c] by simp

lemma scan_string_ascii:
  "scan_string (escape_ascii c @ w) = prefixed (escape_ascii c) (scan_string w)"
  by (cases c rule: escape_ascii_cases) (auto simp: scan_escape_def is_hex_def)

lemma unquote_ascii:
  assumes "of_char c < (0x80 :: nat)"
  shows "unquote (escape_ascii c @ w) = map_option ((#) c) (unquote w)"
proof (cases c rule: escape_ascii_cases)
  case (Short e)
  then have "e \<noteq> CHR ''u''" by auto
  with Short show ?thesis by simp
next
  case Hex
  have "getu4 (escape_ascii c @ w) = Some (of_char c)"
    unfolding Hex by (simp add: getu4_def hex_byte)
  moreover have "(@) [c] = (#) c" by (rule ext) simp
  ultimately show ?thesis using Hex assms by (simp add: EncodeRune_def)
next
  case Plain
  with assms show ?thesis by simp
qed

text \<open>Bytes that stand for themselves in a JSON string.\<close>

definition plain_byte :: "char \<Rightarrow> bool" where
  "plain_byte c \<longleftrightarrow> c \<noteq> CHR 0x22 \<and> c \<noteq> CHR 0x5C \<and> \<not> of_char c < (0x20 :: nat)"

lemma plain_byte_high: "\<not> of_char c < (0x80 :: nat) \<Longrightarrow> plain_byte c"
  by (auto simp: plain_byte_def)

lemma scan_string_plain: "list_all plain_byte p \<Longrightarrow> scan_string (p @ w) = prefixed p (scan_string w)"
  by (induction p) (auto simp: plain_byte_def)

lemma DecodeRune_plain:
  assumes "DecodeRune (c # s) = (r, n)" "\<not> (r = RuneError \<and> n = 1)" "\<not> of_char c < (0x80 :: nat)"
  shows "list_all plain_byte (take n (c # s))"
proof -
  obtain lo hi c1 t u where *: "lead_byte (of_char c) = Some (n, lo, hi)" "s = c1 # t @ u" "length t = n - 2"
    "in_range lo hi c1" "list_all (in_range 0x80 0xBF) t"
    using DecodeRune_cases [OF assms] .
  have high: "in_range lo hi d \<Longrightarrow> 0x80 \<le> lo \<Longrightarrow> plain_byte d" for lo hi d
    by (rule plain_byte_high) (simp add: in_range_def)
  from * have "list_all plain_byte (c # c1 # t)"
    using plain_byte_high [OF assms(3)] high lead_byte_range [OF *(1)] by (auto simp: list_all_iff)
  moreover have "take n (c # s) = c # c1 # t"
    using lead_byte_range [OF *(1)] *(2,3) by (simp add: take_Cons')
  ultimately show ?thesis by simp
qed

lemma scan_string_u:
  "length h = 4 \<Longrightarrow> list_all is_hex h \<Longrightarrow> scan_string (CHR 0x5C # CHR ''u'' # h @ w) = prefixed (CHR 0x5C # CHR ''u'' # h) (scan_string w)"
  by (simp add: scan_escape_def)

lemma hex_escapes: "list_all is_hex ''fffd''" "list_all is_hex ''2028''" "list_all is_hex ''2029''"
  by code_simp+

lemmas scan_string_escapes = scan_string_u [OF _ hex_escapes(1)] scan_string_u [OF _ hex_escapes(2)]
  scan_string_u [OF _ hex_escapes(3)]

lemma scan_string_body: "scan_string (escape_body s @ w) = prefixed (escape_body s) (scan_string w)"
proof (induction s rule: escape_body.induct)
  case step: (2 c s)
  obtain r n where rn: "DecodeRune (c # s) = (r, n)" by force
  consider "of_char c < (0x80 :: nat)" | "\<not> of_char c < (0x80 :: nat)" "r = RuneError \<and> n = 1"
    | "\<not> of_char c < (0x80 :: nat)" "\<not> (r = RuneError \<and> n = 1)" by blast
  then show ?case
  proof cases
    case 1
    with step.IH(1) show ?thesis by (simp add: scan_string_ascii)
  next
    case 2
    with step.IH(2) rn show ?thesis using scan_string_escapes(1) by simp
  next
    case 3
    let ?p = "if r = 0x2028 then CHR 0x5C # ''u2028'' else if r = 0x2029 then CHR 0x5C # ''u2029'' else take n (c # s)"
    have "escape_body (c # s) = ?p @ escape_body (drop (n - 1) s)"
      using 3 rn by (simp only: escape_body.simps Let_def prod.case if_False)
    moreover have "scan_string (?p @ v) = prefixed ?p (scan_string v)" for v
      using scan_string_escapes(2,3) [of v] scan_string_plain [OF DecodeRune_plain [OF rn 3(2,1)], of v]
      by (simp only: append.simps split: if_split) simp
    ultimately show ?thesis
      using step.IH(3) [OF 3(1) rn [symmetric] refl 3(2)] by (simp only: append_assoc prefixed_prefixed)
  qed
qed simp

text \<open>A string of valid UTF-8 is read back as it was written.\<close>

lemma map_option_append [simp]: "map_option ((@) p) (map_option ((@) q) x) = map_option ((@) (p @ q)) x"
  by (cases x) simp_all

lemma unquote_line_separators:
  "unquote (CHR 0x5C # ''u2028'' @ v) = map_option ((@) (EncodeRune 0x2028)) (unquote v)"
  "unquote (CHR 0x5C # ''u2029'' @ v) = map_option ((@) (EncodeRune 0x2029)) (unquote v)"
proof -
  have "unhex CHR ''2'' = Some 2" "unhex CHR ''8'' = Some 8" "unhex CHR ''9'' = Some 9" by code_simp+
  then show "unquote (CHR 0x5C # ''u2028'' @ v) = map_option ((@) (EncodeRune 0x2028)) (unquote v)"
    "unquote (CHR 0x5C # ''u2029'' @ v) = map_option ((@) (EncodeRune 0x2029)) (unquote v)"
    by (simp_all add: getu4_def)
qed

lemma unquote_rune:
  assumes rn: "DecodeRune (c # s) = (r, n)" and "\<not> (r = RuneError \<and> n = 1)" and high: "\<not> of_char c < (0x80 :: nat)"
  shows "unquote (take n (c # s) @ v) = map_option ((@) (EncodeRune r)) (unquote v)"
proof -
  obtain m where m: "n = Suc m" "m \<le> length s" using DecodeRune_width [OF rn] by (cases n) auto
  then have "DecodeRune (c # take m s @ v) = (r, n)" using DecodeRune_local [OF assms, of v] by simp
  moreover have "c \<noteq> CHR 0x5C" "c \<noteq> CHR 0x22" "\<not> of_char c < (0x20 :: nat)"
    using plain_byte_high [OF high] by (auto simp: plain_byte_def)
  ultimately show ?thesis using m high by simp
qed

lemma unquote_body: "ValidString s \<Longrightarrow> unquote (escape_body s) = Some s"
proof (induction s rule: escape_body.induct)
  case step: (2 c s)
  obtain r n where rn: "DecodeRune (c # s) = (r, n)" by force
  with step.prems have valid: "\<not> (r = RuneError \<and> n = 1)" "ValidString (drop (n - 1) s)" by auto
  show ?case
  proof (cases "of_char c < (0x80 :: nat)")
    case True
    then have "n = 1" using rn by (simp add: DecodeRune_ascii)
    with True step.IH(1) valid show ?thesis by (simp add: unquote_ascii)
  next
    case False
    let ?p = "if r = 0x2028 then CHR 0x5C # ''u2028'' else if r = 0x2029 then CHR 0x5C # ''u2029'' else take n (c # s)"
    have body: "escape_body (c # s) = ?p @ escape_body (drop (n - 1) s)"
      using False valid rn by (simp only: escape_body.simps Let_def prod.case if_False)
    have enc: "EncodeRune r = take n (c # s)" by (rule EncodeRune_DecodeRune [OF rn valid(1) False])
    have rest: "take n (c # s) @ drop (n - 1) s = c # s"
      using DecodeRune_width [OF rn] by (cases n) auto
    have "unquote (?p @ v) = map_option ((@) (EncodeRune r)) (unquote v)" for v
      using unquote_line_separators [of v] unquote_rune [OF rn valid(1) False, of v] by (simp del: unquote.simps)
    with step.IH(3) [OF False rn [symmetric] refl valid] show ?thesis
      unfolding body enc using rest by (simp del: take_Cons')
  qed
qed simp

section \<open>Maps, both ways\<close>

lemma b64_enc_set: "set (b64_enc pad bs) \<subseteq> set b64_alphabet \<union> set pad"
  by (induction pad bs rule: b64_enc.induct) (auto simp: b64_char_range)

lemma std_letters_all:
  "\<forall>c \<in> set (CHR ''='' # b64_alphabet). of_std (to_std c) = c \<and> plain_byte (to_std c) \<and> of_char (to_std c) < (0x80 :: nat)"
  by code_simp

lemma std_letters:
  "c \<in> set (URLEncoding_EncodeToString b) \<Longrightarrow>
    of_std (to_std c) = c \<and> plain_byte (to_std c) \<and> of_char (to_std c) < (0x80 :: nat)"
  using b64_enc_set [of "''=''" "bytes b"] std_letters_all unfolding URLEncoding_EncodeToString_def by auto

lemma StdEncoding_round_trip [simp]: "StdEncoding_Decode (StdEncoding_Encode b) = Some b"
proof -
  have "map of_std (map to_std (URLEncoding_EncodeToString b)) = URLEncoding_EncodeToString b"
    using std_letters by (simp add: map_idI)
  then show ?thesis
    by (simp only: StdEncoding_Decode_def StdEncoding_Encode_def URLEncoding_round_trip)
qed

lemma unquote_plain: "\<forall>c \<in> set p. plain_byte c \<and> of_char c < (0x80 :: nat) \<Longrightarrow> unquote p = Some p"
  by (induction p) (auto simp: plain_byte_def)

lemma StdEncoding_plain:
  "list_all plain_byte (StdEncoding_Encode b)" "unquote (StdEncoding_Encode b) = Some (StdEncoding_Encode b)"
  using std_letters by (auto simp: StdEncoding_Encode_def list_all_iff intro!: unquote_plain)

text \<open>The token of a value, and the value the scanner makes of it.\<close>

definition bytes_token :: "string option \<Rightarrow> json_token" where
  "bytes_token v = (case v of None \<Rightarrow> TNull | Some b \<Rightarrow> TString (StdEncoding_Encode b))"

definition bytes_json :: "string option \<Rightarrow> json" where
  "bytes_json v = (case v of None \<Rightarrow> JNull | Some b \<Rightarrow> JString (StdEncoding_Encode b))"

lemma not_special [simp]:
  "punctuation CHR 0x22 = None" "punctuation CHR ''n'' = None" "\<not> json_space CHR 0x22" "\<not> json_space CHR ''n''"
  by code_simp+

lemma tokens_quoted:
  assumes "scan_string (b @ CHR 0x22 # w) = Some (b, w)" "unquote b = Some x"
  shows "json_tokens (CHR 0x22 # b @ CHR 0x22 # w) = map_option ((#) (TString x)) (json_tokens w)"
  using assms by (simp add: next_token_def)

lemma tokens_encode_string:
  "ValidString k \<Longrightarrow> json_tokens (encode_string k @ w) = map_option ((#) (TString k)) (json_tokens w)"
  using tokens_quoted [of "escape_body k" w k] by (simp add: encode_string_def scan_string_body unquote_body)

lemma tokens_encode_bytes: "json_tokens (encode_bytes v @ w) = map_option ((#) (bytes_token v)) (json_tokens w)"
proof (cases v)
  case None
  then show ?thesis by (simp add: encode_bytes_def bytes_token_def next_token_def scan_literal_def)
next
  case (Some b)
  then show ?thesis
    using tokens_quoted [of "StdEncoding_Encode b" w] scan_string_plain [OF StdEncoding_plain(1)] StdEncoding_plain(2)
    by (simp add: encode_bytes_def bytes_token_def)
qed

lemma tokens_punctuation [simp]:
  "json_tokens (CHR ''{'' # w) = map_option ((#) TBeginObject) (json_tokens w)"
  "json_tokens (CHR ''}'' # w) = map_option ((#) TEndObject) (json_tokens w)"
  "json_tokens (CHR '':'' # w) = map_option ((#) TColon) (json_tokens w)"
  "json_tokens (CHR '','' # w) = map_option ((#) TComma) (json_tokens w)"
  by (simp_all add: json_space_def next_token_def punctuation_def)

fun member_tokens :: "(string \<times> string option) list \<Rightarrow> json_token list" where
  "member_tokens [] = []"
| "member_tokens [(k, v)] = [TString k, TColon, bytes_token v]"
| "member_tokens ((k, v) # kv # m) = TString k # TColon # bytes_token v # TComma # member_tokens (kv # m)"

lemma tokens_members:
  "list_all (ValidString \<circ> fst) m \<Longrightarrow>
    json_tokens (Join (map (\<lambda>(k, v). encode_string k @ '':'' @ encode_bytes v) m) '','' @ w) =
    map_option ((@) (member_tokens m)) (json_tokens w)"
  by (induction m rule: member_tokens.induct; cases "json_tokens w")
    (auto simp: tokens_encode_string tokens_encode_bytes simp del: json_tokens.simps)

lemma scan_value [simp]: "stateBeginValue (bytes_token v) stack = Some (EndValue (bytes_json v), stack)"
  by (cases v) (simp_all add: bytes_token_def bytes_json_def)

lemma scan_members:
  "m \<noteq> [] \<Longrightarrow> json_scan BeginString [ParseObjectKey acc] (member_tokens m @ [TEndObject]) =
    Some (JObject (rev acc @ map (\<lambda>(k, v). (k, bytes_json v)) m))"
  by (induction m arbitrary: acc rule: member_tokens.induct)
    (simp_all add: stateEndValue_def)

lemma store_bytes_json [simp]: "store_bytes (bytes_json v) = Some v"
  by (cases v) (simp_all add: store_bytes_def bytes_json_def)

lemma fold_update_fresh:
  "distinct (map fst m) \<Longrightarrow> fst ` set m \<inter> fst ` set acc = {} \<Longrightarrow> fold (\<lambda>(k, b). AList.update k b) m acc = acc @ m"
proof (induction m arbitrary: acc)
  case (Cons kv m)
  have "AList.update (fst kv) (snd kv) acc = acc @ [kv]"
    using Cons.prems(2) by (induction acc) auto
  with Cons show ?case by (force simp: case_prod_beta)
qed simp

theorem json_round_trip:
  assumes "distinct (map fst m)" "\<forall>k \<in> fst ` set m. ValidString k"
  shows "json_Unmarshal (json_Marshal m) = Ok (map (\<lambda>k. (k, the (map_of m k))) (sort (map fst m)))"
proof -
  let ?m = "map (\<lambda>k. (k, the (map_of m k))) (sort (map fst m))"
  have valid: "list_all (ValidString \<circ> fst) ?m" using assms(2) by (auto simp: list_all_iff)
  have "json_tokens (json_Marshal m) = Some (TBeginObject # member_tokens ?m @ [TEndObject])"
    using tokens_members [OF valid, of "''}''"] by (simp add: json_Marshal_def comp_def del: json_tokens.simps(2))
  moreover have "json_scan BeginValue [] (TBeginObject # member_tokens ?m @ [TEndObject]) =
      Some (JObject (map (\<lambda>(k, v). (k, bytes_json v)) ?m))"
  proof (cases "?m = []")
    case True
    then show ?thesis by (simp add: pushParseState_def maxNestingDepth_def)
  next
    case False
    then have "json_scan BeginStringOrEmpty [ParseObjectKey []] (member_tokens ?m @ [TEndObject]) =
        json_scan BeginString [ParseObjectKey []] (member_tokens ?m @ [TEndObject])"
      by (cases ?m rule: member_tokens.cases) simp_all
    with scan_members [OF False, of "[]"] show ?thesis by (simp add: pushParseState_def maxNestingDepth_def)
  qed
  moreover have "store_map (JObject (map (\<lambda>(k, v). (k, bytes_json v)) ?m)) = Some ?m"
    using assms(1) fold_update_fresh [of ?m "[]"]
    by (auto simp: store_map_def all_some_def comp_def case_prod_beta zip_map2 zip_same_conv_map)
  ultimately show ?thesis by (simp add: json_Unmarshal_def)
qed

end
