(* ===== verification/Types.thy ===== *)
theory Types
  imports Database Json
begin

text \<open>
  The domain types, \<open>src/internal/types\<close>, their API counterparts, \<open>src/pkg/api/v1/types.gen.go\<close>,
  the conversions between the two, and CEL expressions, \<open>src/internal/celutils\<close>.

  What the sources call and do not contain is a parameter: the record \<open>ext\<close> holds one function
  per library function, over the library's types \<open>'ast\<close> (\<open>cel.Ast\<close>) and \<open>'expr\<close>
  (\<open>exprpb.CheckedExpr\<close>). Functions that draw randomness or depend on the moment of the call take
  the number of calls made so far. A Go map is an association list with distinct keys, a nil map
  is \<open>None\<close>.
\<close>

section \<open>Libraries\<close>

text \<open>Go's \<open>any\<close>, as far as claims use it.\<close>

datatype gval =
    VNil
  | VStr string
  | VBool bool
  | VInt int
  | VList "gval list"
  | VMap "(string \<times> gval) list"
  | VStringPtr "string option"

type_synonym claims_map = "(string \<times> gval) list"

record ('ast, 'expr) ext =
  gidx_Parse :: "string \<Rightarrow> string res"
  gidx_NewID :: "string \<Rightarrow> nat \<Rightarrow> string res"
  cel_Compile :: "string \<Rightarrow> 'ast option"
  cel_OutputTypeName :: "'ast \<Rightarrow> string"
  cel_AstToString :: "'ast \<Rightarrow> string res"
  cel_AstToCheckedExpr :: "'ast \<Rightarrow> 'expr res"
  cel_CheckedExprToAst :: "'expr \<Rightarrow> 'ast"
  cel_Program :: "'ast \<Rightarrow> (claims_map \<Rightarrow> gval option) option"
  prototext_Marshal :: "'expr \<Rightarrow> string res"
  prototext_Unmarshal :: "string \<Rightarrow> 'expr res"
  permissions_CheckAccess :: "string \<Rightarrow> string \<Rightarrow> string \<Rightarrow> goerr option"
  permissions_Publish :: "nat \<Rightarrow> rel_msg \<Rightarrow> goerr option"
  echo_ErrorStatus :: "goerr \<Rightarrow> nat"
  hasher_Hash :: "nat \<Rightarrow> string \<Rightarrow> string res"
  randx_RuneSequence :: "nat \<Rightarrow> int \<Rightarrow> string res"

text \<open>A call that draws randomness counts as a call.\<close>

definition with_entropy :: "(nat \<Rightarrow> 'a res) \<Rightarrow> 'a dbio" where
  "with_entropy f = (\<lambda>w. (f (ticks w), tick w))"

lemma with_entropy_frames [frame_rules]:
  "frame (evolve o') (with_entropy f)" "frame silent (with_entropy f)"
  by (simp_all add: frame_def with_entropy_def evolve_tick silent_def)

section \<open>Identifiers\<close>

definition IdentityService :: string where "IdentityService = ''idnt''"
definition IdentityUserIDPrefix :: string where "IdentityUserIDPrefix = IdentityService @ ''usr''"
definition IdentityClientIDPrefix :: string where "IdentityClientIDPrefix = IdentityService @ ''cli''"
definition IdentityIssuerIDPrefix :: string where "IdentityIssuerIDPrefix = IdentityService @ ''iss''"
definition IdentityGroupIDPrefix :: string where "IdentityGroupIDPrefix = IdentityService @ ''grp''"

section \<open>CEL expressions\<close>

definition CELVariableClaims :: string where "CELVariableClaims = ''claims''"
definition CELVariableSubSHA256 :: string where "CELVariableSubSHA256 = ''subSHA256''"

definition ParseCEL :: "('ast, 'expr) ext \<Rightarrow> string \<Rightarrow> 'ast res" where
  "ParseCEL X input = (case cel_Compile X input of None \<Rightarrow> Err ErrorCELParse | Some ast \<Rightarrow> Ok ast)"

definition Eval :: "('ast, 'expr) ext \<Rightarrow> 'ast \<Rightarrow> claims_map \<Rightarrow> gval res" where
  "Eval X ast inputEnv =
     (case cel_Program X ast of
        None \<Rightarrow> Err ErrorCELParse
      | Some prog \<Rightarrow> (case prog inputEnv of None \<Rightarrow> Err ErrorCELEval | Some val \<Rightarrow> Ok val))"

section \<open>Claim mappings and claim conditions\<close>

type_synonym 'ast ClaimsMapping = "(string \<times> 'ast) list"

text \<open>Apply a fallible function to every value of a map, stopping at the first failure.\<close>

definition map_values :: "('a \<Rightarrow> 'b res) \<Rightarrow> (string \<times> 'a) list \<Rightarrow> (string \<times> 'b) list res" where
  "map_values f m = traverse (\<lambda>(k, v). bindR (f v) (\<lambda>y. Ok (k, y))) m"

definition NewClaimsMapping :: "('ast, 'expr) ext \<Rightarrow> (string \<times> string) list \<Rightarrow> 'ast ClaimsMapping res" where
  "NewClaimsMapping X exprs = map_values (ParseCEL X) exprs"

definition ClaimsMapping_Repr :: "('ast, 'expr) ext \<Rightarrow> 'ast ClaimsMapping \<Rightarrow> (string \<times> string) list res" where
  "ClaimsMapping_Repr X c = map_values (cel_AstToString X) c"

text \<open>\<open>prototext.Marshal\<close> appends to a nil slice: the slice of an empty text is nil. A nil slice is read
  as the empty text.\<close>

definition slice_of :: "string \<Rightarrow> string option" where
  "slice_of b = (if b = [] then None else Some b)"

definition slice_text :: "string option \<Rightarrow> string" where
  "slice_text v = (case v of None \<Rightarrow> [] | Some b \<Rightarrow> b)"

definition ClaimsMapping_MarshalJSON :: "('ast, 'expr) ext \<Rightarrow> 'ast ClaimsMapping \<Rightarrow> string res" where
  "ClaimsMapping_MarshalJSON X c =
     bindR (map_values (\<lambda>v. bindR (bindR (cel_AstToCheckedExpr X v) (prototext_Marshal X)) (\<lambda>b. Ok (slice_of b))) c)
       (\<lambda>out. Ok (json_Marshal out))"

definition BuildClaimsMappingFromMap :: "('ast, 'expr) ext \<Rightarrow> (string \<times> 'expr) list \<Rightarrow> 'ast ClaimsMapping" where
  "BuildClaimsMappingFromMap X m = map (\<lambda>(k, v). (k, cel_CheckedExprToAst X v)) m"

definition ClaimsMapping_UnmarshalJSON :: "('ast, 'expr) ext \<Rightarrow> string \<Rightarrow> 'ast ClaimsMapping res" where
  "ClaimsMapping_UnmarshalJSON X data =
     bindR (json_Unmarshal data)
       (map_values (\<lambda>v. bindR (prototext_Unmarshal X (slice_text v)) (\<lambda>expr. Ok (cel_CheckedExprToAst X expr))))"

text \<open>The struct \<open>ClaimConditions\<close> has one field, the pointer \<open>ast\<close>.\<close>

type_synonym 'ast ClaimConditions = "'ast option"

definition NewClaimConditions :: "('ast, 'expr) ext \<Rightarrow> string \<Rightarrow> 'ast ClaimConditions res" where
  "NewClaimConditions X expr =
     (if expr = [] then Ok None
      else bindR (ParseCEL X expr) (\<lambda>ast.
        if cel_OutputTypeName X ast \<noteq> ''bool''
        then Err (ErrInvalidCEL (''expected bool output type, got '' @ cel_OutputTypeName X ast))
        else Ok (Some ast)))"

definition ClaimConditions_MarshalJSON :: "('ast, 'expr) ext \<Rightarrow> 'ast ClaimConditions \<Rightarrow> string res" where
  "ClaimConditions_MarshalJSON X c =
     (case c of
        None \<Rightarrow> Ok []
      | Some ast \<Rightarrow> bindR (cel_AstToCheckedExpr X ast) (prototext_Marshal X))"

definition ClaimConditions_UnmarshalJSON :: "('ast, 'expr) ext \<Rightarrow> string \<Rightarrow> 'ast ClaimConditions res" where
  "ClaimConditions_UnmarshalJSON X data =
     (if data = [] then Ok None
      else bindR (prototext_Unmarshal X data) (\<lambda>expr. Ok (Some (cel_CheckedExprToAst X expr))))"

section \<open>Issuers\<close>

record 'ast Issuer =
  iss_OwnerID :: string
  iss_ID :: string
  iss_Name :: string
  iss_URI :: string
  iss_JWKSURI :: string
  iss_ClaimMappings :: "'ast ClaimsMapping option"
  iss_ClaimConditions :: "'ast ClaimConditions option"

record 'ast IssuerUpdate =
  upd_Name :: "string option"
  upd_URI :: "string option"
  upd_JWKSURI :: "string option"
  upd_ClaimMappings :: "'ast ClaimsMapping option"
  upd_ClaimConditions :: "'ast ClaimConditions option"

record v1Issuer =
  v1i_ID :: string
  v1i_Name :: string
  v1i_URI :: string
  v1i_JWKSURI :: string
  v1i_ClaimMappings :: "(string \<times> string) list"
  v1i_ClaimConditions :: string

definition mapping_entries :: "'ast ClaimsMapping option \<Rightarrow> 'ast ClaimsMapping" where
  "mapping_entries m = (case m of None \<Rightarrow> [] | Some es \<Rightarrow> es)"

definition ToV1Issuer :: "('ast, 'expr) ext \<Rightarrow> 'ast Issuer \<Rightarrow> v1Issuer res" where
  "ToV1Issuer X i =
     bindR (ClaimsMapping_Repr X (mapping_entries (iss_ClaimMappings i))) (\<lambda>repr.
     bindR (case iss_ClaimConditions i of
              Some (Some ast) \<Rightarrow> cel_AstToString X ast
            | _ \<Rightarrow> Ok []) (\<lambda>cond.
     Ok \<lparr>v1i_ID = iss_ID i, v1i_Name = iss_Name i, v1i_URI = iss_URI i,
         v1i_JWKSURI = iss_JWKSURI i, v1i_ClaimMappings = repr, v1i_ClaimConditions = cond\<rparr>))"

definition ToV1Issuers :: "('ast, 'expr) ext \<Rightarrow> 'ast Issuer list \<Rightarrow> v1Issuer list res" where
  "ToV1Issuers X is = traverse (ToV1Issuer X) is"

section \<open>Users\<close>

record UserInfo =
  ui_ID :: string
  ui_Name :: string
  ui_Email :: string
  ui_Issuer :: string
  ui_Subject :: string

record v1User =
  v1u_ID :: string
  v1u_Name :: "string option"
  v1u_Email :: "string option"
  v1u_Issuer :: string
  v1u_Subject :: string

definition nonempty_ptr :: "string \<Rightarrow> string option" where
  "nonempty_ptr s = (if s \<noteq> [] then Some s else None)"

definition ToV1User :: "UserInfo \<Rightarrow> v1User res" where
  "ToV1User u =
     Ok \<lparr>v1u_ID = ui_ID u, v1u_Name = nonempty_ptr (ui_Name u), v1u_Email = nonempty_ptr (ui_Email u),
         v1u_Issuer = ui_Issuer u, v1u_Subject = ui_Subject u\<rparr>"

definition ToV1Users :: "UserInfo list \<Rightarrow> v1User list res" where
  "ToV1Users us = traverse ToV1User us"

section \<open>OAuth clients\<close>

record OAuthClient =
  oc_ID :: string
  oc_OwnerID :: string
  oc_Name :: string
  oc_Secret :: string
  oc_Audience :: "string list"

record v1OAuthClient =
  v1c_ID :: string
  v1c_Name :: string
  v1c_Audience :: "string list"
  v1c_Secret :: "string option"

definition GetAudience :: "OAuthClient \<Rightarrow> string list" where "GetAudience c = oc_Audience c"
definition GetHashedSecret :: "OAuthClient \<Rightarrow> string" where "GetHashedSecret c = oc_Secret c"
definition GetID :: "OAuthClient \<Rightarrow> string" where "GetID c = oc_ID c"
definition IsPublic :: "OAuthClient \<Rightarrow> bool" where "IsPublic c = False"

text \<open>Methods of \<open>fosite.Client\<close> that the grants of this service do not need.\<close>

definition GetGrantTypes :: "OAuthClient \<Rightarrow> string list res" where "GetGrantTypes c = Panic ''unimplemented''"
definition GetRedirectURIs :: "OAuthClient \<Rightarrow> string list res" where "GetRedirectURIs c = Panic ''unimplemented''"
definition GetResponseTypes :: "OAuthClient \<Rightarrow> string list res" where "GetResponseTypes c = Panic ''unimplemented''"
definition GetScopes :: "OAuthClient \<Rightarrow> string list res" where "GetScopes c = Panic ''unimplemented''"

definition ToV1OAuthClient :: "OAuthClient \<Rightarrow> v1OAuthClient" where
  "ToV1OAuthClient c =
     \<lparr>v1c_ID = oc_ID c, v1c_Name = oc_Name c, v1c_Audience = oc_Audience c, v1c_Secret = None\<rparr>"

definition ToV1OAuthClients :: "OAuthClient list \<Rightarrow> v1OAuthClient list res" where
  "ToV1OAuthClients cs = Ok (map ToV1OAuthClient cs)"

section \<open>Groups\<close>

record Group =
  g_ID :: string
  g_OwnerID :: string
  g_Name :: string
  g_Description :: string

record GroupUpdate =
  gu_Name :: "string option"
  gu_Description :: "string option"

record v1Group =
  v1g_ID :: string
  v1g_Name :: string
  v1g_OwnerID :: "string option"
  v1g_Description :: "string option"

definition ToV1Group :: "Group \<Rightarrow> v1Group res" where
  "ToV1Group g =
     Ok \<lparr>v1g_ID = g_ID g, v1g_Name = g_Name g, v1g_OwnerID = Some (g_OwnerID g),
         v1g_Description = nonempty_ptr (g_Description g)\<rparr>"

definition ToV1Groups :: "Group list \<Rightarrow> v1Group list res" where
  "ToV1Groups gs = traverse ToV1Group gs"

definition ToPrefixedIDs :: "Group list \<Rightarrow> string list" where
  "ToPrefixedIDs gs = map g_ID gs"

section \<open>Facts\<close>

text \<open>What the codec of CEL expressions promises of one expression.\<close>

definition codec_law :: "('ast, 'expr) ext \<Rightarrow> 'ast \<Rightarrow> bool" where
  "codec_law X a \<longleftrightarrow> (\<exists>e s. cel_AstToCheckedExpr X a = Ok e \<and> prototext_Marshal X e = Ok s \<and>
     prototext_Unmarshal X s = Ok e \<and> cel_CheckedExprToAst X e = a \<and> s \<noteq> [])"

lemma map_values_Ok_iff:
  "map_values f m = Ok m' \<longleftrightarrow> list_all2 (\<lambda>(k, v) (k', v'). k' = k \<and> f v = Ok v') m m'"
proof (induction m arbitrary: m')
  case Nil
  then show ?case by (auto simp: map_values_def)
next
  case (Cons kv m)
  then show ?case
    by (cases m'; cases kv) (auto simp: map_values_def)
qed

lemma map_values_map:
  assumes "\<forall>v \<in> snd ` set m. f v = Ok (g v)"
  shows "map_values f m = Ok (map (\<lambda>(k, v). (k, g v)) m)"
  using assms unfolding map_values_Ok_iff by (induction m) auto

lemma map_of_map_snd: "map_of (map (\<lambda>(k, v). (k, g v)) m) = map_option g \<circ> map_of m"
  by (induction m) (auto simp: fun_eq_iff)

text \<open>The text an expression is stored as.\<close>

definition encode_ast :: "('ast, 'expr) ext \<Rightarrow> 'ast \<Rightarrow> string" where
  "encode_ast X a = (case bindR (cel_AstToCheckedExpr X a) (prototext_Marshal X) of Ok s \<Rightarrow> s | _ \<Rightarrow> [])"

lemma encode_ast_codec:
  assumes "codec_law X a"
  shows "bindR (cel_AstToCheckedExpr X a) (prototext_Marshal X) = Ok (encode_ast X a)"
    and "bindR (prototext_Unmarshal X (encode_ast X a)) (\<lambda>e. Ok (cel_CheckedExprToAst X e)) = Ok a"
  using assms by (auto simp: codec_law_def encode_ast_def)

lemma map_values_inverse:
  assumes "distinct (map fst m)" and m: "map_of m = map_option g \<circ> map_of c"
    and inv: "\<forall>a \<in> snd ` set c. f (g a) = Ok a"
  shows "\<exists>c'. map_values f m = Ok c' \<and> distinct (map fst c') \<and> map_of c' = map_of c"
proof -
  define h where "h v = (case f v of Ok a \<Rightarrow> a | _ \<Rightarrow> undefined)" for v
  have val: "\<exists>a. map_of c k = Some a \<and> v = g a \<and> f v = Ok a" if "(k, v) \<in> set m" for k v
  proof -
    have "map_of m k = Some v" using that assms(1) by simp
    then obtain a where a: "map_of c k = Some a" "v = g a" unfolding m by auto
    then have "a \<in> snd ` set c" by (force dest: map_of_SomeD)
    with a inv show ?thesis by auto
  qed
  have "map_values f m = Ok (map (\<lambda>(k, v). (k, h v)) m)"
    by (rule map_values_map) (use val in \<open>force simp: h_def\<close>)
  moreover have "map_of (map (\<lambda>(k, v). (k, h v)) m) k = map_of c k" for k
  proof (cases "map_of m k")
    case (Some v)
    with val [OF map_of_SomeD] show ?thesis by (fastforce simp: map_of_map_snd h_def)
  qed (use m in \<open>auto simp: map_of_map_snd\<close>)
  moreover have "distinct (map fst (map (\<lambda>(k, v). (k, h v)) m))"
    using assms(1) by (simp add: comp_def case_prod_beta)
  ultimately show ?thesis by (auto simp: fun_eq_iff)
qed

text \<open>A mapping the codecs keep: each claim once, its name UTF-8, and the law for its expressions.\<close>

definition mapping_law :: "('ast, 'expr) ext \<Rightarrow> 'ast ClaimsMapping \<Rightarrow> bool" where
  "mapping_law X c \<longleftrightarrow> distinct (map fst c) \<and> (\<forall>k \<in> fst ` set c. ValidString k) \<and>
     (\<forall>a \<in> snd ` set c. codec_law X a)"

text \<open>
  A claims mapping that is written to the database and read back is the same mapping.
\<close>

lemma slice_text_of [simp]: "slice_text (slice_of b) = b"
  by (simp add: slice_of_def slice_text_def)

lemma json_Unmarshal_Marshal:
  assumes "distinct (map fst m)" "\<forall>k \<in> fst ` set m. ValidString k"
  obtains m' where "json_Unmarshal (json_Marshal m) = Ok m'" "distinct (map fst m')" "map_of m' = map_of m"
proof (rule that [OF json_round_trip [OF assms]])
  show "distinct (map fst (map (\<lambda>k. (k, the (map_of m k))) (sort (map fst m))))"
    using assms(1) by (simp add: comp_def)
  show "map_of (map (\<lambda>k. (k, the (map_of m k))) (sort (map fst m))) = map_of m"
    by (rule ext) (auto simp: map_of_map_restrict restrict_map_def weak_map_of_SomeI map_of_eq_None_iff
        intro: sym [OF iffD2 [OF map_of_eq_None_iff]] dest: weak_map_of_SomeI)
qed

lemma ClaimsMapping_round_trip:
  assumes "mapping_law X c"
  shows "\<exists>s c'. ClaimsMapping_MarshalJSON X c = Ok s \<and> ClaimsMapping_UnmarshalJSON X s = Ok c' \<and>
    distinct (map fst c') \<and> map_of c' = map_of c"
proof -
  let ?g = "\<lambda>a. slice_of (encode_ast X a)"
  let ?m = "map (\<lambda>(k, a). (k, ?g a)) c"
  have c: "distinct (map fst c)" "\<forall>k \<in> fst ` set c. ValidString k" and codec: "\<forall>a \<in> snd ` set c. codec_law X a"
    using assms by (simp_all add: mapping_law_def)
  have "map_values (\<lambda>v. bindR (bindR (cel_AstToCheckedExpr X v) (prototext_Marshal X)) (\<lambda>b. Ok (slice_of b))) c = Ok ?m"
    by (rule map_values_map, rule ballI, subst encode_ast_codec(1)) (use codec in auto)
  moreover have "distinct (map fst ?m)" "\<forall>k \<in> fst ` set ?m. ValidString k"
    using c by (auto simp: comp_def case_prod_beta)
  then obtain m' where s: "json_Unmarshal (json_Marshal ?m) = Ok m'" "distinct (map fst m')" "map_of m' = map_of ?m"
    by (rule json_Unmarshal_Marshal)
  moreover have inv: "\<forall>a \<in> snd ` set c. bindR (prototext_Unmarshal X (slice_text (?g a)))
      (\<lambda>e. Ok (cel_CheckedExprToAst X e)) = Ok a"
    unfolding slice_text_of by (rule ballI, rule encode_ast_codec(2) [OF codec [rule_format]])
  obtain c' where "map_values (\<lambda>v. bindR (prototext_Unmarshal X (slice_text v))
      (\<lambda>e. Ok (cel_CheckedExprToAst X e))) m' = Ok c'" "distinct (map fst c')" "map_of c' = map_of c"
    using map_values_inverse [OF s(2) s(3) [unfolded map_of_map_snd] inv] by blast
  ultimately show ?thesis
    by (simp add: ClaimsMapping_MarshalJSON_def ClaimsMapping_UnmarshalJSON_def)
qed

lemma ClaimConditions_round_trip:
  assumes "\<forall>a. c = Some a \<longrightarrow> codec_law X a"
  shows "\<exists>s. ClaimConditions_MarshalJSON X c = Ok s \<and> ClaimConditions_UnmarshalJSON X s = Ok c"
  using assms
  by (cases c) (auto simp: ClaimConditions_MarshalJSON_def ClaimConditions_UnmarshalJSON_def codec_law_def)

text \<open>The API's client never carries a secret out of the conversion.\<close>

lemma ToV1OAuthClient_no_secret: "v1c_Secret (ToV1OAuthClient c) = None"
  by (simp add: ToV1OAuthClient_def)

lemma NewClaimConditions_bool:
  "NewClaimConditions X expr = Ok (Some ast) \<Longrightarrow> cel_OutputTypeName X ast = ''bool''"
  by (auto simp: NewClaimConditions_def split: if_splits)

end
