(* ===== verification/Samples.thy ===== *)
theory Samples
  imports Types
begin

text \<open>
  A concrete instance of the libraries and concrete worlds, on which the witnesses of the properties
  are evaluated: every ID but the empty one is valid, expressions are their own text, only the actor
  \<open>alice\<close> is granted access, every message to the permissions API is accepted.
\<close>

definition ext0 :: "(string, string) ext" where
  "ext0 =
    \<lparr>gidx_Parse = (\<lambda>s. if s = [] then Err (LibError ''invalid id'') else Ok s),
     gidx_NewID = (\<lambda>p n. Ok (p @ ''-'' @ show_nat n)),
     cel_Compile = (\<lambda>s. if s = [] then None else Some s),
     cel_OutputTypeName = (\<lambda>_. ''bool''),
     cel_AstToString = Ok,
     cel_AstToCheckedExpr = Ok,
     cel_CheckedExprToAst = (\<lambda>e. e),
     cel_Program = (\<lambda>a. Some (\<lambda>_. Some (VBool True))),
     prototext_Marshal = (\<lambda>e. Ok (CHR ''p'' # e)),
     prototext_Unmarshal = (\<lambda>s. case s of [] \<Rightarrow> Err (LibError ''unexpected end'') | _ # e \<Rightarrow> Ok e),
     permissions_CheckAccess = (\<lambda>actor res act. if actor = ''alice'' then None else Some ErrPermissionDenied),
     permissions_Publish = (\<lambda>n m. None),
     echo_ErrorStatus = (\<lambda>e. case e of HTTPError code _ \<Rightarrow> code | _ \<Rightarrow> 500),
     hasher_Hash = (\<lambda>n s. Ok (''hashed:'' @ s)),
     randx_RuneSequence = (\<lambda>n k. Ok (replicate (nat k) (CHR ''x'')))\<rparr>"

text \<open>A world that holds the tables \<open>t\<close>, and one in which a transaction on them has begun.\<close>

definition world_of :: "tables \<Rightarrow> world" where
  "world_of t =
    \<lparr>committed = t, history = (\<lambda>_. t), txs = [], faults = (\<lambda>_. None), rowcut = (\<lambda>_. None),
     upsert_strict = False, ticks = 0, published = [], reply = None, resp_body = []\<rparr>"

definition tx_world :: "tables \<Rightarrow> world" where
  "tx_world t = (world_of t)\<lparr>txs := [TxOpen t t]\<rparr>"

definition ctx0 :: ctx where
  "ctx0 = \<lparr>ctx_tx = CtxNil, ctx_aost = AostNil, ctx_actor = ''alice''\<rparr>"

definition tx_ctx :: ctx where
  "tx_ctx = ctx0\<lparr>ctx_tx := CtxTx 0\<rparr>"

definition group1 :: group_row where
  "group1 = \<lparr>gr_id = ''idntgrp-1'', gr_owner_id = ''tnnt-1'', gr_name = ''admins'', gr_description = []\<rparr>"

definition group2 :: group_row where
  "group2 = \<lparr>gr_id = ''idntgrp-2'', gr_owner_id = ''tnnt-1'', gr_name = ''devs'', gr_description = ''developers''\<rparr>"

definition issuer1 :: issuer_row where
  "issuer1 = \<lparr>ir_owner_id = ''tnnt-1'', ir_id = ''idntiss-1'', ir_name = ''example'', ir_uri = ''https://iss'',
              ir_jwksuri = ''https://iss/jwks'', ir_mappings = None, ir_conditions = None\<rparr>"

definition user1 :: user_row where
  "user1 = \<lparr>ur_id = ''idntusr-1'', ur_name = ''Ann'', ur_email = ''ann@iss'', ur_sub = ''ann'', ur_iss_id = ''idntiss-1''\<rparr>"

definition tables1 :: tables where
  "tables1 =
    \<lparr>issuers = [issuer1], user_info = [user1], oauth_clients = [], groups = [group2, group1],
     group_members = [\<lparr>mr_group_id = ''idntgrp-1'', mr_subject_id = ''idntusr-1''\<rparr>]\<rparr>"

lemma running_sample: "running tx_ctx (tx_world t) t"
  by (simp add: running_def healthy_def tx_view_def tx_lookup_def tx_ctx_def ctx0_def tx_world_def world_of_def)

lemma schema_tables1: "schema_ok tables1"
  by (simp add: schema_ok_def keys_ok_def refs_ok_def tables1_def issuer1_def user1_def group1_def group2_def)

lemma healthy_sample: "healthy (world_of t)" "healthy (tx_world t)"
  by (simp_all add: healthy_def world_of_def tx_world_def)

lemma world_of_fields [simp]:
  "committed (world_of t) = t" "committed (tx_world t) = t" "upsert_strict (tx_world t) = False"
  "faults (world_of t) = (\<lambda>_. None)" "ticks (world_of t) = 0" "ticks (tx_world t) = 0" "reply (world_of t) = None"
  "history (world_of t) = (\<lambda>_. t)"
  by (simp_all add: world_of_def tx_world_def)

lemma codec_sample: "codec_law ext0 a"
  by (simp add: codec_law_def ext0_def)

lemma mapping_sample: "mapping_law ext0 [(''sub'', ''claims.sub'')]"
proof -
  have "ValidString ''sub''" by (simp add: DecodeRune_ascii RuneError_def)
  then show ?thesis by (simp add: mapping_law_def codec_sample)
qed

lemma mapping_sample_Nil: "mapping_law ext0 []"
  by (simp add: mapping_law_def)

end
