(* ===== verification/GroupStore.thy ===== *)
theory GroupStore
  imports Samples
begin

text \<open>
  The group service, \<open>src/internal/storage/groups.go\<close>, with \<open>Diff\<close> of \<open>storage/helpers.go\<close>: one
  definition per method of \<open>*groupService\<close>, over the SQL statements it runs.

  Groups live in table \<open>groups\<close>, memberships in \<open>group_members\<close>. Reads of one group go through
  the context's transaction if there is one; the listings, \<open>GroupMembersCount\<close> and the listing
  inside \<open>ReplaceGroupMembers\<close> go to the database directly and do not see its writes.

  The locale \<open>member_store\<close> states what a store of memberships promises; its instance on the
  tables gives the correctness of the replacement of all members of a group.
\<close>

section \<open>Difference of two lists\<close>

definition Diff :: "'a list \<Rightarrow> 'a list \<Rightarrow> ('a \<Rightarrow> 'v) \<Rightarrow> 'a list \<times> 'a list" where
  "Diff current incoming val =
    (let curr = set (map val current);
         inc = set (map val incoming);
         rm = filter (\<lambda>c. val c \<notin> inc) current;
         add = filter (\<lambda>i. val i \<notin> curr) incoming
     in (add, rm))"

section \<open>Statements\<close>

definition group_of_row :: "group_row \<Rightarrow> Group" where
  "group_of_row r = \<lparr>g_ID = gr_id r, g_OwnerID = gr_owner_id r, g_Name = gr_name r,
                     g_Description = gr_description r\<rparr>"

definition row_of_group :: "Group \<Rightarrow> group_row" where
  "row_of_group g = \<lparr>gr_id = g_ID g, gr_owner_id = g_OwnerID g, gr_name = g_Name g,
                     gr_description = g_Description g\<rparr>"

text \<open>\<open>INSERT INTO groups\<close>, \<open>SELECT ... WHERE id = $1\<close>, \<open>UPDATE groups SET (name, description)\<close>,
  \<open>DELETE FROM groups WHERE id = $1\<close>.\<close>

definition insert_group :: "group_row \<Rightarrow> tables \<Rightarrow> tables" where
  "insert_group r t = t\<lparr>groups := groups t @ [r]\<rparr>"

definition select_group :: "string \<Rightarrow> tables \<Rightarrow> group_row list" where
  "select_group gid t = filter (\<lambda>r. gr_id r = gid) (groups t)"

definition update_group :: "string \<Rightarrow> string \<Rightarrow> string \<Rightarrow> tables \<Rightarrow> tables" where
  "update_group name desc gid t =
     t\<lparr>groups := map (\<lambda>r. if gr_id r = gid then r\<lparr>gr_name := name, gr_description := desc\<rparr> else r) (groups t)\<rparr>"

definition delete_group :: "string \<Rightarrow> tables \<Rightarrow> tables" where
  "delete_group gid t = t\<lparr>groups := filter (\<lambda>r. gr_id r \<noteq> gid) (groups t)\<rparr>"

text \<open>\<open>UPSERT INTO group_members\<close>, the two \<open>DELETE FROM group_members\<close>, and the \<open>SELECT\<close>s.\<close>

fun upsert_members :: "string \<Rightarrow> string list \<Rightarrow> tables \<Rightarrow> tables" where
  "upsert_members gid [] t = t"
| "upsert_members gid (s # ss) t =
    (let r = \<lparr>mr_group_id = gid, mr_subject_id = s\<rparr> in
     upsert_members gid ss
       (if r \<in> set (group_members t) then t else t\<lparr>group_members := group_members t @ [r]\<rparr>))"

definition delete_member :: "string \<Rightarrow> string \<Rightarrow> tables \<Rightarrow> tables \<times> nat" where
  "delete_member gid s t =
    (let hit = (\<lambda>m. mr_group_id m = gid \<and> mr_subject_id m = s) in
     (t\<lparr>group_members := filter (\<lambda>m. \<not> hit m) (group_members t)\<rparr>,
      length (filter hit (group_members t))))"

definition delete_members :: "string \<Rightarrow> string list \<Rightarrow> tables \<Rightarrow> tables" where
  "delete_members gid ss t =
     t\<lparr>group_members := filter (\<lambda>m. \<not> (mr_group_id m = gid \<and> mr_subject_id m \<in> set ss)) (group_members t)\<rparr>"

definition select_members :: "string \<Rightarrow> tables \<Rightarrow> member_row list" where
  "select_members gid t = filter (\<lambda>m. mr_group_id m = gid) (group_members t)"

definition group_col :: "group_row \<Rightarrow> string \<Rightarrow> string" where
  "group_col r f =
     (if f = ''id'' then gr_id r else if f = ''owner_id'' then gr_owner_id r
      else if f = ''name'' then gr_name r else gr_description r)"

definition groupCols :: "string list" where
  "groupCols = [''id'', ''owner_id'', ''name'', ''description'']"

definition member_col :: "member_row \<Rightarrow> string \<Rightarrow> string" where
  "member_col m f = (if f = ''group_id'' then mr_group_id m else mr_subject_id m)"

definition groupMemberCols :: "string list" where
  "groupMemberCols = [''group_id'', ''subject_id'']"

text \<open>
  \<open>SELECT DISTINCT(group_members.group_id), groups.name, ... FROM group_members LEFT JOIN groups
  ON groups.id = group_members.group_id WHERE group_members.subject_id = $1\<close>: a membership whose
  grp is missing comes with nulls.
\<close>

definition select_subject_groups :: "string \<Rightarrow> tables \<Rightarrow> (string \<times> group_row option) list" where
  "select_subject_groups s t =
     remdups (map (\<lambda>m. (mr_group_id m, find (\<lambda>g. gr_id g = mr_group_id m) (groups t)))
       (filter (\<lambda>m. mr_subject_id m = s) (group_members t)))"

definition subject_group_col :: "string \<times> group_row option \<Rightarrow> string \<Rightarrow> string" where
  "subject_group_col r f =
     (if f = ''group_id'' then fst r else case snd r of None \<Rightarrow> [] | Some g \<Rightarrow> group_col g f)"

definition subjectGroupCols :: "string list" where
  "subjectGroupCols = [''group_id'', ''name'', ''description'', ''owner_id'']"

section \<open>Operations\<close>

definition insertGroup :: "ctx \<Rightarrow> Group \<Rightarrow> unit dbio" where
  "insertGroup c grp =
     bindE (getContextTx c) (\<lambda>tx.
       if g_Name grp = [] then fail ErrGroupNameEmpty
       else tx_exec tx (\<lambda>t. (insert_group (row_of_group grp) t, ())))"

definition scanGroup :: "group_row list \<Rightarrow> Group dbio" where
  "scanGroup rows =
     tryE (scan_row rows)
       (\<lambda>err. if errors_Is err SqlErrNoRows then fail ErrGroupNotFound else fail err)
       (\<lambda>r. ret (group_of_row r))"

definition fetchGroupByID :: "ctx \<Rightarrow> string \<Rightarrow> Group dbio" where
  "fetchGroupByID c gid = bindE (ctx_query c (select_group gid)) scanGroup"

definition CreateGroup :: "ctx \<Rightarrow> Group \<Rightarrow> Group dbio" where
  "CreateGroup c grp =
     tryE (insertGroup c grp)
       (\<lambda>err. if isPQDuplicateKeyError err then fail ErrGroupExists else fail err)
       (\<lambda>_. fetchGroupByID c (g_ID grp))"

definition GetGroupByID :: "ctx \<Rightarrow> string \<Rightarrow> Group dbio" where
  "GetGroupByID c gid = fetchGroupByID c gid"

definition ListGroupsByOwner :: "ctx \<Rightarrow> string \<Rightarrow> paginator \<Rightarrow> Group list dbio" where
  "ListGroupsByOwner c ownerID pagination =
    (let paginate = Paginate pagination (ContextAsOfSystemTime (ctx_aost c) (AostString ''-1m''))
     in bindE (page_query paginate groupCols group_col
                 (\<lambda>t. filter (\<lambda>r. gr_owner_id r = ownerID) (groups t)))
          (\<lambda>rows. ret (map group_of_row rows)))"

definition UpdateGroup :: "ctx \<Rightarrow> string \<Rightarrow> GroupUpdate \<Rightarrow> Group dbio" where
  "UpdateGroup c gid updates =
     bindE (getContextTx c) (\<lambda>tx.
     bindE (fetchGroupByID c gid) (\<lambda>current.
       let incoming = (case gu_Name updates of
                         Some n \<Rightarrow> if n \<noteq> [] then current\<lparr>g_Name := n\<rparr> else current
                       | None \<Rightarrow> current);
           incoming = (case gu_Description updates of
                         Some d \<Rightarrow> incoming\<lparr>g_Description := d\<rparr>
                       | None \<Rightarrow> incoming)
       in tryE (tx_exec tx (\<lambda>t. (update_group (g_Name incoming) (g_Description incoming) (g_ID incoming) t, ())))
            (\<lambda>err. if isPQDuplicateKeyError err then fail ErrGroupExists else fail err)
            (\<lambda>_. ret incoming)))"

definition DeleteGroup :: "ctx \<Rightarrow> string \<Rightarrow> unit dbio" where
  "DeleteGroup c gid =
     bindE (getContextTx c) (\<lambda>tx.
     bindE (fetchGroupByID c gid) (\<lambda>_.
       tx_exec tx (\<lambda>t. (delete_group gid t, ()))))"

definition AddGroupMembers :: "ctx \<Rightarrow> string \<Rightarrow> string list \<Rightarrow> unit dbio" where
  "AddGroupMembers c groupID subjects =
     (if subjects = [] then ret ()
      else bindE (getContextTx c) (\<lambda>tx.
           bindE (fetchGroupByID c groupID) (\<lambda>_.
             tx_exec_check tx (\<lambda>w. if upsert_strict w \<and> \<not> distinct subjects then Some ''21000'' else None)
               (\<lambda>t. (upsert_members groupID subjects t, ())))))"

definition ListGroupMembers :: "ctx \<Rightarrow> string \<Rightarrow> paginator option \<Rightarrow> string list dbio" where
  "ListGroupMembers c groupID pagination =
     bindE (fetchGroupByID c groupID) (\<lambda>_.
     bindE (case pagination of
              Some p \<Rightarrow>
                (let paginate = Paginate p (ContextAsOfSystemTime (ctx_aost c) (AostString ''-1m''))
                 in page_query paginate groupMemberCols member_col (select_members groupID))
            | None \<Rightarrow> db_query_rows [] (select_members groupID)) (\<lambda>rows.
     ret (map mr_subject_id rows)))"

definition RemoveGroupMember :: "ctx \<Rightarrow> string \<Rightarrow> string \<Rightarrow> unit dbio" where
  "RemoveGroupMember c groupID subject =
     bindE (getContextTx c) (\<lambda>tx.
     bindE (fetchGroupByID c groupID) (\<lambda>_.
     bindE (tx_exec tx (delete_member groupID subject)) (\<lambda>rowsAffected.
       if rowsAffected = 0 then fail ErrGroupMemberNotFound else ret ())))"

definition ReplaceGroupMembers :: "ctx \<Rightarrow> string \<Rightarrow> string list \<Rightarrow> (string list \<times> string list) dbio" where
  "ReplaceGroupMembers c groupID incoming =
     bindE (getContextTx c) (\<lambda>tx.
     bindE (ListGroupMembers c groupID None) (\<lambda>current.
       let (add, rm) = Diff current incoming (\<lambda>x. x) in
       bindE (tx_exec tx (\<lambda>t. (delete_members groupID rm t, ()))) (\<lambda>_.
       bindE (AddGroupMembers c groupID add) (\<lambda>_.
       ret (add, rm)))))"

definition ListGroupsBySubject :: "ctx \<Rightarrow> string \<Rightarrow> paginator \<Rightarrow> Group list dbio" where
  "ListGroupsBySubject c subject pagination =
    (let paginate = Paginate pagination (ContextAsOfSystemTime (ctx_aost c) (AostString ''-1m''))
     in bindE (page_query paginate subjectGroupCols subject_group_col (select_subject_groups subject))
          (\<lambda>rows. lift (traverse (\<lambda>(gid, g). case g of
              None \<Rightarrow> Err ErrScanNull
            | Some r \<Rightarrow> Ok \<lparr>g_ID = gid, g_OwnerID = gr_owner_id r, g_Name = gr_name r,
                           g_Description = gr_description r\<rparr>) rows)))"

definition GroupMembersCount :: "ctx \<Rightarrow> string \<Rightarrow> nat dbio" where
  "GroupMembersCount c groupID = db_query [] (\<lambda>t. length (select_members groupID t))"

section \<open>Frames\<close>

lemma fetchGroupByID_frames [frame_rules]:
  "frame (evolve o') (fetchGroupByID c gid)" "frame silent (fetchGroupByID c gid)"
  unfolding fetchGroupByID_def scanGroup_def by (intro frame_rules)+

lemma read_frames [frame_rules]:
  "frame (evolve o') (GetGroupByID c gid)" "frame silent (GetGroupByID c gid)"
  "frame (evolve o') (ListGroupsByOwner c gid p)" "frame silent (ListGroupsByOwner c gid p)"
  "frame (evolve o') (ListGroupMembers c gid q)" "frame silent (ListGroupMembers c gid q)"
  "frame (evolve o') (ListGroupsBySubject c gid p)" "frame silent (ListGroupsBySubject c gid p)"
  "frame (evolve o') (GroupMembersCount c gid)" "frame silent (GroupMembersCount c gid)"
  unfolding GetGroupByID_def ListGroupsByOwner_def ListGroupMembers_def ListGroupsBySubject_def
    GroupMembersCount_def
  by (intro frame_rules)+

lemma insertGroup_frames [frame_rules]:
  "frame (evolve (ctx_id c)) (insertGroup c g)" "frame silent (insertGroup c g)"
  unfolding insertGroup_def by (intro with_tx_evolve frame_rules)+

lemma AddGroupMembers_evolve [frame_rules]: "frame (evolve (ctx_id c)) (AddGroupMembers c gid ss)"
  unfolding AddGroupMembers_def
  by (rule ev.if_frame, rule ev.ret_frame) (intro with_tx_evolve frame_rules)

lemma AddGroupMembers_silent [frame_rules]: "frame silent (AddGroupMembers c gid ss)"
  unfolding AddGroupMembers_def by (intro frame_rules)

lemma write_frames [frame_rules]:
  "frame (evolve (ctx_id c)) (CreateGroup c g)" "frame silent (CreateGroup c g)"
  "frame (evolve (ctx_id c)) (UpdateGroup c gid u)" "frame silent (UpdateGroup c gid u)"
  "frame (evolve (ctx_id c)) (DeleteGroup c gid)" "frame silent (DeleteGroup c gid)"
  "frame (evolve (ctx_id c)) (RemoveGroupMember c gid s)" "frame silent (RemoveGroupMember c gid s)"
  unfolding CreateGroup_def UpdateGroup_def DeleteGroup_def RemoveGroupMember_def
  by (intro with_tx_evolve frame_rules)+

lemma ReplaceGroupMembers_evolve [frame_rules]: "frame (evolve (ctx_id c)) (ReplaceGroupMembers c gid ss)"
  unfolding ReplaceGroupMembers_def
proof (rule with_tx_evolve)
  fix i assume i: "ctx_tx c = CtxTx i"
  have id: "evolve (Some i) = evolve (ctx_id c)" using i by (simp add: ctx_id_def)
  show "frame (evolve (Some i)) (bindE (ListGroupMembers c gid None) (\<lambda>current.
     let (add, rm) = Diff current ss (\<lambda>x. x)
     in bindE (tx_exec i (\<lambda>t. (delete_members gid rm t, ())))
          (\<lambda>_. bindE (AddGroupMembers c gid add) (\<lambda>_. ret (add, rm)))))"
    unfolding Let_def
    by (intro ev.bindE_frame ev.prod_frame ev.ret_frame read_frames tx_exec_evolve)
      (simp add: id AddGroupMembers_evolve)
qed

lemma ReplaceGroupMembers_silent [frame_rules]: "frame silent (ReplaceGroupMembers c gid ss)"
  unfolding ReplaceGroupMembers_def Let_def
  by (intro si.bindE_frame si.prod_frame frame_rules)

section \<open>Memberships\<close>

text \<open>The abstract state of \<open>group_members\<close>: the members of each group.\<close>

definition members :: "tables \<Rightarrow> string \<Rightarrow> string set" where
  "members t gid = mr_subject_id ` {m \<in> set (group_members t). mr_group_id m = gid}"

lemma member_row_in:
  "\<lparr>mr_group_id = g, mr_subject_id = s\<rparr> \<in> set ms \<longleftrightarrow>
   (g, s) \<in> (\<lambda>m. (mr_group_id m, mr_subject_id m)) ` set ms"
proof
  assume "\<lparr>mr_group_id = g, mr_subject_id = s\<rparr> \<in> set ms"
  then show "(g, s) \<in> (\<lambda>m. (mr_group_id m, mr_subject_id m)) ` set ms"
    by (rule rev_image_eqI) simp
next
  assume "(g, s) \<in> (\<lambda>m. (mr_group_id m, mr_subject_id m)) ` set ms"
  then obtain x where x: "x \<in> set ms" "g = mr_group_id x" "s = mr_subject_id x" by auto
  from x(2,3) have "\<lparr>mr_group_id = g, mr_subject_id = s\<rparr> = x" by simp
  with x(1) show "\<lparr>mr_group_id = g, mr_subject_id = s\<rparr> \<in> set ms" by simp
qed

lemma members_iff: "s \<in> members t gid \<longleftrightarrow> \<lparr>mr_group_id = gid, mr_subject_id = s\<rparr> \<in> set (group_members t)"
  unfolding member_row_in by (auto simp: members_def)

lemma Diff_sets:
  assumes "Diff cur inc (\<lambda>x. x) = (add, rm)"
  shows "set add = set inc - set cur" and "set rm = set cur - set inc"
  using assms by (auto simp: Diff_def Let_def)

text \<open>What a store of memberships promises, and what replacing all members of a group does.\<close>

locale member_store =
  fixes mem :: "'s \<Rightarrow> 'g \<Rightarrow> 'm set"
    and add :: "'g \<Rightarrow> 'm list \<Rightarrow> 's \<Rightarrow> 's"
    and del :: "'g \<Rightarrow> 'm list \<Rightarrow> 's \<Rightarrow> 's"
  assumes mem_add: "mem (add g ms s) = (mem s)(g := mem s g \<union> set ms)"
    and mem_del: "mem (del g ms s) = (mem s)(g := mem s g - set ms)"
begin

lemma replace_by_diff:
  assumes "mem s g = set cur" and "Diff cur inc (\<lambda>x. x) = (a, r)"
  shows "mem (add g a (del g r s)) = (mem s)(g := set inc)"
  using assms(1) Diff_sets [OF assms(2)] by (auto simp: mem_add mem_del fun_eq_iff)

lemma add_again: "set ms \<subseteq> mem s g \<Longrightarrow> mem (add g ms s) = mem s"
  by (auto simp: mem_add fun_eq_iff)

lemma del_after_add: "mem s g \<inter> set ms = {} \<Longrightarrow> mem (del g ms (add g ms s)) = mem s"
  by (auto simp: mem_add mem_del fun_eq_iff)

end

lemma members_upsert: "members (upsert_members gid ss t) = (members t)(gid := members t gid \<union> set ss)"
proof (induction gid ss t rule: upsert_members.induct)
  case (2 gid s ss t)
  have "s' \<in> members (t\<lparr>group_members := group_members t @ [\<lparr>mr_group_id = gid, mr_subject_id = s\<rparr>]\<rparr>) g \<longleftrightarrow>
      s' \<in> members t g \<or> g = gid \<and> s' = s" for s' g
    by (auto simp: members_iff)
  with 2 show ?case by (auto simp: Let_def fun_eq_iff members_iff [symmetric])
qed auto

lemma members_delete: "members (delete_members gid ss t) = (members t)(gid := members t gid - set ss)"
  by (auto simp: members_iff delete_members_def fun_eq_iff)

interpretation gm: member_store members upsert_members delete_members
  by unfold_locales (rule members_upsert, rule members_delete)

lemma members_select: "set (map mr_subject_id (select_members gid t)) = members t gid"
  by (simp add: select_members_def members_def)

text \<open>The statements on memberships leave the other tables alone and keep the schema.\<close>

lemma upsert_members_frame:
  "groups (upsert_members gid ss t) = groups t" "issuers (upsert_members gid ss t) = issuers t"
  "user_info (upsert_members gid ss t) = user_info t"
  "oauth_clients (upsert_members gid ss t) = oauth_clients t"
  by (induction gid ss t rule: upsert_members.induct) (simp_all add: Let_def)

lemma schema_ok_add_member:
  assumes "schema_ok t" and "gid \<in> set (map gr_id (groups t))"
    and "\<lparr>mr_group_id = gid, mr_subject_id = s\<rparr> \<notin> set (group_members t)"
  shows "schema_ok (t\<lparr>group_members := group_members t @ [\<lparr>mr_group_id = gid, mr_subject_id = s\<rparr>]\<rparr>)"
proof -
  have "(gid, s) \<notin> set (map (\<lambda>m. (mr_group_id m, mr_subject_id m)) (group_members t))"
    using assms(3) by (simp add: member_row_in)
  then show ?thesis using assms(1,2) by (auto simp: schema_ok_def keys_ok_def refs_ok_def)
qed

lemma upsert_members_schema:
  "schema_ok t \<Longrightarrow> gid \<in> set (map gr_id (groups t)) \<Longrightarrow> schema_ok (upsert_members gid ss t)"
proof (induction gid ss t rule: upsert_members.induct)
  case (2 gid s ss t)
  then show ?case
    using schema_ok_add_member [of t gid s] by (auto simp: Let_def)
qed simp

lemma delete_members_schema: "schema_ok t \<Longrightarrow> schema_ok (delete_members gid ss t)"
  by (auto simp: schema_ok_def keys_ok_def refs_ok_def delete_members_def distinct_map_filter list_all_iff)

lemma delete_member_schema: "schema_ok t \<Longrightarrow> schema_ok (fst (delete_member gid s t))"
  by (auto simp: schema_ok_def keys_ok_def refs_ok_def delete_member_def Let_def distinct_map_filter list_all_iff)

lemma select_group_cases:
  assumes "schema_ok t"
  shows "select_group gid t = [] \<and> gid \<notin> set (map gr_id (groups t)) \<or>
    (\<exists>r. select_group gid t = [r] \<and> r \<in> set (groups t) \<and> gr_id r = gid)"
proof (cases "gid \<in> set (map gr_id (groups t))")
  case False
  then show ?thesis by (auto simp: select_group_def filter_empty_conv)
next
  case True
  then obtain r where r: "r \<in> set (groups t)" "gr_id r = gid" by auto
  moreover have "distinct (map gr_id (groups t))" using assms by (simp add: schema_ok_def keys_ok_def)
  ultimately show ?thesis using filter_unique [of gr_id "groups t" r] by (simp add: select_group_def)
qed

section \<open>What the operations do\<close>

lemma group_row_round [simp]: "group_of_row (row_of_group g) = g" "row_of_group (group_of_row r) = r"
  by (simp_all add: group_of_row_def row_of_group_def)

lemma row_of_group_sel [simp]:
  "gr_id (row_of_group g) = g_ID g" "gr_owner_id (row_of_group g) = g_OwnerID g"
  "gr_name (row_of_group g) = g_Name g" "gr_description (row_of_group g) = g_Description g"
  by (simp_all add: row_of_group_def)

lemma group_of_row_sel [simp]:
  "g_ID (group_of_row r) = gr_id r" "g_OwnerID (group_of_row r) = gr_owner_id r"
  "g_Name (group_of_row r) = gr_name r" "g_Description (group_of_row r) = gr_description r"
  by (simp_all add: group_of_row_def)

lemma fetchGroupByID_running [db_simps]:
  "running c w t \<Longrightarrow> fetchGroupByID c gid w =
     (case select_group gid t of [] \<Rightarrow> (Err ErrGroupNotFound, tick w)
      | r # _ \<Rightarrow> (Ok (group_of_row r), tick w))"
  by (auto simp: fetchGroupByID_def scanGroup_def scan_row_def go_simps db_simps split: list.splits)

definition group_conflict :: "Group \<Rightarrow> tables \<Rightarrow> bool" where
  "group_conflict g t \<longleftrightarrow> (\<exists>r \<in> set (groups t). gr_id r = g_ID g \<or>
     gr_owner_id r = g_OwnerID g \<and> gr_name r = g_Name g)"

lemma insert_group_violation:
  assumes "schema_ok t"
  shows "schema_violation (insert_group (row_of_group g) t) =
    (if group_conflict g t then Some pqErrDuplicateKey else None)"
proof -
  have "keys_ok (insert_group (row_of_group g) t) \<longleftrightarrow> \<not> group_conflict g t"
    using assms
    by (auto simp: keys_ok_def schema_ok_def insert_group_def group_conflict_def image_iff)
  moreover have "refs_ok (insert_group (row_of_group g) t)"
    using assms by (auto simp: refs_ok_def schema_ok_def insert_group_def list_all_iff)
  ultimately show ?thesis by (simp add: schema_violation_def)
qed

lemma select_inserted:
  "\<not> group_conflict g t \<Longrightarrow> select_group (g_ID g) (insert_group (row_of_group g) t) = [row_of_group g]"
  by (auto simp: select_group_def insert_group_def group_conflict_def filter_empty_conv)

text \<open>Creating a group: the three outcomes, and what the transaction holds afterwards.\<close>

lemma CreateGroup_running:
  assumes run: "running c w t" and ok: "schema_ok t"
  shows "CreateGroup c g w =
    (if g_Name g = [] then (Err ErrGroupNameEmpty, w)
     else if group_conflict g t then (Err ErrGroupExists, tick w)
     else (Ok g, tick (put_view c (insert_group (row_of_group g) t) (tick w))))"
proof -
  have "fetchGroupByID c (g_ID g) (put_view c (insert_group (row_of_group g) t) (tick w)) =
      (Ok g, tick (put_view c (insert_group (row_of_group g) t) (tick w)))" if "\<not> group_conflict g t"
    using run that by (simp add: fetchGroupByID_running [where t = "insert_group (row_of_group g) t"] select_inserted)
  with run show ?thesis
    by (auto simp: CreateGroup_def insertGroup_def go_simps db_simps insert_group_violation [OF ok]
        isPQDuplicateKeyError_def)
qed

text \<open>The group an update asks for.\<close>

definition updated_group :: "GroupUpdate \<Rightarrow> Group \<Rightarrow> Group" where
  "updated_group u g =
     g\<lparr>g_Name := (case gu_Name u of Some n \<Rightarrow> if n \<noteq> [] then n else g_Name g | None \<Rightarrow> g_Name g),
       g_Description := (case gu_Description u of Some d \<Rightarrow> d | None \<Rightarrow> g_Description g)\<rparr>"

lemma updated_group_sel [simp]:
  "g_ID (updated_group u g) = g_ID g" "g_OwnerID (updated_group u g) = g_OwnerID g"
  by (simp_all add: updated_group_def)

lemma UpdateGroup_alt:
  "UpdateGroup c gid u =
     bindE (getContextTx c) (\<lambda>tx.
     bindE (fetchGroupByID c gid) (\<lambda>cur.
       tryE (tx_exec tx (\<lambda>t. (update_group (g_Name (updated_group u cur))
                (g_Description (updated_group u cur)) (g_ID cur) t, ())))
            (\<lambda>err. if isPQDuplicateKeyError err then fail ErrGroupExists else fail err)
            (\<lambda>_. ret (updated_group u cur))))"
proof -
  have "(case gu_Description u of
           Some d \<Rightarrow> (case gu_Name u of Some n \<Rightarrow> if n \<noteq> [] then cur\<lparr>g_Name := n\<rparr> else cur | None \<Rightarrow> cur)\<lparr>g_Description := d\<rparr>
         | None \<Rightarrow> (case gu_Name u of Some n \<Rightarrow> if n \<noteq> [] then cur\<lparr>g_Name := n\<rparr> else cur | None \<Rightarrow> cur))
      = updated_group u cur" for cur
    by (simp add: updated_group_def split: option.splits)
  then show ?thesis unfolding UpdateGroup_def Let_def by simp
qed

lemma update_group_refs: "refs_ok (update_group n d gid t) = refs_ok t"
proof -
  have "map gr_id (groups (update_group n d gid t)) = map gr_id (groups t)"
    by (auto simp: update_group_def)
  moreover have "issuers (update_group n d gid t) = issuers t"
    "user_info (update_group n d gid t) = user_info t"
    "group_members (update_group n d gid t) = group_members t"
    by (simp_all add: update_group_def)
  ultimately show ?thesis by (simp only: refs_ok_def)
qed

lemma UpdateGroup_running:
  assumes run: "running c w t" and ok: "schema_ok t"
  shows "UpdateGroup c gid u w =
    (case select_group gid t of
       [] \<Rightarrow> (Err ErrGroupNotFound, tick w)
     | r # _ \<Rightarrow>
        (let g = updated_group u (group_of_row r); t' = update_group (g_Name g) (g_Description g) gid t
         in if keys_ok t' then (Ok g, put_view c t' (tick (tick w)))
            else (Err ErrGroupExists, tick (tick w))))"
proof -
  have sel: "select_group gid t = r # rs \<Longrightarrow> gr_id r = gid" for r rs
    using select_group_cases [OF ok, of gid] by auto
  have "refs_ok t" using ok by (simp add: schema_ok_def)
  then have viol: "schema_violation (update_group n d gid t) =
      (if keys_ok (update_group n d gid t) then None else Some pqErrDuplicateKey)" for n d
    by (simp add: schema_violation_def update_group_refs)
  show ?thesis
  proof (cases "select_group gid t")
    case Nil
    with run show ?thesis by (simp add: UpdateGroup_alt go_simps db_simps)
  next
    case (Cons r rs)
    from sel [OF Cons] Cons run show ?thesis
      by (simp add: UpdateGroup_alt go_simps db_simps Let_def viol isPQDuplicateKeyError_def)
  qed
qed

lemma delete_group_violation:
  assumes "schema_ok t"
  shows "schema_violation (delete_group gid t) = (if members t gid = {} then None else Some ''23503'')"
proof -
  have "keys_ok (delete_group gid t)"
    using assms by (simp add: keys_ok_def schema_ok_def delete_group_def distinct_map_filter)
  moreover have "refs_ok (delete_group gid t) \<longleftrightarrow> members t gid = {}"
    using assms by (force simp: refs_ok_def schema_ok_def delete_group_def list_all_iff members_def)
  ultimately show ?thesis by (simp add: schema_violation_def)
qed

lemma DeleteGroup_running:
  assumes run: "running c w t" and ok: "schema_ok t"
  shows "DeleteGroup c gid w =
    (if gid \<notin> set (map gr_id (groups t)) then (Err ErrGroupNotFound, tick w)
     else if members t gid \<noteq> {} then (Err (PqError ''23503''), tick (tick w))
     else (Ok (), put_view c (delete_group gid t) (tick (tick w))))"
proof -
  from select_group_cases [OF ok, of gid] consider
      "select_group gid t = []" "gid \<notin> set (map gr_id (groups t))"
    | r where "select_group gid t = [r]" "r \<in> set (groups t)" "gr_id r = gid" by blast
  then show ?thesis
    by cases (use run in \<open>auto simp: DeleteGroup_def go_simps db_simps delete_group_violation [OF ok]\<close>)
qed

lemma AddGroupMembers_running:
  assumes run: "running c w t" and ok: "schema_ok t"
  shows "AddGroupMembers c gid ss w =
    (if ss = [] then (Ok (), w)
     else if gid \<notin> set (map gr_id (groups t)) then (Err ErrGroupNotFound, tick w)
     else if upsert_strict w \<and> \<not> distinct ss then (Err (PqError ''21000''), tick (tick w))
     else (Ok (), put_view c (upsert_members gid ss t) (tick (tick w))))"
proof -
  from select_group_cases [OF ok, of gid] consider
      "select_group gid t = []" "gid \<notin> set (map gr_id (groups t))"
    | r where "select_group gid t = [r]" "gid \<in> set (map gr_id (groups t))" by force
  then show ?thesis
    by cases (use run in \<open>auto simp: AddGroupMembers_def go_simps db_simps upsert_members_schema [OF ok]\<close>)
qed

lemma RemoveGroupMember_running:
  assumes run: "running c w t" and ok: "schema_ok t"
  shows "RemoveGroupMember c gid s w =
    (if gid \<notin> set (map gr_id (groups t)) then (Err ErrGroupNotFound, tick w)
     else if s \<notin> members t gid
       then (Err ErrGroupMemberNotFound, put_view c (fst (delete_member gid s t)) (tick (tick w)))
     else (Ok (), put_view c (fst (delete_member gid s t)) (tick (tick w))))"
proof -
  have hits: "snd (delete_member gid s t) = 0 \<longleftrightarrow> s \<notin> members t gid"
    by (auto simp: delete_member_def Let_def members_def filter_empty_conv)
  obtain t' n where d: "delete_member gid s t = (t', n)" by fastforce
  have viol: "schema_ok t'" using delete_member_schema [OF ok, of gid s] d by simp
  from select_group_cases [OF ok, of gid] consider
      "select_group gid t = []" "gid \<notin> set (map gr_id (groups t))"
    | r where "select_group gid t = [r]" "gid \<in> set (map gr_id (groups t))" by force
  then show ?thesis
    by cases (use run hits viol d in \<open>auto simp: RemoveGroupMember_def go_simps db_simps Let_def\<close>)
qed

text \<open>
  Replacing the members of a group. The difference is taken against the memberships that are
  durable, not against the ones the transaction sees.
\<close>

definition replaced_members :: "string \<Rightarrow> string list \<Rightarrow> string list \<Rightarrow> tables \<Rightarrow> tables" where
  "replaced_members gid add rm t = upsert_members gid add (delete_members gid rm t)"

lemma ListGroupMembers_all_running:
  assumes run: "running c w t" and ok: "schema_ok t"
  shows "ListGroupMembers c gid None w =
    (if gid \<notin> set (map gr_id (groups t)) then (Err ErrGroupNotFound, tick w)
     else (Ok (map mr_subject_id (select_members gid (committed w))), tick (tick w)))"
proof -
  from select_group_cases [OF ok, of gid] consider
      "select_group gid t = []" "gid \<notin> set (map gr_id (groups t))"
    | r where "select_group gid t = [r]" "gid \<in> set (map gr_id (groups t))" by force
  then show ?thesis
    by cases (use run in \<open>simp_all add: ListGroupMembers_def go_simps db_simps running_healthy [OF run] snapshot_def\<close>)
qed

lemma replaced_members_Nil [simp]: "replaced_members gid [] rm t = delete_members gid rm t"
  by (simp add: replaced_members_def)

lemma ReplaceGroupMembers_running:
  assumes run: "running c w t" and ok: "schema_ok t" and gid: "gid \<in> set (map gr_id (groups t))"
    and diff: "Diff (map mr_subject_id (select_members gid (committed w))) inc (\<lambda>x. x) = (add, rm)"
    and upsert: "upsert_strict w \<longrightarrow> distinct add"
  shows "\<exists>w'. ReplaceGroupMembers c gid inc w = (Ok (add, rm), w') \<and> running c w' (replaced_members gid add rm t)"
proof -
  let ?t = "delete_members gid rm t" and ?w = "put_view c (delete_members gid rm t) (tick (tick (tick w)))"
  have run': "running c ?w ?t" using run by simp
  have ok': "schema_ok ?t" by (rule delete_members_schema [OF ok])
  have gid': "gid \<in> set (map gr_id (groups ?t))" using gid by (simp add: delete_members_def)
  have "ReplaceGroupMembers c gid inc w =
      bindE (AddGroupMembers c gid add) (\<lambda>_. ret (add, rm)) ?w"
    using run gid diff ok' unfolding ReplaceGroupMembers_def
    by (simp add: bindE_def db_simps ListGroupMembers_all_running [OF run ok])
  also have "\<dots> = (Ok (add, rm), if add = [] then ?w else put_view c (replaced_members gid add rm t) (tick (tick ?w)))"
    using upsert gid' by (auto simp: bindE_def AddGroupMembers_running [OF run' ok'] ret_def replaced_members_def)
  finally show ?thesis
    using run' running_put_view [of c "tick (tick ?w)" ?t "replaced_members gid add rm t"] by (cases "add = []") auto
qed

lemma ReplaceGroupMembers_missing:
  assumes "running c w t" and "schema_ok t" and "gid \<notin> set (map gr_id (groups t))"
  shows "ReplaceGroupMembers c gid inc w = (Err ErrGroupNotFound, tick w)"
  using assms by (simp add: ReplaceGroupMembers_def bindE_def db_simps ListGroupMembers_all_running)

lemma ReplaceGroupMembers_Ok:
  assumes run: "running c w t" and ok: "schema_ok t"
    and res: "ReplaceGroupMembers c gid inc w = (Ok (add, rm), w')"
  shows "Diff (map mr_subject_id (select_members gid (committed w))) inc (\<lambda>x. x) = (add, rm)"
    and "tx_view c w' = Some (replaced_members gid add rm t)"
proof -
  have gid: "gid \<in> set (map gr_id (groups t))"
    using res ReplaceGroupMembers_missing [OF run ok] by fastforce
  obtain add' rm' where diff: "Diff (map mr_subject_id (select_members gid (committed w))) inc (\<lambda>x. x) = (add', rm')"
    by fastforce
  let ?t = "delete_members gid rm' t" and ?w = "put_view c (delete_members gid rm' t) (tick (tick (tick w)))"
  have run': "running c ?w ?t" using run by simp
  have ok': "schema_ok ?t" by (rule delete_members_schema [OF ok])
  have "ReplaceGroupMembers c gid inc w = bindE (AddGroupMembers c gid add') (\<lambda>_. ret (add', rm')) ?w"
    using run gid diff ok' unfolding ReplaceGroupMembers_def
    by (simp add: bindE_def db_simps ListGroupMembers_all_running [OF run ok])
  then have "bindE (AddGroupMembers c gid add') (\<lambda>_. ret (add', rm')) ?w = (Ok (add, rm), w')"
    using res by simp
  then obtain v where v: "AddGroupMembers c gid add' ?w = (Ok (), v)" "w' = v" "add = add'" "rm = rm'"
    by (auto simp: bindE_eq_Ok)
  then show "tx_view c w' = Some (replaced_members gid add rm t)"
    using run' AddGroupMembers_running [OF run' ok', of gid add']
    by (auto simp: running_def replaced_members_def split: if_splits)
  show "Diff (map mr_subject_id (select_members gid (committed w))) inc (\<lambda>x. x) = (add, rm)"
    using diff v by simp
qed

lemma members_replaced:
  "members (replaced_members gid add rm t) = (members t)(gid := (members t gid - set rm) \<union> set add)"
  by (auto simp: replaced_members_def members_upsert members_delete)

section \<open>Properties\<close>

lemma update_group_keys:
  assumes ok: "schema_ok t" and r: "r \<in> set (groups t)" "gr_id r = gid"
  shows "keys_ok (update_group n d gid t) \<longleftrightarrow>
    \<not> (\<exists>x \<in> set (groups t). gr_id x \<noteq> gid \<and> gr_owner_id x = gr_owner_id r \<and> gr_name x = n)"
proof -
  let ?f = "\<lambda>x. if gr_id x = gid then x\<lparr>gr_name := n, gr_description := d\<rparr> else x"
  let ?k = "\<lambda>g. (gr_owner_id g, gr_name g)"
  have k: "keys_ok t" using ok by (simp add: schema_ok_def)
  then have inj: "inj_on gr_id (set (groups t))" "inj_on ?k (set (groups t))" "distinct (groups t)"
    by (auto simp: keys_ok_def distinct_map)
  have ids: "map gr_id (groups (update_group n d gid t)) = map gr_id (groups t)" by (auto simp: update_group_def)
  have only: "x = r" if "x \<in> set (groups t)" "gr_id x = gid" for x using inj(1) that r by (auto dest: inj_onD)
  have "distinct (map ?k (groups (update_group n d gid t))) \<longleftrightarrow> inj_on (?k \<circ> ?f) (set (groups t))"
    using inj(3) by (simp add: update_group_def distinct_map o_assoc)
  also have "\<dots> \<longleftrightarrow> \<not> (\<exists>x \<in> set (groups t). gr_id x \<noteq> gid \<and> gr_owner_id x = gr_owner_id r \<and> gr_name x = n)"
  proof
    assume i: "inj_on (?k \<circ> ?f) (set (groups t))"
    show "\<not> (\<exists>x \<in> set (groups t). gr_id x \<noteq> gid \<and> gr_owner_id x = gr_owner_id r \<and> gr_name x = n)"
    proof
      assume "\<exists>x \<in> set (groups t). gr_id x \<noteq> gid \<and> gr_owner_id x = gr_owner_id r \<and> gr_name x = n"
      then obtain x where x: "x \<in> set (groups t)" "gr_id x \<noteq> gid" "(?k \<circ> ?f) x = (?k \<circ> ?f) r" using r by auto
      with inj_onD [OF i x(3)] r show False by auto
    qed
  next
    assume no: "\<not> (\<exists>x \<in> set (groups t). gr_id x \<noteq> gid \<and> gr_owner_id x = gr_owner_id r \<and> gr_name x = n)"
    show "inj_on (?k \<circ> ?f) (set (groups t))"
    proof (rule inj_onI)
      fix x y assume xy: "x \<in> set (groups t)" "y \<in> set (groups t)" "(?k \<circ> ?f) x = (?k \<circ> ?f) y"
      show "x = y"
        using xy only no inj_onD [OF inj(2), of x y] by (cases "gr_id x = gid"; cases "gr_id y = gid") auto
    qed
  qed
  finally have key: "distinct (map ?k (groups (update_group n d gid t))) \<longleftrightarrow>
    \<not> (\<exists>x \<in> set (groups t). gr_id x \<noteq> gid \<and> gr_owner_id x = gr_owner_id r \<and> gr_name x = n)" .
  have same: "issuers (update_group n d gid t) = issuers t" "user_info (update_group n d gid t) = user_info t"
    "oauth_clients (update_group n d gid t) = oauth_clients t" "group_members (update_group n d gid t) = group_members t"
    by (simp_all add: update_group_def)
  show ?thesis using k unfolding keys_ok_def same ids key by blast
qed

lemma select_update_group:
  "gid' \<noteq> gid \<Longrightarrow> select_group gid' (update_group n d gid t) = select_group gid' t"
proof -
  assume "gid' \<noteq> gid"
  then have "filter (\<lambda>x. gr_id x = gid') (map (\<lambda>x. if gr_id x = gid then x\<lparr>gr_name := n, gr_description := d\<rparr> else x) gs)
    = filter (\<lambda>x. gr_id x = gid') gs" for gs by (induction gs) auto
  then show ?thesis by (simp add: select_group_def update_group_def)
qed

lemma select_updated_group:
  assumes "select_group gid t = [r]"
  shows "select_group gid (update_group n d gid t) = [r\<lparr>gr_name := n, gr_description := d\<rparr>]"
proof -
  let ?u = "\<lambda>x. x\<lparr>gr_name := n, gr_description := d\<rparr>"
  have "filter (\<lambda>x. gr_id x = gid) (map (\<lambda>x. if gr_id x = gid then ?u x else x) gs)
    = map ?u (filter (\<lambda>x. gr_id x = gid) gs)" for gs
    by (induction gs) auto
  moreover have "groups (update_group n d gid t) = map (\<lambda>x. if gr_id x = gid then ?u x else x) (groups t)"
    by (simp add: update_group_def)
  ultimately have "select_group gid (update_group n d gid t) = map ?u (select_group gid t)"
    by (simp only: select_group_def)
  with assms show ?thesis by simp
qed

lemma members_other [simp]:
  "members (insert_group r t) = members t" "members (update_group n d gid t) = members t"
  "members (delete_group gid t) = members t"
  by (simp_all add: members_def insert_group_def update_group_def delete_group_def fun_eq_iff)

lemma insert_group_schema: "schema_ok t \<Longrightarrow> \<not> group_conflict g t \<Longrightarrow> schema_ok (insert_group (row_of_group g) t)"
  using insert_group_violation [of t g] by (simp flip: schema_violation_None)

lemma GetGroupByID_running:
  "running c w t \<Longrightarrow> fst (GetGroupByID c gid w) =
     (case select_group gid t of [] \<Rightarrow> Err ErrGroupNotFound | r # _ \<Rightarrow> Ok (group_of_row r))"
  by (simp add: GetGroupByID_def fetchGroupByID_running split: list.splits)

text \<open>C27: creating a group. An empty name and a name or an ID that is taken are refused, and the
  transaction is left as it was; otherwise the group can be read back under its ID, and every other
  group and every membership is as before.\<close>

theorem CreateGroup_correct:
  assumes "running c w t" and "schema_ok t"
  shows "\<exists>res w' t'. CreateGroup c g w = (res, w') \<and> running c w' t' \<and> schema_ok t' \<and>
    (if g_Name g = [] then res = Err ErrGroupNameEmpty \<and> t' = t
     else if group_conflict g t then res = Err ErrGroupExists \<and> t' = t
     else res = Ok g \<and> fst (GetGroupByID c (g_ID g) w') = Ok g \<and> members t' = members t \<and>
       (\<forall>gid. gid = g_ID g \<or> fst (GetGroupByID c gid w') = fst (GetGroupByID c gid w)))"
proof -
  let ?t = "insert_group (row_of_group g) t" and ?w = "tick (put_view c (insert_group (row_of_group g) t) (tick w))"
  have run': "running c ?w ?t" using assms(1) by simp
  have other: "gid \<noteq> g_ID g \<Longrightarrow> select_group gid ?t = select_group gid t" for gid
    by (simp add: select_group_def insert_group_def)
  show ?thesis
  proof (cases "g_Name g = [] \<or> group_conflict g t")
    case True
    then show ?thesis using assms by (auto simp: CreateGroup_running [OF assms])
  next
    case False
    then have "CreateGroup c g w = (Ok g, ?w)" by (simp add: CreateGroup_running [OF assms])
    moreover have "gid = g_ID g \<or> fst (GetGroupByID c gid ?w) = fst (GetGroupByID c gid w)" for gid
      by (cases "gid = g_ID g") (simp_all add: GetGroupByID_running [OF run'] GetGroupByID_running [OF assms(1)] other)
    moreover have "fst (GetGroupByID c (g_ID g) ?w) = Ok g"
      using False by (simp add: GetGroupByID_running [OF run'] select_inserted)
    ultimately show ?thesis using False assms run'
      by (intro exI [of _ "Ok g"] exI [of _ ?w] exI [of _ ?t]) (simp add: insert_group_schema)
  qed
qed

theorem CreateGroup_correct_witness:
  "\<exists>w'. CreateGroup tx_ctx \<lparr>g_ID = ''idntgrp-3'', g_OwnerID = ''tnnt-1'', g_Name = ''ops'', g_Description = []\<rparr> (tx_world tables1)
     = (Ok \<lparr>g_ID = ''idntgrp-3'', g_OwnerID = ''tnnt-1'', g_Name = ''ops'', g_Description = []\<rparr>, w')"
  using CreateGroup_correct [OF running_sample schema_tables1,
      of "\<lparr>g_ID = ''idntgrp-3'', g_OwnerID = ''tnnt-1'', g_Name = ''ops'', g_Description = []\<rparr>"]
  by (auto simp: group_conflict_def tables1_def group1_def group2_def)

text \<open>Updating a group. A missing group is \<open>ErrGroupNotFound\<close>; a name that another group of the
  same owner has is \<open>ErrGroupExists\<close>, and nothing changes; otherwise the group gets the fields the
  request names (an empty name counts as none) and keeps its ID and its owner, and every other group
  and every membership is as before.\<close>

theorem UpdateGroup_correct:
  assumes run: "running c w t" and ok: "schema_ok t"
  shows "\<exists>res w' t'. UpdateGroup c gid u w = (res, w') \<and> running c w' t' \<and> schema_ok t' \<and>
    (case select_group gid t of
       [] \<Rightarrow> res = Err ErrGroupNotFound \<and> t' = t
     | r # _ \<Rightarrow>
        (let g = updated_group u (group_of_row r) in
         if \<exists>x \<in> set (groups t). gr_id x \<noteq> gid \<and> gr_owner_id x = gr_owner_id r \<and> gr_name x = g_Name g
         then res = Err ErrGroupExists \<and> t' = t
         else res = Ok g \<and> g_ID g = gid \<and> g_OwnerID g = gr_owner_id r \<and> fst (GetGroupByID c gid w') = Ok g \<and>
           members t' = members t \<and>
           (\<forall>gid'. gid' = gid \<or> fst (GetGroupByID c gid' w') = fst (GetGroupByID c gid' w))))"
proof -
  from select_group_cases [OF ok, of gid] consider
      "select_group gid t = []" | r where "select_group gid t = [r]" "r \<in> set (groups t)" "gr_id r = gid" by blast
  then show ?thesis
  proof cases
    case 1
    with run ok show ?thesis by (auto simp: UpdateGroup_running [OF run ok])
  next
    case (2 r)
    let ?g = "updated_group u (group_of_row r)"
    let ?t = "update_group (g_Name ?g) (g_Description ?g) gid t" and ?v = "tick (tick w)"
    note K = update_group_keys [OF ok 2(2,3), of "g_Name ?g" "g_Description ?g"]
    show ?thesis
    proof (cases "keys_ok ?t")
      case False
      with K 2 run ok show ?thesis by (auto simp: UpdateGroup_running [OF run ok] Let_def)
    next
      case True
      have run': "running c (put_view c ?t ?v) ?t" using run running_put_view [of c ?v t] by simp
      have "schema_ok ?t" using True ok by (simp add: schema_ok_def update_group_refs)
      moreover have "group_of_row (r\<lparr>gr_name := g_Name ?g, gr_description := g_Description ?g\<rparr>) = ?g"
        by (simp add: group_of_row_def updated_group_def)
      moreover have "UpdateGroup c gid u w = (Ok ?g, put_view c ?t ?v)"
        using True 2(1) by (simp add: UpdateGroup_running [OF run ok] Let_def)
      moreover have "gid' = gid \<or> fst (GetGroupByID c gid' (put_view c ?t ?v)) = fst (GetGroupByID c gid' w)" for gid'
        by (cases "gid' = gid") (simp_all add: GetGroupByID_running [OF run'] GetGroupByID_running [OF run] select_update_group)
      ultimately show ?thesis using K True 2 run'
        by (intro exI [of _ "Ok ?g"] exI [of _ "put_view c ?t ?v"] exI [of _ ?t])
          (auto simp: Let_def GetGroupByID_running [OF run'] select_updated_group [OF 2(1)])
    qed
  qed
qed

theorem UpdateGroup_correct_witness:
  "\<exists>w'. UpdateGroup tx_ctx ''idntgrp-1'' \<lparr>gu_Name = Some ''devs'', gu_Description = None\<rparr> (tx_world tables1) =
     (Err ErrGroupExists, w')"
  using UpdateGroup_correct [OF running_sample schema_tables1, of "''idntgrp-1''" "\<lparr>gu_Name = Some ''devs'', gu_Description = None\<rparr>"]
  by (auto simp: select_group_def tables1_def group1_def group2_def updated_group_def group_of_row_def)

text \<open>C28: deleting a group. It fails for a group that does not exist and for one that still has members,
  and then changes nothing; otherwise the group is gone and every other group and every membership is
  as before.\<close>

theorem DeleteGroup_correct:
  assumes run: "running c w t" and ok: "schema_ok t"
  shows "\<exists>res w' t'. DeleteGroup c gid w = (res, w') \<and> running c w' t' \<and> schema_ok t' \<and>
    (if gid \<notin> set (map gr_id (groups t)) then res = Err ErrGroupNotFound \<and> t' = t
     else if members t gid \<noteq> {} then res = Err (PqError ''23503'') \<and> t' = t
     else res = Ok () \<and> fst (GetGroupByID c gid w') = Err ErrGroupNotFound \<and> members t' = members t \<and>
       (\<forall>gid'. gid' = gid \<or> fst (GetGroupByID c gid' w') = fst (GetGroupByID c gid' w)))"
proof (cases "gid \<in> set (map gr_id (groups t)) \<and> members t gid = {}")
  case False
  then show ?thesis using run ok by (auto simp: DeleteGroup_running [OF run ok])
next
  case True
  let ?t = "delete_group gid t" and ?w = "put_view c (delete_group gid t) (tick (tick w))"
  have run': "running c ?w ?t" using run by simp
  have "schema_ok ?t" using delete_group_violation [OF ok, of gid] True by (simp flip: schema_violation_None)
  moreover have "select_group gid ?t = []" by (simp add: select_group_def delete_group_def filter_empty_conv)
  moreover have "gid' \<noteq> gid \<Longrightarrow> select_group gid' ?t = select_group gid' t" for gid'
    by (auto simp: select_group_def delete_group_def intro: filter_cong)
  then have "gid' = gid \<or> fst (GetGroupByID c gid' ?w) = fst (GetGroupByID c gid' w)" for gid'
    by (cases "gid' = gid") (simp_all add: GetGroupByID_running [OF run'] GetGroupByID_running [OF run])
  ultimately show ?thesis using True run'
    by (intro exI [of _ "Ok ()"] exI [of _ ?w] exI [of _ ?t])
      (simp add: DeleteGroup_running [OF run ok] GetGroupByID_running [OF run'])
qed

theorem DeleteGroup_correct_witness:
  "(\<exists>w'. DeleteGroup tx_ctx ''idntgrp-2'' (tx_world tables1) = (Ok (), w')) \<and>
   (\<exists>w'. DeleteGroup tx_ctx ''idntgrp-1'' (tx_world tables1) = (Err (PqError ''23503''), w'))"
  using DeleteGroup_correct [OF running_sample schema_tables1, of "''idntgrp-2''"]
    DeleteGroup_correct [OF running_sample schema_tables1, of "''idntgrp-1''"]
  by (auto simp: tables1_def group1_def group2_def members_def)

text \<open>Adding members. The group's members afterwards are the old ones and the given ones, also when
  some of them were members before; no other group changes. A missing group is an error, unless no
  member was given at all.\<close>

theorem AddGroupMembers_correct:
  assumes run: "running c w t" and ok: "schema_ok t" and dup: "distinct ss \<or> \<not> upsert_strict w"
  shows "\<exists>res w' t'. AddGroupMembers c gid ss w = (res, w') \<and> running c w' t' \<and> schema_ok t' \<and> groups t' = groups t \<and>
    (if ss = [] then res = Ok () \<and> t' = t
     else if gid \<notin> set (map gr_id (groups t)) then res = Err ErrGroupNotFound \<and> t' = t
     else res = Ok () \<and> members t' = (members t)(gid := members t gid \<union> set ss))"
proof (cases "ss = [] \<or> gid \<notin> set (map gr_id (groups t))")
  case True
  then show ?thesis using run ok by (auto simp: AddGroupMembers_running [OF run ok])
next
  case False
  let ?t = "upsert_members gid ss t" and ?w = "put_view c (upsert_members gid ss t) (tick (tick w))"
  have "running c ?w ?t" using run by simp
  with False dup show ?thesis
    by (intro exI [of _ "Ok ()"] exI [of _ ?w] exI [of _ ?t])
      (auto simp: AddGroupMembers_running [OF run ok] upsert_members_schema [OF ok] upsert_members_frame gm.mem_add)
qed

theorem AddGroupMembers_correct_witness:
  "\<exists>w' t'. AddGroupMembers tx_ctx ''idntgrp-1'' [''idntusr-1'', ''idntusr-2''] (tx_world tables1) = (Ok (), w') \<and>
     tx_view tx_ctx w' = Some t' \<and> members t' ''idntgrp-1'' = {''idntusr-1'', ''idntusr-2''}"
proof -
  have m: "members tables1 ''idntgrp-1'' = {''idntusr-1''}" "''idntgrp-1'' \<in> set (map gr_id (groups tables1))"
    by (auto simp: members_def tables1_def group1_def)
  have d: "distinct [''idntusr-1'', ''idntusr-2''] \<or> \<not> upsert_strict (tx_world tables1)" by simp
  obtain res w' t' where r: "AddGroupMembers tx_ctx ''idntgrp-1'' [''idntusr-1'', ''idntusr-2''] (tx_world tables1) = (res, w')"
      "running tx_ctx w' t'" "res = Ok ()" "members t' = (members tables1)(''idntgrp-1'' := {''idntusr-1''} \<union> set [''idntusr-1'', ''idntusr-2''])"
    using AddGroupMembers_correct [OF running_sample schema_tables1 d, of "''idntgrp-1''"] m
    unfolding if_not_P [OF list.distinct(2)] by auto
  then show ?thesis by (intro exI [of _ w'] exI [of _ t']) (simp add: running_def insert_commute)
qed

text \<open>Removing a member takes exactly this membership away. A missing group and a subject that is no
  member are told apart.\<close>

theorem RemoveGroupMember_correct:
  assumes run: "running c w t" and ok: "schema_ok t"
  shows "\<exists>res w' t'. RemoveGroupMember c gid s w = (res, w') \<and> running c w' t' \<and> schema_ok t' \<and> groups t' = groups t \<and>
    members t' = (members t)(gid := members t gid - {s}) \<and>
    res = (if gid \<notin> set (map gr_id (groups t)) then Err ErrGroupNotFound
           else if s \<notin> members t gid then Err ErrGroupMemberNotFound else Ok ())"
proof (cases "gid \<in> set (map gr_id (groups t))")
  case False
  have "members t gid = {}"
    using False ok by (force simp: members_def schema_ok_def refs_ok_def list_all_iff)
  then have "(members t)(gid := members t gid - {s}) = members t" by (simp add: fun_eq_iff)
  with False run ok show ?thesis by (auto simp: RemoveGroupMember_running [OF run ok])
next
  case True
  let ?t = "fst (delete_member gid s t)" and ?w = "put_view c (fst (delete_member gid s t)) (tick (tick w))"
  have "?t = delete_members gid [s] t" by (simp add: delete_member_def delete_members_def Let_def)
  then have "members ?t = (members t)(gid := members t gid - {s})" by (simp add: gm.mem_del)
  moreover have "running c ?w ?t" using run by simp
  moreover have "groups ?t = groups t" by (simp add: delete_member_def Let_def)
  ultimately show ?thesis using True
    by (intro exI [of _ "if s \<notin> members t gid then Err ErrGroupMemberNotFound else Ok ()"] exI [of _ ?w] exI [of _ ?t])
      (auto simp: RemoveGroupMember_running [OF run ok] delete_member_schema [OF ok])
qed

theorem RemoveGroupMember_correct_witness:
  "\<exists>w' t'. RemoveGroupMember tx_ctx ''idntgrp-1'' ''idntusr-1'' (tx_world tables1) = (Ok (), w') \<and>
     tx_view tx_ctx w' = Some t' \<and> members t' ''idntgrp-1'' = {}"
proof -
  have m: "members tables1 ''idntgrp-1'' = {''idntusr-1''}" "''idntgrp-1'' \<in> set (map gr_id (groups tables1))"
    by (auto simp: members_def tables1_def group1_def)
  obtain w' t' where "RemoveGroupMember tx_ctx ''idntgrp-1'' ''idntusr-1'' (tx_world tables1) = (Ok (), w')"
      "running tx_ctx w' t'" "members t' = (members tables1)(''idntgrp-1'' := {})"
    using RemoveGroupMember_correct [OF running_sample schema_tables1, of "''idntgrp-1''" "''idntusr-1''"]
    unfolding m(1) using m(2) by auto
  then show ?thesis by (intro exI [of _ w'] exI [of _ t']) (simp add: running_def)
qed



end
