(* ===== verification/IssuerStore.thy ===== *)
theory IssuerStore
  imports Samples
begin

text \<open>
  The issuer service, \<open>src/internal/storage/issuer.go\<close>, with the column bindings of
  \<open>storage/query.go\<close> and the seeding of \<open>storage/engine.go\<close> and \<open>storage/data.go\<close>.

  An issuer is stored with its claim mappings and its claim condition in their textual form; what
  is read back is compared by \<open>issuer_abs\<close>, which forgets the order of a map and the difference
  between a missing condition and an empty one. What the round trip
  needs is the hypothesis \<open>mapping_law\<close> (UTF-8 names, and \<open>codec_law\<close> for the expressions).
\<close>

section \<open>Column bindings\<close>

record colBinding =
  cb_column :: string
  cb_value :: string

definition colBindingsToParams :: "colBinding list \<Rightarrow> string \<times> string list" where
  "colBindingsToParams bindings =
     (Join (map (\<lambda>(i, b). cb_column b @ '' = $'' @ Itoa (int i + 1)) (enumerate 0 bindings)) '', '',
      map cb_value bindings)"

definition bindIfNotNil :: "colBinding list \<Rightarrow> string \<Rightarrow> string option \<Rightarrow> colBinding list" where
  "bindIfNotNil bindings column v =
     (case v of
        Some x \<Rightarrow> bindings @ [\<lparr>cb_column = column, cb_value = x\<rparr>]
      | None \<Rightarrow> bindings)"

definition issuerUpdateToColBindings ::
    "('ast, 'expr) ext \<Rightarrow> 'ast IssuerUpdate \<Rightarrow> colBinding list res" where
  "issuerUpdateToColBindings X update =
    (let bindings = bindIfNotNil [] ''name'' (upd_Name update);
         bindings = bindIfNotNil bindings ''uri'' (upd_URI update);
         bindings = bindIfNotNil bindings ''jwksuri'' (upd_JWKSURI update)
     in bindR (case upd_ClaimMappings update of
                 None \<Rightarrow> Ok bindings
               | Some m \<Rightarrow> bindR (ClaimsMapping_MarshalJSON X m) (\<lambda>mappingStr.
                             Ok (bindIfNotNil bindings ''mappings'' (Some mappingStr)))) (\<lambda>bindings.
        case upd_ClaimConditions update of
          None \<Rightarrow> Ok bindings
        | Some c \<Rightarrow> bindR (ClaimConditions_MarshalJSON X c) (\<lambda>condStr.
                      Ok (bindIfNotNil bindings ''conditions'' (Some condStr)))))"

definition withQualifier :: "string list \<Rightarrow> string \<Rightarrow> string list" where
  "withQualifier items q = map (\<lambda>el. q @ ''.'' @ el) items"

section \<open>Statements\<close>

definition insert_issuer :: "issuer_row \<Rightarrow> tables \<Rightarrow> tables" where
  "insert_issuer r t = t\<lparr>issuers := issuers t @ [r]\<rparr>"

definition select_issuer :: "string \<Rightarrow> tables \<Rightarrow> issuer_row list" where
  "select_issuer iid t = filter (\<lambda>r. ir_id r = iid) (issuers t)"

definition select_issuer_uri :: "string \<Rightarrow> tables \<Rightarrow> issuer_row list" where
  "select_issuer_uri uri t = filter (\<lambda>r. ir_uri r = uri) (issuers t)"

text \<open>One assignment of a \<open>SET\<close> clause, and \<open>UPDATE issuers SET ... WHERE id = ... RETURNING ...\<close>.\<close>

definition set_column :: "colBinding \<Rightarrow> issuer_row \<Rightarrow> issuer_row" where
  "set_column b r =
     (if cb_column b = ''name'' then r\<lparr>ir_name := cb_value b\<rparr>
      else if cb_column b = ''uri'' then r\<lparr>ir_uri := cb_value b\<rparr>
      else if cb_column b = ''jwksuri'' then r\<lparr>ir_jwksuri := cb_value b\<rparr>
      else if cb_column b = ''mappings'' then r\<lparr>ir_mappings := Some (cb_value b)\<rparr>
      else if cb_column b = ''conditions'' then r\<lparr>ir_conditions := Some (cb_value b)\<rparr>
      else r)"

definition update_issuer :: "colBinding list \<Rightarrow> string \<Rightarrow> tables \<Rightarrow> tables \<times> issuer_row list" where
  "update_issuer bs iid t =
    (let t' = t\<lparr>issuers := map (\<lambda>r. if ir_id r = iid then fold set_column bs r else r) (issuers t)\<rparr>
     in (t', select_issuer iid t'))"

definition delete_issuer_users :: "string \<Rightarrow> tables \<Rightarrow> tables" where
  "delete_issuer_users iid t = t\<lparr>user_info := filter (\<lambda>u. ur_iss_id u \<noteq> iid) (user_info t)\<rparr>"

definition delete_issuer :: "string \<Rightarrow> tables \<Rightarrow> tables \<times> nat" where
  "delete_issuer iid t =
     (t\<lparr>issuers := filter (\<lambda>r. ir_id r \<noteq> iid) (issuers t)\<rparr>, length (select_issuer iid t))"

definition issuer_col :: "issuer_row \<Rightarrow> string \<Rightarrow> string" where
  "issuer_col r f =
     (if f = ''owner_id'' then ir_owner_id r else if f = ''id'' then ir_id r
      else if f = ''name'' then ir_name r else if f = ''uri'' then ir_uri r
      else if f = ''jwksuri'' then ir_jwksuri r
      else case (if f = ''mappings'' then ir_mappings r else ir_conditions r) of
             None \<Rightarrow> [] | Some s \<Rightarrow> s)"

definition issuerColumns :: "string list" where
  "issuerColumns = [''owner_id'', ''id'', ''name'', ''uri'', ''jwksuri'', ''mappings'', ''conditions'']"

section \<open>Operations\<close>

text \<open>What \<open>scanIssuer\<close> makes of the columns of one row.\<close>

definition decode_issuer :: "('ast, 'expr) ext \<Rightarrow> issuer_row \<Rightarrow> 'ast Issuer res" where
  "decode_issuer X r =
     bindR (case ir_mappings r of
              None \<Rightarrow> Ok None
            | Some s \<Rightarrow> bindR (ClaimsMapping_UnmarshalJSON X s) (\<lambda>c. Ok (Some c))) (\<lambda>mappings.
     bindR (case ir_conditions r of
              None \<Rightarrow> Ok None
            | Some s \<Rightarrow> bindR (ClaimConditions_UnmarshalJSON X s) (\<lambda>c. Ok (Some c))) (\<lambda>conditions.
     Ok \<lparr>iss_OwnerID = ir_owner_id r, iss_ID = ir_id r, iss_Name = ir_name r, iss_URI = ir_uri r,
         iss_JWKSURI = ir_jwksuri r, iss_ClaimMappings = mappings,
         iss_ClaimConditions = conditions\<rparr>))"

definition scanIssuer :: "('ast, 'expr) ext \<Rightarrow> issuer_row list \<Rightarrow> 'ast Issuer dbio" where
  "scanIssuer X rows =
     tryE (scan_row rows)
       (\<lambda>err. if errors_Is err SqlErrNoRows then fail ErrorIssuerNotFound else fail err)
       (\<lambda>r. lift (decode_issuer X r))"

definition insertIssuer :: "('ast, 'expr) ext \<Rightarrow> ctx \<Rightarrow> 'ast Issuer \<Rightarrow> unit dbio" where
  "insertIssuer X c iss =
     bindE (getContextTx c) (\<lambda>tx.
     bindE (lift (ClaimsMapping_MarshalJSON X (mapping_entries (iss_ClaimMappings iss)))) (\<lambda>mappings.
     bindE (case iss_ClaimConditions iss of
              None \<Rightarrow> ret []
            | Some cond \<Rightarrow> lift (ClaimConditions_MarshalJSON X cond)) (\<lambda>conditions.
     tx_exec tx (\<lambda>t.
       (insert_issuer
          \<lparr>ir_owner_id = iss_OwnerID iss, ir_id = iss_ID iss, ir_name = iss_Name iss,
           ir_uri = iss_URI iss, ir_jwksuri = iss_JWKSURI iss, ir_mappings = Some mappings,
           ir_conditions = Some conditions\<rparr> t, ())))))"

definition CreateIssuer :: "('ast, 'expr) ext \<Rightarrow> ctx \<Rightarrow> 'ast Issuer \<Rightarrow> 'ast Issuer dbio" where
  "CreateIssuer X c iss = bindE (insertIssuer X c iss) (\<lambda>_. ret iss)"

definition GetIssuerByID :: "('ast, 'expr) ext \<Rightarrow> ctx \<Rightarrow> string \<Rightarrow> 'ast Issuer dbio" where
  "GetIssuerByID X c iid = bindE (ctx_query c (select_issuer iid)) (scanIssuer X)"

definition GetIssuerByURI :: "('ast, 'expr) ext \<Rightarrow> ctx \<Rightarrow> string \<Rightarrow> 'ast Issuer dbio" where
  "GetIssuerByURI X c uri = bindE (ctx_query c (select_issuer_uri uri)) (scanIssuer X)"

definition GetOwnerIssuers ::
    "('ast, 'expr) ext \<Rightarrow> ctx \<Rightarrow> string \<Rightarrow> paginator \<Rightarrow> 'ast Issuer list dbio" where
  "GetOwnerIssuers X c oid pagination =
    (let paginate = Paginate pagination (ContextAsOfSystemTime (ctx_aost c) (AostString ''-1m''))
     in bindE (page_query paginate issuerColumns issuer_col
                 (\<lambda>t. filter (\<lambda>r. ir_owner_id r = oid) (issuers t)))
          (\<lambda>rows. lift (traverse (decode_issuer X) rows)))"

text \<open>\<open>UPDATE issuers SET  WHERE id = $1\<close>, which an update without a column runs, is no SQL.\<close>

definition UpdateIssuer ::
    "('ast, 'expr) ext \<Rightarrow> ctx \<Rightarrow> string \<Rightarrow> 'ast IssuerUpdate \<Rightarrow> 'ast Issuer dbio" where
  "UpdateIssuer X c iid update =
     bindE (getContextTx c) (\<lambda>tx.
     bindE (lift (issuerUpdateToColBindings X update)) (\<lambda>bindings.
       let (params, args) = colBindingsToParams bindings in
       bindE (tx_exec_check tx (\<lambda>_. if params = [] then Some ''42601'' else None)
                (update_issuer bindings iid))
         (scanIssuer X)))"

definition DeleteIssuer :: "ctx \<Rightarrow> string \<Rightarrow> unit dbio" where
  "DeleteIssuer c iid =
     bindE (getContextTx c) (\<lambda>tx.
     bindE (tx_exec tx (\<lambda>t. (delete_issuer_users iid t, ()))) (\<lambda>_.
     bindE (tx_exec tx (delete_issuer iid)) (\<lambda>rowsAffected.
       if rowsAffected = 0 then fail ErrorIssuerNotFound else ret ())))"

section \<open>Seeding\<close>

record SeedIssuer =
  seed_OwnerID :: string
  seed_ID :: string
  seed_Name :: string
  seed_URI :: string
  seed_JWKSURI :: string
  seed_ClaimMappings :: "(string \<times> string) list"
  seed_ClaimConditions :: string

definition buildIssuerFromSeed :: "('ast, 'expr) ext \<Rightarrow> SeedIssuer \<Rightarrow> 'ast Issuer res" where
  "buildIssuerFromSeed X seed =
     bindR (NewClaimsMapping X (seed_ClaimMappings seed)) (\<lambda>claimMappings.
     bindR (NewClaimConditions X (seed_ClaimConditions seed)) (\<lambda>claimConditions.
     Ok \<lparr>iss_OwnerID = seed_OwnerID seed, iss_ID = seed_ID seed, iss_Name = seed_Name seed,
         iss_URI = seed_URI seed, iss_JWKSURI = seed_JWKSURI seed,
         iss_ClaimMappings = Some claimMappings, iss_ClaimConditions = Some claimConditions\<rparr>))"

fun seed_loop :: "('ast, 'expr) ext \<Rightarrow> ctx \<Rightarrow> SeedIssuer list \<Rightarrow> unit dbio" where
  "seed_loop X c [] = ret ()"
| "seed_loop X c (seed # seeds) =
     bindE (lift (buildIssuerFromSeed X seed)) (\<lambda>iss.
     bindE (insertIssuer X c iss) (\<lambda>_.
     seed_loop X c seeds))"

definition seedDatabase :: "('ast, 'expr) ext \<Rightarrow> ctx \<Rightarrow> SeedIssuer list \<Rightarrow> unit dbio" where
  "seedDatabase X c seeds =
     bindE (beginTxContext c) (\<lambda>c.
     bindE (seed_loop X c seeds) (\<lambda>_.
     tryE (commitContextTx c)
       (\<lambda>err. bindE (rollbackContextTx c) (\<lambda>_. fail err))
       (\<lambda>_. ret ())))"

section \<open>Frames\<close>

lemma scanIssuer_frames [frame_rules]: "frame (evolve o') (scanIssuer X rs)" "frame silent (scanIssuer X rs)"
  unfolding scanIssuer_def by (intro frame_rules)+

lemma issuer_read_frames [frame_rules]:
  "frame (evolve o') (GetIssuerByID X c s)" "frame silent (GetIssuerByID X c s)"
  "frame (evolve o') (GetIssuerByURI X c s)" "frame silent (GetIssuerByURI X c s)"
  "frame (evolve o') (GetOwnerIssuers X c s p)" "frame silent (GetOwnerIssuers X c s p)"
  unfolding GetIssuerByID_def GetIssuerByURI_def GetOwnerIssuers_def by (intro frame_rules)+

lemma issuer_write_frames [frame_rules]:
  "frame (evolve (ctx_id c)) (insertIssuer X c i)" "frame silent (insertIssuer X c i)"
  "frame (evolve (ctx_id c)) (UpdateIssuer X c s u)" "frame silent (UpdateIssuer X c s u)"
  "frame (evolve (ctx_id c)) (DeleteIssuer c s)" "frame silent (DeleteIssuer c s)"
  unfolding insertIssuer_def UpdateIssuer_def DeleteIssuer_def
  by (intro with_tx_evolve frame_rules)+

lemma CreateIssuer_frames [frame_rules]:
  "frame (evolve (ctx_id c)) (CreateIssuer X c i)" "frame silent (CreateIssuer X c i)"
  unfolding CreateIssuer_def by (intro frame_rules)+

lemma seed_loop_frames [frame_rules]:
  "frame (evolve (ctx_id c)) (seed_loop X c seeds)" "frame silent (seed_loop X c seeds)"
  by (induction seeds) (auto intro!: frame_rules)

section \<open>What the operations do\<close>

text \<open>An issuer up to the representation of its mappings and its condition.\<close>

definition issuer_abs :: "'ast Issuer \<Rightarrow> (string list \<times> (string \<rightharpoonup> 'ast) \<times> 'ast option)" where
  "issuer_abs i =
     ([iss_OwnerID i, iss_ID i, iss_Name i, iss_URI i, iss_JWKSURI i],
      map_of (mapping_entries (iss_ClaimMappings i)),
      case iss_ClaimConditions i of None \<Rightarrow> None | Some c \<Rightarrow> c)"

text \<open>The mapping and the condition of an issuer survive the codecs.\<close>

definition storable :: "('ast, 'expr) ext \<Rightarrow> 'ast Issuer \<Rightarrow> bool" where
  "storable X i \<longleftrightarrow> mapping_law X (mapping_entries (iss_ClaimMappings i)) \<and>
     (\<forall>a. iss_ClaimConditions i = Some (Some a) \<longrightarrow> codec_law X a)"

text \<open>The row \<open>insertIssuer\<close> writes.\<close>

definition encode_issuer :: "('ast, 'expr) ext \<Rightarrow> 'ast Issuer \<Rightarrow> issuer_row res" where
  "encode_issuer X i =
     bindR (ClaimsMapping_MarshalJSON X (mapping_entries (iss_ClaimMappings i))) (\<lambda>m.
     bindR (case iss_ClaimConditions i of None \<Rightarrow> Ok [] | Some c \<Rightarrow> ClaimConditions_MarshalJSON X c) (\<lambda>c.
     Ok \<lparr>ir_owner_id = iss_OwnerID i, ir_id = iss_ID i, ir_name = iss_Name i, ir_uri = iss_URI i,
         ir_jwksuri = iss_JWKSURI i, ir_mappings = Some m, ir_conditions = Some c\<rparr>))"

lemma insertIssuer_alt:
  "insertIssuer X c i = bindE (getContextTx c) (\<lambda>tx. bindE (lift (encode_issuer X i)) (\<lambda>r.
     tx_exec tx (\<lambda>t. (insert_issuer r t, ()))))"
  unfolding insertIssuer_def encode_issuer_def
  by (auto simp: go_simps fun_eq_iff split: res.splits option.splits prod.splits)

lemma ClaimConditions_round_trip_any:
  assumes "\<forall>a. cnd = Some (Some a) \<longrightarrow> codec_law X a"
  shows "\<exists>s. (case cnd of None \<Rightarrow> Ok [] | Some cd \<Rightarrow> ClaimConditions_MarshalJSON X cd) = Ok s \<and>
    ClaimConditions_UnmarshalJSON X s = Ok (case cnd of None \<Rightarrow> None | Some cd \<Rightarrow> cd)"
proof (cases cnd)
  case None
  then show ?thesis by (simp add: ClaimConditions_UnmarshalJSON_def)
next
  case (Some cd)
  with assms have "\<forall>a. cd = Some a \<longrightarrow> codec_law X a" by simp
  from ClaimConditions_round_trip [OF this] Some show ?thesis by simp
qed

lemma encode_issuer_fields:
  assumes "encode_issuer X i = Ok r"
  shows "ir_id r = iss_ID i" and "ir_uri r = iss_URI i" and "ir_owner_id r = iss_OwnerID i"
  using assms by (auto simp: encode_issuer_def)

text \<open>What is written of an issuer reads back as the same issuer.\<close>

lemma encode_decode_issuer:
  assumes "storable X i"
  shows "\<exists>r i'. encode_issuer X i = Ok r \<and> decode_issuer X r = Ok i' \<and> issuer_abs i' = issuer_abs i"
proof -
  obtain s c' where m: "ClaimsMapping_MarshalJSON X (mapping_entries (iss_ClaimMappings i)) = Ok s"
      "ClaimsMapping_UnmarshalJSON X s = Ok c'" "map_of c' = map_of (mapping_entries (iss_ClaimMappings i))"
    using ClaimsMapping_round_trip [of X "mapping_entries (iss_ClaimMappings i)"] assms
    unfolding storable_def by blast
  obtain u where u: "(case iss_ClaimConditions i of None \<Rightarrow> Ok [] | Some cd \<Rightarrow> ClaimConditions_MarshalJSON X cd) = Ok u"
      "ClaimConditions_UnmarshalJSON X u = Ok (case iss_ClaimConditions i of None \<Rightarrow> None | Some cd \<Rightarrow> cd)"
    using ClaimConditions_round_trip_any [of "iss_ClaimConditions i" X] assms unfolding storable_def by blast
  let ?r = "\<lparr>ir_owner_id = iss_OwnerID i, ir_id = iss_ID i, ir_name = iss_Name i, ir_uri = iss_URI i,
    ir_jwksuri = iss_JWKSURI i, ir_mappings = Some s, ir_conditions = Some u\<rparr>"
  have "encode_issuer X i = Ok ?r" by (simp add: encode_issuer_def m(1) u(1))
  moreover have "\<exists>i'. decode_issuer X ?r = Ok i' \<and> issuer_abs i' = issuer_abs i"
    by (simp add: decode_issuer_def m(2) u(2) issuer_abs_def) (simp add: mapping_entries_def m(3) [unfolded mapping_entries_def])
  ultimately show ?thesis by blast
qed

definition issuer_conflict :: "'ast Issuer \<Rightarrow> tables \<Rightarrow> bool" where
  "issuer_conflict i t \<longleftrightarrow> (\<exists>r \<in> set (issuers t). ir_id r = iss_ID i \<or> ir_uri r = iss_URI i)"

lemma insert_issuer_violation:
  assumes "schema_ok t" and "encode_issuer X i = Ok r"
  shows "schema_violation (insert_issuer r t) = (if issuer_conflict i t then Some pqErrDuplicateKey else None)"
proof -
  have "keys_ok (insert_issuer r t) \<longleftrightarrow> \<not> issuer_conflict i t"
    using assms(1) encode_issuer_fields [OF assms(2)]
    by (auto simp: keys_ok_def schema_ok_def insert_issuer_def issuer_conflict_def image_iff)
  moreover have "refs_ok (insert_issuer r t)"
    using assms(1) by (auto simp: refs_ok_def schema_ok_def insert_issuer_def list_all_iff)
  ultimately show ?thesis by (simp add: schema_violation_def)
qed

lemma insertIssuer_running:
  assumes run: "running c w t" and ok: "schema_ok t" and enc: "encode_issuer X i = Ok r"
  shows "insertIssuer X c i w =
    (if issuer_conflict i t then (Err (PqError pqErrDuplicateKey), tick w)
     else (Ok (), put_view c (insert_issuer r t) (tick w)))"
  using run by (auto simp: insertIssuer_alt enc go_simps db_simps insert_issuer_violation [OF ok enc])

lemma GetIssuerByID_running:
  "running c w t \<Longrightarrow> GetIssuerByID X c iid w =
     (case select_issuer iid t of [] \<Rightarrow> Err ErrorIssuerNotFound | r # _ \<Rightarrow> decode_issuer X r, tick w)"
  by (auto simp: GetIssuerByID_def scanIssuer_def scan_row_def go_simps db_simps split: list.splits)

lemma GetIssuerByURI_running:
  "running c w t \<Longrightarrow> GetIssuerByURI X c uri w =
     (case select_issuer_uri uri t of [] \<Rightarrow> Err ErrorIssuerNotFound | r # _ \<Rightarrow> decode_issuer X r, tick w)"
  by (auto simp: GetIssuerByURI_def scanIssuer_def scan_row_def go_simps db_simps split: list.splits)

lemma select_inserted_issuer:
  assumes "encode_issuer X i = Ok r" and "\<not> issuer_conflict i t"
  shows "select_issuer (iss_ID i) (insert_issuer r t) = [r]"
    and "select_issuer_uri (iss_URI i) (insert_issuer r t) = [r]"
  using assms(2) encode_issuer_fields [OF assms(1)]
  by (auto simp: select_issuer_def select_issuer_uri_def insert_issuer_def issuer_conflict_def filter_empty_conv)

lemma select_issuer_cases:
  assumes "schema_ok t"
  shows "select_issuer iid t = [] \<and> iid \<notin> set (map ir_id (issuers t)) \<or>
    (\<exists>r. select_issuer iid t = [r] \<and> r \<in> set (issuers t) \<and> ir_id r = iid)"
proof (cases "iid \<in> set (map ir_id (issuers t))")
  case False
  then show ?thesis by (auto simp: select_issuer_def filter_empty_conv)
next
  case True
  then obtain r where r: "r \<in> set (issuers t)" "ir_id r = iid" by auto
  moreover have "distinct (map ir_id (issuers t))" using assms by (simp add: schema_ok_def keys_ok_def)
  ultimately show ?thesis using filter_unique [of ir_id "issuers t" r] by (simp add: select_issuer_def)
qed

text \<open>Deleting an issuer takes its users along and nothing else.\<close>

definition without_issuer :: "string \<Rightarrow> tables \<Rightarrow> tables" where
  "without_issuer iid t =
     t\<lparr>issuers := filter (\<lambda>r. ir_id r \<noteq> iid) (issuers t),
       user_info := filter (\<lambda>u. ur_iss_id u \<noteq> iid) (user_info t)\<rparr>"

lemma without_issuer_schema: "schema_ok t \<Longrightarrow> schema_ok (without_issuer iid t)"
  by (auto simp: schema_ok_def keys_ok_def refs_ok_def without_issuer_def distinct_map_filter list_all_iff)

lemma delete_issuer_users_schema: "schema_ok t \<Longrightarrow> schema_ok (delete_issuer_users iid t)"
  by (auto simp: schema_ok_def keys_ok_def refs_ok_def delete_issuer_users_def distinct_map_filter list_all_iff)

lemma delete_issuer_of_users: "fst (delete_issuer iid (delete_issuer_users iid t)) = without_issuer iid t"
  by (simp add: delete_issuer_def delete_issuer_users_def without_issuer_def)

lemma without_issuer_absent:
  "schema_ok t \<Longrightarrow> iid \<notin> set (map ir_id (issuers t)) \<Longrightarrow> without_issuer iid t = t"
  by (cases t) (force simp: without_issuer_def schema_ok_def refs_ok_def list_all_iff filter_id_conv)

lemma DeleteIssuer_running:
  assumes run: "running c w t" and ok: "schema_ok t"
  shows "\<exists>w'. DeleteIssuer c iid w =
    (if iid \<in> set (map ir_id (issuers t)) then Ok () else Err ErrorIssuerNotFound, w') \<and>
    running c w' (without_issuer iid t)"
proof -
  let ?t = "delete_issuer_users iid t" and ?w = "put_view c (delete_issuer_users iid t) (tick w)"
  have run1: "running c ?w ?t" using run by simp
  have "select_issuer iid ?t = select_issuer iid t" by (simp add: select_issuer_def delete_issuer_users_def)
  moreover have "select_issuer iid t = [] \<longleftrightarrow> iid \<notin> set (map ir_id (issuers t))"
    by (auto simp: select_issuer_def filter_empty_conv)
  ultimately have rows: "snd (delete_issuer iid ?t) = 0 \<longleftrightarrow> iid \<notin> set (map ir_id (issuers t))"
    by (simp add: delete_issuer_def)
  obtain t' n where d: "delete_issuer iid ?t = (t', n)" by fastforce
  then have t': "t' = without_issuer iid t" using delete_issuer_of_users [of iid t] by simp
  then have "schema_ok t'" by (simp add: without_issuer_schema [OF ok])
  then have "DeleteIssuer c iid w =
      (if iid \<in> set (map ir_id (issuers t)) then Ok () else Err ErrorIssuerNotFound, put_view c t' (tick ?w))"
    using run run1 d rows delete_issuer_users_schema [OF ok, of iid]
    by (auto simp: DeleteIssuer_def bindE_def db_simps tx_exec_running [OF run1] ret_def fail_def)
  moreover have "running c (put_view c t' (tick ?w)) t'" using run1 running_put_view [of c "tick ?w"] by simp
  ultimately show ?thesis using t' by blast
qed

text \<open>The issuer an update asks for.\<close>

definition updated_issuer :: "'ast IssuerUpdate \<Rightarrow> 'ast Issuer \<Rightarrow> 'ast Issuer" where
  "updated_issuer u i =
     i\<lparr>iss_Name := (case upd_Name u of Some n \<Rightarrow> n | None \<Rightarrow> iss_Name i),
       iss_URI := (case upd_URI u of Some n \<Rightarrow> n | None \<Rightarrow> iss_URI i),
       iss_JWKSURI := (case upd_JWKSURI u of Some n \<Rightarrow> n | None \<Rightarrow> iss_JWKSURI i),
       iss_ClaimMappings := (case upd_ClaimMappings u of Some m \<Rightarrow> Some m | None \<Rightarrow> iss_ClaimMappings i),
       iss_ClaimConditions := (case upd_ClaimConditions u of Some c \<Rightarrow> Some c | None \<Rightarrow> iss_ClaimConditions i)\<rparr>"

definition empty_update :: "'ast IssuerUpdate \<Rightarrow> bool" where
  "empty_update u \<longleftrightarrow> upd_Name u = None \<and> upd_URI u = None \<and> upd_JWKSURI u = None \<and>
     upd_ClaimMappings u = None \<and> upd_ClaimConditions u = None"

definition update_storable :: "('ast, 'expr) ext \<Rightarrow> 'ast IssuerUpdate \<Rightarrow> bool" where
  "update_storable X u \<longleftrightarrow> mapping_law X (mapping_entries (upd_ClaimMappings u)) \<and>
     (\<forall>a. upd_ClaimConditions u = Some (Some a) \<longrightarrow> codec_law X a)"

text \<open>The row an update leaves, for the texts \<open>ms\<close> and \<open>cs\<close> of its mapping and its condition.\<close>

definition updated_row ::
    "'ast IssuerUpdate \<Rightarrow> string option \<Rightarrow> string option \<Rightarrow> issuer_row \<Rightarrow> issuer_row" where
  "updated_row u ms cs r =
     r\<lparr>ir_name := (case upd_Name u of Some n \<Rightarrow> n | None \<Rightarrow> ir_name r),
       ir_uri := (case upd_URI u of Some n \<Rightarrow> n | None \<Rightarrow> ir_uri r),
       ir_jwksuri := (case upd_JWKSURI u of Some n \<Rightarrow> n | None \<Rightarrow> ir_jwksuri r),
       ir_mappings := (case ms of Some s \<Rightarrow> Some s | None \<Rightarrow> ir_mappings r),
       ir_conditions := (case cs of Some s \<Rightarrow> Some s | None \<Rightarrow> ir_conditions r)\<rparr>"

definition update_bindings :: "'ast IssuerUpdate \<Rightarrow> string option \<Rightarrow> string option \<Rightarrow> colBinding list" where
  "update_bindings u ms cs =
     bindIfNotNil (bindIfNotNil (bindIfNotNil (bindIfNotNil (bindIfNotNil [] ''name'' (upd_Name u))
       ''uri'' (upd_URI u)) ''jwksuri'' (upd_JWKSURI u)) ''mappings'' ms) ''conditions'' cs"

lemma fold_bindIfNotNil:
  "fold set_column (bindIfNotNil bs col v) r =
     (case v of None \<Rightarrow> fold set_column bs r
      | Some x \<Rightarrow> set_column \<lparr>cb_column = col, cb_value = x\<rparr> (fold set_column bs r))"
  by (simp add: bindIfNotNil_def split: option.splits)

lemma fold_update_bindings: "fold set_column (update_bindings u ms cs) r = updated_row u ms cs r"
  by (cases "upd_Name u"; cases "upd_URI u"; cases "upd_JWKSURI u"; cases ms; cases cs)
    (simp_all add: update_bindings_def fold_bindIfNotNil updated_row_def set_column_def)

lemma update_bindings_Nil: "update_bindings u ms cs = [] \<longleftrightarrow>
    upd_Name u = None \<and> upd_URI u = None \<and> upd_JWKSURI u = None \<and> ms = None \<and> cs = None"
  by (auto simp: update_bindings_def bindIfNotNil_def split: option.splits)

lemma colBindingsToParams_Nil: "fst (colBindingsToParams bs) = [] \<longleftrightarrow> bs = []"
proof -
  have "x \<noteq> [] \<Longrightarrow> Join (x # xs) sep \<noteq> []" for x xs sep by (cases xs) auto
  then show ?thesis by (cases bs) (auto simp: colBindingsToParams_def)
qed

text \<open>Decoding the updated row gives the updated issuer: the update of columns refines the
  update of fields.\<close>

lemma update_refines:
  assumes st: "update_storable X u" and dec: "decode_issuer X r = Ok i"
  shows "\<exists>ms cs i'. issuerUpdateToColBindings X u = Ok (update_bindings u ms cs) \<and>
    (ms = None \<longleftrightarrow> upd_ClaimMappings u = None) \<and> (cs = None \<longleftrightarrow> upd_ClaimConditions u = None) \<and>
    decode_issuer X (updated_row u ms cs r) = Ok i' \<and> issuer_abs i' = issuer_abs (updated_issuer u i)"
proof -
  obtain ms where ms: "case upd_ClaimMappings u of None \<Rightarrow> ms = None
      | Some m \<Rightarrow> (\<exists>s m'. ms = Some s \<and> ClaimsMapping_MarshalJSON X m = Ok s \<and>
          ClaimsMapping_UnmarshalJSON X s = Ok m' \<and> map_of m' = map_of m)"
    using st ClaimsMapping_round_trip [of X] unfolding update_storable_def mapping_entries_def
    by (cases "upd_ClaimMappings u") (simp, fastforce)
  obtain cs where cs: "case upd_ClaimConditions u of None \<Rightarrow> cs = None
      | Some c \<Rightarrow> (\<exists>s. cs = Some s \<and> ClaimConditions_MarshalJSON X c = Ok s \<and>
          ClaimConditions_UnmarshalJSON X s = Ok c)"
    using st ClaimConditions_round_trip [of "the (upd_ClaimConditions u)" X] unfolding update_storable_def
    by (cases "upd_ClaimConditions u") auto
  have "issuerUpdateToColBindings X u = Ok (update_bindings u ms cs)"
    using ms cs
    by (cases "upd_ClaimMappings u"; cases "upd_ClaimConditions u")
      (auto simp: issuerUpdateToColBindings_def update_bindings_def Let_def bindIfNotNil_def)
  moreover have "ms = None \<longleftrightarrow> upd_ClaimMappings u = None" "cs = None \<longleftrightarrow> upd_ClaimConditions u = None"
    using ms cs by (auto split: option.splits)
  moreover have "\<exists>i'. decode_issuer X (updated_row u ms cs r) = Ok i' \<and>
      issuer_abs i' = issuer_abs (updated_issuer u i)"
  proof -
    let ?dm = "\<lambda>m. case m of None \<Rightarrow> Ok None | Some s \<Rightarrow> bindR (ClaimsMapping_UnmarshalJSON X s) (\<lambda>c. Ok (Some c))"
    let ?dc = "\<lambda>m. case m of None \<Rightarrow> Ok None | Some s \<Rightarrow> bindR (ClaimConditions_UnmarshalJSON X s) (\<lambda>c. Ok (Some c))"
    obtain a b where d: "?dm (ir_mappings r) = Ok a" "?dc (ir_conditions r) = Ok b"
      "i = \<lparr>iss_OwnerID = ir_owner_id r, iss_ID = ir_id r, iss_Name = ir_name r, iss_URI = ir_uri r,
         iss_JWKSURI = ir_jwksuri r, iss_ClaimMappings = a, iss_ClaimConditions = b\<rparr>"
      using dec unfolding decode_issuer_def bindR_eq_Ok by (elim exE conjE) (rule that, auto)
    obtain a' where a': "?dm (ir_mappings (updated_row u ms cs r)) = Ok a'"
        "map_of (mapping_entries a') = map_of (mapping_entries (iss_ClaimMappings (updated_issuer u i)))"
      using ms d(1,3) by (cases "upd_ClaimMappings u") (auto simp: updated_row_def updated_issuer_def mapping_entries_def)
    have b': "?dc (ir_conditions (updated_row u ms cs r)) = Ok (iss_ClaimConditions (updated_issuer u i))"
      using cs d(2,3) by (cases "upd_ClaimConditions u") (auto simp: updated_row_def updated_issuer_def)
    show ?thesis
      unfolding decode_issuer_def a'(1) b' bindR.simps issuer_abs_def
      by (simp add: a'(2)) (simp add: d(3) updated_row_def updated_issuer_def cong: option.case_cong)
  qed
  ultimately show ?thesis by (elim exE conjE) (intro exI conjI, assumption+)
qed

definition with_issuer_row :: "issuer_row \<Rightarrow> tables \<Rightarrow> tables" where
  "with_issuer_row r' t = t\<lparr>issuers := map (\<lambda>r. if ir_id r = ir_id r' then r' else r) (issuers t)\<rparr>"

lemma updated_row_id [simp]: "ir_id (updated_row u ms cs r) = ir_id r"
  by (simp add: updated_row_def)

lemma update_issuer_row:
  assumes ok: "schema_ok t" and r: "r \<in> set (issuers t)"
  shows "update_issuer (update_bindings u ms cs) (ir_id r) t =
    (with_issuer_row (updated_row u ms cs r) t, [updated_row u ms cs r])"
proof -
  have dist: "distinct (map ir_id (issuers t))" using ok by (simp add: schema_ok_def keys_ok_def)
  then have eq: "x = r" if "x \<in> set (issuers t)" "ir_id x = ir_id r" for x
    using that r by (simp add: distinct_map inj_on_def)
  have "map (\<lambda>x. if ir_id x = ir_id r then fold set_column (update_bindings u ms cs) x else x) (issuers t)
      = map (\<lambda>x. if ir_id x = ir_id r then updated_row u ms cs r else x) (issuers t)"
    by (rule map_cong [OF refl]) (use eq in \<open>auto simp: fold_update_bindings\<close>)
  then have t': "fst (update_issuer (update_bindings u ms cs) (ir_id r) t) = with_issuer_row (updated_row u ms cs r) t"
    unfolding update_issuer_def with_issuer_row_def Let_def by (simp del: map_eq_conv)
  have "map ir_id (issuers (with_issuer_row (updated_row u ms cs r) t)) = map ir_id (issuers t)"
    by (auto simp: with_issuer_row_def)
  moreover have "updated_row u ms cs r \<in> set (issuers (with_issuer_row (updated_row u ms cs r) t))"
    using r by (force simp: with_issuer_row_def)
  ultimately have "select_issuer (ir_id r) (with_issuer_row (updated_row u ms cs r) t) = [updated_row u ms cs r]"
    using filter_unique [of ir_id _ "updated_row u ms cs r"] dist by (simp add: select_issuer_def)
  with t' show ?thesis by (simp add: update_issuer_def Let_def)
qed

lemma with_issuer_row_refs:
  "ir_id r' \<in> set (map ir_id (issuers t)) \<Longrightarrow> refs_ok t \<Longrightarrow> refs_ok (with_issuer_row r' t)"
proof -
  assume "refs_ok t"
  moreover have "map ir_id (issuers (with_issuer_row r' t)) = map ir_id (issuers t)"
    by (auto simp: with_issuer_row_def)
  ultimately show "refs_ok (with_issuer_row r' t)" by (simp add: refs_ok_def with_issuer_row_def)
qed

lemma UpdateIssuer_running:
  assumes run: "running c w t" and ok: "schema_ok t" and st: "update_storable X u" and ne: "\<not> empty_update u"
    and r: "r \<in> set (issuers t)" "decode_issuer X r = Ok i"
  shows "\<exists>r' w' i'. ir_id r' = ir_id r \<and> ir_owner_id r' = ir_owner_id r \<and> decode_issuer X r' = Ok i' \<and>
    issuer_abs i' = issuer_abs (updated_issuer u i) \<and>
    (if keys_ok (with_issuer_row r' t)
     then UpdateIssuer X c (ir_id r) u w = (Ok i', w') \<and> running c w' (with_issuer_row r' t)
     else UpdateIssuer X c (ir_id r) u w = (Err (PqError pqErrDuplicateKey), w') \<and> running c w' t)"
proof -
  obtain ms cs i' where b: "issuerUpdateToColBindings X u = Ok (update_bindings u ms cs)"
      "ms = None \<longleftrightarrow> upd_ClaimMappings u = None" "cs = None \<longleftrightarrow> upd_ClaimConditions u = None"
      "decode_issuer X (updated_row u ms cs r) = Ok i'" "issuer_abs i' = issuer_abs (updated_issuer u i)"
    using update_refines [OF st r(2)] by (elim exE conjE) (rule that)
  let ?r = "updated_row u ms cs r"
  have "update_bindings u ms cs \<noteq> []" using ne b(2,3) by (auto simp: update_bindings_Nil empty_update_def)
  then have par: "fst (colBindingsToParams (update_bindings u ms cs)) \<noteq> []" by (simp add: colBindingsToParams_Nil)
  have "refs_ok (with_issuer_row ?r t)"
    by (rule with_issuer_row_refs) (use r ok in \<open>auto simp: schema_ok_def\<close>)
  then have "UpdateIssuer X c (ir_id r) u w =
      (if keys_ok (with_issuer_row ?r t) then (Ok i', put_view c (with_issuer_row ?r t) (tick w))
       else (Err (PqError pqErrDuplicateKey), tick w))"
    using run b(1,4) par
    by (auto simp: UpdateIssuer_def bindE_def db_simps lift_def case_prod_beta update_issuer_row [OF ok r(1)]
        schema_violation_def scanIssuer_def scan_row_def)
  moreover have "running c (put_view c (with_issuer_row ?r t) (tick w)) (with_issuer_row ?r t)"
    using run by simp
  moreover have "ir_owner_id ?r = ir_owner_id r" by (simp add: updated_row_def)
  ultimately show ?thesis using b(4,5) run
    by (intro exI [of _ ?r] exI [of _ "if keys_ok (with_issuer_row ?r t) then put_view c (with_issuer_row ?r t) (tick w) else tick w"]) auto
qed

lemma UpdateIssuer_empty:
  assumes "running c w t" and "empty_update u"
  shows "UpdateIssuer X c iid u w = (Err (PqError ''42601''), tick w)"
  using assms
  by (simp add: UpdateIssuer_def empty_update_def issuerUpdateToColBindings_def Let_def bindIfNotNil_def
      bindE_def db_simps colBindingsToParams_def lift_def)

section \<open>Seeding is all or nothing\<close>

definition seed_row :: "('ast, 'expr) ext \<Rightarrow> SeedIssuer \<Rightarrow> issuer_row res" where
  "seed_row X seed = bindR (buildIssuerFromSeed X seed) (encode_issuer X)"

lemma insertIssuer_eq_Ok:
  assumes "ctx_tx c = CtxTx i" and "insertIssuer X c iss w = (Ok u, w')"
  shows "\<exists>b t r. tx_lookup i w = TxOpen b t \<and> encode_issuer X iss = Ok r \<and>
    tx_lookup i w' = TxOpen b (insert_issuer r t) \<and> committed w' = committed w"
  using assms
  by (auto simp: insertIssuer_alt getContextTx_def bindE_eq_Ok tx_exec_eq_Ok tx_lookup_put_tx tx_lookup_Open)

lemma seed_loop_eq_Ok:
  assumes "ctx_tx c = CtxTx i" and "seed_loop X c seeds w = (Ok u, w')" and "tx_lookup i w = TxOpen b t"
  shows "\<exists>rows. traverse (seed_row X) seeds = Ok rows \<and> committed w' = committed w \<and>
    tx_lookup i w' = TxOpen b (t\<lparr>issuers := issuers t @ rows\<rparr>)"
  using assms(2,3)
proof (induction seeds arbitrary: w t)
  case (Cons seed seeds)
  from Cons.prems(1) obtain iss v where v: "buildIssuerFromSeed X seed = Ok iss" "insertIssuer X c iss w = (Ok (), v)"
      "seed_loop X c seeds v = (Ok u, w')"
    by (auto simp: bindE_eq_Ok)
  from insertIssuer_eq_Ok [OF assms(1) v(2)] Cons.prems(2) obtain r where
    r: "encode_issuer X iss = Ok r" "tx_lookup i v = TxOpen b (insert_issuer r t)" "committed v = committed w" by auto
  from Cons.IH [OF v(3) r(2)] r v(1) show ?case
    by (auto simp: seed_row_def insert_issuer_def)
qed simp

lemma seedDatabase_outcome:
  assumes "seedDatabase X c seeds w = (res, w')"
  shows "(\<exists>rows. res = Ok () \<and> traverse (seed_row X) seeds = Ok rows \<and>
      committed w' = (committed w)\<lparr>issuers := issuers (committed w) @ rows\<rparr>) \<or>
    res \<noteq> Ok () \<and> committed w' = committed w"
proof (cases "faults w (ticks w)")
  case (Some e)
  with assms show ?thesis by (auto simp: seedDatabase_def bindE_def beginTxContext_cases)
next
  case None
  let ?i = "length (txs w)" let ?c = "c\<lparr>ctx_tx := CtxTx ?i\<rparr>"
  let ?w = "(tick w)\<lparr>txs := txs w @ [TxOpen (committed w) (committed w)]\<rparr>"
  obtain r v where loop: "seed_loop X ?c seeds ?w = (r, v)" by fastforce
  have com: "committed v = committed w"
    using frameD [OF seed_loop_frames(1) loop] by (simp add: evolve_def)
  have rest: "seedDatabase X c seeds w =
      bindE (\<lambda>_. (r, v)) (\<lambda>_. tryE (commitContextTx ?c) (\<lambda>err. bindE (rollbackContextTx ?c) (\<lambda>_. fail err)) (\<lambda>_. ret ())) w"
    using None loop by (simp add: seedDatabase_def bindE_def beginTxContext_cases)
  show ?thesis
  proof (cases r)
    case (Ok u)
    have "tx_lookup ?i ?w = TxOpen (committed w) (committed w)" by (simp add: tx_lookup_def)
    from seed_loop_eq_Ok [OF _ loop [unfolded Ok] this] obtain rows where rows:
      "traverse (seed_row X) seeds = Ok rows"
      "tx_lookup ?i v = TxOpen (committed w) ((committed w)\<lparr>issuers := issuers (committed w) @ rows\<rparr>)" by auto
    then have done_: "tx_lookup ?i (tick (put_tx ?i TxDone v)) = TxDone"
      by (simp add: tx_lookup_put_tx tx_lookup_Open)
    show ?thesis
    proof (cases "faults v (ticks v)")
      case None
      then show ?thesis
        using assms rest Ok rows com
        by (auto simp: go_simps commitContextTx_def getContextTx_def tx_Commit_cases)
    next
      case (Some e)
      then show ?thesis
        using assms rest Ok rows com done_
        by (auto simp: go_simps commitContextTx_def rollbackContextTx_def getContextTx_def
            tx_Commit_cases tx_Rollback_def)
    qed
  qed (use assms rest com in \<open>auto simp: bindE_def\<close>)
qed

section \<open>Properties\<close>

text \<open>C24: creating an issuer and reading it back. The ID and the URI are unique; an issuer that is created
  is found under both, with the same owner, name and URIs, the same claim mapping and the same claim
  condition.\<close>

theorem CreateIssuer_round_trip:
  assumes run: "running c w t" and ok: "schema_ok t" and st: "storable X i"
  shows "\<exists>w'. if issuer_conflict i t
    then CreateIssuer X c i w = (Err (PqError pqErrDuplicateKey), w') \<and> running c w' t
    else CreateIssuer X c i w = (Ok i, w') \<and>
      (\<exists>i'. fst (GetIssuerByID X c (iss_ID i) w') = Ok i' \<and> fst (GetIssuerByURI X c (iss_URI i) w') = Ok i' \<and>
         issuer_abs i' = issuer_abs i)"
proof -
  obtain r i' where r: "encode_issuer X i = Ok r" "decode_issuer X r = Ok i'" "issuer_abs i' = issuer_abs i"
    using encode_decode_issuer [OF st] by blast
  let ?w = "put_view c (insert_issuer r t) (tick w)"
  have run': "running c ?w (insert_issuer r t)" using run by simp
  show ?thesis
  proof (cases "issuer_conflict i t")
    case True
    with run show ?thesis
      by (intro exI [of _ "tick w"]) (simp add: CreateIssuer_def bindE_def insertIssuer_running [OF run ok r(1)])
  next
    case False
    have "CreateIssuer X c i w = (Ok i, ?w)"
      using False by (simp add: CreateIssuer_def bindE_def insertIssuer_running [OF run ok r(1)] ret_def)
    with False r(2,3) show ?thesis
      by (intro exI [of _ ?w])
        (simp add: GetIssuerByID_running [OF run'] GetIssuerByURI_running [OF run'] select_inserted_issuer [OF r(1) False])
  qed
qed

definition sample_issuer :: "string Issuer" where
  "sample_issuer = \<lparr>iss_OwnerID = ''tnnt-1'', iss_ID = ''idntiss-2'', iss_Name = ''other'', iss_URI = ''https://other'',
     iss_JWKSURI = ''https://other/jwks'', iss_ClaimMappings = Some [(''sub'', ''claims.sub'')],
     iss_ClaimConditions = Some (Some ''true'')\<rparr>"

lemma storable_sample: "storable ext0 sample_issuer"
  by (simp add: storable_def sample_issuer_def mapping_entries_def mapping_sample codec_sample)

theorem CreateIssuer_round_trip_witness:
  "\<exists>w' i'. CreateIssuer ext0 tx_ctx sample_issuer (tx_world tables1) = (Ok sample_issuer, w') \<and>
     fst (GetIssuerByURI ext0 tx_ctx ''https://other'' w') = Ok i' \<and> issuer_abs i' = issuer_abs sample_issuer"
proof -
  have "\<not> issuer_conflict sample_issuer tables1" "iss_URI sample_issuer = ''https://other''"
    by (auto simp: issuer_conflict_def sample_issuer_def tables1_def issuer1_def)
  then show ?thesis using CreateIssuer_round_trip [OF running_sample schema_tables1 storable_sample] by auto
qed

text \<open>C20: updating an issuer. The columns the request names are bound and set by one statement, and the
  issuer that is returned is the old one with exactly the named fields replaced; a URI that another
  issuer has is refused and nothing changes.\<close>

theorem UpdateIssuer_refines:
  assumes "running c w t" and "schema_ok t" and "update_storable X u" and "\<not> empty_update u"
    and "r \<in> set (issuers t)" and "decode_issuer X r = Ok i"
  shows "\<exists>r' w' i'. ir_id r' = ir_id r \<and> ir_owner_id r' = ir_owner_id r \<and> decode_issuer X r' = Ok i' \<and>
    issuer_abs i' = issuer_abs (updated_issuer u i) \<and>
    (if keys_ok (with_issuer_row r' t)
     then UpdateIssuer X c (ir_id r) u w = (Ok i', w') \<and> running c w' (with_issuer_row r' t)
     else UpdateIssuer X c (ir_id r) u w = (Err (PqError pqErrDuplicateKey), w') \<and> running c w' t)"
  using assms by (rule UpdateIssuer_running)

definition rename_update :: "string IssuerUpdate" where
  "rename_update = \<lparr>upd_Name = Some ''renamed'', upd_URI = None, upd_JWKSURI = None, upd_ClaimMappings = None,
     upd_ClaimConditions = None\<rparr>"

theorem UpdateIssuer_refines_witness:
  "\<exists>i' w'. UpdateIssuer ext0 tx_ctx ''idntiss-1'' rename_update (tx_world tables1) = (Ok i', w') \<and>
     fst (issuer_abs i') = [''tnnt-1'', ''idntiss-1'', ''renamed'', ''https://iss'', ''https://iss/jwks'']"
proof -
  have u: "update_storable ext0 rename_update" "\<not> empty_update rename_update"
    by (simp_all add: update_storable_def rename_update_def empty_update_def mapping_entries_def mapping_sample_Nil)
  have r: "issuer1 \<in> set (issuers tables1)" "decode_issuer ext0 issuer1 = Ok \<lparr>iss_OwnerID = ''tnnt-1'', iss_ID = ''idntiss-1'',
      iss_Name = ''example'', iss_URI = ''https://iss'', iss_JWKSURI = ''https://iss/jwks'', iss_ClaimMappings = None,
      iss_ClaimConditions = None\<rparr>" (is "_ = Ok ?i")
    by (simp_all add: tables1_def decode_issuer_def issuer1_def)
  obtain r' w' i' where w: "issuer_abs i' = issuer_abs (updated_issuer rename_update ?i)"
      "if keys_ok (with_issuer_row r' tables1)
       then UpdateIssuer ext0 tx_ctx (ir_id issuer1) rename_update (tx_world tables1) = (Ok i', w') \<and>
         running tx_ctx w' (with_issuer_row r' tables1)
       else UpdateIssuer ext0 tx_ctx (ir_id issuer1) rename_update (tx_world tables1) = (Err (PqError pqErrDuplicateKey), w') \<and>
         running tx_ctx w' tables1"
      "ir_id r' = ''idntiss-1''"
    using UpdateIssuer_refines [OF running_sample schema_tables1 u r] by (auto simp: issuer1_def)
  have "issuers (with_issuer_row r' tables1) = [r']"
    using w(3) by (simp add: with_issuer_row_def tables1_def issuer1_def)
  moreover have "keys_ok tables1" using schema_tables1 by (simp add: schema_ok_def)
  ultimately have "keys_ok (with_issuer_row r' tables1)" by (simp add: keys_ok_def) (simp add: with_issuer_row_def)
  with w show ?thesis by (auto simp: issuer1_def issuer_abs_def updated_issuer_def rename_update_def)
qed



text \<open>C25: deleting an issuer removes the issuer and all its users, and nothing else; the references of the
  schema stay intact. For an issuer that does not exist it fails and changes nothing.\<close>

theorem DeleteIssuer_cascades:
  assumes "running c w t" and "schema_ok t"
  shows "\<exists>w' t'. DeleteIssuer c iid w =
      (if iid \<in> set (map ir_id (issuers t)) then Ok () else Err ErrorIssuerNotFound, w') \<and> running c w' t' \<and> schema_ok t' \<and>
    issuers t' = filter (\<lambda>r. ir_id r \<noteq> iid) (issuers t) \<and> user_info t' = filter (\<lambda>u. ur_iss_id u \<noteq> iid) (user_info t) \<and>
    oauth_clients t' = oauth_clients t \<and> groups t' = groups t \<and> group_members t' = group_members t"
  using DeleteIssuer_running [OF assms, of iid] without_issuer_schema [OF assms(2), of iid]
  by (fastforce simp: without_issuer_def)

theorem DeleteIssuer_cascades_witness:
  "\<exists>w' t'. DeleteIssuer tx_ctx ''idntiss-1'' (tx_world tables1) = (Ok (), w') \<and> tx_view tx_ctx w' = Some t' \<and>
     issuers t' = [] \<and> user_info t' = []"
proof -
  have "''idntiss-1'' \<in> set (map ir_id (issuers tables1))"
    "filter (\<lambda>r. ir_id r \<noteq> ''idntiss-1'') (issuers tables1) = []"
    "filter (\<lambda>u. ur_iss_id u \<noteq> ''idntiss-1'') (user_info tables1) = []"
    by (simp_all add: tables1_def issuer1_def user1_def)
  then show ?thesis
    using DeleteIssuer_cascades [OF running_sample schema_tables1, of "''idntiss-1''"] by (auto simp: running_def)
qed

end
