(* ===== verification/Sha256.thy ===== *)
theory Sha256
  imports Codec "HOL-Library.Word"
begin

unbundle bit_operations_syntax

text \<open>
  SHA-256 as \<open>crypto/sha256\<close> computes it (\<open>sha256.Sum256\<close>), on lists of bytes. User IDs and the
  CEL variable \<open>subSHA256\<close> are made from it.
\<close>

type_synonym u32 = "32 word"

text \<open>The round constants and the initial state, in decimal.\<close>

definition sha_K :: "u32 list" where
  "sha_K =
   [1116352408, 1899447441, 3049323471, 3921009573, 961987163, 1508970993, 2453635748, 2870763221,
    3624381080, 310598401, 607225278, 1426881987, 1925078388, 2162078206, 2614888103, 3248222580,
    3835390401, 4022224774, 264347078, 604807628, 770255983, 1249150122, 1555081692, 1996064986,
    2554220882, 2821834349, 2952996808, 3210313671, 3336571891, 3584528711, 113926993, 338241895,
    666307205, 773529912, 1294757372, 1396182291, 1695183700, 1986661051, 2177026350, 2456956037,
    2730485921, 2820302411, 3259730800, 3345764771, 3516065817, 3600352804, 4094571909, 275423344,
    430227734, 506948616, 659060556, 883997877, 958139571, 1322822218, 1537002063, 1747873779,
    1955562222, 2024104815, 2227730452, 2361852424, 2428436474, 2756734187, 3204031479, 3329325298]"

definition sha_H0 :: "u32 list" where
  "sha_H0 =
   [1779033703, 3144134277, 1013904242, 2773480762, 1359893119, 2600822924, 528734635, 1541459225]"

definition rotr :: "nat \<Rightarrow> u32 \<Rightarrow> u32" where
  "rotr n x = drop_bit n x OR push_bit (32 - n) x"

definition big_sigma0 :: "u32 \<Rightarrow> u32" where "big_sigma0 x = rotr 2 x XOR rotr 13 x XOR rotr 22 x"
definition big_sigma1 :: "u32 \<Rightarrow> u32" where "big_sigma1 x = rotr 6 x XOR rotr 11 x XOR rotr 25 x"
definition sigma0 :: "u32 \<Rightarrow> u32" where "sigma0 x = rotr 7 x XOR rotr 18 x XOR drop_bit 3 x"
definition sigma1 :: "u32 \<Rightarrow> u32" where "sigma1 x = rotr 17 x XOR rotr 19 x XOR drop_bit 10 x"

text \<open>The 64 rounds: the window holds the next sixteen words of the message schedule.\<close>

fun sha_rounds :: "u32 list \<Rightarrow> u32 list \<Rightarrow> u32 list \<Rightarrow> u32 list" where
  "sha_rounds (k # ks) window [a, b, c, d, e, f, g, h] =
    (let x = hd window;
         t1 = h + big_sigma1 e + ((e AND f) XOR (NOT e AND g)) + k + x;
         t2 = big_sigma0 a + ((a AND b) XOR (a AND c) XOR (b AND c));
         next = sigma1 (window ! 14) + window ! 9 + sigma0 (window ! 1) + x
     in sha_rounds ks (tl window @ [next]) [t1 + t2, a, b, c, d + t1, e, f, g])"
| "sha_rounds _ window st = st"

fun be_words :: "nat list \<Rightarrow> u32 list" where
  "be_words (a # b # c # d # r) = word_of_int (((int a * 256 + int b) * 256 + int c) * 256 + int d) # be_words r"
| "be_words _ = []"

definition word_bytes :: "u32 \<Rightarrow> nat list" where
  "word_bytes x =
     map (\<lambda>d. nat (uint x div d mod 256)) [16777216, 65536, 256, 1]"

definition len_bytes :: "nat \<Rightarrow> nat list" where
  "len_bytes n = map (\<lambda>i. nat (int n div 256 ^ i mod 256)) [7, 6, 5, 4, 3, 2, 1, 0]"

definition sha_pad :: "nat list \<Rightarrow> nat list" where
  "sha_pad msg = msg @ [128] @ replicate ((119 - length msg mod 64) mod 64) 0 @ len_bytes (8 * length msg)"

function sha_blocks :: "nat list \<Rightarrow> u32 list \<Rightarrow> u32 list" where
  "sha_blocks bs st =
     (if bs = [] then st
      else sha_blocks (drop 64 bs) (map2 (+) st (sha_rounds sha_K (be_words (take 64 bs)) st)))"
  by pat_completeness auto
termination
  by (relation "measure (\<lambda>(bs, st). length bs)") auto

declare sha_blocks.simps [simp del]

definition Sum256 :: "nat list \<Rightarrow> nat list" where
  "Sum256 msg = concat (map word_bytes (sha_blocks (sha_pad msg) sha_H0))"

text \<open>\<open>hex.EncodeToString\<close>.\<close>

definition hex_EncodeToString :: "nat list \<Rightarrow> string" where
  "hex_EncodeToString bs =
     concat (map (\<lambda>b. [''0123456789abcdef'' ! (b div 16 mod 16), ''0123456789abcdef'' ! (b mod 16)]) bs)"

lemma length_sha_rounds: "length st = 8 \<Longrightarrow> length (sha_rounds ks window st) = 8"
  by (induction ks window st rule: sha_rounds.induct) (simp_all add: Let_def)

lemma length_sha_blocks: "length st = 8 \<Longrightarrow> length (sha_blocks bs st) = 8"
proof (induction bs st rule: sha_blocks.induct)
  case (1 bs st)
  then show ?case by (subst sha_blocks.simps) (auto simp: length_sha_rounds)
qed

lemma length_concat_const: "(\<And>x. x \<in> set xs \<Longrightarrow> length (f x) = k) \<Longrightarrow> length (concat (map f xs)) = length xs * k"
  by (induction xs) auto

lemma length_Sum256: "length (Sum256 msg) = 32"
proof -
  have "length (sha_blocks (sha_pad msg) sha_H0) = 8"
    by (rule length_sha_blocks) (simp add: sha_H0_def)
  then show ?thesis
    unfolding Sum256_def using length_concat_const [of "sha_blocks (sha_pad msg) sha_H0" word_bytes 4]
    by (simp add: word_bytes_def)
qed

lemma Sum256_bytes: "b \<in> set (Sum256 msg) \<Longrightarrow> b < 256"
  by (auto simp: Sum256_def word_bytes_def nat_less_iff)

end
