(* ===== verification/UserStore.thy ===== *)
theory UserStore
  imports IssuerStore Sha256
begin

text \<open>
  The user service, \<open>src/internal/storage/userinfo.go\<close>: one definition per function, over the
  SQL statements it runs.

  A user is identified by an issuer and a subject. Its ID is either the one given by the caller
  or the hash of the two, and stays the ID of that user once stored.
\<close>

section \<open>Identifiers\<close>

definition generateSubjectID :: "('ast, 'expr) ext \<Rightarrow> string \<Rightarrow> string \<Rightarrow> string \<Rightarrow> string res" where
  "generateSubjectID X prefix iss sub =
    (let issSub = iss @ sub;
         issSubHash = Sum256 (bytes issSub);
         digest = RawURLEncoding_EncodeToString issSubHash;
         out = prefix @ ''-'' @ digest
     in gidx_Parse X out)"

section \<open>Statements\<close>

text \<open>\<open>user_info JOIN issuers ON user_info.iss_id = issuers.id\<close>, in the order of the tables.\<close>

definition users_issuers :: "tables \<Rightarrow> (user_row \<times> issuer_row) list" where
  "users_issuers t =
     filter (\<lambda>(u, i). ur_iss_id u = ir_id i) (List.product (user_info t) (issuers t))"

definition select_user_claims :: "string \<Rightarrow> string \<Rightarrow> tables \<Rightarrow> (user_row \<times> issuer_row) list" where
  "select_user_claims iss sub t = filter (\<lambda>(u, i). ir_uri i = iss \<and> ur_sub u = sub) (users_issuers t)"

definition select_user :: "string \<Rightarrow> tables \<Rightarrow> (user_row \<times> issuer_row) list" where
  "select_user uid t = filter (\<lambda>(u, i). ur_id u = uid) (users_issuers t)"

definition user_of_rows :: "user_row \<times> issuer_row \<Rightarrow> UserInfo" where
  "user_of_rows r = \<lparr>ui_ID = ur_id (fst r), ui_Name = ur_name (fst r), ui_Email = ur_email (fst r),
                     ui_Issuer = ir_uri (snd r), ui_Subject = ur_sub (fst r)\<rparr>"

definition user_col :: "user_row \<times> issuer_row \<Rightarrow> string \<Rightarrow> string" where
  "user_col r f =
     (if f = ''id'' then ur_id (fst r) else if f = ''name'' then ur_name (fst r)
      else if f = ''email'' then ur_email (fst r) else if f = ''sub'' then ur_sub (fst r)
      else ur_iss_id (fst r))"

definition userInfoCols :: "string list" where
  "userInfoCols = [''id'', ''name'', ''email'', ''sub'', ''iss_id'']"

text \<open>
  \<open>INSERT INTO user_info ... ON CONFLICT (sub, iss_id) DO UPDATE SET sub = excluded.sub, iss_id =
  excluded.iss_id RETURNING id\<close>: the update assigns the two columns the values they have.
\<close>

definition upsert_user :: "user_row \<Rightarrow> tables \<Rightarrow> tables \<times> string list" where
  "upsert_user r t =
     (case find (\<lambda>u. ur_sub u = ur_sub r \<and> ur_iss_id u = ur_iss_id r) (user_info t) of
        Some u \<Rightarrow> (t, [ur_id u])
      | None \<Rightarrow> (t\<lparr>user_info := user_info t @ [r]\<rparr>, [ur_id r]))"

section \<open>Operations\<close>

definition LookupUserInfoByClaims :: "ctx \<Rightarrow> string \<Rightarrow> string \<Rightarrow> UserInfo dbio" where
  "LookupUserInfoByClaims c iss sub =
     bindE (ctx_query c (select_user_claims iss sub)) (\<lambda>rows.
     tryE (scan_row rows)
       (\<lambda>err. if errors_Is err SqlErrNoRows then fail ErrUserInfoNotFound else fail err)
       (\<lambda>r. ret ((user_of_rows r)\<lparr>ui_ID := []\<rparr>)))"

definition LookupUserInfoByID :: "ctx \<Rightarrow> string \<Rightarrow> UserInfo dbio" where
  "LookupUserInfoByID c uid =
     bindE (ctx_query c (select_user uid)) (\<lambda>rows.
     tryE (scan_row rows)
       (\<lambda>err. if errors_Is err SqlErrNoRows then fail ErrUserInfoNotFound else fail err)
       (\<lambda>r. ret (user_of_rows r)))"

definition LookupUserOwnerID :: "ctx \<Rightarrow> string \<Rightarrow> string dbio" where
  "LookupUserOwnerID c uid =
     bindE (ctx_query c (select_user uid)) (\<lambda>rows.
     tryE (scan_row rows)
       (\<lambda>err. if errors_Is err SqlErrNoRows then fail ErrUserInfoNotFound else fail err)
       (\<lambda>r. ret (ir_owner_id (snd r))))"

definition LookupUserInfosByIssuerID :: "ctx \<Rightarrow> string \<Rightarrow> paginator \<Rightarrow> UserInfo list dbio" where
  "LookupUserInfosByIssuerID c iid pagination =
    (let paginate = WithQualifier
           (Paginate pagination (ContextAsOfSystemTime (ctx_aost c) (AostString ''-1m''))) ''user_info''
     in bindE (page_query paginate userInfoCols user_col
                 (\<lambda>t. filter (\<lambda>(u, i). ir_id i = iid) (users_issuers t)))
          (\<lambda>rows. ret (map user_of_rows rows)))"

definition StoreUserInfo :: "('ast, 'expr) ext \<Rightarrow> ctx \<Rightarrow> UserInfo \<Rightarrow> UserInfo dbio" where
  "StoreUserInfo X c userInfo =
     (if ui_Issuer userInfo = [] then fail (ErrInvalidUserInfo ''issuer is empty'')
      else if ui_Subject userInfo = [] then fail (ErrInvalidUserInfo ''subject is empty'')
      else
        bindE (getContextTx c) (\<lambda>tx.
        bindE (tx_query tx (select_issuer_uri (ui_Issuer userInfo))) (\<lambda>rows.
        tryE (scan_row rows)
          (\<lambda>err. if err = SqlErrNoRows then fail ErrorIssuerNotFound else fail err)
          (\<lambda>r. let issuerID = ir_id r in
        bindE (if ui_ID userInfo = []
               then lift (generateSubjectID X IdentityUserIDPrefix (ui_Issuer userInfo) (ui_Subject userInfo))
               else ret (ui_ID userInfo)) (\<lambda>newID.
        bindE (tx_exec tx (upsert_user
                 \<lparr>ur_id = newID, ur_name = ui_Name userInfo, ur_email = ui_Email userInfo,
                  ur_sub = ui_Subject userInfo, ur_iss_id = issuerID\<rparr>)) (\<lambda>rows.
        bindE (scan_row rows) (\<lambda>userID.
        ret (userInfo\<lparr>ui_ID := userID\<rparr>))))))))"

definition parseClaim :: "claims_map \<Rightarrow> string \<Rightarrow> bool \<Rightarrow> string res" where
  "parseClaim claims key required =
    (let rawVal = (case map_of claims key of None \<Rightarrow> VStr [] | Some v \<Rightarrow> v)
     in case rawVal of
          VStr val \<Rightarrow> if required \<and> val = [] then Err ErrRequiredClaim else Ok val
        | _ \<Rightarrow> Err ErrInvalidClaim)"

definition ParseUserInfoFromClaims :: "claims_map \<Rightarrow> UserInfo res" where
  "ParseUserInfoFromClaims claims =
     bindR (parseClaim claims ''iss'' True) (\<lambda>iss.
     bindR (parseClaim claims ''sub'' True) (\<lambda>sub.
     bindR (parseClaim claims ''name'' False) (\<lambda>name.
     bindR (parseClaim claims ''email'' False) (\<lambda>email.
     Ok \<lparr>ui_ID = [], ui_Name = name, ui_Email = email, ui_Issuer = iss, ui_Subject = sub\<rparr>))))"

section \<open>Frames\<close>

lemma user_read_frames [frame_rules]:
  "frame (evolve o') (LookupUserInfoByClaims c s s')" "frame silent (LookupUserInfoByClaims c s s')"
  "frame (evolve o') (LookupUserInfoByID c s)" "frame silent (LookupUserInfoByID c s)"
  "frame (evolve o') (LookupUserOwnerID c s)" "frame silent (LookupUserOwnerID c s)"
  "frame (evolve o') (LookupUserInfosByIssuerID c s p)" "frame silent (LookupUserInfosByIssuerID c s p)"
  unfolding LookupUserInfoByClaims_def LookupUserInfoByID_def LookupUserOwnerID_def
    LookupUserInfosByIssuerID_def
  by (intro frame_rules)+

lemma StoreUserInfo_evolve [frame_rules]: "frame (evolve (ctx_id c)) (StoreUserInfo X c u)"
  unfolding StoreUserInfo_def
  by (rule ev.if_frame, rule ev.fail_frame, rule ev.if_frame, rule ev.fail_frame)
    (intro with_tx_evolve frame_rules)

lemma StoreUserInfo_silent [frame_rules]: "frame silent (StoreUserInfo X c u)"
  unfolding StoreUserInfo_def by (intro frame_rules)

section \<open>What the operations do\<close>

text \<open>The row of a user.\<close>

definition user_row_of :: "string \<Rightarrow> string \<Rightarrow> tables \<Rightarrow> user_row option" where
  "user_row_of iid sub t = find (\<lambda>u. ur_sub u = sub \<and> ur_iss_id u = iid) (user_info t)"

text \<open>The ID a new user is given.\<close>

definition new_user_ID :: "('ast, 'expr) ext \<Rightarrow> UserInfo \<Rightarrow> string res" where
  "new_user_ID X u =
     (if ui_ID u = [] then generateSubjectID X IdentityUserIDPrefix (ui_Issuer u) (ui_Subject u) else Ok (ui_ID u))"

definition add_user :: "UserInfo \<Rightarrow> string \<Rightarrow> string \<Rightarrow> tables \<Rightarrow> tables" where
  "add_user u uid iid t = t\<lparr>user_info := user_info t @ [\<lparr>ur_id = uid, ur_name = ui_Name u, ur_email = ui_Email u,
     ur_sub = ui_Subject u, ur_iss_id = iid\<rparr>]\<rparr>"

lemma add_user_violation:
  assumes ok: "schema_ok t" and i: "iid \<in> set (map ir_id (issuers t))" and new: "user_row_of iid (ui_Subject u) t = None"
  shows "schema_violation (add_user u uid iid t) =
    (if uid \<in> set (map ur_id (user_info t)) then Some pqErrDuplicateKey else None)"
proof -
  have "(iid, ui_Subject u) \<notin> set (map (\<lambda>u. (ur_iss_id u, ur_sub u)) (user_info t))"
    using new by (auto simp: user_row_of_def find_None_iff)
  then have "keys_ok (add_user u uid iid t) \<longleftrightarrow> uid \<notin> set (map ur_id (user_info t))"
    using ok by (auto simp: keys_ok_def schema_ok_def add_user_def)
  moreover have "refs_ok (add_user u uid iid t)"
    using ok i by (auto simp: refs_ok_def schema_ok_def add_user_def)
  ultimately show ?thesis by (simp add: schema_violation_def)
qed

text \<open>Storing a user of a known issuer: every outcome.\<close>

lemma StoreUserInfo_running:
  assumes run: "running c w t" and ok: "schema_ok t" and ne: "ui_Issuer u \<noteq> []" "ui_Subject u \<noteq> []"
    and iss: "i \<in> set (issuers t)" "ir_uri i = ui_Issuer u" and uid: "new_user_ID X u = Ok uid"
  shows "\<exists>w'. (case user_row_of (ir_id i) (ui_Subject u) t of
      Some r \<Rightarrow> StoreUserInfo X c u w = (Ok (u\<lparr>ui_ID := ur_id r\<rparr>), w') \<and> running c w' t
    | None \<Rightarrow>
        if uid \<in> set (map ur_id (user_info t))
        then StoreUserInfo X c u w = (Err (PqError pqErrDuplicateKey), w') \<and> running c w' t
        else StoreUserInfo X c u w = (Ok (u\<lparr>ui_ID := uid\<rparr>), w') \<and> running c w' (add_user u uid (ir_id i) t))"
proof -
  have "distinct (map ir_uri (issuers t))" using ok by (simp add: schema_ok_def keys_ok_def)
  then have sel: "select_issuer_uri (ui_Issuer u) t = [i]"
    using iss filter_unique [of ir_uri "issuers t" i] by (simp add: select_issuer_uri_def)
  have lift: "(if ui_ID u = [] then lift (generateSubjectID X IdentityUserIDPrefix (ui_Issuer u) (ui_Subject u))
      else ret (ui_ID u)) = ret uid"
    using uid by (auto simp: new_user_ID_def fun_eq_iff go_simps split: if_splits)
  let ?r = "\<lparr>ur_id = uid, ur_name = ui_Name u, ur_email = ui_Email u, ur_sub = ui_Subject u, ur_iss_id = ir_id i\<rparr>"
  let ?ex = "tx_exec (tx_of c) (upsert_user ?r) (tick w)"
  have st: "StoreUserInfo X c u w =
      bindE (\<lambda>_. ?ex) (\<lambda>rows. bindE (scan_row rows) (\<lambda>userID. ret (u\<lparr>ui_ID := userID\<rparr>))) w"
    unfolding StoreUserInfo_def lift using run ne
    by (simp add: go_simps db_simps sel scan_row_def Let_def)
  show ?thesis
  proof (cases "user_row_of (ir_id i) (ui_Subject u) t")
    case (Some r)
    then have "upsert_user ?r t = (t, [ur_id r])" by (simp add: upsert_user_def user_row_of_def)
    then have "?ex = (Ok [ur_id r], put_view c t (tick (tick w)))"
      using run ok by (simp add: db_simps)
    with Some st run show ?thesis by (auto simp: scan_row_def go_simps)
  next
    case None
    then have up: "upsert_user ?r t = (add_user u uid (ir_id i) t, [uid])"
      by (simp add: upsert_user_def user_row_of_def add_user_def)
    have "schema_violation (add_user u uid (ir_id i) t) =
        (if uid \<in> set (map ur_id (user_info t)) then Some pqErrDuplicateKey else None)"
      by (rule add_user_violation [OF ok _ None]) (use iss in auto)
    then have "?ex = (if uid \<in> set (map ur_id (user_info t)) then (Err (PqError pqErrDuplicateKey), tick (tick w))
        else (Ok [uid], put_view c (add_user u uid (ir_id i) t) (tick (tick w))))"
      using run up by (simp add: db_simps)
    with None st run show ?thesis
      by (cases "uid \<in> set (map ur_id (user_info t))") (auto simp: scan_row_def go_simps)
  qed
qed

text \<open>Looking up what was stored.\<close>

lemma users_issuers_in:
  "(u, i) \<in> set (users_issuers t) \<longleftrightarrow> u \<in> set (user_info t) \<and> i \<in> set (issuers t) \<and> ur_iss_id u = ir_id i"
  by (auto simp: users_issuers_def)

lemma distinct_users_issuers:
  assumes "schema_ok t"
  shows "distinct (map (\<lambda>(u, i). ur_id u) (users_issuers t))"
proof -
  have u: "distinct (map ur_id (user_info t))" and i: "distinct (map ir_id (issuers t))"
    using assms by (auto simp: schema_ok_def keys_ok_def)
  have "inj_on (\<lambda>(u, i). ur_id u) (set (users_issuers t))"
  proof (rule inj_onI)
    fix x y assume x: "x \<in> set (users_issuers t)" and y: "y \<in> set (users_issuers t)"
      and eq: "(\<lambda>(u, i). ur_id u) x = (\<lambda>(u, i). ur_id u) y"
    obtain v j v' j' where xy: "x = (v, j)" "y = (v', j')" by fastforce
    with x y eq u have "v = v'" by (auto simp: users_issuers_in distinct_map inj_on_def)
    with x y xy i have "j = j'" by (auto simp: users_issuers_in distinct_map inj_on_def)
    with xy \<open>v = v'\<close> show "x = y" by simp
  qed
  moreover have "distinct (users_issuers t)"
    using u i by (auto simp: users_issuers_def distinct_map intro!: distinct_filter distinct_product)
  ultimately show ?thesis by (simp add: distinct_map)
qed

lemma select_user_in:
  assumes "schema_ok t" and "u \<in> set (user_info t)" and "i \<in> set (issuers t)" and "ur_iss_id u = ir_id i"
  shows "select_user (ur_id u) t = [(u, i)]"
  using filter_unique [OF distinct_users_issuers [OF assms(1)], of "(u, i)"] assms(2-4)
  by (simp add: users_issuers_in select_user_def case_prod_unfold)

lemma select_user_claims_in:
  assumes ok: "schema_ok t" and u: "u \<in> set (user_info t)" and i: "i \<in> set (issuers t)" and ui: "ur_iss_id u = ir_id i"
  shows "select_user_claims (ir_uri i) (ur_sub u) t = [(u, i)]"
proof -
  have "v = u \<and> j = i" if "(v, j) \<in> set (users_issuers t)" "ir_uri j = ir_uri i" "ur_sub v = ur_sub u" for v j
  proof -
    have "distinct (map ir_uri (issuers t))" "distinct (map (\<lambda>u. (ur_iss_id u, ur_sub u)) (user_info t))"
      using ok by (simp_all add: schema_ok_def keys_ok_def)
    moreover from this(1) have "j = i" using that i by (auto simp: users_issuers_in distinct_map inj_on_def)
    ultimately show ?thesis using that u ui by (auto simp: users_issuers_in distinct_map inj_on_def)
  qed
  moreover have "v = u \<and> j = i" if "(v, j) \<in> set (users_issuers t)" "ur_id v = ur_id u" for v j
  proof -
    have "(v, j) \<in> set (select_user (ur_id u) t)" using that by (simp add: select_user_def)
    then show ?thesis by (simp add: select_user_in [OF assms])
  qed
  ultimately have "select_user_claims (ir_uri i) (ur_sub u) t = select_user (ur_id u) t"
    unfolding select_user_claims_def select_user_def by (intro filter_cong [OF refl]) auto
  with select_user_in [OF assms] show ?thesis by simp
qed

lemma LookupUserInfoByID_running:
  "running c w t \<Longrightarrow> LookupUserInfoByID c uid w =
     (case select_user uid t of [] \<Rightarrow> Err ErrUserInfoNotFound | r # _ \<Rightarrow> Ok (user_of_rows r), tick w)"
  by (auto simp: LookupUserInfoByID_def scan_row_def go_simps db_simps split: list.splits)

lemma LookupUserInfoByClaims_running:
  "running c w t \<Longrightarrow> LookupUserInfoByClaims c iss sub w =
     (case select_user_claims iss sub t of [] \<Rightarrow> Err ErrUserInfoNotFound
      | r # _ \<Rightarrow> Ok ((user_of_rows r)\<lparr>ui_ID := []\<rparr>), tick w)"
  by (auto simp: LookupUserInfoByClaims_def scan_row_def go_simps db_simps split: list.splits)

lemma LookupUserOwnerID_running:
  "running c w t \<Longrightarrow> LookupUserOwnerID c uid w =
     (case select_user uid t of [] \<Rightarrow> Err ErrUserInfoNotFound | r # _ \<Rightarrow> Ok (ir_owner_id (snd r)), tick w)"
  by (auto simp: LookupUserOwnerID_def scan_row_def go_simps db_simps split: list.splits)

text \<open>What a successful call has stored, in any world.\<close>

lemma upsert_user_result:
  assumes "upsert_user r t = (t', rows)"
  shows "\<exists>u \<in> set (user_info t'). rows = [ur_id u] \<and> ur_sub u = ur_sub r \<and> ur_iss_id u = ur_iss_id r \<and>
    (t' = t \<or> t' = t\<lparr>user_info := user_info t @ [u]\<rparr>)"
  using assms by (auto simp: upsert_user_def find_Some_iff split: option.splits)

lemma upsert_user_existing:
  assumes ok: "schema_ok t" and res: "upsert_user r t = (t', rows)"
    and u: "u \<in> set (user_info t)" "ur_sub u = ur_sub r" "ur_iss_id u = ur_iss_id r"
  shows "rows = [ur_id u]"
proof -
  obtain v where v: "find (\<lambda>u. ur_sub u = ur_sub r \<and> ur_iss_id u = ur_iss_id r) (user_info t) = Some v"
    using u by (cases "find (\<lambda>u. ur_sub u = ur_sub r \<and> ur_iss_id u = ur_iss_id r) (user_info t)")
      (auto simp: find_None_iff)
  then have "v \<in> set (user_info t)" "ur_sub v = ur_sub r" "ur_iss_id v = ur_iss_id r" by (auto simp: find_Some_iff)
  then have "v = u" using ok u by (auto simp: schema_ok_def keys_ok_def distinct_map inj_on_def)
  with v res show ?thesis by (simp add: upsert_user_def)
qed

lemma StoreUserInfo_Ok:
  assumes ctx: "ctx_tx c = CtxTx k" and lk: "tx_lookup k w = TxOpen b t" and res: "StoreUserInfo X c ui w = (Ok ui', w')"
  shows "\<exists>t' i u. tx_lookup k w' = TxOpen b t' \<and> i \<in> set (issuers t) \<and> ir_uri i = ui_Issuer ui \<and>
    u \<in> set (user_info t') \<and> ur_iss_id u = ir_id i \<and> ur_sub u = ui_Subject ui \<and> ui' = ui\<lparr>ui_ID := ur_id u\<rparr> \<and>
    (t' = t \<or> t' = t\<lparr>user_info := user_info t @ [u]\<rparr>) \<and> schema_ok t' \<and> committed w' = committed w \<and>
    faults w' = faults w \<and> ticks w' \<ge> ticks w \<and>
    (\<forall>v \<in> set (user_info t). schema_ok t \<and> ur_sub v = ui_Subject ui \<and> ur_iss_id v = ir_id i \<longrightarrow> ur_id u = ur_id v)"
proof -
  obtain i more newID rows rs w1 where sel: "select_issuer_uri (ui_Issuer ui) t = i # more"
    and ex: "tx_exec k (upsert_user \<lparr>ur_id = newID, ur_name = ui_Name ui, ur_email = ui_Email ui,
        ur_sub = ui_Subject ui, ur_iss_id = ir_id i\<rparr>) (tick w) = (Ok (rs # rows), w1)"
    and ui': "ui' = ui\<lparr>ui_ID := rs\<rparr>" "w' = w1"
    using res ctx lk
    by (auto simp: StoreUserInfo_def getContextTx_def bindE_eq_Ok tryE_eq_Ok scan_row_eq Let_def tx_query_def db_call_def
        split: if_splits option.splits tx.splits)
  have i: "i \<in> set (issuers t)" "ir_uri i = ui_Issuer ui"
    using arg_cong [OF sel, of set] by (auto simp: select_issuer_uri_def)
  let ?r = "\<lparr>ur_id = newID, ur_name = ui_Name ui, ur_email = ui_Email ui, ur_sub = ui_Subject ui, ur_iss_id = ir_id i\<rparr>"
  obtain t' where up: "upsert_user ?r t = (t', rs # rows)" "schema_ok t'" "w1 = put_tx k (TxOpen b t') (tick (tick w))"
    using ex lk by (auto simp: tx_exec_eq_Ok)
  then have "tx_lookup k w1 = TxOpen b t'" using tx_lookup_Open [OF lk] by (simp add: tx_lookup_put_tx)
  then show ?thesis
    using up i ui' upsert_user_result [OF up(1)] upsert_user_existing [OF _ up(1)] by auto
qed

section \<open>Properties\<close>

text \<open>C21: storing a user and finding it again. Storing a user of a known issuer either creates it under the
  ID it was given, or the one derived from issuer and subject, or finds it: a user that was stored
  before keeps its ID whatever ID the caller proposes. Afterwards the lookups by that ID and by the
  claims both find that user, and the tables still satisfy the schema. Only an ID that another user
  has is an error.\<close>

theorem StoreUserInfo_round_trip:
  assumes run: "running c w t" and ok: "schema_ok t" and ne: "ui_Issuer u \<noteq> []" "ui_Subject u \<noteq> []"
    and iss: "i \<in> set (issuers t)" "ir_uri i = ui_Issuer u" and uid: "new_user_ID X u = Ok uid"
  shows "\<exists>res w' t'. StoreUserInfo X c u w = (res, w') \<and> running c w' t' \<and> schema_ok t' \<and>
    (if user_row_of (ir_id i) (ui_Subject u) t = None \<and> uid \<in> set (map ur_id (user_info t))
     then res = Err (PqError pqErrDuplicateKey) \<and> t' = t
     else (\<exists>u' v. res = Ok u' \<and>
       ui_ID u' = (case user_row_of (ir_id i) (ui_Subject u) t of Some r \<Rightarrow> ur_id r | None \<Rightarrow> uid) \<and>
       fst (LookupUserInfoByID c (ui_ID u') w') = Ok v \<and>
       fst (LookupUserInfoByClaims c (ui_Issuer u) (ui_Subject u) w') = Ok (v\<lparr>ui_ID := []\<rparr>) \<and>
       ui_ID v = ui_ID u' \<and> ui_Issuer v = ui_Issuer u \<and> ui_Subject v = ui_Subject u))"
proof -
  note S = StoreUserInfo_running [OF run ok ne iss uid]
  have found: "fst (LookupUserInfoByID c (ur_id r) w') = Ok (user_of_rows (r, i)) \<and>
      fst (LookupUserInfoByClaims c (ui_Issuer u) (ui_Subject u) w') = Ok ((user_of_rows (r, i))\<lparr>ui_ID := []\<rparr>)"
    if "running c w' t'" "schema_ok t'" "r \<in> set (user_info t')" "i \<in> set (issuers t')" "ur_iss_id r = ir_id i"
      "ur_sub r = ui_Subject u" for r w' t'
    using select_user_in [OF that(2-5)] select_user_claims_in [OF that(2-5)] that(1,6) iss(2)
    by (simp add: LookupUserInfoByID_running LookupUserInfoByClaims_running)
  show ?thesis
  proof (cases "user_row_of (ir_id i) (ui_Subject u) t")
    case (Some r)
    then have r: "r \<in> set (user_info t)" "ur_iss_id r = ir_id i" "ur_sub r = ui_Subject u"
      by (auto simp: user_row_of_def dest: find_Some_mem)
    from S Some obtain w' where "StoreUserInfo X c u w = (Ok (u\<lparr>ui_ID := ur_id r\<rparr>), w')" "running c w' t" by auto
    with found [OF _ ok r(1) iss(1) r(2,3)] Some r iss ok show ?thesis
      by (intro exI [of _ "Ok (u\<lparr>ui_ID := ur_id r\<rparr>)"] exI [of _ w'] exI [of _ t]) (auto simp: user_of_rows_def)
  next
    case None
    show ?thesis
    proof (cases "uid \<in> set (map ur_id (user_info t))")
      case True
      with S None ok show ?thesis by auto
    next
      case False
      let ?t = "add_user u uid (ir_id i) t"
      let ?r = "\<lparr>ur_id = uid, ur_name = ui_Name u, ur_email = ui_Email u, ur_sub = ui_Subject u, ur_iss_id = ir_id i\<rparr>"
      from S None False obtain w' where w': "StoreUserInfo X c u w = (Ok (u\<lparr>ui_ID := uid\<rparr>), w')" "running c w' ?t" by auto
      have "ir_id i \<in> set (map ir_id (issuers t))" using iss by auto
      then have ok': "schema_ok ?t" using add_user_violation [OF ok _ None, of uid] False by (simp flip: schema_violation_None)
      have r: "?r \<in> set (user_info ?t)" "i \<in> set (issuers ?t)" using iss by (simp_all add: add_user_def)
      from found [OF w'(2) ok' r] None False w' ok' iss show ?thesis
        by (intro exI [of _ "Ok (u\<lparr>ui_ID := uid\<rparr>)"] exI [of _ w'] exI [of _ ?t]) (auto simp: user_of_rows_def)
    qed
  qed
qed

theorem StoreUserInfo_round_trip_witness:
  "\<exists>u' w'. StoreUserInfo ext0 tx_ctx \<lparr>ui_ID = ''idntusr-9'', ui_Name = ''Ann B'', ui_Email = [], ui_Issuer = ''https://iss'',
     ui_Subject = ''ann''\<rparr> (tx_world tables1) = (Ok u', w') \<and> ui_ID u' = ''idntusr-1''"
proof -
  let ?u = "\<lparr>ui_ID = ''idntusr-9'', ui_Name = ''Ann B'', ui_Email = [], ui_Issuer = ''https://iss'', ui_Subject = ''ann''\<rparr>"
  have h: "ui_Issuer ?u \<noteq> []" "ui_Subject ?u \<noteq> []" "issuer1 \<in> set (issuers tables1)" "ir_uri issuer1 = ui_Issuer ?u"
      "new_user_ID ext0 ?u = Ok ''idntusr-9''"
    by (simp_all add: tables1_def issuer1_def new_user_ID_def)
  have r: "user_row_of (ir_id issuer1) (ui_Subject ?u) tables1 = Some user1"
    by (simp add: user_row_of_def tables1_def issuer1_def user1_def)
  show ?thesis
    using StoreUserInfo_round_trip [OF running_sample schema_tables1 h] unfolding r by (auto simp: user1_def)
qed

text \<open>The claims a user is made from. Issuer and subject have to be present and not empty, a claim of
  another type than string is an error, and a name or an email that is missing is empty.\<close>

lemma ParseUserInfoFromClaims_correct:
  "ParseUserInfoFromClaims claims = Ok u \<longleftrightarrow>
     ui_ID u = [] \<and>
     ui_Issuer u \<noteq> [] \<and> map_of claims ''iss'' = Some (VStr (ui_Issuer u)) \<and>
     ui_Subject u \<noteq> [] \<and> map_of claims ''sub'' = Some (VStr (ui_Subject u)) \<and>
     map_of claims ''name'' \<in> {Some (VStr (ui_Name u))} \<union> {x. x = None \<and> ui_Name u = []} \<and>
     map_of claims ''email'' \<in> {Some (VStr (ui_Email u))} \<union> {x. x = None \<and> ui_Email u = []}"
proof -
  have req: "parseClaim claims k True = Ok v \<longleftrightarrow> v \<noteq> [] \<and> map_of claims k = Some (VStr v)" for k v
    by (auto simp: parseClaim_def Let_def split: option.splits gval.splits if_splits)
  have opt: "parseClaim claims k False = Ok v \<longleftrightarrow> map_of claims k \<in> {Some (VStr v)} \<union> {x. x = None \<and> v = []}" for k v
    by (auto simp: parseClaim_def Let_def split: option.splits gval.splits)
  show ?thesis
    unfolding ParseUserInfoFromClaims_def bindR_eq_Ok req opt by (cases u) auto
qed

text \<open>C13: the ID of a user is the hash of the issuer and the subject put together, so that users of different
  issuers may share it: when the text of issuer and subject is the same, the user who is stored first
  has the ID, and the other one can not be stored as long as the first one is.\<close>

theorem users_of_two_issuers_collide:
  assumes run: "running c w t" and ok: "schema_ok t" and iss: "i \<in> set (issuers t)" "j \<in> set (issuers t)" "i \<noteq> j"
    and u: "ir_uri i = ui_Issuer u" "ui_ID u = []" "ui_Issuer u \<noteq> []" "ui_Subject u \<noteq> []"
    and v: "ir_uri j = ui_Issuer v" "ui_ID v = []" "ui_Issuer v \<noteq> []" "ui_Subject v \<noteq> []"
    and same: "ui_Issuer v @ ui_Subject v = ui_Issuer u @ ui_Subject u"
    and new: "user_row_of (ir_id i) (ui_Subject u) t = None" "user_row_of (ir_id j) (ui_Subject v) t = None"
    and uid: "new_user_ID X u = Ok uid" "uid \<notin> set (map ur_id (user_info t))"
  shows "\<exists>w1 w2. StoreUserInfo X c u w = (Ok (u\<lparr>ui_ID := uid\<rparr>), w1) \<and>
    StoreUserInfo X c v w1 = (Err (PqError pqErrDuplicateKey), w2)"
proof -
  obtain w1 where w1: "StoreUserInfo X c u w = (Ok (u\<lparr>ui_ID := uid\<rparr>), w1)" "running c w1 (add_user u uid (ir_id i) t)"
    using StoreUserInfo_running [OF run ok u(3,4) iss(1) u(1) uid(1)] new(1) uid(2) by auto
  have "ir_id i \<noteq> ir_id j"
    using ok iss by (auto simp: schema_ok_def keys_ok_def distinct_map inj_on_def)
  then have none: "user_row_of (ir_id j) (ui_Subject v) (add_user u uid (ir_id i) t) = None"
    using new(2) by (auto simp: user_row_of_def find_None_iff add_user_def)
  have "schema_ok (add_user u uid (ir_id i) t)"
    using add_user_violation [OF ok _ new(1), of uid] iss(1) uid(2) by (auto simp: schema_violation_None)
  moreover have "new_user_ID X v = Ok uid"
    using uid(1) u(2) v(2) same by (simp add: new_user_ID_def generateSubjectID_def)
  moreover have "j \<in> set (issuers (add_user u uid (ir_id i) t))" "uid \<in> set (map ur_id (user_info (add_user u uid (ir_id i) t)))"
    using iss(2) by (simp_all add: add_user_def)
  ultimately obtain w2 where "StoreUserInfo X c v w1 = (Err (PqError pqErrDuplicateKey), w2)"
    using StoreUserInfo_running [OF w1(2) _ v(3,4) _ v(1)] none by fastforce
  with w1 show ?thesis by blast
qed

definition two_issuers :: tables where
  "two_issuers = tables1\<lparr>issuers := [issuer1, issuer1\<lparr>ir_id := ''idntiss-2'', ir_uri := ''https://is''\<rparr>], user_info := []\<rparr>"

theorem users_of_two_issuers_collide_witness:
  "\<exists>uid w1 w2.
     StoreUserInfo ext0 tx_ctx \<lparr>ui_ID = [], ui_Name = [], ui_Email = [], ui_Issuer = ''https://iss'', ui_Subject = ''ann''\<rparr>
       (tx_world two_issuers) =
       (Ok \<lparr>ui_ID = uid, ui_Name = [], ui_Email = [], ui_Issuer = ''https://iss'', ui_Subject = ''ann''\<rparr>, w1) \<and>
     StoreUserInfo ext0 tx_ctx \<lparr>ui_ID = [], ui_Name = [], ui_Email = [], ui_Issuer = ''https://is'', ui_Subject = ''sann''\<rparr> w1 =
       (Err (PqError pqErrDuplicateKey), w2)"
proof -
  let ?u = "\<lparr>ui_ID = [], ui_Name = [], ui_Email = [], ui_Issuer = ''https://iss'', ui_Subject = ''ann''\<rparr>"
  let ?v = "\<lparr>ui_ID = [], ui_Name = [], ui_Email = [], ui_Issuer = ''https://is'', ui_Subject = ''sann''\<rparr>"
  let ?j = "issuer1\<lparr>ir_id := ''idntiss-2'', ir_uri := ''https://is''\<rparr>"
  obtain uid where uid: "new_user_ID ext0 ?u = Ok uid"
    by (simp add: new_user_ID_def generateSubjectID_def ext0_def Let_def)
  have ok: "schema_ok two_issuers"
    using schema_tables1 by (simp add: schema_ok_def keys_ok_def refs_ok_def two_issuers_def tables1_def issuer1_def)
  have i: "issuer1 \<in> set (issuers two_issuers)" "?j \<in> set (issuers two_issuers)" "issuer1 \<noteq> ?j"
    by (simp_all add: two_issuers_def issuer1_def)
  have u: "ir_uri issuer1 = ui_Issuer ?u" "ui_ID ?u = []" "ui_Issuer ?u \<noteq> []" "ui_Subject ?u \<noteq> []"
    and v: "ir_uri ?j = ui_Issuer ?v" "ui_ID ?v = []" "ui_Issuer ?v \<noteq> []" "ui_Subject ?v \<noteq> []"
    and same: "ui_Issuer ?v @ ui_Subject ?v = ui_Issuer ?u @ ui_Subject ?u"
    by (simp_all add: issuer1_def)
  have new: "user_row_of iid sub two_issuers = None" "uid \<notin> set (map ur_id (user_info two_issuers))" for iid sub
    by (simp_all add: user_row_of_def two_issuers_def)
  from users_of_two_issuers_collide [OF running_sample ok i u v same new(1) new(1) uid new(2)]
  show ?thesis by auto
qed

end
