(* ===== verification/ClientStore.thy ===== *)
theory ClientStore
  imports Samples
begin

text \<open>
  The OAuth client manager, \<open>src/internal/storage/oauth_client.go\<close>, and the generator of client
  secrets, \<open>src/internal/crypto/generator.go\<close>.

  The audience of a client is a list of words, stored as one string with blanks between them.
  The three methods of \<open>fosite.ClientManager\<close> that panic are \<open>unimplemented\<close>.
\<close>

section \<open>Statements\<close>

definition insert_client :: "client_row \<Rightarrow> tables \<Rightarrow> tables \<times> string list" where
  "insert_client r t = (t\<lparr>oauth_clients := oauth_clients t @ [r]\<rparr>, [cr_id r])"

definition delete_client :: "string \<Rightarrow> tables \<Rightarrow> tables" where
  "delete_client cid t = t\<lparr>oauth_clients := filter (\<lambda>r. cr_id r \<noteq> cid) (oauth_clients t)\<rparr>"

definition select_client :: "string \<Rightarrow> tables \<Rightarrow> client_row list" where
  "select_client cid t = filter (\<lambda>r. cr_id r = cid) (oauth_clients t)"

definition client_col :: "client_row \<Rightarrow> string \<Rightarrow> string" where
  "client_col r f =
     (if f = ''id'' then cr_id r else if f = ''owner_id'' then cr_owner_id r
      else if f = ''name'' then cr_name r else if f = ''secret'' then cr_secret r else cr_audience r)"

definition oauthClientColumns :: "string list" where
  "oauthClientColumns = [''id'', ''owner_id'', ''name'', ''secret'', ''audience'']"

text \<open>What the scan of one row makes of its columns.\<close>

definition client_of_row :: "client_row \<Rightarrow> OAuthClient" where
  "client_of_row r = \<lparr>oc_ID = cr_id r, oc_OwnerID = cr_owner_id r, oc_Name = cr_name r,
                      oc_Secret = cr_secret r, oc_Audience = Fields (cr_audience r)\<rparr>"

section \<open>Operations\<close>

definition GenerateSecureToken :: "('ast, 'expr) ext \<Rightarrow> int \<Rightarrow> string dbio" where
  "GenerateSecureToken X len = with_entropy (\<lambda>n. randx_RuneSequence X n len)"

definition CreateOAuthClient :: "('ast, 'expr) ext \<Rightarrow> ctx \<Rightarrow> OAuthClient \<Rightarrow> OAuthClient dbio" where
  "CreateOAuthClient X c client =
     bindE (getContextTx c) (\<lambda>tx.
     bindE (with_entropy (\<lambda>n. hasher_Hash X n (oc_Secret client))) (\<lambda>hashedSecret.
     bindE (with_entropy (\<lambda>n. gidx_NewID X IdentityClientIDPrefix n)) (\<lambda>clientID.
       let client = client\<lparr>oc_Secret := hashedSecret\<rparr> in
     bindE (tx_exec tx (insert_client
              \<lparr>cr_id = clientID, cr_owner_id = oc_OwnerID client, cr_name = oc_Name client,
               cr_secret = oc_Secret client, cr_audience = Join (oc_Audience client) '' ''\<rparr>)) (\<lambda>rows.
     bindE (scan_row rows) (\<lambda>rid.
     ret (client\<lparr>oc_ID := rid\<rparr>))))))"

definition DeleteOAuthClient :: "ctx \<Rightarrow> string \<Rightarrow> unit dbio" where
  "DeleteOAuthClient c clientID =
     bindE (getContextTx c) (\<lambda>tx. tx_exec tx (\<lambda>t. (delete_client clientID t, ())))"

definition LookupOAuthClientByID :: "ctx \<Rightarrow> string \<Rightarrow> OAuthClient dbio" where
  "LookupOAuthClientByID c clientID =
     (if clientID = [] then fail ErrOAuthClientNotFound
      else
        bindE (ctx_query c (select_client clientID)) (\<lambda>rows.
        tryE (scan_row rows)
          (\<lambda>err. if err = SqlErrNoRows then fail ErrOAuthClientNotFound else fail err)
          (\<lambda>r. ret (client_of_row r))))"

definition GetClient :: "('ast, 'expr) ext \<Rightarrow> ctx \<Rightarrow> string \<Rightarrow> OAuthClient dbio" where
  "GetClient X c cid = bindE (lift (gidx_Parse X cid)) (\<lambda>clientID. LookupOAuthClientByID c clientID)"

definition GetOwnerOAuthClients :: "ctx \<Rightarrow> string \<Rightarrow> paginator \<Rightarrow> OAuthClient list dbio" where
  "GetOwnerOAuthClients c oid pagination =
    (let paginate = Paginate pagination (ContextAsOfSystemTime (ctx_aost c) (AostString ''-1m''))
     in bindE (page_query paginate oauthClientColumns client_col
                 (\<lambda>t. filter (\<lambda>r. cr_owner_id r = oid) (oauth_clients t)))
          (\<lambda>rows. ret (map client_of_row rows)))"

definition ClientAssertionJWTValid :: "string \<Rightarrow> unit dbio" where
  "ClientAssertionJWTValid jti = gopanic ''unimplemented''"

definition SetClientAssertionJWT :: "string \<Rightarrow> gotime \<Rightarrow> unit dbio" where
  "SetClientAssertionJWT jti expiry = gopanic ''unimplemented''"

section \<open>Frames\<close>

lemma client_read_frames [frame_rules]:
  "frame (evolve o') (GenerateSecureToken X n)" "frame silent (GenerateSecureToken X n)"
  "frame (evolve o') (LookupOAuthClientByID c s)" "frame silent (LookupOAuthClientByID c s)"
  "frame (evolve o') (GetOwnerOAuthClients c s p)" "frame silent (GetOwnerOAuthClients c s p)"
  unfolding GenerateSecureToken_def LookupOAuthClientByID_def GetOwnerOAuthClients_def
  by (intro frame_rules)+

lemma GetClient_frames [frame_rules]:
  "frame (evolve o') (GetClient X c s)" "frame silent (GetClient X c s)"
  unfolding GetClient_def by (intro frame_rules)+

lemma client_write_frames [frame_rules]:
  "frame (evolve (ctx_id c)) (CreateOAuthClient X c cl)" "frame silent (CreateOAuthClient X c cl)"
  "frame (evolve (ctx_id c)) (DeleteOAuthClient c s)" "frame silent (DeleteOAuthClient c s)"
  unfolding CreateOAuthClient_def DeleteOAuthClient_def
  by (intro with_tx_evolve frame_rules)+

section \<open>What the operations do\<close>

lemma with_entropy_eq: "with_entropy f w = (f (ticks w), tick w)"
  by (simp add: with_entropy_def)

text \<open>A client as it is stored: under the ID \<open>cid\<close>, with the hash in place of the secret.\<close>

definition stored_client :: "OAuthClient \<Rightarrow> string \<Rightarrow> string \<Rightarrow> client_row" where
  "stored_client cl cid h =
     \<lparr>cr_id = cid, cr_owner_id = oc_OwnerID cl, cr_name = oc_Name cl, cr_secret = h,
      cr_audience = Join (oc_Audience cl) '' ''\<rparr>"

lemma insert_client_violation:
  assumes "schema_ok t"
  shows "schema_violation (fst (insert_client r t)) =
    (if cr_id r \<in> set (map cr_id (oauth_clients t)) then Some pqErrDuplicateKey else None)"
  using assms by (auto simp: schema_violation_def schema_ok_def keys_ok_def refs_ok_def insert_client_def)

lemma CreateOAuthClient_running:
  assumes run: "running c w t" and ok: "schema_ok t"
    and h: "hasher_Hash X (ticks w) (oc_Secret cl) = Ok h"
    and cid: "gidx_NewID X IdentityClientIDPrefix (Suc (ticks w)) = Ok cid"
  shows "CreateOAuthClient X c cl w =
    (if cid \<in> set (map cr_id (oauth_clients t)) then (Err (PqError pqErrDuplicateKey), tick (tick (tick w)))
     else (Ok (cl\<lparr>oc_ID := cid, oc_Secret := h\<rparr>),
           put_view c (fst (insert_client (stored_client cl cid h) t)) (tick (tick (tick w)))))"
proof -
  have "schema_violation (fst (insert_client (stored_client cl cid h) t)) =
      (if cid \<in> set (map cr_id (oauth_clients t)) then Some pqErrDuplicateKey else None)"
    by (simp add: insert_client_violation [OF ok]) (simp add: stored_client_def)
  then show ?thesis
    using run
    by (auto simp: CreateOAuthClient_def go_simps db_simps with_entropy_eq h cid Let_def
        stored_client_def insert_client_def scan_row_def)
qed

lemma LookupOAuthClientByID_running:
  "running c w t \<Longrightarrow> cid \<noteq> [] \<Longrightarrow> LookupOAuthClientByID c cid w =
     (case select_client cid t of [] \<Rightarrow> Err ErrOAuthClientNotFound | r # _ \<Rightarrow> Ok (client_of_row r), tick w)"
  by (auto simp: LookupOAuthClientByID_def scan_row_def go_simps db_simps split: list.splits)

lemma select_inserted_client:
  "cr_id r \<notin> set (map cr_id (oauth_clients t)) \<Longrightarrow>
   select_client (cr_id r) (fst (insert_client r t)) = [r]"
  by (auto simp: select_client_def insert_client_def filter_empty_conv image_iff)

text \<open>A word of the audience list: not empty and without blanks.\<close>

definition word_list :: "string list \<Rightarrow> bool" where
  "word_list ws \<longleftrightarrow> list_all (\<lambda>s. s \<noteq> [] \<and> list_all (\<lambda>ch. \<not> is_space ch) s) ws"

lemma client_of_stored:
  "word_list (oc_Audience cl) \<Longrightarrow> client_of_row (stored_client cl cid h) = cl\<lparr>oc_ID := cid, oc_Secret := h\<rparr>"
  using Fields_Join [of "oc_Audience cl"]
  by (simp add: client_of_row_def stored_client_def word_list_def list_all_iff)

lemma DeleteOAuthClient_running:
  assumes "running c w t" and "schema_ok t"
  shows "DeleteOAuthClient c cid w = (Ok (), put_view c (delete_client cid t) (tick w))"
proof -
  have "schema_ok (delete_client cid t)"
    using assms(2) by (auto simp: schema_ok_def keys_ok_def refs_ok_def delete_client_def distinct_map_filter)
  with assms show ?thesis by (simp add: DeleteOAuthClient_def go_simps db_simps)
qed

section \<open>Properties\<close>



end
