(* ===== verification/ApiV1.thy ===== *)
theory ApiV1
  imports GroupStore UserStore ClientStore
begin

text \<open>
  The request and response types of the API, \<open>src/pkg/api/v1/types.gen.go\<close>, and its paginators,
  \<open>src/pkg/api/v1/paginate_*.go\<close>.

  The six parameter structs of the listings have the same two fields, so they share one record;
  each has its own three \<open>crdbx.Paginator\<close> methods and its own \<open>SetPagination\<close>. The locale
  \<open>paged_listing\<close> states what these promise together with the table they page through, and proves
  that a client that follows the cursors sees every row once and stops; it is interpreted on the
  six listings of the service.
\<close>

section \<open>Requests and responses\<close>

record v1AddGroupMembers =
  ag_MemberIDs :: "string list"

record v1CreateGroup =
  cg_Description :: "string option"
  cg_Name :: string

record v1CreateIssuer =
  ci_ClaimConditions :: "string option"
  ci_ClaimMappings :: "(string \<times> string) list option"
  ci_JWKSURI :: string
  ci_Name :: string
  ci_URI :: string

record v1CreateOAuthClient =
  cc_Audience :: "string list option"
  cc_Name :: string

record v1IssuerUpdate =
  iu_ClaimConditions :: "string option"
  iu_ClaimMappings :: "(string \<times> string) list option"
  iu_JWKSURI :: "string option"
  iu_Name :: "string option"
  iu_URI :: "string option"

record v1UpdateGroup =
  ug_Description :: "string option"
  ug_Name :: "string option"

record v1Pagination =
  pg_Limit :: int
  pg_Next :: cursor

record v1GroupCollection =
  gc_Groups :: "v1Group list"
  gc_Pagination :: v1Pagination

record v1GroupIDCollection =
  gic_GroupIDs :: "string list"
  gic_Pagination :: v1Pagination

record v1GroupMemberCollection =
  gmc_GroupID :: string
  gmc_MemberIDs :: "string list"
  gmc_Pagination :: v1Pagination

record v1IssuerCollection =
  ic_Issuers :: "v1Issuer list"
  ic_Pagination :: v1Pagination

record v1OAuthClientCollection =
  occ_Clients :: "v1OAuthClient list"
  occ_Pagination :: v1Pagination

record v1UserCollection =
  uc_Users :: "v1User list"
  uc_Pagination :: v1Pagination

record page_params =
  pp_Cursor :: cursor
  pp_Limit :: "int option"

type_synonym ListGroupMembersParams = page_params
type_synonym GetIssuerUsersParams = page_params
type_synonym GetOwnerOAuthClientsParams = page_params
type_synonym ListGroupsParams = page_params
type_synonym ListOwnerIssuersParams = page_params
type_synonym ListUserGroupsParams = page_params

text \<open>The zero value of \<open>Pagination\<close>.\<close>

definition Pagination0 :: v1Pagination where
  "Pagination0 = \<lparr>pg_Limit = 0, pg_Next = None\<rparr>"

section \<open>Paginators\<close>

definition requested_limit :: "page_params \<Rightarrow> int" where
  "requested_limit p = (case pp_Limit p of None \<Rightarrow> 0 | Some n \<Rightarrow> n)"

definition ListOwnerIssuers_paginator :: "ListOwnerIssuersParams \<Rightarrow> paginator" where
  "ListOwnerIssuers_paginator p =
     \<lparr>GetCursor = pp_Cursor p, GetLimit = requested_limit p, GetOnlyFields = [''id'']\<rparr>"

definition GetOwnerOAuthClients_paginator :: "GetOwnerOAuthClientsParams \<Rightarrow> paginator" where
  "GetOwnerOAuthClients_paginator p =
     \<lparr>GetCursor = pp_Cursor p, GetLimit = requested_limit p, GetOnlyFields = [''id'']\<rparr>"

definition ListGroups_paginator :: "ListGroupsParams \<Rightarrow> paginator" where
  "ListGroups_paginator p =
     \<lparr>GetCursor = pp_Cursor p, GetLimit = requested_limit p, GetOnlyFields = [''id'']\<rparr>"

definition ListUserGroups_paginator :: "ListUserGroupsParams \<Rightarrow> paginator" where
  "ListUserGroups_paginator p =
     \<lparr>GetCursor = pp_Cursor p, GetLimit = requested_limit p, GetOnlyFields = [''group_id'']\<rparr>"

definition GetIssuerUsers_paginator :: "GetIssuerUsersParams \<Rightarrow> paginator" where
  "GetIssuerUsers_paginator p =
     \<lparr>GetCursor = pp_Cursor p, GetLimit = requested_limit p, GetOnlyFields = [''id'']\<rparr>"

definition ListGroupMembers_paginator :: "ListGroupMembersParams \<Rightarrow> paginator" where
  "ListGroupMembers_paginator p =
     \<lparr>GetCursor = pp_Cursor p, GetLimit = requested_limit p, GetOnlyFields = [''subject_id'']\<rparr>"

text \<open>The body the six \<open>SetPagination\<close> methods share, for the IDs of the collection's items.\<close>

definition set_pagination :: "string \<Rightarrow> page_params \<Rightarrow> string list \<Rightarrow> v1Pagination \<Rightarrow> v1Pagination res" where
  "set_pagination field p ids pg =
    (let pg = pg\<lparr>pg_Limit := Limit (requested_limit p)\<rparr>; count = length ids
     in if count \<noteq> 0 \<and> int count = pg_Limit pg
        then bindR (NewCursor [field, ids ! (count - 1)]) (\<lambda>cursor. Ok (pg\<lparr>pg_Next := cursor\<rparr>))
        else Ok pg)"

definition ListOwnerIssuers_SetPagination :: "ListOwnerIssuersParams \<Rightarrow> v1IssuerCollection \<Rightarrow> v1IssuerCollection res" where
  "ListOwnerIssuers_SetPagination p coll =
     bindR (set_pagination ''id'' p (map v1i_ID (ic_Issuers coll)) (ic_Pagination coll))
       (\<lambda>pg. Ok (coll\<lparr>ic_Pagination := pg\<rparr>))"

definition GetOwnerOAuthClients_SetPagination ::
    "GetOwnerOAuthClientsParams \<Rightarrow> v1OAuthClientCollection \<Rightarrow> v1OAuthClientCollection res" where
  "GetOwnerOAuthClients_SetPagination p coll =
     bindR (set_pagination ''id'' p (map v1c_ID (occ_Clients coll)) (occ_Pagination coll))
       (\<lambda>pg. Ok (coll\<lparr>occ_Pagination := pg\<rparr>))"

definition ListGroups_SetPagination :: "ListGroupsParams \<Rightarrow> v1GroupCollection \<Rightarrow> v1GroupCollection res" where
  "ListGroups_SetPagination p coll =
     bindR (set_pagination ''id'' p (map v1g_ID (gc_Groups coll)) (gc_Pagination coll))
       (\<lambda>pg. Ok (coll\<lparr>gc_Pagination := pg\<rparr>))"

definition ListUserGroups_SetPagination :: "ListUserGroupsParams \<Rightarrow> v1GroupIDCollection \<Rightarrow> v1GroupIDCollection res" where
  "ListUserGroups_SetPagination p coll =
     bindR (set_pagination ''group_id'' p (gic_GroupIDs coll) (gic_Pagination coll))
       (\<lambda>pg. Ok (coll\<lparr>gic_Pagination := pg\<rparr>))"

definition GetIssuerUsers_SetPagination :: "GetIssuerUsersParams \<Rightarrow> v1UserCollection \<Rightarrow> v1UserCollection res" where
  "GetIssuerUsers_SetPagination p coll =
     bindR (set_pagination ''id'' p (map v1u_ID (uc_Users coll)) (uc_Pagination coll))
       (\<lambda>pg. Ok (coll\<lparr>uc_Pagination := pg\<rparr>))"

definition ListGroupMembers_SetPagination ::
    "ListGroupMembersParams \<Rightarrow> v1GroupMemberCollection \<Rightarrow> v1GroupMemberCollection res" where
  "ListGroupMembers_SetPagination p coll =
     bindR (set_pagination ''subject_id'' p (gmc_MemberIDs coll) (gmc_Pagination coll))
       (\<lambda>pg. Ok (coll\<lparr>gmc_Pagination := pg\<rparr>))"

section \<open>Lists sorted by a key\<close>

lemma filter_after:
  assumes "sorted (map k (xs @ y # ys))" and "distinct (map k (xs @ y # ys))"
  shows "filter (\<lambda>r. k y < k r) (xs @ y # ys) = ys"
proof -
  have "filter (\<lambda>r. k y < k r) xs = []"
    using assms(1) by (fastforce simp: filter_empty_conv sorted_append)
  moreover have "\<forall>r \<in> set ys. k y < k r"
    using assms by (force simp: sorted_append less_le)
  ultimately show ?thesis by (simp add: filter_id_conv)
qed

section \<open>Walking through the pages\<close>

text \<open>The page a listing shows of the rows it ranges over.\<close>

definition list_page ::
    "(page_params \<Rightarrow> paginator) \<Rightarrow> aost \<Rightarrow> ('r \<Rightarrow> string \<Rightarrow> string) \<Rightarrow> 'r list \<Rightarrow> page_params \<Rightarrow> 'r list" where
  "list_page pag at col rows p = select_page (Paginate (pag p) at) col rows"

text \<open>A client that asks for a page, follows \<open>next\<close> as long as there is one and puts the pages
  together: \<open>None\<close> if it is not done after \<open>n\<close> more pages.\<close>

primrec walk_pages ::
    "nat \<Rightarrow> (page_params \<Rightarrow> 'r list) \<Rightarrow> (page_params \<Rightarrow> 'r list \<Rightarrow> v1Pagination res) \<Rightarrow> page_params \<Rightarrow> 'r list option" where
  "walk_pages 0 pages setp p = None"
| "walk_pages (Suc n) pages setp p =
    (let page = pages p in
     case setp p page of
       Ok pg \<Rightarrow> (case pg_Next pg of
                   None \<Rightarrow> Some page
                 | Some next \<Rightarrow> map_option (append page) (walk_pages n pages setp (p\<lparr>pp_Cursor := Some next\<rparr>)))
     | _ \<Rightarrow> None)"

locale paged_listing =
  fixes field :: string
    and pag :: "page_params \<Rightarrow> paginator"
    and col :: "'r \<Rightarrow> string \<Rightarrow> string"
    and setp :: "page_params \<Rightarrow> 'r list \<Rightarrow> v1Pagination res"
  assumes pag: "pag p = \<lparr>GetCursor = pp_Cursor p, GetLimit = requested_limit p, GetOnlyFields = [field]\<rparr>"
    and setp: "setp p page = set_pagination field p (map (\<lambda>r. col r field) page) Pagination0"
begin

abbreviation key :: "'r \<Rightarrow> string list" where "key r \<equiv> [col r field]"

lemma first_page:
  "pp_Cursor p = None \<Longrightarrow> requested_limit p \<le> 100 \<Longrightarrow>
   list_page pag at col rows p = take (nat (Limit (requested_limit p))) (sort_key key rows)"
  by (simp add: list_page_def select_page_def pag Paginate_first FormatValues0_def row_matches_def
      effective_limit_Limit)

lemma next_page:
  assumes "Cursor_Values (Some c) = Ok (Some m)" and "map_of m = [field \<mapsto> [x]]" and "x \<noteq> []"
    and "pp_Cursor p = Some c" and "requested_limit p \<le> 100"
  shows "list_page pag at col rows p =
    take (nat (Limit (requested_limit p))) (filter (\<lambda>r. [x] < key r) (sort_key key rows))"
proof -
  have "Paginate (pag p) at = FormatValues0\<lparr>fv_limit := requested_limit p, asOfSystemTime := at,
           orderFields := [field], fv_fields := [field], fv_values := [x]\<rparr>"
    using Paginate_next [OF assms(1-3), of "pag p" at] assms(4) by (simp add: pag)
  then show ?thesis
    using assms(5)
    by (simp add: list_page_def select_page_def FormatValues0_def row_matches_def [abs_def]
        effective_limit_Limit filter_sort)
qed

lemma no_next: "length page \<noteq> nat (Limit (requested_limit p)) \<or> page = [] \<Longrightarrow>
    setp p page = Ok \<lparr>pg_Limit = Limit (requested_limit p), pg_Next = None\<rparr>"
  using Limit_bounds [of "requested_limit p"] by (auto simp: setp set_pagination_def Pagination0_def Let_def)

lemma has_next:
  assumes "length page = nat (Limit (requested_limit p))" and "col (last page) field \<noteq> []"
  obtains c m where "setp p page = Ok \<lparr>pg_Limit = Limit (requested_limit p), pg_Next = Some c\<rparr>"
    and "Cursor_Values (Some c) = Ok (Some m)" and "map_of m = [field \<mapsto> [col (last page) field]]"
proof -
  have ne: "page \<noteq> []" using assms(1) Limit_bounds [of "requested_limit p"] by auto
  obtain c m where c: "NewCursor [field, col (last page) field] = Ok (Some c)"
      "Cursor_Values (Some c) = Ok (Some m)" "map_of m = [field \<mapsto> [col (last page) field]]"
    using NewCursor_single [OF assms(2), of field] by blast
  have "map (\<lambda>r. col r field) page ! (length page - 1) = col (last page) field"
    using ne by (simp add: last_conv_nth)
  then have "setp p page = Ok \<lparr>pg_Limit = Limit (requested_limit p), pg_Next = Some c\<rparr>"
    using assms(1) ne c(1) Limit_bounds [of "requested_limit p"]
    by (simp add: setp set_pagination_def Pagination0_def Let_def)
  with c show ?thesis by (intro that)
qed

text \<open>From a page that starts after the first rows of the sorted listing.\<close>

lemma walk_from:
  assumes "distinct (map key rows)" and "\<forall>r \<in> set rows. col r field \<noteq> []" and "requested_limit p \<le> 100"
    and "sort_key key rows = seen @ rest" and "length rest < n"
    and "\<And>q. pp_Cursor q = pp_Cursor p \<Longrightarrow> pp_Limit q = pp_Limit p \<Longrightarrow>
          list_page pag at col rows q = take (nat (Limit (requested_limit p))) rest"
  shows "walk_pages n (list_page pag at col rows) setp p = Some rest"
  using assms(3-6)
proof (induction n arbitrary: p seen rest)
  case (Suc n)
  let ?L = "nat (Limit (requested_limit p))" let ?page = "take ?L rest"
  have L: "?L > 0" using Limit_bounds [of "requested_limit p"] by simp
  have page: "list_page pag at col rows p = ?page" by (rule Suc.prems(4)) simp_all
  show ?case
  proof (cases "length rest < ?L \<or> rest = []")
    case True
    then show ?thesis using no_next [of ?page p] page by (auto simp: Let_def)
  next
    case False
    then have full: "length ?page = ?L" and ne: "?page \<noteq> []" using L by auto
    have S: "set (sort_key key rows) = set rows" by simp
    have "last ?page \<in> set rest" using ne last_in_set set_take_subset by fast
    then have "col (last ?page) field \<noteq> []" using assms(2) S Suc.prems(2) by auto
    then obtain c m where c: "setp p ?page = Ok \<lparr>pg_Limit = Limit (requested_limit p), pg_Next = Some c\<rparr>"
        "Cursor_Values (Some c) = Ok (Some m)" "map_of m = [field \<mapsto> [col (last ?page) field]]"
      using has_next [OF full] by blast
    let ?p = "p\<lparr>pp_Cursor := Some c\<rparr>" and ?rest = "drop ?L rest"
    have split: "sort_key key rows = (seen @ butlast ?page) @ last ?page # ?rest"
    proof -
      have "(butlast ?page @ [last ?page]) @ ?rest = rest" using ne by simp
      then show ?thesis using Suc.prems(2) by simp
    qed
    have after: "filter (\<lambda>r. key (last ?page) < key r) (sort_key key rows) = ?rest"
      unfolding split
    proof (rule filter_after)
      have "distinct (map key (sort_key key rows))" using assms(1) by (simp add: distinct_map)
      then show "distinct (map key ((seen @ butlast ?page) @ last ?page # ?rest))" using split by simp
      have "sorted (map key (sort_key key rows))" by simp
      then show "sorted (map key ((seen @ butlast ?page) @ last ?page # ?rest))" using split by simp
    qed
    have "walk_pages n (list_page pag at col rows) setp ?p = Some ?rest"
    proof (rule Suc.IH)
      show "requested_limit ?p \<le> 100" using Suc.prems(1) by (simp add: requested_limit_def)
      show "sort_key key rows = (seen @ ?page) @ ?rest" using Suc.prems(2) by simp
      show "length ?rest < n" using Suc.prems(3) L False by (cases rest) auto
      fix q :: page_params assume q: "pp_Cursor q = pp_Cursor ?p" "pp_Limit q = pp_Limit ?p"
      then have "requested_limit q = requested_limit p" by (simp add: requested_limit_def)
      with q show "list_page pag at col rows q = take (nat (Limit (requested_limit ?p))) ?rest"
        using next_page [OF c(2,3), of q at rows] \<open>col (last ?page) field \<noteq> []\<close> Suc.prems(1) after
        by (simp add: requested_limit_def)
    qed
    then show ?thesis using page c(1) by (simp add: Let_def)
  qed
qed simp

text \<open>All pages together are all rows, in the order of their keys.\<close>

lemma walk_complete:
  assumes "distinct (map (\<lambda>r. col r field) rows)" and "\<forall>r \<in> set rows. col r field \<noteq> []"
    and "requested_limit p \<le> 100" and "pp_Cursor p = None"
  shows "walk_pages (Suc (length rows)) (list_page pag at col rows) setp p = Some (sort_key key rows)"
proof (rule walk_from [where seen = "[]"])
  show "distinct (map key rows)" using assms(1) by (simp add: distinct_map inj_on_def)
  show "list_page pag at col rows q = take (nat (Limit (requested_limit p))) (sort_key key rows)"
    if "pp_Cursor q = pp_Cursor p" "pp_Limit q = pp_Limit p" for q :: page_params
    using first_page [of q at rows] that assms(3,4) by (simp add: requested_limit_def)
qed (use assms in simp_all)

text \<open>With a larger limit a page longer than the reported limit has no \<open>next\<close>.\<close>

lemma over_limit:
  assumes "100 < requested_limit p" and "pp_Cursor p = None" and "requested_limit p < int (length rows)"
  shows "length (list_page pag at col rows p) = nat (requested_limit p)"
    and "setp p (list_page pag at col rows p) = Ok \<lparr>pg_Limit = 100, pg_Next = None\<rparr>"
proof -
  show len: "length (list_page pag at col rows p) = nat (requested_limit p)"
    using assms by (simp add: list_page_def select_page_def pag Paginate_first FormatValues0_def
        row_matches_def effective_limit_def)
  have "Limit (requested_limit p) = 100" using assms(1) by (simp add: Limit_def paginationLimitMax_def)
  with len assms(1) no_next [of "list_page pag at col rows p" p]
  show "setp p (list_page pag at col rows p) = Ok \<lparr>pg_Limit = 100, pg_Next = None\<rparr>" by (simp add: nat_eq_iff)
qed

end

section \<open>The six listings\<close>

text \<open>What \<open>SetPagination\<close> puts into the response to a page of rows.\<close>

definition issuers_next :: "page_params \<Rightarrow> issuer_row list \<Rightarrow> v1Pagination res" where
  "issuers_next p page = set_pagination ''id'' p (map ir_id page) Pagination0"

definition clients_next :: "page_params \<Rightarrow> client_row list \<Rightarrow> v1Pagination res" where
  "clients_next p page = set_pagination ''id'' p (map cr_id page) Pagination0"

definition groups_next :: "page_params \<Rightarrow> group_row list \<Rightarrow> v1Pagination res" where
  "groups_next p page = set_pagination ''id'' p (map gr_id page) Pagination0"

definition users_next :: "page_params \<Rightarrow> (user_row \<times> issuer_row) list \<Rightarrow> v1Pagination res" where
  "users_next p page = set_pagination ''id'' p (map (\<lambda>r. ur_id (fst r)) page) Pagination0"

definition members_next :: "page_params \<Rightarrow> member_row list \<Rightarrow> v1Pagination res" where
  "members_next p page = set_pagination ''subject_id'' p (map mr_subject_id page) Pagination0"

definition subject_groups_next :: "page_params \<Rightarrow> (string \<times> group_row option) list \<Rightarrow> v1Pagination res" where
  "subject_groups_next p page = set_pagination ''group_id'' p (map fst page) Pagination0"

interpretation issuers_pl: paged_listing "''id''" ListOwnerIssuers_paginator issuer_col issuers_next
  by unfold_locales (simp_all add: ListOwnerIssuers_paginator_def issuers_next_def issuer_col_def)

interpretation clients_pl: paged_listing "''id''" GetOwnerOAuthClients_paginator client_col clients_next
  by unfold_locales (simp_all add: GetOwnerOAuthClients_paginator_def clients_next_def client_col_def)

interpretation groups_pl: paged_listing "''id''" ListGroups_paginator group_col groups_next
  by unfold_locales (simp_all add: ListGroups_paginator_def groups_next_def group_col_def)

interpretation users_pl: paged_listing "''id''" GetIssuerUsers_paginator user_col users_next
  by unfold_locales (simp_all add: GetIssuerUsers_paginator_def users_next_def user_col_def)

interpretation members_pl: paged_listing "''subject_id''" ListGroupMembers_paginator member_col members_next
  by unfold_locales (simp_all add: ListGroupMembers_paginator_def members_next_def member_col_def)

interpretation subject_groups_pl:
    paged_listing "''group_id''" ListUserGroups_paginator subject_group_col subject_groups_next
  by unfold_locales (simp_all add: ListUserGroups_paginator_def subject_groups_next_def subject_group_col_def)

section \<open>What the storage operations return for a page\<close>

text \<open>A database that is at rest: reads of the past see what is committed.\<close>

definition at_rest :: "ctx \<Rightarrow> world \<Rightarrow> bool" where
  "at_rest c w \<longleftrightarrow> healthy w \<and> ctx_aost c = AostNil \<and> history w ''-1m'' = committed w"

lemma Paginate_columns:
  "GetOnlyFields p = [f] \<Longrightarrow> set (fv_fields (Paginate p a) @ orderFields (Paginate p a)) \<subseteq> {f}"
  by (auto simp: Paginate_def FormatValues0_def Let_def split: option.splits res.splits if_splits)

lemma Paginate_aost: "asOfSystemTime (Paginate p a) \<in> {a, AostNil}"
  by (auto simp: Paginate_def FormatValues0_def Let_def split: option.splits res.splits)

lemma WithQualifier_sel [simp]:
  "fv_fields (WithQualifier v q) = fv_fields v" "orderFields (WithQualifier v q) = orderFields v"
  "asOfSystemTime (WithQualifier v q) = asOfSystemTime v"
  "select_page (WithQualifier v q) col = select_page v col"
  by (simp_all add: WithQualifier_def select_page_def row_matches_def [abs_def] effective_limit_def fun_eq_iff)

lemma page_query_at_rest:
  assumes "at_rest c w" and "GetOnlyFields p = [f]" and "f \<in> set cols"
  shows "page_query (Paginate p (ContextAsOfSystemTime (ctx_aost c) (AostString ''-1m''))) cols col rows_of w =
    (Ok (select_page (Paginate p (AostString ''-1m'')) col (rows_of (committed w))), tick w)"
proof -
  have a: "ContextAsOfSystemTime (ctx_aost c) (AostString ''-1m'') = AostString ''-1m''"
    using assms(1) by (simp add: at_rest_def ContextAsOfSystemTime_def)
  have "list_all (\<lambda>g. g \<in> set cols) (fv_fields (Paginate p (AostString ''-1m'')) @ orderFields (Paginate p (AostString ''-1m'')))"
    using Paginate_columns [OF assms(2), of "AostString ''-1m''"] assms(3) unfolding list_all_iff by auto
  moreover have "snapshot w (aost_text (asOfSystemTime (Paginate p (AostString ''-1m'')))) = committed w"
    using Paginate_aost [of p "AostString ''-1m''"] assms(1) by (auto simp: snapshot_def aost_text_def at_rest_def)
  ultimately show ?thesis
    unfolding a using assms(1) by (simp add: page_query_healthy at_rest_def)
qed

lemma ListGroupsByOwner_page:
  assumes "at_rest c w"
  shows "ListGroupsByOwner c oid (ListGroups_paginator p) w =
    (Ok (map group_of_row (list_page ListGroups_paginator (AostString ''-1m'') group_col
       (filter (\<lambda>r. gr_owner_id r = oid) (groups (committed w))) p)), tick w)"
  by (simp add: ListGroupsByOwner_def Let_def bindE_def ret_def list_page_def
      page_query_at_rest [OF assms, where f = "''id''"] ListGroups_paginator_def groupCols_def)

lemma GetOwnerOAuthClients_page:
  assumes "at_rest c w"
  shows "GetOwnerOAuthClients c oid (GetOwnerOAuthClients_paginator p) w =
    (Ok (map client_of_row (list_page GetOwnerOAuthClients_paginator (AostString ''-1m'') client_col
       (filter (\<lambda>r. cr_owner_id r = oid) (oauth_clients (committed w))) p)), tick w)"
  by (simp add: GetOwnerOAuthClients_def Let_def bindE_def ret_def list_page_def
      page_query_at_rest [OF assms, where f = "''id''"] GetOwnerOAuthClients_paginator_def oauthClientColumns_def)

lemma page_query_qualified:
  "page_query (WithQualifier v q) cols col f = page_query v cols col f"
  by (simp add: page_query_def)

lemma LookupUserInfosByIssuerID_page:
  assumes "at_rest c w"
  shows "LookupUserInfosByIssuerID c iid (GetIssuerUsers_paginator p) w =
    (Ok (map user_of_rows (list_page GetIssuerUsers_paginator (AostString ''-1m'') user_col
       (filter (\<lambda>(u, i). ir_id i = iid) (users_issuers (committed w))) p)), tick w)"
  by (simp add: LookupUserInfosByIssuerID_def Let_def bindE_def ret_def list_page_def page_query_qualified
      page_query_at_rest [OF assms, where f = "''id''"] GetIssuerUsers_paginator_def userInfoCols_def)

lemma ListGroupMembers_page:
  assumes "at_rest c w" and "ctx_tx c = CtxNil" and "select_group gid (committed w) = [g]"
  shows "ListGroupMembers c gid (Some (ListGroupMembers_paginator p)) w =
    (Ok (map mr_subject_id (list_page ListGroupMembers_paginator (AostString ''-1m'') member_col
       (select_members gid (committed w)) p)), tick (tick w))"
proof -
  have h: "healthy w" and r: "at_rest c (tick w)" using assms(1) by (simp_all add: at_rest_def tick_def healthy_def)
  have "fetchGroupByID c gid w = (Ok (group_of_row g), tick w)"
    using h assms(2,3) by (simp add: fetchGroupByID_def go_simps db_simps scanGroup_def scan_row_def)
  then show ?thesis
    by (simp add: ListGroupMembers_def Let_def bindE_def ret_def list_page_def
        page_query_at_rest [OF r, where f = "''subject_id''"] ListGroupMembers_paginator_def groupMemberCols_def)
qed

text \<open>Walking commutes with what is made of each row.\<close>

lemma walk_pages_map:
  assumes "\<And>p xs. setp' p (map f xs) = setp p xs"
  shows "walk_pages n (\<lambda>p. map f (pages p)) setp' p = map_option (map f) (walk_pages n pages setp p)"
  by (induction n arbitrary: p)
    (auto simp: Let_def assms option.map_comp comp_def split: res.splits option.splits)

end
