(* ===== verification/JsonValues.thy ===== *)
theory JsonValues
  imports Json
begin

text \<open>
  \<open>json.Marshal\<close> and the scanner on nested values: the responses of the API are structs of strings,
  integers, booleans, slices and maps. The text of such a value is read back as the value
  (\<open>json_value_text\<close>), for strings of UTF-8 and up to the depth the scanner accepts.
\<close>

section \<open>Values, both ways\<close>

text \<open>\<open>json.Marshal\<close> of a value that is built of strings, integers, booleans, slices and structs.\<close>

fun json_text :: "json \<Rightarrow> string" where
  "json_text JNull = ''null''"
| "json_text (JBool b) = (if b then ''true'' else ''false'')"
| "json_text (JNumber n) = n"
| "json_text (JString x) = encode_string x"
| "json_text (JArray vs) = ''['' @ Join (map json_text vs) '','' @ '']''"
| "json_text (JObject kvs) =
     ''{'' @ Join (map (\<lambda>(k, v). encode_string k @ '':'' @ json_text v) kvs) '','' @ ''}''"

fun comma_tokens :: "json_token list list \<Rightarrow> json_token list" where
  "comma_tokens [] = []"
| "comma_tokens [ts] = ts"
| "comma_tokens (ts # us # r) = ts @ TComma # comma_tokens (us # r)"

fun value_tokens :: "json \<Rightarrow> json_token list" where
  "value_tokens JNull = [TNull]"
| "value_tokens (JBool b) = [TBool b]"
| "value_tokens (JNumber n) = [TNumber n]"
| "value_tokens (JString x) = [TString x]"
| "value_tokens (JArray vs) = TBeginArray # comma_tokens (map value_tokens vs) @ [TEndArray]"
| "value_tokens (JObject kvs) =
     TBeginObject # comma_tokens (map (\<lambda>(k, v). TString k # TColon # value_tokens v) kvs) @ [TEndObject]"

text \<open>The text of an integer.\<close>

definition nat_text :: "string \<Rightarrow> bool" where
  "nat_text d \<longleftrightarrow> d \<noteq> [] \<and> list_all is_digit d \<and> (hd d = CHR ''0'' \<longrightarrow> d = ''0'')"

definition int_text :: "string \<Rightarrow> bool" where
  "int_text s \<longleftrightarrow> (case s of [] \<Rightarrow> False | c # d \<Rightarrow> if c = CHR ''-'' then nat_text d else nat_text s)"

text \<open>A value of UTF-8 strings and integers in which at most \<open>n\<close> objects and arrays are nested.\<close>

fun json_ok :: "nat \<Rightarrow> json \<Rightarrow> bool" where
  "json_ok n (JNumber d) = int_text d"
| "json_ok n (JString x) = ValidString x"
| "json_ok n (JArray vs) = (0 < n \<and> list_all (json_ok (n - 1)) vs)"
| "json_ok n (JObject kvs) = (0 < n \<and> list_all (\<lambda>(k, v). ValidString k \<and> json_ok (n - 1) v) kvs)"
| "json_ok n _ = True"

text \<open>What may follow a value.\<close>

definition delimited :: "string \<Rightarrow> bool" where
  "delimited w \<longleftrightarrow> w = [] \<or> hd w \<in> {CHR '','', CHR ''}'', CHR '']'', CHR 0x0A}"

lemma delimited_simps [simp]:
  "delimited []" "delimited (CHR '','' # w)" "delimited (CHR ''}'' # w)" "delimited (CHR '']'' # w)"
  "delimited (CHR 0x0A # w)"
  by (simp_all add: delimited_def)

lemma scan_digits_append:
  "d \<noteq> [] \<Longrightarrow> list_all is_digit d \<Longrightarrow> delimited w \<Longrightarrow> scan_digits (d @ w) = Some (d, w)"
proof -
  assume d: "d \<noteq> []" "list_all is_digit d" and w: "delimited w"
  then have "takeWhile is_digit (d @ w) = d \<and> dropWhile is_digit (d @ w) = w"
    by (cases w) (auto simp: delimited_def list_all_iff takeWhile_append dropWhile_append is_digit_def)
  with d show ?thesis by (simp add: scan_digits_def)
qed

lemma scan_integer_append:
  assumes "nat_text d" "delimited w"
  shows "scan_integer (d @ w) = Some (d, w)"
  using assms scan_digits_append [of d w]
  by (cases d) (auto simp: scan_integer_def nat_text_def)

lemma scan_number_append:
  assumes "int_text s" "delimited w"
  shows "scan_number (s @ w) = Some (s, w)"
proof -
  have rest: "scan_fraction w = Some ([], w)" "scan_exponent w = Some ([], w)"
    using assms(2) by (cases w; auto simp: scan_fraction_def scan_exponent_def delimited_def)+
  obtain c d where s: "s = c # d" using assms(1) by (cases s) (auto simp: int_text_def)
  show ?thesis
    using assms scan_integer_append [of d w] scan_integer_append [of s w] rest
    by (cases "c = CHR ''-''") (simp_all add: s int_text_def scan_number_def)
qed

lemma int_text_start: "int_text (c # d) \<Longrightarrow> c = CHR ''-'' \<or> is_digit c"
  by (auto simp: int_text_def nat_text_def split: if_splits)

lemma number_start:
  assumes "c = CHR ''-'' \<or> is_digit c"
  shows "punctuation c = None" "\<not> json_space c" "c \<noteq> CHR 0x22" "c \<notin> {CHR ''n'', CHR ''t'', CHR ''f''}"
  using assms by (auto simp: is_digit_def punctuation_def json_space_def)

lemma tokens_number:
  assumes "int_text s" "delimited w"
  shows "json_tokens (s @ w) = map_option ((#) (TNumber s)) (json_tokens w)"
proof -
  obtain c d where s: "s = c # d" using assms(1) by (cases s) (auto simp: int_text_def)
  have "next_token c (d @ w) = Some (TNumber s, w)"
    using scan_number_append [OF assms] number_start [OF int_text_start [OF assms(1) [unfolded s]]]
    by (simp add: s next_token_def scan_literal_def)
  then show ?thesis using number_start(2) [OF int_text_start [OF assms(1) [unfolded s]]] by (simp add: s)
qed

lemma tokens_literal [simp]:
  "json_tokens (CHR ''n'' # CHR ''u'' # CHR ''l'' # CHR ''l'' # w) = map_option ((#) TNull) (json_tokens w)"
  "json_tokens (CHR ''t'' # CHR ''r'' # CHR ''u'' # CHR ''e'' # w) = map_option ((#) (TBool True)) (json_tokens w)"
  "json_tokens (CHR ''f'' # CHR ''a'' # CHR ''l'' # CHR ''s'' # CHR ''e'' # w) = map_option ((#) (TBool False)) (json_tokens w)"
  "json_tokens (CHR ''['' # w) = map_option ((#) TBeginArray) (json_tokens w)"
  "json_tokens (CHR '']'' # w) = map_option ((#) TEndArray) (json_tokens w)"
  "json_tokens (CHR 0x0A # w) = json_tokens w"
  by (simp_all add: json_space_def next_token_def punctuation_def scan_literal_def)

text \<open>Tokens of a list of texts, each of which gives its own tokens before a delimiter.\<close>

lemma tokens_Join:
  assumes "\<forall>x \<in> set xs. \<forall>w. delimited w \<longrightarrow> json_tokens (f x @ w) = map_option ((@) (g x)) (json_tokens w)"
    and "delimited w"
  shows "json_tokens (Join (map f xs) '','' @ w) = map_option ((@) (comma_tokens (map g xs))) (json_tokens w)"
  using assms
proof (induction "map g xs" arbitrary: xs rule: comma_tokens.induct)
  case 1
  then show ?case by (cases "json_tokens w") auto
next
  case (2 ts)
  then show ?case by auto
next
  case (3 ts us r)
  then obtain x y zs where xs: "xs = x # y # zs" by (cases xs rule: list.exhaust) (auto simp: Cons_eq_map_conv)
  then have "json_tokens (f x @ CHR '','' # v) = map_option ((@) (g x)) (map_option ((#) TComma) (json_tokens v))" for v
    using 3(3) by (simp del: json_tokens.simps)
  moreover have "json_tokens (Join (map f (y # zs)) '','' @ w) =
      map_option ((@) (comma_tokens (map g (y # zs)))) (json_tokens w)"
    using 3 xs by (intro 3(1)) auto
  ultimately show ?case
    by (cases "json_tokens w") (simp_all add: xs del: json_tokens.simps)
qed

lemma append_single: "(@) [x] = (#) x"
  by (rule ext) simp

lemma tokens_value:
  "json_ok n v \<Longrightarrow> delimited w \<Longrightarrow> json_tokens (json_text v @ w) = map_option ((@) (value_tokens v)) (json_tokens w)"
proof (induction v arbitrary: n w rule: json_text.induct)
  case (5 vs)
  have "json_tokens (Join (map json_text vs) '','' @ '']'' @ w) =
      map_option ((@) (comma_tokens (map value_tokens vs))) (json_tokens ('']'' @ w))"
    by (rule tokens_Join) (use 5 in \<open>auto simp: list_all_iff simp del: json_tokens.simps\<close>)
  then show ?case by (cases "json_tokens w") (simp_all del: json_tokens.simps)
next
  case (6 kvs)
  have "json_tokens ((case kv of (k, v) \<Rightarrow> encode_string k @ '':'' @ json_text v) @ u) =
      map_option ((@) (case kv of (k, v) \<Rightarrow> TString k # TColon # value_tokens v)) (json_tokens u)"
    if "kv \<in> set kvs" "delimited u" for kv u
    using 6(1) [OF that(1), of "fst kv" "snd kv" "n - 1" u] 6(2) that
    by (cases "json_tokens u") (auto simp: list_all_iff case_prod_beta tokens_encode_string simp del: json_tokens.simps)
  then have "json_tokens (Join (map (\<lambda>(k, v). encode_string k @ '':'' @ json_text v) kvs) '','' @ ''}'' @ w) =
      map_option ((@) (comma_tokens (map (\<lambda>(k, v). TString k # TColon # value_tokens v) kvs))) (json_tokens (''}'' @ w))"
    by (intro tokens_Join) auto
  then show ?case by (cases "json_tokens w") (simp_all del: json_tokens.simps)
qed (auto simp: append_single tokens_number tokens_encode_string simp del: json_tokens.simps)

section \<open>The scanner on the tokens of a value\<close>

lemma scan_elements:
  assumes "\<forall>v \<in> set vs. \<forall>toks acc. json_scan BeginValue (ParseArrayValue acc # stack) (value_tokens v @ toks) =
      json_scan (EndValue v) (ParseArrayValue acc # stack) toks"
    and "vs \<noteq> []"
  shows "json_scan BeginValue (ParseArrayValue acc # stack) (comma_tokens (map value_tokens vs) @ TEndArray # toks) =
    json_scan (EndValue (JArray (rev acc @ vs))) stack toks"
  using assms
proof (induction vs arbitrary: acc rule: induct_list012)
  case (3 v v' vs)
  then show ?case by (auto simp: stateEndValue_def)
qed (auto simp: stateEndValue_def)

lemma scan_fields:
  assumes "\<forall>v \<in> snd ` set kvs. \<forall>toks acc k. json_scan BeginValue (ParseObjectValue acc k # stack) (value_tokens v @ toks) =
      json_scan (EndValue v) (ParseObjectValue acc k # stack) toks"
    and "kvs \<noteq> []"
  shows "json_scan BeginString (ParseObjectKey acc # stack)
      (comma_tokens (map (\<lambda>(k, v). TString k # TColon # value_tokens v) kvs) @ TEndObject # toks) =
    json_scan (EndValue (JObject (rev acc @ kvs))) stack toks"
  using assms
proof (induction kvs arbitrary: acc rule: induct_list012)
  case (3 kv kv' kvs)
  then show ?case by (cases kv) (auto simp: stateEndValue_def)
qed (auto simp: stateEndValue_def case_prod_beta)

lemma value_tokens_start:
  "\<exists>tok toks. value_tokens v = tok # toks \<and> tok \<noteq> TEndArray \<and> tok \<noteq> TEndObject"
  by (cases v) auto

lemma comma_tokens_start:
  "xs \<noteq> [] \<Longrightarrow> \<exists>toks. comma_tokens xs = hd xs @ toks"
  by (cases xs; cases "tl xs") auto

lemma scan_value_tokens:
  "json_ok n v \<Longrightarrow> n + length stack \<le> maxNestingDepth \<Longrightarrow>
    json_scan BeginValue stack (value_tokens v @ toks) = json_scan (EndValue v) stack toks"
proof (induction v arbitrary: n stack toks rule: json_text.induct)
  case (5 vs)
  have elems: "\<forall>v \<in> set vs. \<forall>toks acc. json_scan BeginValue (ParseArrayValue acc # stack) (value_tokens v @ toks) =
      json_scan (EndValue v) (ParseArrayValue acc # stack) toks"
    using 5 by (auto simp: list_all_iff)
  have push: "pushParseState s f stack = Some (s, f # stack)" for s f
    using 5(2,3) by (simp add: pushParseState_def)
  show ?case
  proof (cases "vs = []")
    case False
    obtain toks' where "comma_tokens (map value_tokens vs) = value_tokens (hd vs) @ toks'"
      using comma_tokens_start [of "map value_tokens vs"] False by (auto simp: hd_map)
    moreover obtain tok t where "value_tokens (hd vs) = tok # t" "tok \<noteq> TEndArray"
      using value_tokens_start by blast
    ultimately have "json_scan BeginValueOrEmpty (ParseArrayValue [] # stack) (comma_tokens (map value_tokens vs) @ u) =
        json_scan BeginValue (ParseArrayValue [] # stack) (comma_tokens (map value_tokens vs) @ u)" for u
      by simp
    with scan_elements [OF elems False, of "[]"] show ?thesis by (simp add: push)
  qed (simp add: push)
next
  case (6 kvs)
  have fields: "\<forall>v \<in> snd ` set kvs. \<forall>toks acc k. json_scan BeginValue (ParseObjectValue acc k # stack) (value_tokens v @ toks) =
      json_scan (EndValue v) (ParseObjectValue acc k # stack) toks"
    using 6 by (fastforce simp: list_all_iff)
  have push: "pushParseState s f stack = Some (s, f # stack)" for s f
    using 6(2,3) by (simp add: pushParseState_def)
  show ?case
  proof (cases "kvs = []")
    case False
    let ?f = "\<lambda>(k, v). TString k # TColon # value_tokens v"
    obtain k v kvs' where "kvs = (k, v) # kvs'" using False by (cases kvs) auto
    moreover obtain toks' where "comma_tokens (map ?f kvs) = ?f (hd kvs) @ toks'"
      using comma_tokens_start [of "map ?f kvs"] False by (auto simp: hd_map)
    ultimately have "json_scan BeginStringOrEmpty (ParseObjectKey [] # stack) (comma_tokens (map ?f kvs) @ u) =
        json_scan BeginString (ParseObjectKey [] # stack) (comma_tokens (map ?f kvs) @ u)" for u
      by simp
    with scan_fields [OF fields False, of "[]"] show ?thesis by (simp add: push)
  qed (simp add: push)
qed auto

text \<open>What a JSON reader makes of a text.\<close>

definition json_value :: "string \<Rightarrow> json option" where
  "json_value s = Option.bind (json_tokens s) (json_scan BeginValue [])"

theorem json_value_text:
  assumes "json_ok n v" "n \<le> maxNestingDepth"
  shows "json_value (json_text v @ [CHR 0x0A]) = Some v"
  using tokens_value [OF assms(1), of "[CHR 0x0A]"] scan_value_tokens [OF assms(1), of "[]" "[]"] assms(2)
  by (simp add: json_value_def del: json_tokens.simps(2))

text \<open>Decimal numbers are integers of JSON.\<close>

lemma of_char_digit: "of_char (digit n) = (48 + n mod 10 :: nat)"
  by (simp add: digit_def)

lemma digit_facts: "is_digit (digit n)" "digit n = CHR ''0'' \<longleftrightarrow> n mod 10 = 0"
proof -
  show "is_digit (digit n)" using mod_less_divisor [of 10 n] by (simp add: is_digit_def of_char_digit)
  have "digit n = CHR ''0'' \<longleftrightarrow> of_char (digit n) = (of_char CHR ''0'' :: nat)" by (simp only: of_char_eq_iff)
  then show "digit n = CHR ''0'' \<longleftrightarrow> n mod 10 = 0" by (simp add: of_char_digit)
qed

lemma show_nat_digits:
  "show_nat n \<noteq> [] \<and> list_all is_digit (show_nat n) \<and> (hd (show_nat n) = CHR ''0'' \<longrightarrow> n = 0)"
proof (induction n rule: show_nat.induct)
  case (1 n)
  show ?case
  proof (cases "n < 10")
    case True
    then show ?thesis by (simp add: show_nat.simps [of n] digit_facts)
  next
    case False
    then have "n div 10 \<noteq> 0" by (simp add: div_eq_0_iff)
    with 1 [OF False] False show ?thesis by (simp add: show_nat.simps [of n] digit_facts hd_append)
  qed
qed

lemma nat_text_show: "nat_text (show_nat n)"
  using show_nat_digits [of n] by (auto simp: nat_text_def show_nat.simps [of 0] digit_def)

lemma int_text_Itoa: "int_text (Itoa i)"
proof -
  have "\<not> is_digit CHR ''-''" by (simp add: is_digit_def)
  then show ?thesis
    using nat_text_show [of "nat i"] nat_text_show [of "nat (- i)"]
    by (auto simp: Itoa_def int_text_def nat_text_def split: list.splits)
qed

end
