(* ===== verification/Responses.thy ===== *)
theory Responses
  imports ApiV1 JsonValues
begin

text \<open>
  The responses of the API: the JSON encoding of the types of \<open>src/pkg/api/v1/types.gen.go\<close> (the
  fields in the order of the struct, a nil pointer with \<open>omitempty\<close> left out), and the response
  objects of \<open>src/internal/api/httpsrv/server.gen.go\<close>, whose \<open>Visit\<close> methods send status 200 and
  the encoded response. IDs are strings and are encoded as such.
\<close>

section \<open>Encoding\<close>

definition omitempty :: "string \<Rightarrow> string option \<Rightarrow> (string \<times> json) list" where
  "omitempty k v = (case v of None \<Rightarrow> [] | Some x \<Rightarrow> [(k, JString x)])"

definition json_strings :: "string list \<Rightarrow> json" where
  "json_strings xs = JArray (map JString xs)"

text \<open>A slice that is built with \<open>append\<close> from a nil slice is nil while it is empty.\<close>

definition appended_strings :: "string list \<Rightarrow> json" where
  "appended_strings xs = (if xs = [] then JNull else json_strings xs)"

definition Cursor_MarshalJSON :: "cursor \<Rightarrow> json" where
  "Cursor_MarshalJSON c = (case c of None \<Rightarrow> JNull | Some s \<Rightarrow> if s = [] then JNull else JString s)"

definition json_Pagination :: "v1Pagination \<Rightarrow> json" where
  "json_Pagination p =
     JObject ((''limit'', JNumber (Itoa (pg_Limit p))) #
       (case pg_Next p of None \<Rightarrow> [] | Some s \<Rightarrow> [(''next'', Cursor_MarshalJSON (Some s))]))"

definition json_DeleteResponse :: "bool \<Rightarrow> json" where
  "json_DeleteResponse success = JObject [(''success'', JBool success)]"

definition json_AddGroupMembersResponse :: "bool \<Rightarrow> json" where
  "json_AddGroupMembersResponse success = JObject [(''success'', JBool success)]"

definition json_Group :: "v1Group \<Rightarrow> json" where
  "json_Group g =
     JObject (omitempty ''description'' (v1g_Description g) @
       [(''id'', JString (v1g_ID g)), (''name'', JString (v1g_Name g))] @
       omitempty ''owner_id'' (v1g_OwnerID g))"

definition json_Issuer :: "v1Issuer \<Rightarrow> json" where
  "json_Issuer i =
     JObject
      [(''claim_conditions'', JString (v1i_ClaimConditions i)),
       (''claim_mappings'', JObject (map (\<lambda>k. (k, JString (the (map_of (v1i_ClaimMappings i) k))))
                                       (sort (map fst (v1i_ClaimMappings i))))),
       (''id'', JString (v1i_ID i)), (''jwks_uri'', JString (v1i_JWKSURI i)),
       (''name'', JString (v1i_Name i)), (''uri'', JString (v1i_URI i))]"

definition json_OAuthClient :: "v1OAuthClient \<Rightarrow> json" where
  "json_OAuthClient c =
     JObject ([(''audience'', json_strings (v1c_Audience c)), (''id'', JString (v1c_ID c)),
       (''name'', JString (v1c_Name c))] @ omitempty ''secret'' (v1c_Secret c))"

definition json_User :: "v1User \<Rightarrow> json" where
  "json_User u =
     JObject (omitempty ''email'' (v1u_Email u) @
       [(''id'', JString (v1u_ID u)), (''iss'', JString (v1u_Issuer u))] @
       omitempty ''name'' (v1u_Name u) @ [(''sub'', JString (v1u_Subject u))])"

definition json_GroupCollection :: "v1GroupCollection \<Rightarrow> json" where
  "json_GroupCollection c =
     JObject [(''groups'', JArray (map json_Group (gc_Groups c))), (''pagination'', json_Pagination (gc_Pagination c))]"

definition json_GroupIDCollection :: "v1GroupIDCollection \<Rightarrow> json" where
  "json_GroupIDCollection c =
     JObject [(''group_ids'', json_strings (gic_GroupIDs c)), (''pagination'', json_Pagination (gic_Pagination c))]"

text \<open>The members are collected by \<open>ListGroupMembers\<close> of \<open>src/internal/storage/groups.go\<close>, from a nil slice.\<close>

definition json_GroupMemberCollection :: "v1GroupMemberCollection \<Rightarrow> json" where
  "json_GroupMemberCollection c =
     JObject [(''group_id'', JString (gmc_GroupID c)), (''member_ids'', appended_strings (gmc_MemberIDs c)),
       (''pagination'', json_Pagination (gmc_Pagination c))]"

definition json_IssuerCollection :: "v1IssuerCollection \<Rightarrow> json" where
  "json_IssuerCollection c =
     JObject [(''issuers'', JArray (map json_Issuer (ic_Issuers c))), (''pagination'', json_Pagination (ic_Pagination c))]"

definition json_OAuthClientCollection :: "v1OAuthClientCollection \<Rightarrow> json" where
  "json_OAuthClientCollection c =
     JObject [(''clients'', JArray (map json_OAuthClient (occ_Clients c))), (''pagination'', json_Pagination (occ_Pagination c))]"

definition json_UserCollection :: "v1UserCollection \<Rightarrow> json" where
  "json_UserCollection c =
     JObject [(''pagination'', json_Pagination (uc_Pagination c)), (''users'', JArray (map json_User (uc_Users c)))]"

section \<open>Sending\<close>

text \<open>\<open>echo.Response\<close>: only the first status is sent.\<close>

definition send_status :: "nat \<Rightarrow> world \<Rightarrow> world" where
  "send_status code w = (if reply w = None then w\<lparr>reply := Some code\<rparr> else w)"

text \<open>\<open>json.NewEncoder(w).Encode\<close>: the text of the value and a line break, written at once.\<close>

definition Encode :: "json \<Rightarrow> string" where
  "Encode v = json_text v @ [CHR 0x0A]"

text \<open>The header with status 200, then the body, whose transmission may fail.\<close>

definition VisitResponse :: "string \<Rightarrow> unit dbio" where
  "VisitResponse text = (\<lambda>w. case faults w (ticks w) of
       Some e \<Rightarrow> (Err (DriverError e), tick (send_status 200 w))
     | None \<Rightarrow> (Ok (), tick (send_status 200 (w\<lparr>resp_body := resp_body w @ text\<rparr>))))"

definition VisitDeleteOAuthClientResponse :: "bool \<Rightarrow> unit dbio" where
  "VisitDeleteOAuthClientResponse response = VisitResponse (Encode (json_DeleteResponse response))"

definition VisitGetOAuthClientResponse :: "v1OAuthClient \<Rightarrow> unit dbio" where
  "VisitGetOAuthClientResponse response = VisitResponse (Encode (json_OAuthClient response))"

definition VisitDeleteGroupResponse :: "bool \<Rightarrow> unit dbio" where
  "VisitDeleteGroupResponse response = VisitResponse (Encode (json_DeleteResponse response))"

definition VisitGetGroupByIDResponse :: "v1Group \<Rightarrow> unit dbio" where
  "VisitGetGroupByIDResponse response = VisitResponse (Encode (json_Group response))"

definition VisitUpdateGroupResponse :: "v1Group \<Rightarrow> unit dbio" where
  "VisitUpdateGroupResponse response = VisitResponse (Encode (json_Group response))"

definition VisitListGroupMembersResponse :: "v1GroupMemberCollection \<Rightarrow> unit dbio" where
  "VisitListGroupMembersResponse response = VisitResponse (Encode (json_GroupMemberCollection response))"

definition VisitAddGroupMembersResponse :: "bool \<Rightarrow> unit dbio" where
  "VisitAddGroupMembersResponse response = VisitResponse (Encode (json_AddGroupMembersResponse response))"

definition VisitReplaceGroupMembersResponse :: "bool \<Rightarrow> unit dbio" where
  "VisitReplaceGroupMembersResponse response = VisitResponse (Encode (json_AddGroupMembersResponse response))"

definition VisitRemoveGroupMemberResponse :: "bool \<Rightarrow> unit dbio" where
  "VisitRemoveGroupMemberResponse response = VisitResponse (Encode (json_DeleteResponse response))"

definition VisitDeleteIssuerResponse :: "bool \<Rightarrow> unit dbio" where
  "VisitDeleteIssuerResponse response = VisitResponse (Encode (json_DeleteResponse response))"

definition VisitGetIssuerByIDResponse :: "v1Issuer \<Rightarrow> unit dbio" where
  "VisitGetIssuerByIDResponse response = VisitResponse (Encode (json_Issuer response))"

definition VisitUpdateIssuerResponse :: "v1Issuer \<Rightarrow> unit dbio" where
  "VisitUpdateIssuerResponse response = VisitResponse (Encode (json_Issuer response))"

definition VisitGetIssuerUsersResponse :: "v1UserCollection \<Rightarrow> unit dbio" where
  "VisitGetIssuerUsersResponse response = VisitResponse (Encode (json_UserCollection response))"

definition VisitGetOwnerOAuthClientsResponse :: "v1OAuthClientCollection \<Rightarrow> unit dbio" where
  "VisitGetOwnerOAuthClientsResponse response = VisitResponse (Encode (json_OAuthClientCollection response))"

definition VisitCreateOAuthClientResponse :: "v1OAuthClient \<Rightarrow> unit dbio" where
  "VisitCreateOAuthClientResponse response = VisitResponse (Encode (json_OAuthClient response))"

definition VisitListGroupsResponse :: "v1GroupCollection \<Rightarrow> unit dbio" where
  "VisitListGroupsResponse response = VisitResponse (Encode (json_GroupCollection response))"

definition VisitCreateGroupResponse :: "v1Group \<Rightarrow> unit dbio" where
  "VisitCreateGroupResponse response = VisitResponse (Encode (json_Group response))"

definition VisitListOwnerIssuersResponse :: "v1IssuerCollection \<Rightarrow> unit dbio" where
  "VisitListOwnerIssuersResponse response = VisitResponse (Encode (json_IssuerCollection response))"

definition VisitCreateIssuerResponse :: "v1Issuer \<Rightarrow> unit dbio" where
  "VisitCreateIssuerResponse response = VisitResponse (Encode (json_Issuer response))"

definition VisitGetUserByIDResponse :: "v1User \<Rightarrow> unit dbio" where
  "VisitGetUserByIDResponse response = VisitResponse (Encode (json_User response))"

definition VisitListUserGroupsResponse :: "v1GroupIDCollection \<Rightarrow> unit dbio" where
  "VisitListUserGroupsResponse response = VisitResponse (Encode (json_GroupIDCollection response))"

end
