(* ===== verification/GroupEvents.thy ===== *)
theory GroupEvents
  imports GroupStore
begin

text \<open>
  The events service, \<open>src/internal/events\<close>: messages to the permissions API about groups and
  their members. The client of the permissions API is a library (\<open>permissions_Publish\<close>); a message
  it reports no error for counts as published.

  \<open>relations\<close> is what the permissions API makes of the messages, \<open>table_relations\<close> what it should
  know of the tables.
\<close>

definition DirectMemberRelationship :: string where "DirectMemberRelationship = ''direct_member''"
definition GroupParentRelationship :: string where "GroupParentRelationship = ''parent''"
definition GroupTopic :: string where "GroupTopic = ''group''"

definition publish :: "('ast, 'expr) ext \<Rightarrow> rel_msg \<Rightarrow> unit dbio" where
  "publish X m = (\<lambda>w. case permissions_Publish X (ticks w) m of
       None \<Rightarrow> (Ok (), (tick w)\<lparr>published := published w @ [m]\<rparr>)
     | Some e \<Rightarrow> (Err e, tick w))"

definition CreateAuthRelationships ::
    "('ast, 'expr) ext \<Rightarrow> string \<Rightarrow> string \<Rightarrow> (string \<times> string) list \<Rightarrow> unit dbio" where
  "CreateAuthRelationships X topic resource rels =
     publish X \<lparr>rm_op = CreateRel, rm_topic = topic, rm_resource = resource, rm_rels = rels\<rparr>"

definition DeleteAuthRelationships ::
    "('ast, 'expr) ext \<Rightarrow> string \<Rightarrow> string \<Rightarrow> (string \<times> string) list \<Rightarrow> unit dbio" where
  "DeleteAuthRelationships X topic resource rels =
     publish X \<lparr>rm_op = DeleteRel, rm_topic = topic, rm_resource = resource, rm_rels = rels\<rparr>"

text \<open>The loops over the subjects: empty IDs are skipped.\<close>

definition member_rels :: "string list \<Rightarrow> (string \<times> string) list" where
  "member_rels subjIDs = map (\<lambda>s. (DirectMemberRelationship, s)) (filter (\<lambda>s. s \<noteq> []) subjIDs)"

definition Events_AddGroupMembers :: "('ast, 'expr) ext \<Rightarrow> string \<Rightarrow> string list \<Rightarrow> unit dbio" where
  "Events_AddGroupMembers X gid subjIDs =
     (if subjIDs = [] then ret ()
      else let rels = member_rels subjIDs
           in if rels = [] then ret () else CreateAuthRelationships X GroupTopic gid rels)"

definition Events_RemoveGroupMembers :: "('ast, 'expr) ext \<Rightarrow> string \<Rightarrow> string list \<Rightarrow> unit dbio" where
  "Events_RemoveGroupMembers X gid subjIDs =
    (let rels = member_rels subjIDs
     in if rels = [] then ret () else DeleteAuthRelationships X GroupTopic gid rels)"

definition Events_CreateGroup :: "('ast, 'expr) ext \<Rightarrow> string \<Rightarrow> string \<Rightarrow> unit dbio" where
  "Events_CreateGroup X parentID gid =
     CreateAuthRelationships X GroupTopic gid [(GroupParentRelationship, parentID)]"

definition Events_DeleteGroup :: "('ast, 'expr) ext \<Rightarrow> string \<Rightarrow> string \<Rightarrow> unit dbio" where
  "Events_DeleteGroup X parentID gid =
     DeleteAuthRelationships X GroupTopic gid [(GroupParentRelationship, parentID)]"

section \<open>Frames\<close>

lemma publish_evolve [frame_rules]: "frame (evolve o') (publish X m)"
  by (auto simp: frame_def publish_def evolve_def split: option.splits)

lemma events_evolve [frame_rules]:
  "frame (evolve o') (Events_AddGroupMembers X g ss)" "frame (evolve o') (Events_RemoveGroupMembers X g ss)"
  "frame (evolve o') (Events_CreateGroup X p g)" "frame (evolve o') (Events_DeleteGroup X p g)"
  unfolding Events_AddGroupMembers_def Events_RemoveGroupMembers_def Events_CreateGroup_def
    Events_DeleteGroup_def CreateAuthRelationships_def DeleteAuthRelationships_def Let_def
  by (intro frame_rules)+

section \<open>What the messages amount to\<close>

definition msg_tuples :: "rel_msg \<Rightarrow> (string \<times> string \<times> string) set" where
  "msg_tuples m = (\<lambda>(rel, subj). (rm_resource m, rel, subj)) ` set (rm_rels m)"

definition apply_msg :: "rel_msg \<Rightarrow> (string \<times> string \<times> string) set \<Rightarrow> (string \<times> string \<times> string) set" where
  "apply_msg m R = (case rm_op m of CreateRel \<Rightarrow> R \<union> msg_tuples m | DeleteRel \<Rightarrow> R - msg_tuples m)"

definition relations :: "world \<Rightarrow> (string \<times> string \<times> string) set" where
  "relations w = fold apply_msg (published w) {}"

definition table_relations :: "tables \<Rightarrow> (string \<times> string \<times> string) set" where
  "table_relations t =
     (\<lambda>g. (gr_id g, GroupParentRelationship, gr_owner_id g)) ` set (groups t) \<union>
     (\<lambda>m. (mr_group_id m, DirectMemberRelationship, mr_subject_id m)) ` set (group_members t)"

text \<open>The permissions API and a version of the tables agree, and no member has an empty ID.\<close>

definition agree :: "world \<Rightarrow> tables \<Rightarrow> bool" where
  "agree w t \<longleftrightarrow> relations w = table_relations t \<and> (\<forall>g. (g, DirectMemberRelationship, []) \<notin> relations w)"

definition in_sync :: "world \<Rightarrow> bool" where
  "in_sync w \<longleftrightarrow> agree w (committed w)"

lemma relations_publish:
  assumes "publish X m w = (Ok u, w')"
  shows "relations w' = apply_msg m (relations w)"
  using assms by (auto simp: publish_def relations_def split: option.splits)

lemma relations_silent: "silent w w' \<Longrightarrow> relations w' = relations w"
  by (simp add: silent_def relations_def)

lemma member_rels_tuples:
  "[] \<notin> set ss \<Longrightarrow> msg_tuples \<lparr>rm_op = p, rm_topic = tp, rm_resource = g, rm_rels = member_rels ss\<rparr> =
     (\<lambda>s. (g, DirectMemberRelationship, s)) ` set ss"
  by (auto simp: msg_tuples_def member_rels_def image_image)

lemma member_rels_Nil: "[] \<notin> set ss \<Longrightarrow> member_rels ss = [] \<longleftrightarrow> ss = []"
  by (cases ss) (auto simp: member_rels_def)

text \<open>The four events, as operations on the relations.\<close>

lemma relations_AddGroupMembers:
  assumes "Events_AddGroupMembers X g ss w = (Ok u, w')" and "[] \<notin> set ss"
  shows "relations w' = relations w \<union> (\<lambda>s. (g, DirectMemberRelationship, s)) ` set ss"
  using assms relations_publish [of X _ w u w']
  by (auto simp: Events_AddGroupMembers_def member_rels_Nil Let_def CreateAuthRelationships_def apply_msg_def
      member_rels_tuples split: if_splits)

lemma relations_RemoveGroupMembers:
  assumes "Events_RemoveGroupMembers X g ss w = (Ok u, w')" and "[] \<notin> set ss"
  shows "relations w' = relations w - (\<lambda>s. (g, DirectMemberRelationship, s)) ` set ss"
  using assms relations_publish [of X _ w u w']
  by (auto simp: Events_RemoveGroupMembers_def member_rels_Nil Let_def DeleteAuthRelationships_def apply_msg_def
      member_rels_tuples split: if_splits)

lemma relations_CreateGroup:
  assumes "Events_CreateGroup X p g w = (Ok u, w')"
  shows "relations w' = insert (g, GroupParentRelationship, p) (relations w)"
  using assms relations_publish [of X _ w u w']
  by (auto simp: Events_CreateGroup_def CreateAuthRelationships_def apply_msg_def msg_tuples_def)

lemma relations_DeleteGroup:
  assumes "Events_DeleteGroup X p g w = (Ok u, w')"
  shows "relations w' = relations w - {(g, GroupParentRelationship, p)}"
  using assms relations_publish [of X _ w u w']
  by (auto simp: Events_DeleteGroup_def DeleteAuthRelationships_def apply_msg_def msg_tuples_def)

end
