(* ===== verification/HttpServer.thy ===== *)
theory HttpServer
  imports Responses GroupEvents
begin

text \<open>
  The management API, \<open>src/internal/api/httpsrv\<close>: the storage middleware, one definition per method
  of \<open>*apiHandler\<close> (\<open>handler_issuer.go\<close>, \<open>handler_oauth_client.go\<close>, \<open>handle_user.go\<close>,
  \<open>handler_group.go\<close>, \<open>handler_group_members.go\<close>), and the strict handler of \<open>server.gen.go\<close> that
  sends the response of a method.

  A request runs inside a transaction that the middleware begins, and commits or rolls back. The
  locale \<open>transaction_manager\<close> states what the middleware relies on
  (\<open>storage.TransactionManager\<close>) and proves that requests are atomic; it is interpreted on the
  storage engine. Status and body of a response are sent once: what is written later is dropped.
\<close>

section \<open>Responses\<close>

text \<open>\<open>eCtx.Error(err)\<close>: echo's error handler answers with the status of the error.\<close>

definition eCtx_Error :: "('ast, 'expr) ext \<Rightarrow> goerr \<Rightarrow> unit dbio" where
  "eCtx_Error X err = (\<lambda>w. (Ok (), send_status (echo_ErrorStatus X err) w))"

section \<open>Middleware\<close>

definition storageMiddleware ::
    "('ast, 'expr) ext \<Rightarrow> (ctx \<Rightarrow> ctx dbio) \<Rightarrow> (ctx \<Rightarrow> unit dbio) \<Rightarrow> (ctx \<Rightarrow> unit dbio) \<Rightarrow>
     (ctx \<Rightarrow> unit dbio) \<Rightarrow> ctx \<Rightarrow> unit dbio" where
  "storageMiddleware X begin_ctx commit_ctx rollback_ctx next reqCtx =
     tryE (begin_ctx reqCtx)
       (\<lambda>err. fail (HTTPError 502 (MsgErr err)))
       (\<lambda>newCtx.
         tryE (next newCtx)
           (\<lambda>err. bindE (eCtx_Error X err) (\<lambda>_.
              tryE (rollback_ctx newCtx)
                (\<lambda>rbErr. fail (HTTPError 502 (MsgErr rbErr)))
                (\<lambda>_. fail err)))
           (\<lambda>_. tryE (commit_ctx newCtx)
              (\<lambda>err. fail (HTTPError 502 (MsgErr err)))
              (\<lambda>_. ret ())))"

definition rollbackAndReturnError :: "ctx \<Rightarrow> nat \<Rightarrow> string \<Rightarrow> 'a dbio" where
  "rollbackAndReturnError c httpcode msg =
     tryE (RollbackContext c)
       (\<lambda>err. fail (HTTPError 500 (MsgErr (LibError (msg @ '' and failed to rollback database transaction'')))))
       (\<lambda>_. fail (HTTPError httpcode (MsgText msg)))"

definition permissionsError :: "goerr \<Rightarrow> goerr" where
  "permissionsError err =
     (if errors_Is err ErrPermissionDenied then HTTPError 403 (MsgErr err) else err)"

definition errorNotFound :: goerr where
  "errorNotFound = ErrorWithStatus 404 ''not found''"

text \<open>The two guards the methods open with: access to a resource, which the permissions API grants
  to the actor of the context, and the form of an ID.\<close>

definition CheckAccess :: "('ast, 'expr) ext \<Rightarrow> ctx \<Rightarrow> string \<Rightarrow> string \<Rightarrow> unit dbio" where
  "CheckAccess X c resource action =
     (case permissions_CheckAccess X (ctx_actor c) resource action of
        None \<Rightarrow> ret ()
      | Some err \<Rightarrow> fail (permissionsError err))"

definition parse_or_400 :: "('ast, 'expr) ext \<Rightarrow> string \<Rightarrow> string \<Rightarrow> unit dbio" where
  "parse_or_400 X msg s =
     tryE (lift (gidx_Parse X s))
       (\<lambda>err. fail (HTTPError 400 (MsgText (msg @ Error err))))
       (\<lambda>_. ret ())"

fun parse_all_or_400 :: "('ast, 'expr) ext \<Rightarrow> string list \<Rightarrow> unit dbio" where
  "parse_all_or_400 X [] = ret ()"
| "parse_all_or_400 X (s # ss) =
     bindE (parse_or_400 X (''invalid member id '' @ s @ '': '') s) (\<lambda>_. parse_all_or_400 X ss)"

text \<open>\<open>if errors.Is(err, types.ErrNotFound) { err = echo.NewHTTPError(404, err.Error()) }\<close>.\<close>

definition not_found_404 :: "goerr \<Rightarrow> goerr" where
  "not_found_404 err =
     (if errors_Is err ErrNotFound then HTTPError 404 (MsgText (Error err)) else err)"

section \<open>Issuers\<close>

definition apiHandler_CreateIssuer ::
    "('ast, 'expr) ext \<Rightarrow> ctx \<Rightarrow> string \<Rightarrow> v1CreateIssuer \<Rightarrow> v1Issuer dbio" where
  "apiHandler_CreateIssuer X c ownerID createOp =
     bindE (CheckAccess X c ownerID ''iam_issuer_create'') (\<lambda>_.
     bindE (case ci_ClaimMappings createOp of
              None \<Rightarrow> ret None
            | Some m \<Rightarrow> tryE (lift (NewClaimsMapping X m))
                (\<lambda>_. fail (ErrorWithStatus 400 ''error parsing CEL expression''))
                (\<lambda>cm. ret (Some cm))) (\<lambda>claimsMapping.
     bindE (case ci_ClaimConditions createOp of
              None \<Rightarrow> ret None
            | Some e \<Rightarrow> tryE (lift (NewClaimConditions X e))
                (\<lambda>err. fail (HTTPError 400 (MsgText (Error err))))
                (\<lambda>cond. ret (Some cond))) (\<lambda>claimConditions.
     tryE (with_entropy (gidx_NewID X IdentityIssuerIDPrefix))
       (\<lambda>_. fail (ErrorWithStatus 500 ''failed to generate new id''))
       (\<lambda>iid.
     bindE (CreateIssuer X c
              \<lparr>iss_OwnerID = ownerID, iss_ID = iid, iss_Name = ci_Name createOp,
               iss_URI = ci_URI createOp, iss_JWKSURI = ci_JWKSURI createOp,
               iss_ClaimMappings = claimsMapping, iss_ClaimConditions = claimConditions\<rparr>) (\<lambda>issuer.
     lift (ToV1Issuer X issuer))))))"

text \<open>The fetch of an issuer, whose absence is \<open>errorNotFound\<close>.\<close>

definition fetch_issuer :: "('ast, 'expr) ext \<Rightarrow> ctx \<Rightarrow> string \<Rightarrow> 'ast Issuer dbio" where
  "fetch_issuer X c iid =
     tryE (GetIssuerByID X c iid)
       (\<lambda>err. if err = ErrorIssuerNotFound then fail errorNotFound else fail err)
       ret"

definition apiHandler_GetIssuerByID :: "('ast, 'expr) ext \<Rightarrow> ctx \<Rightarrow> string \<Rightarrow> v1Issuer dbio" where
  "apiHandler_GetIssuerByID X c iid =
     bindE (fetch_issuer X c iid) (\<lambda>iss.
     bindE (CheckAccess X c (iss_OwnerID iss) ''iam_issuer_get'') (\<lambda>_.
     lift (ToV1Issuer X iss)))"

definition apiHandler_ListOwnerIssuers ::
    "('ast, 'expr) ext \<Rightarrow> ctx \<Rightarrow> string \<Rightarrow> ListOwnerIssuersParams \<Rightarrow> v1IssuerCollection dbio" where
  "apiHandler_ListOwnerIssuers X c ownerID params =
     bindE (CheckAccess X c ownerID ''iam_issuer_list'') (\<lambda>_.
     bindE (GetOwnerIssuers X c ownerID (ListOwnerIssuers_paginator params)) (\<lambda>iss.
     bindE (lift (ToV1Issuers X iss)) (\<lambda>issuers.
     lift (ListOwnerIssuers_SetPagination params
       \<lparr>ic_Issuers = issuers, ic_Pagination = Pagination0\<rparr>))))"

definition apiHandler_UpdateIssuer ::
    "('ast, 'expr) ext \<Rightarrow> ctx \<Rightarrow> string \<Rightarrow> v1IssuerUpdate \<Rightarrow> v1Issuer dbio" where
  "apiHandler_UpdateIssuer X c iid updateOp =
     bindE (fetch_issuer X c iid) (\<lambda>iss.
     bindE (CheckAccess X c (iss_OwnerID iss) ''iam_issuer_update'') (\<lambda>_.
     bindE (case iu_ClaimMappings updateOp of
              None \<Rightarrow> ret None
            | Some m \<Rightarrow> tryE (lift (NewClaimsMapping X m))
                (\<lambda>_. fail (ErrorWithStatus 400 ''error parsing CEL expression''))
                (\<lambda>cm. ret (Some cm))) (\<lambda>claimsMapping.
     bindE (case iu_ClaimConditions updateOp of
              None \<Rightarrow> ret None
            | Some e \<Rightarrow> tryE (lift (NewClaimConditions X e))
                (\<lambda>err. fail (HTTPError 400 (MsgErr (LibError (''error parsing CEL expression: '' @ Error err)))))
                (\<lambda>cond. ret (Some cond))) (\<lambda>claimConditions.
     tryE (UpdateIssuer X c iid
             \<lparr>upd_Name = iu_Name updateOp, upd_URI = iu_URI updateOp, upd_JWKSURI = iu_JWKSURI updateOp,
              upd_ClaimMappings = claimsMapping, upd_ClaimConditions = claimConditions\<rparr>)
       (\<lambda>err. if err = ErrorIssuerNotFound then fail errorNotFound else fail err)
       (\<lambda>issuer. lift (ToV1Issuer X issuer))))))"

definition apiHandler_DeleteIssuer :: "('ast, 'expr) ext \<Rightarrow> ctx \<Rightarrow> string \<Rightarrow> bool dbio" where
  "apiHandler_DeleteIssuer X c iid =
     bindE (fetch_issuer X c iid) (\<lambda>iss.
     bindE (CheckAccess X c (iss_OwnerID iss) ''iam_issuer_delete'') (\<lambda>_.
     tryE (DeleteIssuer c iid)
       (\<lambda>err. if err = ErrorIssuerNotFound then ret True else fail err)
       (\<lambda>_. ret True)))"

section \<open>OAuth clients\<close>

definition defaultTokenLength :: int where "defaultTokenLength = 26"

definition apiHandler_CreateOAuthClient ::
    "('ast, 'expr) ext \<Rightarrow> ctx \<Rightarrow> string \<Rightarrow> v1CreateOAuthClient \<Rightarrow> v1OAuthClient dbio" where
  "apiHandler_CreateOAuthClient X c ownerID body =
     bindE (CheckAccess X c ownerID ''iam_oauthclient_create'') (\<lambda>_.
     bindE (GenerateSecureToken X defaultTokenLength) (\<lambda>generatedSecret.
     bindE (CreateOAuthClient X c
              \<lparr>oc_ID = [], oc_OwnerID = ownerID, oc_Name = cc_Name body, oc_Secret = generatedSecret,
               oc_Audience = (case cc_Audience body of None \<Rightarrow> [] | Some aud \<Rightarrow> aud)\<rparr>) (\<lambda>newClient.
     ret ((ToV1OAuthClient newClient)\<lparr>v1c_Secret := Some generatedSecret\<rparr>))))"

text \<open>The fetch of a client, whose absence is a \<open>404\<close> with the text of the error.\<close>

definition fetch_client :: "ctx \<Rightarrow> string \<Rightarrow> OAuthClient dbio" where
  "fetch_client c cid =
     tryE (LookupOAuthClientByID c cid)
       (\<lambda>err. if err = ErrOAuthClientNotFound then fail (ErrorWithStatus 404 (Error err)) else fail err)
       ret"

definition apiHandler_GetOAuthClient :: "('ast, 'expr) ext \<Rightarrow> ctx \<Rightarrow> string \<Rightarrow> v1OAuthClient dbio" where
  "apiHandler_GetOAuthClient X c cid =
     bindE (fetch_client c cid) (\<lambda>client.
     bindE (CheckAccess X c (oc_OwnerID client) ''iam_oauthclient_get'') (\<lambda>_.
     ret (ToV1OAuthClient client)))"

definition apiHandler_GetOwnerOAuthClients ::
    "('ast, 'expr) ext \<Rightarrow> ctx \<Rightarrow> string \<Rightarrow> GetOwnerOAuthClientsParams \<Rightarrow> v1OAuthClientCollection dbio" where
  "apiHandler_GetOwnerOAuthClients X c ownerID params =
     bindE (CheckAccess X c ownerID ''iam_oauthclient_list'') (\<lambda>_.
     bindE (GetOwnerOAuthClients c ownerID (GetOwnerOAuthClients_paginator params)) (\<lambda>iss.
     bindE (lift (ToV1OAuthClients iss)) (\<lambda>clients.
     lift (GetOwnerOAuthClients_SetPagination params
       \<lparr>occ_Clients = clients, occ_Pagination = Pagination0\<rparr>))))"

definition apiHandler_DeleteOAuthClient :: "('ast, 'expr) ext \<Rightarrow> ctx \<Rightarrow> string \<Rightarrow> bool dbio" where
  "apiHandler_DeleteOAuthClient X c cid =
     bindE (fetch_client c cid) (\<lambda>client.
     bindE (CheckAccess X c (oc_OwnerID client) ''iam_oauthclient_delete'') (\<lambda>_.
     tryE (DeleteOAuthClient c cid)
       (\<lambda>err. if err = ErrOAuthClientNotFound then ret True else fail err)
       (\<lambda>_. ret True)))"

section \<open>Users\<close>

definition apiHandler_GetUserByID :: "('ast, 'expr) ext \<Rightarrow> ctx \<Rightarrow> string \<Rightarrow> v1User dbio" where
  "apiHandler_GetUserByID X c uid =
     tryE (LookupUserOwnerID c uid)
       (\<lambda>err. if err = ErrUserInfoNotFound then fail (ErrorWithStatus 404 (Error err)) else fail err)
       (\<lambda>ownerID.
     bindE (CheckAccess X c ownerID ''iam_user_get'') (\<lambda>_.
     tryE (LookupUserInfoByID c uid)
       (\<lambda>err. if err = ErrUserInfoNotFound then fail (ErrorWithStatus 404 (Error err)) else fail err)
       (\<lambda>info. lift (ToV1User info))))"

definition apiHandler_GetIssuerUsers ::
    "('ast, 'expr) ext \<Rightarrow> ctx \<Rightarrow> string \<Rightarrow> GetIssuerUsersParams \<Rightarrow> v1UserCollection dbio" where
  "apiHandler_GetIssuerUsers X c issuerID params =
     bindE (CheckAccess X c issuerID ''iam_issuer_get'') (\<lambda>_.
     bindE (LookupUserInfosByIssuerID c issuerID (GetIssuerUsers_paginator params)) (\<lambda>userInfos.
     bindE (lift (ToV1Users userInfos)) (\<lambda>users.
     lift (GetIssuerUsers_SetPagination params
       \<lparr>uc_Users = users, uc_Pagination = Pagination0\<rparr>))))"

section \<open>Groups\<close>

definition dq :: char where "dq = CHR 0x22"

definition apiHandler_CreateGroup ::
    "('ast, 'expr) ext \<Rightarrow> ctx \<Rightarrow> string \<Rightarrow> v1CreateGroup \<Rightarrow> v1Group dbio" where
  "apiHandler_CreateGroup X c ownerID reqbody =
     bindE (parse_or_400 X ''invalid owner id: '' ownerID) (\<lambda>_.
     bindE (CheckAccess X c ownerID ''iam_group_create'') (\<lambda>_.
     tryE (with_entropy (gidx_NewID X IdentityGroupIDPrefix))
       (\<lambda>err. fail (HTTPError 500 (MsgText (''failed to generate new id: '' @ Error err))))
       (\<lambda>gid. let description = (case cg_Description reqbody of None \<Rightarrow> [] | Some d \<Rightarrow> d) in
     tryE (CreateGroup c \<lparr>g_ID = gid, g_OwnerID = ownerID, g_Name = cg_Name reqbody,
                          g_Description = description\<rparr>)
       (\<lambda>err. if errors_Is err ErrGroupExists
              then fail (HTTPError 409 (MsgText (''group '' @ [dq] @ cg_Name reqbody @ [dq] @ '' already exists'')))
              else if errors_Is err ErrInvalidArgument then fail (HTTPError 400 (MsgText (Error err)))
              else fail err)
       (\<lambda>g.
     tryE (Events_CreateGroup X ownerID gid)
       (\<lambda>err. rollbackAndReturnError c 500 ''failed to create group in permissions API'')
       (\<lambda>_. lift (ToV1Group g))))))"

text \<open>\<open>GetGroupByID\<close> of the engine, with its \<open>404\<close>.\<close>

definition fetch_group :: "ctx \<Rightarrow> string \<Rightarrow> Group dbio" where
  "fetch_group c gid =
     tryE (GetGroupByID c gid)
       (\<lambda>err. if errors_Is err ErrNotFound
              then fail (HTTPError 404 (MsgText (''group '' @ gid @ '' not found'')))
              else fail err)
       ret"

definition apiHandler_GetGroupByID :: "('ast, 'expr) ext \<Rightarrow> ctx \<Rightarrow> string \<Rightarrow> v1Group dbio" where
  "apiHandler_GetGroupByID X c gid =
     bindE (parse_or_400 X ''invalid group id: '' gid) (\<lambda>_.
     bindE (CheckAccess X c gid ''iam_group_get'') (\<lambda>_.
     bindE (fetch_group c gid) (\<lambda>g.
     lift (ToV1Group g))))"

definition apiHandler_ListGroups ::
    "('ast, 'expr) ext \<Rightarrow> ctx \<Rightarrow> string \<Rightarrow> ListGroupsParams \<Rightarrow> v1GroupCollection dbio" where
  "apiHandler_ListGroups X c ownerID params =
     bindE (parse_or_400 X ''invalid owner id: '' ownerID) (\<lambda>_.
     bindE (CheckAccess X c ownerID ''iam_group_list'') (\<lambda>_.
     bindE (ListGroupsByOwner c ownerID (ListGroups_paginator params)) (\<lambda>gs.
     bindE (lift (ToV1Groups gs)) (\<lambda>groupResp.
     lift (ListGroups_SetPagination params
       \<lparr>gc_Groups = groupResp, gc_Pagination = Pagination0\<rparr>)))))"

definition apiHandler_UpdateGroup ::
    "('ast, 'expr) ext \<Rightarrow> ctx \<Rightarrow> string \<Rightarrow> v1UpdateGroup \<Rightarrow> v1Group dbio" where
  "apiHandler_UpdateGroup X c gid reqbody =
     bindE (parse_or_400 X ''invalid group id: '' gid) (\<lambda>_.
     bindE (CheckAccess X c gid ''iam_group_update'') (\<lambda>_.
     tryE (UpdateGroup c gid \<lparr>gu_Name = ug_Name reqbody, gu_Description = ug_Description reqbody\<rparr>)
       (\<lambda>err. if errors_Is err ErrGroupNotFound
              then fail (HTTPError 404 (MsgText (''group '' @ gid @ '' not found'')))
              else if errors_Is err ErrGroupExists
              then fail (HTTPError 409 (MsgText ''group with same name already exists''))
              else fail err)
       (\<lambda>g. lift (ToV1Group g))))"

definition apiHandler_DeleteGroup :: "('ast, 'expr) ext \<Rightarrow> ctx \<Rightarrow> string \<Rightarrow> bool dbio" where
  "apiHandler_DeleteGroup X c gid =
     bindE (parse_or_400 X ''invalid group id: '' gid) (\<lambda>_.
     bindE (CheckAccess X c gid ''iam_group_delete'') (\<lambda>_.
     bindE (fetch_group c gid) (\<lambda>grp.
     bindE (GroupMembersCount c gid) (\<lambda>mc.
       if mc > 0
       then fail (HTTPError 400 (MsgText (''cannot delete group '' @ gid @ '': still has members'')))
       else
     tryE (DeleteGroup c (g_ID grp))
       (\<lambda>err. if errors_Is err ErrInvalidArgument then fail (HTTPError 400 (MsgText (Error err))) else fail err)
       (\<lambda>_.
     tryE (Events_DeleteGroup X (g_OwnerID grp) (g_ID grp))
       (\<lambda>err. rollbackAndReturnError c 500 ''failed to remove group in permissions API'')
       (\<lambda>_. ret True))))))"

section \<open>Group members\<close>

definition apiHandler_AddGroupMembers ::
    "('ast, 'expr) ext \<Rightarrow> ctx \<Rightarrow> string \<Rightarrow> v1AddGroupMembers \<Rightarrow> bool dbio" where
  "apiHandler_AddGroupMembers X c gid reqbody =
     bindE (parse_or_400 X ''invalid owner id: '' gid) (\<lambda>_.
     bindE (parse_all_or_400 X (ag_MemberIDs reqbody)) (\<lambda>_.
     bindE (CheckAccess X c gid ''iam_group_members_add'') (\<lambda>_.
     tryE (AddGroupMembers c gid (ag_MemberIDs reqbody))
       (\<lambda>err. fail (not_found_404 err))
       (\<lambda>_.
     tryE (Events_AddGroupMembers X gid (ag_MemberIDs reqbody))
       (\<lambda>err. rollbackAndReturnError c 500 ''failed to add group members in permissions API'')
       (\<lambda>_. ret True)))))"

definition apiHandler_ListGroupMembers ::
    "('ast, 'expr) ext \<Rightarrow> ctx \<Rightarrow> string \<Rightarrow> ListGroupMembersParams \<Rightarrow> v1GroupMemberCollection dbio" where
  "apiHandler_ListGroupMembers X c gid params =
     bindE (parse_or_400 X ''invalid group id: '' gid) (\<lambda>_.
     bindE (CheckAccess X c gid ''iam_group_members_list'') (\<lambda>_.
     tryE (ListGroupMembers c gid (Some (ListGroupMembers_paginator params)))
       (\<lambda>err. fail (not_found_404 err))
       (\<lambda>ms. lift (ListGroupMembers_SetPagination params
          \<lparr>gmc_GroupID = gid, gmc_MemberIDs = ms, gmc_Pagination = Pagination0\<rparr>))))"

text \<open>The first check of the subject's ID in the source leaves its result unused.\<close>

definition apiHandler_RemoveGroupMember :: "('ast, 'expr) ext \<Rightarrow> ctx \<Rightarrow> string \<Rightarrow> string \<Rightarrow> bool dbio" where
  "apiHandler_RemoveGroupMember X c gid sid =
     bindE (parse_or_400 X ''invalid group id: '' gid) (\<lambda>_.
     bindE (parse_or_400 X ''invalid member id: '' sid) (\<lambda>_.
     bindE (CheckAccess X c gid ''iam_group_members_remove'') (\<lambda>_.
     tryE (RemoveGroupMember c gid sid)
       (\<lambda>err. fail (not_found_404 err))
       (\<lambda>_.
     tryE (Events_RemoveGroupMembers X gid [sid])
       (\<lambda>err. rollbackAndReturnError c 500 ''failed to remove group member in permissions API'')
       (\<lambda>_. ret True)))))"

definition apiHandler_ReplaceGroupMembers ::
    "('ast, 'expr) ext \<Rightarrow> ctx \<Rightarrow> string \<Rightarrow> v1AddGroupMembers \<Rightarrow> bool dbio" where
  "apiHandler_ReplaceGroupMembers X c gid reqbody =
     bindE (parse_or_400 X ''invalid group id: '' gid) (\<lambda>_.
     bindE (parse_all_or_400 X (ag_MemberIDs reqbody)) (\<lambda>_.
     bindE (CheckAccess X c gid ''iam_group_members_put'') (\<lambda>_.
     tryE (ReplaceGroupMembers c gid (ag_MemberIDs reqbody))
       (\<lambda>err. fail (not_found_404 err))
       (\<lambda>(add, rm).
     tryE (Events_RemoveGroupMembers X gid rm)
       (\<lambda>err. rollbackAndReturnError c 500 ''failed to replace group members in permissions API'')
       (\<lambda>_.
     tryE (Events_AddGroupMembers X gid add)
       (\<lambda>err. rollbackAndReturnError c 500 ''failed to replace group members in permissions API'')
       (\<lambda>_. ret True))))))"

definition apiHandler_ListUserGroups ::
    "('ast, 'expr) ext \<Rightarrow> ctx \<Rightarrow> string \<Rightarrow> ListUserGroupsParams \<Rightarrow> v1GroupIDCollection dbio" where
  "apiHandler_ListUserGroups X c subject params =
     bindE (parse_or_400 X ''invalid subject id: '' subject) (\<lambda>_.
     tryE (LookupUserOwnerID c subject)
       (\<lambda>err. if err = ErrUserInfoNotFound then fail (HTTPError 404 (MsgText (Error err))) else fail err)
       (\<lambda>ownerID.
     bindE (CheckAccess X c ownerID ''iam_user_get'') (\<lambda>_.
     tryE (ListGroupsBySubject c subject (ListUserGroups_paginator params))
       (\<lambda>err. fail (not_found_404 err))
       (\<lambda>gs. lift (ListUserGroups_SetPagination params
          \<lparr>gic_GroupIDs = ToPrefixedIDs gs, gic_Pagination = Pagination0\<rparr>)))))"

section \<open>Requests\<close>

datatype api_request =
    ReqDeleteOAuthClient string
  | ReqGetOAuthClient string
  | ReqDeleteGroup string
  | ReqGetGroupByID string
  | ReqUpdateGroup string v1UpdateGroup
  | ReqListGroupMembers string page_params
  | ReqAddGroupMembers string v1AddGroupMembers
  | ReqReplaceGroupMembers string v1AddGroupMembers
  | ReqRemoveGroupMember string string
  | ReqDeleteIssuer string
  | ReqGetIssuerByID string
  | ReqUpdateIssuer string v1IssuerUpdate
  | ReqGetIssuerUsers string page_params
  | ReqGetOwnerOAuthClients string page_params
  | ReqCreateOAuthClient string v1CreateOAuthClient
  | ReqListGroups string page_params
  | ReqCreateGroup string v1CreateGroup
  | ReqListOwnerIssuers string page_params
  | ReqCreateIssuer string v1CreateIssuer
  | ReqGetUserByID string
  | ReqListUserGroups string page_params

datatype api_response =
    RespSuccess bool
  | RespOAuthClient v1OAuthClient
  | RespOAuthClients v1OAuthClientCollection
  | RespGroup v1Group
  | RespGroups v1GroupCollection
  | RespGroupIDs v1GroupIDCollection
  | RespGroupMembers v1GroupMemberCollection
  | RespIssuer v1Issuer
  | RespIssuers v1IssuerCollection
  | RespUser v1User
  | RespUsers v1UserCollection

definition respond :: "('a \<Rightarrow> api_response) \<Rightarrow> 'a dbio \<Rightarrow> api_response dbio" where
  "respond f m = bindE m (\<lambda>x. ret (f x))"

text \<open>The method of the \<open>StrictServerInterface\<close> a request goes to.\<close>

fun ssi_call :: "('ast, 'expr) ext \<Rightarrow> ctx \<Rightarrow> api_request \<Rightarrow> api_response dbio" where
  "ssi_call X c (ReqDeleteOAuthClient i) = respond RespSuccess (apiHandler_DeleteOAuthClient X c i)"
| "ssi_call X c (ReqGetOAuthClient i) = respond RespOAuthClient (apiHandler_GetOAuthClient X c i)"
| "ssi_call X c (ReqDeleteGroup i) = respond RespSuccess (apiHandler_DeleteGroup X c i)"
| "ssi_call X c (ReqGetGroupByID i) = respond RespGroup (apiHandler_GetGroupByID X c i)"
| "ssi_call X c (ReqUpdateGroup i b) = respond RespGroup (apiHandler_UpdateGroup X c i b)"
| "ssi_call X c (ReqListGroupMembers i p) = respond RespGroupMembers (apiHandler_ListGroupMembers X c i p)"
| "ssi_call X c (ReqAddGroupMembers i b) = respond RespSuccess (apiHandler_AddGroupMembers X c i b)"
| "ssi_call X c (ReqReplaceGroupMembers i b) = respond RespSuccess (apiHandler_ReplaceGroupMembers X c i b)"
| "ssi_call X c (ReqRemoveGroupMember i s) = respond RespSuccess (apiHandler_RemoveGroupMember X c i s)"
| "ssi_call X c (ReqDeleteIssuer i) = respond RespSuccess (apiHandler_DeleteIssuer X c i)"
| "ssi_call X c (ReqGetIssuerByID i) = respond RespIssuer (apiHandler_GetIssuerByID X c i)"
| "ssi_call X c (ReqUpdateIssuer i b) = respond RespIssuer (apiHandler_UpdateIssuer X c i b)"
| "ssi_call X c (ReqGetIssuerUsers i p) = respond RespUsers (apiHandler_GetIssuerUsers X c i p)"
| "ssi_call X c (ReqGetOwnerOAuthClients i p) = respond RespOAuthClients (apiHandler_GetOwnerOAuthClients X c i p)"
| "ssi_call X c (ReqCreateOAuthClient i b) = respond RespOAuthClient (apiHandler_CreateOAuthClient X c i b)"
| "ssi_call X c (ReqListGroups i p) = respond RespGroups (apiHandler_ListGroups X c i p)"
| "ssi_call X c (ReqCreateGroup i b) = respond RespGroup (apiHandler_CreateGroup X c i b)"
| "ssi_call X c (ReqListOwnerIssuers i p) = respond RespIssuers (apiHandler_ListOwnerIssuers X c i p)"
| "ssi_call X c (ReqCreateIssuer i b) = respond RespIssuer (apiHandler_CreateIssuer X c i b)"
| "ssi_call X c (ReqGetUserByID i) = respond RespUser (apiHandler_GetUserByID X c i)"
| "ssi_call X c (ReqListUserGroups i p) = respond RespGroupIDs (apiHandler_ListUserGroups X c i p)"

text \<open>The methods of \<open>strictHandler\<close>: call, then send the response, which has to be one of the
  operation.\<close>

definition unexpected_response :: goerr where
  "unexpected_response = LibError ''unexpected response type''"

fun visit_response :: "api_request \<Rightarrow> api_response \<Rightarrow> unit dbio" where
  "visit_response (ReqDeleteOAuthClient _) response = (case response of RespSuccess r \<Rightarrow> VisitDeleteOAuthClientResponse r | _ \<Rightarrow> fail unexpected_response)"
| "visit_response (ReqGetOAuthClient _) response = (case response of RespOAuthClient r \<Rightarrow> VisitGetOAuthClientResponse r | _ \<Rightarrow> fail unexpected_response)"
| "visit_response (ReqDeleteGroup _) response = (case response of RespSuccess r \<Rightarrow> VisitDeleteGroupResponse r | _ \<Rightarrow> fail unexpected_response)"
| "visit_response (ReqGetGroupByID _) response = (case response of RespGroup r \<Rightarrow> VisitGetGroupByIDResponse r | _ \<Rightarrow> fail unexpected_response)"
| "visit_response (ReqUpdateGroup _ _) response = (case response of RespGroup r \<Rightarrow> VisitUpdateGroupResponse r | _ \<Rightarrow> fail unexpected_response)"
| "visit_response (ReqListGroupMembers _ _) response = (case response of RespGroupMembers r \<Rightarrow> VisitListGroupMembersResponse r | _ \<Rightarrow> fail unexpected_response)"
| "visit_response (ReqAddGroupMembers _ _) response = (case response of RespSuccess r \<Rightarrow> VisitAddGroupMembersResponse r | _ \<Rightarrow> fail unexpected_response)"
| "visit_response (ReqReplaceGroupMembers _ _) response = (case response of RespSuccess r \<Rightarrow> VisitReplaceGroupMembersResponse r | _ \<Rightarrow> fail unexpected_response)"
| "visit_response (ReqRemoveGroupMember _ _) response = (case response of RespSuccess r \<Rightarrow> VisitRemoveGroupMemberResponse r | _ \<Rightarrow> fail unexpected_response)"
| "visit_response (ReqDeleteIssuer _) response = (case response of RespSuccess r \<Rightarrow> VisitDeleteIssuerResponse r | _ \<Rightarrow> fail unexpected_response)"
| "visit_response (ReqGetIssuerByID _) response = (case response of RespIssuer r \<Rightarrow> VisitGetIssuerByIDResponse r | _ \<Rightarrow> fail unexpected_response)"
| "visit_response (ReqUpdateIssuer _ _) response = (case response of RespIssuer r \<Rightarrow> VisitUpdateIssuerResponse r | _ \<Rightarrow> fail unexpected_response)"
| "visit_response (ReqGetIssuerUsers _ _) response = (case response of RespUsers r \<Rightarrow> VisitGetIssuerUsersResponse r | _ \<Rightarrow> fail unexpected_response)"
| "visit_response (ReqGetOwnerOAuthClients _ _) response = (case response of RespOAuthClients r \<Rightarrow> VisitGetOwnerOAuthClientsResponse r | _ \<Rightarrow> fail unexpected_response)"
| "visit_response (ReqCreateOAuthClient _ _) response = (case response of RespOAuthClient r \<Rightarrow> VisitCreateOAuthClientResponse r | _ \<Rightarrow> fail unexpected_response)"
| "visit_response (ReqListGroups _ _) response = (case response of RespGroups r \<Rightarrow> VisitListGroupsResponse r | _ \<Rightarrow> fail unexpected_response)"
| "visit_response (ReqCreateGroup _ _) response = (case response of RespGroup r \<Rightarrow> VisitCreateGroupResponse r | _ \<Rightarrow> fail unexpected_response)"
| "visit_response (ReqListOwnerIssuers _ _) response = (case response of RespIssuers r \<Rightarrow> VisitListOwnerIssuersResponse r | _ \<Rightarrow> fail unexpected_response)"
| "visit_response (ReqCreateIssuer _ _) response = (case response of RespIssuer r \<Rightarrow> VisitCreateIssuerResponse r | _ \<Rightarrow> fail unexpected_response)"
| "visit_response (ReqGetUserByID _) response = (case response of RespUser r \<Rightarrow> VisitGetUserByIDResponse r | _ \<Rightarrow> fail unexpected_response)"
| "visit_response (ReqListUserGroups _ _) response = (case response of RespGroupIDs r \<Rightarrow> VisitListUserGroupsResponse r | _ \<Rightarrow> fail unexpected_response)"

definition strictHandler :: "('ast, 'expr) ext \<Rightarrow> api_request \<Rightarrow> ctx \<Rightarrow> unit dbio" where
  "strictHandler X req c = bindE (ssi_call X c req) (\<lambda>response. visit_response req response)"

text \<open>The body of a response, whatever the operation.\<close>

fun response_json :: "api_response \<Rightarrow> json" where
  "response_json (RespSuccess b) = json_DeleteResponse b"
| "response_json (RespOAuthClient c) = json_OAuthClient c"
| "response_json (RespOAuthClients cs) = json_OAuthClientCollection cs"
| "response_json (RespGroup g) = json_Group g"
| "response_json (RespGroups gs) = json_GroupCollection gs"
| "response_json (RespGroupIDs ids) = json_GroupIDCollection ids"
| "response_json (RespGroupMembers ms) = json_GroupMemberCollection ms"
| "response_json (RespIssuer i) = json_Issuer i"
| "response_json (RespIssuers i) = json_IssuerCollection i"
| "response_json (RespUser u) = json_User u"
| "response_json (RespUsers us) = json_UserCollection us"

lemma respond_visit:
  "(\<And>x. h (f x) = VisitResponse (Encode (response_json (f x)))) \<Longrightarrow>
    bindE (respond f m) h = bindE (respond f m) (\<lambda>r. VisitResponse (Encode (response_json r)))"
  by (rule ext) (simp add: respond_def bindE_def ret_def split: prod.splits res.splits)

text \<open>Every method answers with a response of its own operation.\<close>

lemma strictHandler_eq:
  "strictHandler X req c = bindE (ssi_call X c req) (\<lambda>response. VisitResponse (Encode (response_json response)))"
  unfolding strictHandler_def
  by (cases req; simp only: ssi_call.simps; rule respond_visit)
    (simp_all add: json_AddGroupMembersResponse_def json_DeleteResponse_def
      VisitDeleteOAuthClientResponse_def VisitGetOAuthClientResponse_def VisitDeleteGroupResponse_def
      VisitGetGroupByIDResponse_def VisitUpdateGroupResponse_def VisitListGroupMembersResponse_def
      VisitAddGroupMembersResponse_def VisitReplaceGroupMembersResponse_def VisitRemoveGroupMemberResponse_def
      VisitDeleteIssuerResponse_def VisitGetIssuerByIDResponse_def VisitUpdateIssuerResponse_def
      VisitGetIssuerUsersResponse_def VisitGetOwnerOAuthClientsResponse_def VisitCreateOAuthClientResponse_def
      VisitListGroupsResponse_def VisitCreateGroupResponse_def VisitListOwnerIssuersResponse_def
      VisitCreateIssuerResponse_def VisitGetUserByIDResponse_def VisitListUserGroupsResponse_def)

text \<open>A request through the middleware, and echo's error handler at the end.\<close>

definition api_handle :: "('ast, 'expr) ext \<Rightarrow> api_request \<Rightarrow> ctx \<Rightarrow> unit dbio" where
  "api_handle X req c =
     storageMiddleware X BeginContext CommitContext RollbackContext (strictHandler X req) c"

definition serve :: "('ast, 'expr) ext \<Rightarrow> api_request \<Rightarrow> ctx \<Rightarrow> unit dbio" where
  "serve X req c = tryE (api_handle X req c) (\<lambda>err. eCtx_Error X err) ret"

end
