(* ===== verification/RequestSafety.thy ===== *)
theory RequestSafety
  imports HttpServer
begin

text \<open>
  What holds of every request to the management API: atomicity (the locale
  \<open>transaction_manager\<close>, interpreted on the storage engine), access control, and agreement of the
  permissions API with the tables.
\<close>

section \<open>The handlers stay within their transaction\<close>

lemma rollback_evolve [frame_rules]: "frame (evolve (ctx_id c)) (RollbackContext c)"
  unfolding RollbackContext_def rollbackContextTx_def
proof (rule with_tx_evolve)
  fix i
  show "frame (evolve (Some i)) (tx_Rollback i)"
    by (auto simp: frame_def tx_Rollback_def db_call_def evolve_def nth_list_update tx_lookup_def
        split: tx.splits option.splits if_splits)
qed

lemma rollback_silent [frame_rules]: "frame silent (RollbackContext c)"
  unfolding RollbackContext_def rollbackContextTx_def
  by (intro si.bindE_frame frame_rules)
    (auto simp: frame_def tx_Rollback_def db_call_def silent_def split: tx.splits option.splits)

lemma rollbackAndReturnError_frames [frame_rules]:
  "frame (evolve (ctx_id c)) (rollbackAndReturnError c code msg)" "frame silent (rollbackAndReturnError c code msg)"
  unfolding rollbackAndReturnError_def by (intro frame_rules)+

lemma guard_frames [frame_rules]:
  "frame (evolve o') (CheckAccess X c res act)" "frame silent (CheckAccess X c res act)"
  "frame (evolve o') (parse_or_400 X msg s)" "frame silent (parse_or_400 X msg s)"
  unfolding CheckAccess_def parse_or_400_def by (intro frame_rules)+

lemma parse_all_frames [frame_rules]:
  "frame (evolve o') (parse_all_or_400 X ss)" "frame silent (parse_all_or_400 X ss)"
  by (induction ss) (auto intro!: frame_rules)

lemma fetch_frames [frame_rules]:
  "frame (evolve o') (fetch_issuer X c i)" "frame silent (fetch_issuer X c i)"
  "frame (evolve o') (fetch_client c i)" "frame silent (fetch_client c i)"
  "frame (evolve o') (fetch_group c i)" "frame silent (fetch_group c i)"
  unfolding fetch_issuer_def fetch_client_def fetch_group_def by (intro frame_rules)+

lemma issuer_handlers_evolve [frame_rules]:
  "frame (evolve (ctx_id c)) (apiHandler_CreateIssuer X c s ci)"
  "frame (evolve (ctx_id c)) (apiHandler_GetIssuerByID X c s)"
  "frame (evolve (ctx_id c)) (apiHandler_ListOwnerIssuers X c s p)"
  "frame (evolve (ctx_id c)) (apiHandler_UpdateIssuer X c s iu)"
  "frame (evolve (ctx_id c)) (apiHandler_DeleteIssuer X c s)"
  unfolding apiHandler_CreateIssuer_def apiHandler_GetIssuerByID_def apiHandler_ListOwnerIssuers_def
    apiHandler_UpdateIssuer_def apiHandler_DeleteIssuer_def
  by (intro frame_rules)+

lemma client_handlers_evolve [frame_rules]:
  "frame (evolve (ctx_id c)) (apiHandler_CreateOAuthClient X c s cc)"
  "frame (evolve (ctx_id c)) (apiHandler_GetOAuthClient X c s)"
  "frame (evolve (ctx_id c)) (apiHandler_GetOwnerOAuthClients X c s p)"
  "frame (evolve (ctx_id c)) (apiHandler_DeleteOAuthClient X c s)"
  "frame (evolve (ctx_id c)) (apiHandler_GetUserByID X c s)"
  "frame (evolve (ctx_id c)) (apiHandler_GetIssuerUsers X c s p)"
  unfolding apiHandler_CreateOAuthClient_def apiHandler_GetOAuthClient_def
    apiHandler_GetOwnerOAuthClients_def apiHandler_DeleteOAuthClient_def apiHandler_GetUserByID_def
    apiHandler_GetIssuerUsers_def
  by (intro frame_rules)+

lemma group_handlers_evolve [frame_rules]:
  "frame (evolve (ctx_id c)) (apiHandler_CreateGroup X c s cg)"
  "frame (evolve (ctx_id c)) (apiHandler_GetGroupByID X c s)"
  "frame (evolve (ctx_id c)) (apiHandler_ListGroups X c s p)"
  "frame (evolve (ctx_id c)) (apiHandler_UpdateGroup X c s ug)"
  "frame (evolve (ctx_id c)) (apiHandler_DeleteGroup X c s)"
  unfolding apiHandler_CreateGroup_def apiHandler_GetGroupByID_def apiHandler_ListGroups_def
    apiHandler_UpdateGroup_def apiHandler_DeleteGroup_def
  by (intro frame_rules)+

lemma member_handlers_evolve [frame_rules]:
  "frame (evolve (ctx_id c)) (apiHandler_AddGroupMembers X c s ag)"
  "frame (evolve (ctx_id c)) (apiHandler_ListGroupMembers X c s p)"
  "frame (evolve (ctx_id c)) (apiHandler_RemoveGroupMember X c s s')"
  "frame (evolve (ctx_id c)) (apiHandler_ReplaceGroupMembers X c s ag)"
  "frame (evolve (ctx_id c)) (apiHandler_ListUserGroups X c s p)"
  unfolding apiHandler_AddGroupMembers_def apiHandler_ListGroupMembers_def
    apiHandler_RemoveGroupMember_def apiHandler_ReplaceGroupMembers_def apiHandler_ListUserGroups_def
  by (intro frame_rules)+

lemma ssi_call_evolve [frame_rules]: "frame (evolve (ctx_id c)) (ssi_call X c req)"
  by (cases req) (simp_all only: ssi_call.simps respond_def, (intro frame_rules)+)

text \<open>Sending the response changes the response and nothing else.\<close>

definition answers :: "world \<Rightarrow> world \<Rightarrow> bool" where
  "answers w w' \<longleftrightarrow> committed w' = committed w \<and> txs w' = txs w \<and> published w' = published w \<and>
     history w' = history w \<and> faults w' = faults w \<and> rowcut w' = rowcut w \<and> upsert_strict w' = upsert_strict w"

lemma send_status_fields [simp]:
  "committed (send_status n w) = committed w" "txs (send_status n w) = txs w" "published (send_status n w) = published w"
  "history (send_status n w) = history w" "faults (send_status n w) = faults w" "rowcut (send_status n w) = rowcut w"
  "upsert_strict (send_status n w) = upsert_strict w" "ticks (send_status n w) = ticks w"
  "resp_body (send_status n w) = resp_body w"
  by (simp_all add: send_status_def)

lemma VisitResponse_answers: "VisitResponse b w = (r, w') \<Longrightarrow> answers w w'"
  by (auto simp: VisitResponse_def answers_def split: option.splits)

lemma strictHandler_committed: "strictHandler X req c w = (r, w') \<Longrightarrow> committed w' = committed w"
  by (cases "ssi_call X c req w")
    (auto simp: strictHandler_eq bindE_def answers_def evolve_def split: res.splits
      dest!: frameD [OF ssi_call_evolve] VisitResponse_answers)

section \<open>Requests are atomic\<close>

text \<open>
  What \<open>storage.TransactionManager\<close> promises of the durable state and of the view a context has
  of it.
\<close>

locale transaction_manager =
  fixes begin_ctx :: "ctx \<Rightarrow> ctx dbio"
    and commit_ctx :: "ctx \<Rightarrow> unit dbio"
    and rollback_ctx :: "ctx \<Rightarrow> unit dbio"
    and durable :: "world \<Rightarrow> 's"
    and view :: "ctx \<Rightarrow> world \<Rightarrow> 's option"
  assumes begin_view: "begin_ctx c w = (Ok c', w') \<Longrightarrow> view c' w' = Some (durable w)"
    and begin_durable: "begin_ctx c w = (rb, w') \<Longrightarrow> durable w' = durable w"
    and commit_ok: "commit_ctx c w = (Ok u, w') \<Longrightarrow> view c w = Some (durable w')"
    and commit_fail: "commit_ctx c w = (r, w') \<Longrightarrow> r \<noteq> Ok u \<Longrightarrow> durable w' = durable w"
    and rollback_durable: "rollback_ctx c w = (r, w') \<Longrightarrow> durable w' = durable w"
    and status_durable: "durable (send_status n w) = durable w"
begin

text \<open>Whatever the handler does inside its transaction, the request leaves the durable state alone
  or makes it what the handler left in the view of its context.\<close>

lemma middleware_atomic:
  assumes "storageMiddleware X begin_ctx commit_ctx rollback_ctx next c w = (r, w')"
    and inside: "\<And>c w r w'. next c w = (r, w') \<Longrightarrow> durable w' = durable w"
  shows "r \<noteq> Ok () \<and> durable w' = durable w \<or>
    (\<exists>c' v u. begin_ctx c w = (Ok c', v) \<and> next c' v = (Ok (), u) \<and> r = Ok () \<and> view c' u = Some (durable w'))"
proof (cases "begin_ctx c w")
  case (Pair r1 v)
  note v = this begin_durable [OF this]
  show ?thesis
  proof (cases r1)
    case (Ok c')
    obtain r2 u where u: "next c' v = (r2, u)" by fastforce
    note du = inside [OF u]
    show ?thesis
    proof (cases r2)
      case (Ok x)
      obtain r3 z where z: "commit_ctx c' u = (r3, z)" by fastforce
      with assms(1) v u \<open>r1 = Ok c'\<close> Ok du show ?thesis
        using commit_fail [OF z, of "()"]
        by (cases r3) (auto simp: storageMiddleware_def go_simps dest: commit_ok)
    next
      case (Err e)
      obtain r3 z where z: "rollback_ctx c' (send_status (echo_ErrorStatus X e) u) = (r3, z)" by fastforce
      with rollback_durable [OF z] assms(1) v u \<open>r1 = Ok c'\<close> Err du show ?thesis
        by (cases r3) (auto simp: storageMiddleware_def go_simps eCtx_Error_def status_durable)
    next
      case (Panic s)
      with assms(1) v u \<open>r1 = Ok c'\<close> du show ?thesis by (auto simp: storageMiddleware_def go_simps)
    qed
  qed (use assms(1) v in \<open>auto simp: storageMiddleware_def go_simps\<close>)
qed

end

lemma tx_Commit_view:
  "commitContextTx c w = (Ok u, w') \<Longrightarrow> tx_view c w = Some (committed w')"
  by (cases "ctx_tx c"; cases "tx_lookup (tx_of c) w")
    (auto simp: commitContextTx_def getContextTx_def go_simps tx_Commit_def db_call_def tx_view_def tx_of_def
      split: option.splits if_splits tx.splits)

lemma tx_Commit_fail:
  "commitContextTx c w = (r, w') \<Longrightarrow> r \<noteq> Ok u \<Longrightarrow> committed w' = committed w"
  by (cases "ctx_tx c"; cases "tx_lookup (tx_of c) w")
    (auto simp: commitContextTx_def getContextTx_def go_simps tx_Commit_def db_call_def tx_of_def
      split: option.splits if_splits tx.splits)

interpretation tm: transaction_manager BeginContext CommitContext RollbackContext committed tx_view
proof unfold_locales
  show "tx_view c' w' = Some (committed w)" if "BeginContext c w = (Ok c', w')" for c c' w w'
    using that by (auto simp: BeginContext_def beginTxContext_cases tx_view_def tx_lookup_def split: option.splits)
  show "committed w' = committed w" if "BeginContext c w = (r, w')" for c w r w'
    using that by (auto simp: BeginContext_def beginTxContext_cases split: option.splits)
  show "tx_view c w = Some (committed w')" if "CommitContext c w = (Ok u, w')" for c w u w'
    using that unfolding CommitContext_def by (rule tx_Commit_view)
  show "committed w' = committed w" if "CommitContext c w = (r, w')" "r \<noteq> Ok u" for c w r w' u
    using that unfolding CommitContext_def by (rule tx_Commit_fail)
  show "committed w' = committed w" if "RollbackContext c w = (r, w')" for c w r w'
    using frameD [OF rollback_evolve that] by (simp add: evolve_def)
  show "committed (send_status n w) = committed w" for n w by (simp add: send_status_def)
qed

lemma api_handle_atomic:
  assumes "api_handle X req c w = (r, w')"
  shows "r \<noteq> Ok () \<and> committed w' = committed w \<or>
    (\<exists>c' v u. BeginContext c w = (Ok c', v) \<and> strictHandler X req c' v = (Ok (), u) \<and> r = Ok () \<and>
       tx_view c' u = Some (committed w'))"
  using assms strictHandler_committed unfolding api_handle_def by (rule tm.middleware_atomic)

section \<open>Access control\<close>

text \<open>The resource and the action a request has to be allowed: for objects that have an owner, the
  owner the tables name.\<close>

definition owner_access :: "('r \<Rightarrow> string) \<Rightarrow> string \<Rightarrow> ('r \<Rightarrow> bool) \<Rightarrow> 'r list \<Rightarrow> (string \<times> string) option" where
  "owner_access own act P rows = map_option (\<lambda>r. (own r, act)) (find P rows)"

fun required_access :: "api_request \<Rightarrow> tables \<Rightarrow> (string \<times> string) option" where
  "required_access (ReqDeleteOAuthClient i) t =
     owner_access cr_owner_id ''iam_oauthclient_delete'' (\<lambda>r. cr_id r = i) (oauth_clients t)"
| "required_access (ReqGetOAuthClient i) t =
     owner_access cr_owner_id ''iam_oauthclient_get'' (\<lambda>r. cr_id r = i) (oauth_clients t)"
| "required_access (ReqDeleteGroup i) t = Some (i, ''iam_group_delete'')"
| "required_access (ReqGetGroupByID i) t = Some (i, ''iam_group_get'')"
| "required_access (ReqUpdateGroup i b) t = Some (i, ''iam_group_update'')"
| "required_access (ReqListGroupMembers i p) t = Some (i, ''iam_group_members_list'')"
| "required_access (ReqAddGroupMembers i b) t = Some (i, ''iam_group_members_add'')"
| "required_access (ReqReplaceGroupMembers i b) t = Some (i, ''iam_group_members_put'')"
| "required_access (ReqRemoveGroupMember i s) t = Some (i, ''iam_group_members_remove'')"
| "required_access (ReqDeleteIssuer i) t =
     owner_access ir_owner_id ''iam_issuer_delete'' (\<lambda>r. ir_id r = i) (issuers t)"
| "required_access (ReqGetIssuerByID i) t =
     owner_access ir_owner_id ''iam_issuer_get'' (\<lambda>r. ir_id r = i) (issuers t)"
| "required_access (ReqUpdateIssuer i b) t =
     owner_access ir_owner_id ''iam_issuer_update'' (\<lambda>r. ir_id r = i) (issuers t)"
| "required_access (ReqGetIssuerUsers i p) t = Some (i, ''iam_issuer_get'')"
| "required_access (ReqGetOwnerOAuthClients i p) t = Some (i, ''iam_oauthclient_list'')"
| "required_access (ReqCreateOAuthClient i b) t = Some (i, ''iam_oauthclient_create'')"
| "required_access (ReqListGroups i p) t = Some (i, ''iam_group_list'')"
| "required_access (ReqCreateGroup i b) t = Some (i, ''iam_group_create'')"
| "required_access (ReqListOwnerIssuers i p) t = Some (i, ''iam_issuer_list'')"
| "required_access (ReqCreateIssuer i b) t = Some (i, ''iam_issuer_create'')"
| "required_access (ReqGetUserByID i) t =
     owner_access (\<lambda>r. ir_owner_id (snd r)) ''iam_user_get'' (\<lambda>r. ur_id (fst r) = i) (users_issuers t)"
| "required_access (ReqListUserGroups i p) t =
     owner_access (\<lambda>r. ir_owner_id (snd r)) ''iam_user_get'' (\<lambda>r. ur_id (fst r) = i) (users_issuers t)"

definition authorised :: "('ast, 'expr) ext \<Rightarrow> string \<Rightarrow> api_request \<Rightarrow> tables \<Rightarrow> bool" where
  "authorised X actor req t =
     (case required_access req t of
        None \<Rightarrow> False
      | Some (res, act) \<Rightarrow> permissions_CheckAccess X actor res act = None)"

text \<open>Calls that write nothing at all.\<close>

definition untouched :: "world \<Rightarrow> world \<Rightarrow> bool" where
  "untouched w w' \<longleftrightarrow> committed w' = committed w \<and> txs w' = txs w \<and> published w' = published w"

interpretation un: frame_rel untouched
  by unfold_locales (simp_all add: untouched_def)

lemmas [frame_rules] = un.closed

lemma query_untouched [frame_rules]:
  "frame untouched (db_query at f)" "frame untouched (db_query_rows at f')" "frame untouched (tx_query i g)"
  "frame untouched (with_entropy h)" "frame untouched (getContextTx c)" "frame untouched (scan_row rs)"
  by (auto simp: frame_def db_query_def db_query_rows_def tx_query_def with_entropy_def getContextTx_def db_call_def
      scan_row_def go_simps untouched_def split: option.splits tx.splits ctxval.splits list.splits)

lemma read_untouched [frame_rules]:
  "frame untouched (ctx_query c f)" "frame untouched (fetch_issuer X c i)" "frame untouched (fetch_client c i)"
  "frame untouched (LookupUserOwnerID c i)" "frame untouched (parse_or_400 X m i)"
  unfolding ctx_query_def fetch_issuer_def fetch_client_def GetIssuerByID_def scanIssuer_def
    LookupOAuthClientByID_def LookupUserOwnerID_def parse_or_400_def ctx_query_def
  by (intro frame_rules)+

lemma parse_all_untouched [frame_rules]: "frame untouched (parse_all_or_400 X ss)"
  by (induction ss) (auto intro!: frame_rules)

lemma tx_view_txs: "txs w' = txs w \<Longrightarrow> tx_view c w' = tx_view c w"
  by (auto simp: tx_view_def tx_lookup_def split: ctxval.splits)

lemma tx_view_untouched: "untouched w w' \<Longrightarrow> tx_view c w' = tx_view c w"
  by (rule tx_view_txs) (simp add: untouched_def)

text \<open>A call that fails, and writes nothing, wherever the context sees the tables \<open>t\<close>.\<close>

definition blocked :: "ctx \<Rightarrow> tables \<Rightarrow> 'a dbio \<Rightarrow> bool" where
  "blocked c t m \<longleftrightarrow> (\<forall>w r w'. tx_view c w = Some t \<longrightarrow> m w = (r, w') \<longrightarrow> (\<forall>a. r \<noteq> Ok a) \<and> untouched w w')"

lemma blocked_fail: "blocked c t (fail e)"
  by (simp add: blocked_def un.frame_refl)

lemma blocked_tryE:
  assumes "frame untouched m" and "\<And>e. blocked c t (h e)"
    and "\<And>a w w'. tx_view c w = Some t \<Longrightarrow> m w = (Ok a, w') \<Longrightarrow> blocked c t (f a)"
  shows "blocked c t (tryE m h f)"
  unfolding blocked_def
proof (intro allI impI)
  fix w r w' assume v: "tx_view c w = Some t" and run: "tryE m h f w = (r, w')"
  obtain r1 v1 where m: "m w = (r1, v1)" by fastforce
  have u: "untouched w v1" by (rule frameD [OF assms(1) m])
  then have v1: "tx_view c v1 = Some t" using v by (simp add: tx_view_untouched)
  show "(\<forall>a. r \<noteq> Ok a) \<and> untouched w w'"
  proof (cases r1)
    case (Ok a)
    from assms(3) [OF v m [unfolded Ok]] v1 run m Ok u show ?thesis
      unfolding blocked_def tryE_def by (fastforce intro: un.frame_trans)
  next
    case (Err e)
    from assms(2) [of e] v1 run m Err u show ?thesis
      unfolding blocked_def tryE_def by (fastforce intro: un.frame_trans)
  qed (use run m u in \<open>auto simp: tryE_def\<close>)
qed

lemma bindE_tryE: "bindE m f = tryE m fail f"
  by (auto simp: fun_eq_iff go_simps split: prod.splits res.splits)

lemma blocked_bindE:
  assumes "frame untouched m" and "\<And>a w w'. tx_view c w = Some t \<Longrightarrow> m w = (Ok a, w') \<Longrightarrow> blocked c t (f a)"
  shows "blocked c t (bindE m f)"
  unfolding bindE_tryE by (intro blocked_tryE blocked_fail) (use assms in blast)+

lemma blocked_check:
  "permissions_CheckAccess X (ctx_actor c) res act \<noteq> None \<Longrightarrow> blocked c t (bindE (CheckAccess X c res act) f)"
  by (auto simp: blocked_def CheckAccess_def bindE_def fail_def un.frame_refl)

lemma blocked_respond: "blocked c t m \<Longrightarrow> blocked c t (respond f m)"
  unfolding blocked_def respond_def bindE_def by (fastforce split: prod.splits res.splits)

lemma filter_Cons_find: "filter P xs = y # ys \<Longrightarrow> find P xs = Some y"
  by (induction xs) (auto split: if_splits)

lemma ctx_query_view: "tx_view c w = Some t \<Longrightarrow> ctx_query c f w = (Ok x, w') \<Longrightarrow> x = f t"
  by (auto simp: ctx_query_def getContextTx_def go_simps tx_view_def tx_query_def db_call_def
      split: ctxval.splits tx.splits option.splits)

lemma fetch_issuer_owner:
  assumes "tx_view c w = Some t" and "fetch_issuer X c iid w = (Ok iss, w')"
  shows "\<exists>r. find (\<lambda>r. ir_id r = iid) (issuers t) = Some r \<and> iss_OwnerID iss = ir_owner_id r"
proof -
  obtain r rs where "r # rs = select_issuer iid t" "decode_issuer X r = Ok iss"
    using assms(2)
    by (auto simp: fetch_issuer_def GetIssuerByID_def scanIssuer_def bindE_eq_Ok tryE_eq_Ok scan_row_eq
        dest!: ctx_query_view [OF assms(1)] split: if_splits)
  then show ?thesis
    by (intro exI [of _ r]) (auto simp: select_issuer_def decode_issuer_def intro: filter_Cons_find [OF sym])
qed

lemma fetch_client_owner:
  assumes "tx_view c w = Some t" and "fetch_client c cid w = (Ok cl, w')"
  shows "\<exists>r. find (\<lambda>r. cr_id r = cid) (oauth_clients t) = Some r \<and> oc_OwnerID cl = cr_owner_id r"
proof -
  obtain r rs where "r # rs = select_client cid t" "cl = client_of_row r"
    using assms(2)
    by (auto simp: fetch_client_def LookupOAuthClientByID_def bindE_eq_Ok tryE_eq_Ok scan_row_eq
        dest!: ctx_query_view [OF assms(1)] split: if_splits)
  then show ?thesis
    by (intro exI [of _ r]) (auto simp: select_client_def client_of_row_def intro: filter_Cons_find [OF sym])
qed

lemma LookupUserOwnerID_owner:
  assumes "tx_view c w = Some t" and "LookupUserOwnerID c uid w = (Ok oid, w')"
  shows "\<exists>r. find (\<lambda>r. ur_id (fst r) = uid) (users_issuers t) = Some r \<and> oid = ir_owner_id (snd r)"
proof -
  obtain r rs where "r # rs = select_user uid t" "oid = ir_owner_id (snd r)"
    using assms(2)
    by (auto simp: LookupUserOwnerID_def bindE_eq_Ok tryE_eq_Ok scan_row_eq
        dest!: ctx_query_view [OF assms(1)] split: if_splits)
  then show ?thesis
    by (intro exI [of _ r]) (auto simp: select_user_def case_prod_unfold intro: filter_Cons_find [OF sym])
qed

lemma blocked_if: "blocked c t m \<Longrightarrow> blocked c t n \<Longrightarrow> blocked c t (if b then m else n)"
  by simp

lemmas blocked_rules = blocked_fail blocked_if

text \<open>Requests on objects with an owner fetch the object first; the others check at once.\<close>

lemma blocked_issuer:
  assumes "\<And>r. find (\<lambda>r. ir_id r = iid) (issuers t) = Some r \<Longrightarrow> permissions_CheckAccess X (ctx_actor c) (ir_owner_id r) act \<noteq> None"
  shows "blocked c t (bindE (fetch_issuer X c iid) (\<lambda>iss. bindE (CheckAccess X c (iss_OwnerID iss) act) (f iss)))"
proof (rule blocked_bindE)
  fix iss w w' assume "tx_view c w = Some t" "fetch_issuer X c iid w = (Ok iss, w')"
  from fetch_issuer_owner [OF this] assms show "blocked c t (bindE (CheckAccess X c (iss_OwnerID iss) act) (f iss))"
    by (auto intro: blocked_check)
qed (intro frame_rules)

lemma blocked_client:
  assumes "\<And>r. find (\<lambda>r. cr_id r = cid) (oauth_clients t) = Some r \<Longrightarrow> permissions_CheckAccess X (ctx_actor c) (cr_owner_id r) act \<noteq> None"
  shows "blocked c t (bindE (fetch_client c cid) (\<lambda>cl. bindE (CheckAccess X c (oc_OwnerID cl) act) (f cl)))"
proof (rule blocked_bindE)
  fix cl w w' assume "tx_view c w = Some t" "fetch_client c cid w = (Ok cl, w')"
  from fetch_client_owner [OF this] assms show "blocked c t (bindE (CheckAccess X c (oc_OwnerID cl) act) (f cl))"
    by (auto intro: blocked_check)
qed (intro frame_rules)

lemma blocked_user:
  assumes "\<And>r. find (\<lambda>r. ur_id (fst r) = uid) (users_issuers t) = Some r \<Longrightarrow>
      permissions_CheckAccess X (ctx_actor c) (ir_owner_id (snd r)) act \<noteq> None"
    and "\<And>e. blocked c t (h e)"
  shows "blocked c t (tryE (LookupUserOwnerID c uid) h (\<lambda>oid. bindE (CheckAccess X c oid act) f))"
proof (rule blocked_tryE)
  fix oid w w' assume "tx_view c w = Some t" "LookupUserOwnerID c uid w = (Ok oid, w')"
  from LookupUserOwnerID_owner [OF this] assms show "blocked c t (bindE (CheckAccess X c oid act) f)"
    by (auto intro: blocked_check)
qed (intro frame_rules, rule assms)

lemma blocked_after_parse: "blocked c t m \<Longrightarrow> blocked c t (bindE (parse_or_400 X msg i) (\<lambda>_. m))"
  by (rule blocked_bindE) (intro frame_rules)

lemma blocked_after_parse_all: "blocked c t m \<Longrightarrow> blocked c t (bindE (parse_all_or_400 X ss) (\<lambda>_. m))"
  by (rule blocked_bindE) (intro frame_rules)

lemma not_authorised_owner:
  "\<not> authorised X (ctx_actor c) req t \<Longrightarrow> required_access req t = owner_access own act P rows \<Longrightarrow>
   find P rows = Some r \<Longrightarrow> permissions_CheckAccess X (ctx_actor c) (own r) act \<noteq> None"
  by (simp add: authorised_def owner_access_def)

lemma not_authorised_here:
  "\<not> authorised X (ctx_actor c) req t \<Longrightarrow> required_access req t = Some (res, act) \<Longrightarrow>
   permissions_CheckAccess X (ctx_actor c) res act \<noteq> None"
  by (simp add: authorised_def)

lemmas handler_defs = apiHandler_CreateIssuer_def apiHandler_GetIssuerByID_def apiHandler_ListOwnerIssuers_def
  apiHandler_UpdateIssuer_def apiHandler_DeleteIssuer_def apiHandler_CreateOAuthClient_def
  apiHandler_GetOAuthClient_def apiHandler_GetOwnerOAuthClients_def apiHandler_DeleteOAuthClient_def
  apiHandler_GetUserByID_def apiHandler_GetIssuerUsers_def apiHandler_CreateGroup_def
  apiHandler_GetGroupByID_def apiHandler_ListGroups_def apiHandler_UpdateGroup_def apiHandler_DeleteGroup_def
  apiHandler_AddGroupMembers_def apiHandler_ListGroupMembers_def apiHandler_RemoveGroupMember_def
  apiHandler_ReplaceGroupMembers_def apiHandler_ListUserGroups_def

lemma unauthorised_blocked:
  assumes "\<not> authorised X (ctx_actor c) req t"
  shows "blocked c t (ssi_call X c req)"
  using assms
  by (cases req)
    (simp_all only: ssi_call.simps handler_defs,
     (rule blocked_respond,
      (intro blocked_after_parse blocked_after_parse_all blocked_issuer blocked_client blocked_user blocked_rules)?,
      (rule blocked_check, erule not_authorised_here, simp; fail | erule not_authorised_owner, simp, assumption; fail))+)

section \<open>Whole requests\<close>

text \<open>The context and the world in which the handler of a request starts.\<close>

definition begun_ctx :: "ctx \<Rightarrow> world \<Rightarrow> ctx" where
  "begun_ctx c w = c\<lparr>ctx_tx := CtxTx (length (txs w))\<rparr>"

definition begun :: "world \<Rightarrow> world" where
  "begun w = (tick w)\<lparr>txs := txs w @ [TxOpen (committed w) (committed w)]\<rparr>"

lemma BeginContext_cases:
  "BeginContext c w =
     (case faults w (ticks w) of Some e \<Rightarrow> (Err (DriverError e), tick w) | None \<Rightarrow> (Ok (begun_ctx c w), begun w))"
  by (simp add: BeginContext_def beginTxContext_cases begun_ctx_def begun_def split: option.splits)

lemma begun_fields [simp]:
  "committed (begun w) = committed w" "published (begun w) = published w" "reply (begun w) = reply w"
  "faults (begun w) = faults w" "rowcut (begun w) = rowcut w" "upsert_strict (begun w) = upsert_strict w"
  "history (begun w) = history w" "ticks (begun w) = Suc (ticks w)" "ctx_actor (begun_ctx c w) = ctx_actor c"
  "ctx_aost (begun_ctx c w) = ctx_aost c" "ctx_id (begun_ctx c w) = Some (length (txs w))"
  by (simp_all add: begun_def begun_ctx_def ctx_id_def)

lemma begun_view [simp]: "tx_view (begun_ctx c w) (begun w) = Some (committed w)"
  by (simp add: tx_view_def begun_ctx_def begun_def tx_lookup_def)

lemma begun_lookup: "tx_lookup (length (txs w)) (begun w) = TxOpen (committed w) (committed w)"
  by (simp add: begun_def tx_lookup_def)

lemma begun_running: "healthy w \<Longrightarrow> running (begun_ctx c w) (begun w) (committed w)"
  by (simp add: running_def healthy_def)

lemma tx_view_evolve:
  assumes "evolve (ctx_id c) w w'" and "tx_view c w = Some t" and "tx_view c w' = Some t'" and "schema_ok t"
  shows "schema_ok t'"
proof -
  obtain i b b' where i: "ctx_tx c = CtxTx i" "tx_lookup i w = TxOpen b t" "tx_lookup i w' = TxOpen b' t'"
    using assms(2,3) by (auto simp: tx_view_def split: ctxval.splits tx.splits)
  then have "i < length (txs w)" "txs w ! i = TxOpen b t" "txs w' ! i = TxOpen b' t'"
    using tx_lookup_Open [OF i(2)] tx_lookup_Open [OF i(3)] by (auto simp: tx_lookup_def)
  then have "tx_le (TxOpen b t) (TxOpen b' t')"
    using assms(1) i(1) by (fastforce simp: evolve_def ctx_id_def)
  with assms(4) show ?thesis by simp
qed

lemma strictHandler_schema:
  assumes run: "strictHandler X req c w = (r, w')" and v: "tx_view c w = Some t" "tx_view c w' = Some t'" "schema_ok t"
  shows "schema_ok t'"
proof -
  obtain r1 u where u: "ssi_call X c req w = (r1, u)" by fastforce
  have ev: "evolve (ctx_id c) w u" by (rule frameD [OF ssi_call_evolve u])
  have "txs w' = txs u"
    using run u by (cases r1) (auto simp: strictHandler_eq bindE_def answers_def dest: VisitResponse_answers)
  then have "tx_view c u = Some t'" using v(2) tx_view_txs [of u w' c] by simp
  from tx_view_evolve [OF ev v(1) this v(3)] show ?thesis .
qed

text \<open>Requests keep the schema of the durable tables.\<close>

lemma api_handle_schema:
  assumes "api_handle X req c w = (r, w')" and "schema_ok (committed w)"
  shows "schema_ok (committed w')"
  using api_handle_atomic [OF assms(1)]
proof (elim disjE exE conjE)
  fix c' v u assume b: "BeginContext c w = (Ok c', v)" and s: "strictHandler X req c' v = (Ok (), u)"
    and u: "tx_view c' u = Some (committed w')"
  have "tx_view c' v = Some (committed w)" by (rule tm.begin_view [OF b])
  from strictHandler_schema [OF s this u assms(2)] show ?thesis .
qed (simp add: assms(2))

text \<open>The outcome of a request whose handler fails, and of one whose handler succeeds.\<close>

lemma api_handle_begun:
  assumes "faults w (ticks w) = None"
  shows "api_handle X req c w =
    tryE (strictHandler X req (begun_ctx c w))
      (\<lambda>err. bindE (eCtx_Error X err) (\<lambda>_. tryE (RollbackContext (begun_ctx c w))
         (\<lambda>rbErr. fail (HTTPError 502 (MsgErr rbErr))) (\<lambda>_. fail err)))
      (\<lambda>_. tryE (CommitContext (begun_ctx c w)) (\<lambda>err. fail (HTTPError 502 (MsgErr err))) (\<lambda>_. ret ()))
      (begun w)"
  using assms by (simp add: api_handle_def storageMiddleware_def tryE_def BeginContext_cases)

lemma api_handle_unauthorised:
  assumes un: "\<not> authorised X (ctx_actor c) req (committed w)" and run: "api_handle X req c w = (r, w')"
  shows "r \<noteq> Ok () \<and> committed w' = committed w \<and> published w' = published w"
proof (cases "faults w (ticks w)")
  case (Some e)
  with run show ?thesis by (auto simp: api_handle_def storageMiddleware_def go_simps BeginContext_cases)
next
  case None
  let ?c = "begun_ctx c w"
  obtain r1 u where u: "ssi_call X ?c req (begun w) = (r1, u)" by fastforce
  have "blocked ?c (committed w) (ssi_call X ?c req)"
    by (rule unauthorised_blocked) (use un in simp)
  then have "(\<forall>a. r1 \<noteq> Ok a) \<and> untouched (begun w) u"
    unfolding blocked_def using begun_view [of c w] u by blast
  then have bad: "\<And>a. r1 \<noteq> Ok a" and pub: "published u = published w" and com: "committed u = committed w"
    by (simp_all add: untouched_def)
  show ?thesis
  proof (cases r1)
    case (Err e)
    obtain r2 z where z: "RollbackContext ?c (send_status (echo_ErrorStatus X e) u) = (r2, z)" by fastforce
    have "published z = published u"
      using frameD [OF rollback_silent z] by (simp add: silent_def)
    moreover have "committed z = committed u"
      using frameD [OF rollback_evolve z] by (simp add: evolve_def)
    moreover have "api_handle X req c w = tryE (\<lambda>_. (r2, z))
        (\<lambda>rbErr. fail (HTTPError 502 (MsgErr rbErr))) (\<lambda>_. fail e) u"
      using u Err z by (simp add: api_handle_begun [OF None] strictHandler_eq go_simps eCtx_Error_def)
    ultimately show ?thesis using run pub com by (cases r2) (auto simp: go_simps)
  qed (use bad run u pub com in \<open>auto simp: api_handle_begun [OF None] strictHandler_eq go_simps\<close>)
qed

text \<open>The response is on its way before the transaction is committed.\<close>

lemma reply_before_commit:
  assumes none: "faults w (ticks w) = None" "reply w = None"
    and ok: "strictHandler X req (begun_ctx c w) (begun w) = (Ok (), u)" and bad: "faults w (ticks u) = Some e"
  shows "\<exists>w'. serve X req c w = (Ok (), w') \<and> reply w' = Some 200 \<and> committed w' = committed w"
proof -
  let ?c = "begun_ctx c w" and ?i = "length (txs w)"
  obtain resp v where v: "ssi_call X ?c req (begun w) = (Ok resp, v)" and vis: "VisitResponse (Encode (response_json resp)) v = (Ok (), u)"
    using ok by (auto simp: strictHandler_eq bindE_eq_Ok)
  have ev: "evolve (Some ?i) (begun w) v" using frameD [OF ssi_call_evolve v] by simp
  then have "reply v = None" using none by (simp add: evolve_def)
  with vis have u: "reply u = Some 200" "committed u = committed v" "faults u = faults v" "txs u = txs v"
    by (auto simp: VisitResponse_def send_status_def split: option.splits)
  have com: "committed u = committed w" and flt: "faults u = faults w" using ev u by (simp_all add: evolve_def)
  obtain r2 z where z: "CommitContext ?c u = (r2, z)" by fastforce
  then have z': "r2 \<noteq> Ok ()" "reply z = Some 200" "committed z = committed w" "\<exists>err. r2 = Err err"
    using bad flt u(1) com
    by (auto simp: CommitContext_def commitContextTx_def getContextTx_def begun_ctx_def go_simps tx_Commit_def db_call_def
        split: tx.splits option.splits)
  have "api_handle X req c w = tryE (\<lambda>_. (r2, z)) (\<lambda>err. fail (HTTPError 502 (MsgErr err))) (\<lambda>_. ret ()) u"
    using ok z by (simp add: api_handle_begun [OF none(1)] tryE_def)
  with z' show ?thesis by (auto simp: serve_def go_simps eCtx_Error_def send_status_def)
qed

section \<open>Secrets\<close>


definition client_row1 :: client_row where
  "client_row1 = \<lparr>cr_id = ''idntcli-1'', cr_owner_id = ''tnnt-1'', cr_name = ''ci'', cr_secret = ''hashed:s'', cr_audience = ''https://api''\<rparr>"

definition client_tables :: tables where
  "client_tables = tables1\<lparr>oauth_clients := [client_row1]\<rparr>"

lemma get_client_sample:
  "fst (ssi_call ext0 tx_ctx (ReqGetOAuthClient ''idntcli-1'') (tx_world client_tables)) =
     Ok (RespOAuthClient \<lparr>v1c_ID = ''idntcli-1'', v1c_Name = ''ci'', v1c_Audience = [''https://api''], v1c_Secret = None\<rparr>)"
  by code_simp


end
