(* ===== verification/PermissionSync.thy ===== *)
theory PermissionSync
  imports RequestSafety
begin

text \<open>
  The permissions API and the tables agree after every request that succeeds: \<open>in_sync\<close> is an
  invariant of the requests of the management API, as long as no call to the database fails.
\<close>

section \<open>Requests that change no relation\<close>

text \<open>No message, and no transaction whose groups or members change.\<close>

definition steady :: "world \<Rightarrow> world \<Rightarrow> bool" where
  "steady w w' \<longleftrightarrow> published w' = published w \<and>
     (\<forall>i b' t'. tx_lookup i w' = TxOpen b' t' \<longrightarrow>
        (\<exists>b t. tx_lookup i w = TxOpen b t \<and> table_relations t' = table_relations t))"

lemma steady_trans: "steady u v \<Longrightarrow> steady v w \<Longrightarrow> steady u w"
  unfolding steady_def by metis

interpretation sd: frame_rel steady
proof unfold_locales
  show "steady w w" for w by (auto simp: steady_def)
  show "steady u w" if "steady u v" "steady v w" for u v w using that by (rule steady_trans)
qed

lemmas [frame_rules] = sd.closed

lemma untouched_steady: "untouched w w' \<Longrightarrow> steady w w'"
  by (auto simp: untouched_def steady_def tx_lookup_def)

lemma frame_untouched_steady: "frame untouched m \<Longrightarrow> frame steady m"
  by (simp add: frame_def untouched_steady)

lemma tx_exec_steady:
  assumes "\<And>t. table_relations (fst (f t)) = table_relations t"
  shows "frame steady (tx_exec i f)"
  using assms
  by (auto simp: frame_def tx_exec_def db_call_def steady_def tx_lookup_put_tx split: tx.splits option.splits prod.splits)
    (metis fst_conv)+

lemma tx_exec_check_steady:
  assumes "\<And>t. table_relations (fst (f t)) = table_relations t"
  shows "frame steady (tx_exec_check i chk f)"
  using tx_exec_steady [OF assms, of i]
  by (auto simp: frame_def tx_exec_check_def db_call_def sd.frame_refl steady_def split: tx.splits option.splits)

lemma list_untouched [frame_rules]:
  "frame untouched (page_query fv cols col f)" "frame untouched (CheckAccess X c res act)"
  by (auto simp: page_query_def CheckAccess_def intro: frame_rules split: option.splits)
    (auto simp: frame_def db_call_def untouched_def split: option.splits)

lemma fetch_group_untouched [frame_rules]:
  "frame untouched (fetchGroupByID c i)" "frame untouched (fetch_group c i)"
  unfolding fetch_group_def GetGroupByID_def fetchGroupByID_def scanGroup_def by (intro frame_rules)+

lemma read_handlers_untouched [frame_rules]:
  "frame untouched (apiHandler_GetIssuerByID X c s)" "frame untouched (apiHandler_ListOwnerIssuers X c s p)"
  "frame untouched (apiHandler_GetOAuthClient X c s)" "frame untouched (apiHandler_GetOwnerOAuthClients X c s p)"
  "frame untouched (apiHandler_GetUserByID X c s)" "frame untouched (apiHandler_GetIssuerUsers X c s p)"
  "frame untouched (apiHandler_GetGroupByID X c s)" "frame untouched (apiHandler_ListGroups X c s p)"
  "frame untouched (apiHandler_ListGroupMembers X c s p)" "frame untouched (apiHandler_ListUserGroups X c s p)"
  unfolding handler_defs GetOwnerIssuers_def GetOwnerOAuthClients_def LookupUserInfoByID_def
    LookupUserInfosByIssuerID_def ListGroupsByOwner_def ListGroupMembers_def ListGroupsBySubject_def
  by (intro frame_rules)+

lemma statement_relations [simp]:
  "table_relations (insert_issuer r t) = table_relations t" "table_relations (fst (update_issuer bs i t)) = table_relations t"
  "table_relations (delete_issuer_users i t) = table_relations t" "table_relations (fst (delete_issuer i t)) = table_relations t"
  "table_relations (fst (insert_client cr t)) = table_relations t" "table_relations (delete_client i t) = table_relations t"
  by (simp_all add: table_relations_def insert_issuer_def update_issuer_def delete_issuer_users_def delete_issuer_def
      insert_client_def delete_client_def Let_def)

lemma update_group_relations [simp]: "table_relations (update_group n d g t) = table_relations t"
proof -
  let ?p = "\<lambda>r. (gr_id r, GroupParentRelationship, gr_owner_id r)"
  have "map ?p (groups (update_group n d g t)) = map ?p (groups t)" by (auto simp: update_group_def)
  from arg_cong [OF this, of set] have "?p ` set (groups (update_group n d g t)) = ?p ` set (groups t)"
    by (simp only: set_map)
  moreover have "group_members (update_group n d g t) = group_members t" by (simp add: update_group_def)
  ultimately show ?thesis unfolding table_relations_def by (simp only:)
qed

lemma stmt_steady [frame_rules]:
  "frame steady (tx_exec i (\<lambda>t. (insert_issuer r t, u)))" "frame steady (tx_exec_check i chk (update_issuer bs s))"
  "frame steady (tx_exec i (\<lambda>t. (delete_issuer_users s t, u)))" "frame steady (tx_exec i (delete_issuer s))"
  "frame steady (tx_exec i (insert_client cr))" "frame steady (tx_exec i (\<lambda>t. (delete_client s t, u)))"
  "frame steady (tx_exec i (\<lambda>t. (update_group n d s t, u)))"
  by (intro tx_exec_steady tx_exec_check_steady; simp)+

lemma stmt_reads_steady [frame_rules]:
  "frame steady (getContextTx c)" "frame steady (with_entropy f)" "frame steady (scan_row rs)"
  "frame steady (fetchGroupByID c s)" "frame steady (fetch_issuer X c s)" "frame steady (fetch_client c s)"
  "frame steady (CheckAccess X c s s')" "frame steady (parse_or_400 X s s')"
  by (intro frame_untouched_steady frame_rules)+

lemma store_steady [frame_rules]:
  "frame steady (CreateIssuer X c iss)" "frame steady (UpdateIssuer X c s upd)" "frame steady (DeleteIssuer c s)"
  "frame steady (CreateOAuthClient X c cl)" "frame steady (DeleteOAuthClient c s)" "frame steady (UpdateGroup c s gu)"
  unfolding CreateIssuer_def insertIssuer_def UpdateIssuer_def scanIssuer_def DeleteIssuer_def CreateOAuthClient_def
    DeleteOAuthClient_def UpdateGroup_def Let_def
  by (intro frame_rules)+

lemma write_handlers_steady [frame_rules]:
  "frame steady (apiHandler_CreateIssuer X c s ci)" "frame steady (apiHandler_UpdateIssuer X c s iu)"
  "frame steady (apiHandler_DeleteIssuer X c s)" "frame steady (apiHandler_CreateOAuthClient X c s cc)"
  "frame steady (apiHandler_DeleteOAuthClient X c s)" "frame steady (apiHandler_UpdateGroup X c s ug)"
  unfolding handler_defs GenerateSecureToken_def by (intro frame_rules)+

lemma read_handlers_steady [frame_rules]:
  "frame steady (apiHandler_GetIssuerByID X c s)" "frame steady (apiHandler_ListOwnerIssuers X c s p)"
  "frame steady (apiHandler_GetOAuthClient X c s)" "frame steady (apiHandler_GetOwnerOAuthClients X c s p)"
  "frame steady (apiHandler_GetUserByID X c s)" "frame steady (apiHandler_GetIssuerUsers X c s p)"
  "frame steady (apiHandler_GetGroupByID X c s)" "frame steady (apiHandler_ListGroups X c s p)"
  "frame steady (apiHandler_ListGroupMembers X c s p)" "frame steady (apiHandler_ListUserGroups X c s p)"
  by (intro frame_untouched_steady frame_rules)+

section \<open>Relations of the tables\<close>

lemma relationships_differ: "GroupParentRelationship \<noteq> DirectMemberRelationship"
  by (simp add: GroupParentRelationship_def DirectMemberRelationship_def)

lemma table_relations_iff:
  "(g, rel, s) \<in> table_relations t \<longleftrightarrow>
     rel = GroupParentRelationship \<and> (\<exists>r \<in> set (groups t). gr_id r = g \<and> gr_owner_id r = s) \<or>
     rel = DirectMemberRelationship \<and> s \<in> members t g"
  using relationships_differ by (auto simp: table_relations_def members_def)

lemma table_relations_upsert:
  "table_relations (upsert_members g ss t) = table_relations t \<union> (\<lambda>s. (g, DirectMemberRelationship, s)) ` set ss"
  using relationships_differ
  by (auto simp: table_relations_iff members_upsert upsert_members_frame split: if_splits)

lemma table_relations_delete:
  "table_relations (delete_members g ss t) = table_relations t - (\<lambda>s. (g, DirectMemberRelationship, s)) ` set ss"
proof -
  have "groups (delete_members g ss t) = groups t" by (simp add: delete_members_def)
  then show ?thesis
    using relationships_differ by (auto simp: table_relations_iff members_delete split: if_splits)
qed

lemma delete_member_single: "fst (delete_member g s t) = delete_members g [s] t"
  by (simp add: delete_member_def delete_members_def Let_def)

lemma table_relations_insert_group:
  "table_relations (insert_group r t) = insert (gr_id r, GroupParentRelationship, gr_owner_id r) (table_relations t)"
  by (auto simp: table_relations_def insert_group_def)

lemma table_relations_delete_group:
  assumes "schema_ok t" and "r \<in> set (groups t)"
  shows "table_relations (delete_group (gr_id r) t) =
    table_relations t - {(gr_id r, GroupParentRelationship, gr_owner_id r)}"
proof -
  have "r' = r" if "r' \<in> set (groups t)" "gr_id r' = gr_id r" for r'
    using assms that by (simp add: schema_ok_def keys_ok_def distinct_map inj_on_def)
  then show ?thesis using relationships_differ by (auto simp: table_relations_def delete_group_def)
qed

section \<open>Requests that change relations\<close>

text \<open>\<open>gidx.Parse\<close> accepts no empty ID.\<close>

definition gidx_law :: "('ast, 'expr) ext \<Rightarrow> bool" where
  "gidx_law X \<longleftrightarrow> (\<forall>s s'. gidx_Parse X s = Ok s' \<longrightarrow> s \<noteq> [])"

text \<open>The handler's view and the relations, before and after.\<close>

definition synced :: "ctx \<Rightarrow> world \<Rightarrow> bool" where
  "synced c w \<longleftrightarrow> (\<exists>t. tx_view c w = Some t \<and> agree w t)"

lemma CheckAccess_Ok: "CheckAccess X c res act w = (Ok u, w') \<Longrightarrow> w' = w"
  by (auto simp: CheckAccess_def split: option.splits)

lemma parse_or_400_Ok: "parse_or_400 X m s w = (Ok u, w') \<Longrightarrow> w' = w \<and> (\<exists>s'. gidx_Parse X s = Ok s')"
  by (auto simp: parse_or_400_def tryE_eq_Ok)

lemma parse_all_Ok:
  "parse_all_or_400 X ss w = (Ok u, w') \<Longrightarrow> w' = w \<and> (\<forall>s \<in> set ss. \<exists>s'. gidx_Parse X s = Ok s')"
  by (induction ss) (auto simp: bindE_eq_Ok dest!: parse_or_400_Ok)

lemma parse_all_nonempty:
  "gidx_law X \<Longrightarrow> \<forall>s \<in> set ss. \<exists>s'. gidx_Parse X s = Ok s' \<Longrightarrow> [] \<notin> set ss"
  unfolding gidx_law_def by blast

lemma events_view:
  "Events_AddGroupMembers X g ss w = (Ok u, w') \<Longrightarrow> tx_view c w' = tx_view c w"
  "Events_RemoveGroupMembers X g ss w = (Ok u, w') \<Longrightarrow> tx_view c w' = tx_view c w"
  "Events_CreateGroup X p g w = (Ok u, w') \<Longrightarrow> tx_view c w' = tx_view c w"
  "Events_DeleteGroup X p g w = (Ok u, w') \<Longrightarrow> tx_view c w' = tx_view c w"
  by (rule tx_view_txs; auto simp: Events_AddGroupMembers_def Events_RemoveGroupMembers_def Events_CreateGroup_def
      Events_DeleteGroup_def CreateAuthRelationships_def DeleteAuthRelationships_def publish_def Let_def
      split: if_splits option.splits)+

lemma rollbackAndReturnError_fails: "rollbackAndReturnError c code msg w \<noteq> (Ok a, w')"
  by (auto simp: rollbackAndReturnError_def tryE_eq_Ok)

lemma silent_relations: "frame silent m \<Longrightarrow> m w = (r, w') \<Longrightarrow> relations w' = relations w"
  by (drule (1) frameD) (rule relations_silent)

lemma AddGroupMembers_sync:
  assumes law: "gidx_law X" and run: "running c w t" "schema_ok t" and rel: "agree w t"
    and ok: "apiHandler_AddGroupMembers X c gid b w = (Ok r, w')"
  shows "synced c w'"
proof -
  let ?ss = "ag_MemberIDs b"
  obtain v u1 where v: "AddGroupMembers c gid ?ss w = (Ok u1, v)" "Events_AddGroupMembers X gid ?ss v = (Ok (), w')"
    and ne: "[] \<notin> set ?ss"
    using ok parse_all_nonempty [OF law, of ?ss]
    by (auto simp: apiHandler_AddGroupMembers_def bindE_eq_Ok tryE_eq_Ok rollbackAndReturnError_fails
        dest!: parse_or_400_Ok parse_all_Ok CheckAccess_Ok)
  have "relations v = relations w" by (rule silent_relations [OF AddGroupMembers_silent v(1)])
  moreover have "tx_view c v = Some (upsert_members gid ?ss t)"
    using v(1) run by (auto simp: AddGroupMembers_running running_def split: if_splits)
  ultimately show ?thesis
    using relations_AddGroupMembers [OF v(2) ne] rel events_view(1) [OF v(2), of c] ne
    by (auto simp: synced_def agree_def table_relations_upsert)
qed

lemma RemoveGroupMember_sync:
  assumes law: "gidx_law X" and run: "running c w t" "schema_ok t" and rel: "agree w t"
    and ok: "apiHandler_RemoveGroupMember X c gid sid w = (Ok r, w')"
  shows "synced c w'"
proof -
  obtain v u1 where v: "RemoveGroupMember c gid sid w = (Ok u1, v)" "Events_RemoveGroupMembers X gid [sid] v = (Ok (), w')"
    and ne: "[] \<notin> set [sid]"
    using ok law
    by (auto simp: apiHandler_RemoveGroupMember_def bindE_eq_Ok tryE_eq_Ok rollbackAndReturnError_fails gidx_law_def
        dest!: parse_or_400_Ok CheckAccess_Ok)
  have "relations v = relations w" by (rule silent_relations [OF write_frames(8) v(1)])
  moreover have "tx_view c v = Some (delete_members gid [sid] t)"
    using v(1) run by (auto simp: RemoveGroupMember_running running_def delete_member_single split: if_splits)
  ultimately show ?thesis
    using relations_RemoveGroupMembers [OF v(2) ne] rel events_view(2) [OF v(2), of c]
    by (auto simp: synced_def agree_def table_relations_delete)
qed

lemma CreateGroup_sync:
  assumes run: "running c w t" "schema_ok t" and rel: "agree w t"
    and ok: "apiHandler_CreateGroup X c oid b w = (Ok r, w')"
  shows "synced c w'"
proof -
  obtain g v where v: "CreateGroup c g (tick w) = (Ok g, v)" "Events_CreateGroup X oid (g_ID g) v = (Ok (), w')"
    and own: "g_OwnerID g = oid" "\<not> group_conflict g t" "g_Name g \<noteq> []"
    using ok run
    by (auto simp: apiHandler_CreateGroup_def bindE_eq_Ok tryE_eq_Ok rollbackAndReturnError_fails with_entropy_eq Let_def
        CreateGroup_running [of c "tick w" t] dest!: parse_or_400_Ok CheckAccess_Ok split: if_splits) (metis Group.select_convs)+
  have "relations v = relations (tick w)" by (rule silent_relations [OF write_frames(2) v(1)])
  then have "relations v = relations w" by (simp add: relations_def)
  moreover have "tx_view c v = Some (insert_group (row_of_group g) t)"
    using v(1) run own by (auto simp: CreateGroup_running [of c "tick w" t] running_def split: if_splits)
  ultimately show ?thesis
    using relations_CreateGroup [OF v(2)] events_view(3) [OF v(2), of c] own rel relationships_differ
    by (auto simp: synced_def agree_def table_relations_insert_group)
qed

lemma DeleteGroup_sync:
  assumes run: "running c w t" "schema_ok t" and rel: "agree w t"
    and ok: "apiHandler_DeleteGroup X c gid w = (Ok r, w')"
  shows "synced c w'"
proof -
  have h: "healthy w" using run by (simp add: running_def)
  obtain g rest where g: "select_group gid t = g # rest"
    using ok run by (cases "select_group gid t")
      (auto simp: apiHandler_DeleteGroup_def bindE_eq_Ok tryE_eq_Ok fetch_group_def GetGroupByID_def
        fetchGroupByID_running dest!: parse_or_400_Ok CheckAccess_Ok)
  then have gin: "g \<in> set (groups t)" "gr_id g = gid" using select_group_cases [OF run(2), of gid] by auto
  have "fetch_group c gid w = (Ok (group_of_row g), tick w)"
    using run g by (simp add: fetch_group_def GetGroupByID_def tryE_def ret_def fetchGroupByID_running)
  then obtain v where v: "DeleteGroup c gid (tick (tick w)) = (Ok (), v)"
      "Events_DeleteGroup X (gr_owner_id g) gid v = (Ok (), w')"
    using ok h gin
    by (auto simp: apiHandler_DeleteGroup_def bindE_eq_Ok tryE_eq_Ok rollbackAndReturnError_fails
        GroupMembersCount_def db_query_healthy dest!: parse_or_400_Ok CheckAccess_Ok split: if_splits)
  have "relations v = relations (tick (tick w))" by (rule silent_relations [OF write_frames(6) v(1)])
  then have "relations v = relations w" by (simp add: relations_def)
  moreover have "tx_view c v = Some (delete_group gid t)"
    using v(1) run DeleteGroup_running [of c "tick (tick w)" t gid] by (auto simp: running_def split: if_splits)
  ultimately show ?thesis
    using relations_DeleteGroup [OF v(2)] events_view(4) [OF v(2), of c] rel
      table_relations_delete_group [OF run(2) gin(1)] gin(2)
    by (auto simp: synced_def agree_def)
qed

lemma ReplaceGroupMembers_sync:
  assumes law: "gidx_law X" and run: "running c w t" "schema_ok t" and rel: "agree w t" and com: "committed w = t"
    and ok: "apiHandler_ReplaceGroupMembers X c gid b w = (Ok r, w')"
  shows "synced c w'"
proof -
  let ?ss = "ag_MemberIDs b"
  obtain add rm v u where v: "ReplaceGroupMembers c gid ?ss w = (Ok (add, rm), v)"
      "Events_RemoveGroupMembers X gid rm v = (Ok (), u)" "Events_AddGroupMembers X gid add u = (Ok (), w')"
    and ne: "[] \<notin> set ?ss"
    using ok parse_all_nonempty [OF law, of ?ss]
    by (auto simp: apiHandler_ReplaceGroupMembers_def bindE_eq_Ok tryE_eq_Ok rollbackAndReturnError_fails
        dest!: parse_or_400_Ok parse_all_Ok CheckAccess_Ok)
  note R = ReplaceGroupMembers_Ok [OF run v(1)]
  have "set rm \<subseteq> members t gid"
    using Diff_sets [OF R(1)] members_select [of gid t] com by auto
  then have ne_rm: "[] \<notin> set rm"
    using rel by (auto simp: agree_def table_relations_iff)
  have ne_add: "[] \<notin> set add" using Diff_sets [OF R(1)] ne by auto
  have "relations v = relations w" by (rule silent_relations [OF ReplaceGroupMembers_silent v(1)])
  then have "relations w' = table_relations (replaced_members gid add rm t)"
    using relations_RemoveGroupMembers [OF v(2) ne_rm] relations_AddGroupMembers [OF v(3) ne_add] rel
    by (simp add: agree_def replaced_members_def table_relations_upsert table_relations_delete)
  moreover have "tx_view c w' = Some (replaced_members gid add rm t)"
    using R(2) events_view(1) [OF v(3), of c] events_view(2) [OF v(2), of c] by simp
  moreover have "(g, DirectMemberRelationship, []) \<notin> relations w'" for g
    using relations_RemoveGroupMembers [OF v(2) ne_rm] relations_AddGroupMembers [OF v(3) ne_add] rel ne_add
      \<open>relations v = relations w\<close> by (auto simp: agree_def)
  ultimately show ?thesis by (simp add: synced_def agree_def)
qed

lemma steady_synced:
  assumes "frame steady m" and "m w = (r, w')" and "tx_view c w = Some t" and "tx_view c w' = Some t'" and "agree w t"
  shows "synced c w'"
proof -
  have st: "steady w w'" by (rule frameD [OF assms(1,2)])
  obtain i b' where i: "ctx_tx c = CtxTx i" "tx_lookup i w' = TxOpen b' t'"
    using assms(4) by (auto simp: tx_view_def split: ctxval.splits tx.splits)
  with st obtain b u where "tx_lookup i w = TxOpen b u" "table_relations t' = table_relations u"
    by (fastforce simp: steady_def)
  moreover from this i assms(3) have "u = t" by (simp add: tx_view_def)
  moreover have "relations w' = relations w" using st by (simp add: steady_def relations_def)
  ultimately show ?thesis using assms(4,5) by (auto simp: synced_def agree_def)
qed

lemma steady_respond: "frame steady m \<Longrightarrow> frame steady (respond f m)"
  unfolding respond_def by (intro frame_rules)

lemma ssi_call_synced:
  assumes law: "gidx_law X" and run: "running c w t" "schema_ok t" and rel: "agree w t" and com: "committed w = t"
    and ok: "ssi_call X c req w = (Ok resp, w')" and open': "tx_view c w' = Some t'"
  shows "synced c w'"
proof -
  note [simp] = respond_def bindE_eq_Ok
  have v: "tx_view c w = Some t" using run by (simp add: running_def)
  have quiet: ?thesis if "frame steady (ssi_call X c req)"
    using steady_synced [OF that ok v open' rel] .
  show ?thesis
  proof (cases req)
    case (ReqAddGroupMembers i b)
    then show ?thesis using ok AddGroupMembers_sync [OF law run rel] by auto
  next
    case (ReqRemoveGroupMember i s)
    then show ?thesis using ok RemoveGroupMember_sync [OF law run rel] by auto
  next
    case (ReqReplaceGroupMembers i b)
    then show ?thesis using ok ReplaceGroupMembers_sync [OF law run rel com] by auto
  next
    case (ReqCreateGroup i b)
    then show ?thesis using ok CreateGroup_sync [OF run rel] by auto
  next
    case (ReqDeleteGroup i)
    then show ?thesis using ok DeleteGroup_sync [OF run rel] by auto
  qed (rule quiet, simp only: ssi_call.simps, rule steady_respond, intro frame_rules)+
qed

text \<open>The invariant.\<close>

lemma api_handle_in_sync:
  assumes law: "gidx_law X" and h: "healthy w" and ok: "schema_ok (committed w)" and sync: "in_sync w"
    and run: "api_handle X req c w = (Ok (), w')"
  shows "in_sync w'"
proof -
  let ?c = "begun_ctx c w"
  have nf: "faults w (ticks w) = None" using h by (simp add: healthy_def)
  obtain u where u: "strictHandler X req ?c (begun w) = (Ok (), u)" "CommitContext ?c u = (Ok (), w')"
    using run by (auto simp: api_handle_begun [OF nf] tryE_eq_Ok bindE_eq_Ok)
  obtain resp v where v: "ssi_call X ?c req (begun w) = (Ok resp, v)" "VisitResponse (Encode (response_json resp)) v = (Ok (), u)"
    using u(1) by (auto simp: strictHandler_eq bindE_eq_Ok)
  have ans: "answers v u" by (rule VisitResponse_answers [OF v(2)])
  have "tx_view ?c u = Some (committed w')" by (rule tm.commit_ok [OF u(2)])
  then have view: "tx_view ?c v = Some (committed w')" using ans tx_view_txs [of u v ?c] by (simp add: answers_def)
  have "agree (begun w) (committed w)" using sync by (auto simp: in_sync_def agree_def relations_def)
  from ssi_call_synced [OF law begun_running [OF h] ok this _ v(1) view]
  have "agree v (committed w')" using view by (simp add: synced_def)
  moreover have "published w' = published v"
    using u(2) ans by (auto simp: answers_def CommitContext_def commitContextTx_def getContextTx_def go_simps tx_Commit_def
        db_call_def split: ctxval.splits tx.splits option.splits if_splits)
  ultimately show ?thesis by (auto simp: in_sync_def agree_def relations_def)
qed

section \<open>Requests that fail\<close>

text \<open>Calls that cannot fail, and calls that have published nothing when they fail.\<close>

definition sure :: "'a dbio \<Rightarrow> bool" where
  "sure m \<longleftrightarrow> (\<forall>w. \<exists>a w'. m w = (Ok a, w'))"

definition quiet :: "'a dbio \<Rightarrow> bool" where
  "quiet m \<longleftrightarrow> (\<forall>w r w'. m w = (r, w') \<longrightarrow> (\<forall>a. r \<noteq> Ok a) \<longrightarrow> published w' = published w)"

text \<open>The permissions API accepts every message, or refuses every message.\<close>

definition uniform :: "('ast, 'expr) ext \<Rightarrow> bool" where
  "uniform X \<longleftrightarrow> (\<forall>n m. permissions_Publish X n m = None) \<or> (\<forall>n m. permissions_Publish X n m \<noteq> None)"

lemma sure_ret: "sure (ret a)"
  by (simp add: sure_def)

lemma sure_tryE: "sure m \<Longrightarrow> (\<And>a. sure (f a)) \<Longrightarrow> sure (tryE m h f)"
  unfolding sure_def tryE_def by (metis (no_types, lifting) case_prod_conv res.simps(10))

lemma sure_events:
  assumes "\<forall>n m. permissions_Publish X n m = None"
  shows "sure (Events_AddGroupMembers X g ss)" "sure (Events_RemoveGroupMembers X g ss)"
  using assms
  by (auto simp: sure_def Events_AddGroupMembers_def Events_RemoveGroupMembers_def
      CreateAuthRelationships_def DeleteAuthRelationships_def publish_def Let_def ret_def)

lemma silent_events:
  assumes "\<forall>n m. permissions_Publish X n m \<noteq> None"
  shows "frame silent (Events_AddGroupMembers X g ss)" "frame silent (Events_RemoveGroupMembers X g ss)"
  using assms
  by (auto simp: frame_def silent_def Events_AddGroupMembers_def Events_RemoveGroupMembers_def
      CreateAuthRelationships_def DeleteAuthRelationships_def publish_def Let_def ret_def split: option.splits)

lemma sure_ToV1Group: "sure (lift (ToV1Group g))"
  by (simp add: sure_def ToV1Group_def)

lemma quiet_sure: "sure m \<Longrightarrow> quiet m"
  unfolding sure_def quiet_def by (metis Pair_inject)

lemma quiet_silent: "frame silent m \<Longrightarrow> quiet m"
  unfolding quiet_def by (auto dest: frameD simp: silent_def)

lemma quiet_tryE:
  assumes "frame silent m" and "\<And>e. quiet (h e)" and "\<And>a. quiet (f a)"
  shows "quiet (tryE m h f)"
  unfolding quiet_def
proof (intro allI impI)
  fix w r w' assume run: "tryE m h f w = (r, w')" and bad: "\<forall>a. r \<noteq> Ok a"
  obtain r1 v where v: "m w = (r1, v)" by fastforce
  then have "published v = published w" using frameD [OF assms(1)] by (simp add: silent_def)
  moreover have "published w' = published v"
    using run v bad assms(2,3) by (cases r1) (auto simp: tryE_def quiet_def)
  ultimately show "published w' = published w" by simp
qed

lemma quiet_bindE: "frame silent m \<Longrightarrow> (\<And>a. quiet (f a)) \<Longrightarrow> quiet (bindE m f)"
  unfolding bindE_tryE by (intro quiet_tryE) (auto intro: quiet_silent frame_rules)

lemma quiet_let: "(\<And>a. quiet (f a)) \<Longrightarrow> quiet (let a = x in f a)"
  by (simp add: Let_def)

lemma quiet_if: "quiet m \<Longrightarrow> quiet n \<Longrightarrow> quiet (if b then m else n)"
  by simp

lemma quiet_prod: "(\<And>a b. quiet (f a b)) \<Longrightarrow> quiet (case x of (a, b) \<Rightarrow> f a b)"
  by (cases x) simp

lemma quiet_fail: "quiet (fail e)"
  by (rule quiet_silent) (rule frame_rules)

lemma quiet_rollback: "quiet (rollbackAndReturnError c code msg)"
  by (rule quiet_silent) (rule frame_rules)

lemma quiet_events:
  "quiet (Events_AddGroupMembers X g ss)" "quiet (Events_RemoveGroupMembers X g ss)"
  "quiet (Events_CreateGroup X p g)" "quiet (Events_DeleteGroup X p g)"
  by (auto simp: quiet_def Events_AddGroupMembers_def Events_RemoveGroupMembers_def Events_CreateGroup_def
      Events_DeleteGroup_def CreateAuthRelationships_def DeleteAuthRelationships_def publish_def Let_def ret_def
      split: option.splits if_splits)

lemma quiet_last:
  assumes "quiet m" and "\<And>e. quiet (h e)" and "\<And>a. sure (f a)"
  shows "quiet (tryE m h f)"
  unfolding quiet_def
proof (intro allI impI)
  fix w r w' assume run: "tryE m h f w = (r, w')" and bad: "\<forall>a. r \<noteq> Ok a"
  obtain r1 v where v: "m w = (r1, v)" by fastforce
  show "published w' = published w"
  proof (cases r1)
    case (Ok a)
    then show ?thesis using run v bad assms(3) [of a] by (auto simp: tryE_def sure_def) (metis Pair_inject)
  next
    case (Err e)
    have "published v = published w" using assms(1) v Err unfolding quiet_def by blast
    moreover have "published w' = published v" using run v bad assms(2) Err by (auto simp: tryE_def quiet_def)
    ultimately show ?thesis by simp
  next
    case (Panic s)
    then show ?thesis using run v assms(1) by (auto simp: tryE_def quiet_def)
  qed
qed

lemma quiet_group_handlers:
  "quiet (apiHandler_AddGroupMembers X c gid ag)" "quiet (apiHandler_RemoveGroupMember X c gid sid)"
  "quiet (apiHandler_CreateGroup X c oid cg)" "quiet (apiHandler_DeleteGroup X c gid)"
  unfolding apiHandler_AddGroupMembers_def apiHandler_RemoveGroupMember_def apiHandler_CreateGroup_def
    apiHandler_DeleteGroup_def
  by (intro quiet_bindE quiet_tryE [OF AddGroupMembers_silent] quiet_tryE [OF write_frames(8)] quiet_tryE [OF write_frames(2)]
      quiet_tryE [OF write_frames(6)] quiet_tryE [OF with_entropy_frames(2)]
      quiet_let quiet_if quiet_prod quiet_fail quiet_rollback frame_rules
      quiet_last [OF quiet_events(1)] quiet_last [OF quiet_events(2)] quiet_last [OF quiet_events(3)]
      quiet_last [OF quiet_events(4)] sure_ret sure_ToV1Group)+

lemma quiet_ReplaceGroupMembers:
  assumes "uniform X"
  shows "quiet (apiHandler_ReplaceGroupMembers X c gid ag)"
  using assms unfolding uniform_def
proof
  assume up: "\<forall>n m. permissions_Publish X n m = None"
  show ?thesis
    unfolding apiHandler_ReplaceGroupMembers_def
    by (intro quiet_bindE quiet_tryE [OF ReplaceGroupMembers_silent] quiet_let quiet_if quiet_prod quiet_fail quiet_rollback
        frame_rules quiet_last [OF quiet_events(2)] sure_tryE [OF sure_events(1) [OF up]] sure_ret)
next
  assume down: "\<forall>n m. permissions_Publish X n m \<noteq> None"
  show ?thesis
    unfolding apiHandler_ReplaceGroupMembers_def
    by (intro quiet_silent frame_rules silent_events down)
qed

lemma quiet_respond: "quiet m \<Longrightarrow> quiet (respond f m)"
  unfolding quiet_def respond_def bindE_def by (fastforce split: prod.splits res.splits)

lemma steady_quiet: "frame steady m \<Longrightarrow> quiet m"
  unfolding quiet_def by (auto dest: frameD simp: steady_def)

text \<open>Every other handler publishes nothing.\<close>

definition changes_relations :: "api_request \<Rightarrow> bool" where
  "changes_relations req = (case req of
       ReqAddGroupMembers _ _ \<Rightarrow> True | ReqRemoveGroupMember _ _ \<Rightarrow> True | ReqReplaceGroupMembers _ _ \<Rightarrow> True
     | ReqCreateGroup _ _ \<Rightarrow> True | ReqDeleteGroup _ \<Rightarrow> True | _ \<Rightarrow> False)"

lemma ssi_call_steady: "\<not> changes_relations req \<Longrightarrow> frame steady (ssi_call X c req)"
  by (cases req) (simp_all add: changes_relations_def,
    (rule steady_respond, intro frame_rules)+)

text \<open>Only replacing the members of a group sends more than one message.\<close>

definition single_message :: "api_request \<Rightarrow> bool" where
  "single_message req = (case req of ReqReplaceGroupMembers _ _ \<Rightarrow> False | _ \<Rightarrow> True)"

lemma ssi_call_quiet: "uniform X \<or> single_message req \<Longrightarrow> quiet (ssi_call X c req)"
proof (cases "changes_relations req")
  case True
  assume "uniform X \<or> single_message req"
  with True show ?thesis
    by (cases req) (auto simp: changes_relations_def single_message_def intro!: quiet_respond quiet_group_handlers quiet_ReplaceGroupMembers)
qed (rule steady_quiet [OF ssi_call_steady])

text \<open>A request that changed relations and succeeded has its transaction still open.\<close>

lemma ssi_call_open:
  assumes law: "gidx_law X" and run: "running c w t" "schema_ok t" and rel: "agree w t" and com: "committed w = t"
    and ok: "ssi_call X c req w = (Ok resp, w')"
  shows "published w' = published w \<or> tx_view c w' \<noteq> None"
proof (cases "changes_relations req")
  case False
  from frameD [OF ssi_call_steady [OF False] ok] show ?thesis by (simp add: steady_def)
next
  case True
  have "synced c w'"
    using True ok AddGroupMembers_sync [OF law run rel] RemoveGroupMember_sync [OF law run rel]
      ReplaceGroupMembers_sync [OF law run rel com] CreateGroup_sync [OF run rel] DeleteGroup_sync [OF run rel]
    by (cases req) (auto simp: changes_relations_def respond_def bindE_eq_Ok)
  then show ?thesis by (auto simp: synced_def)
qed

lemma Commit_healthy:
  assumes "healthy w" and "tx_view c w = Some t" and "ctx_tx c = CtxTx i" and "tx_lookup i w = TxOpen b t" and "b = committed w"
  shows "\<exists>w'. CommitContext c w = (Ok (), w')"
  using assms by (simp add: CommitContext_def commitContextTx_def getContextTx_def healthy_def tx_Commit_cases)

lemma in_sync_cong: "committed w' = committed w \<Longrightarrow> published w' = published w \<Longrightarrow> in_sync w' = in_sync w"
  by (simp add: in_sync_def agree_def relations_def)

lemma commit_published: "CommitContext c w = (r, w') \<Longrightarrow> published w' = published w"
  by (cases "ctx_tx c"; cases "tx_lookup (tx_of c) w")
    (auto simp: CommitContext_def commitContextTx_def getContextTx_def go_simps tx_Commit_def db_call_def tx_of_def
      split: option.splits if_splits)

lemma evolve_own: "evolve (Some i) w w' \<Longrightarrow> i < length (txs w) \<Longrightarrow> tx_le (tx_lookup i w) (tx_lookup i w')"
  by (auto simp: evolve_def tx_lookup_def)

lemma api_handle_always_in_sync:
  assumes law: "gidx_law X" "uniform X \<or> single_message req" and h: "healthy w" and ok: "schema_ok (committed w)" and sync: "in_sync w"
    and run: "api_handle X req c w = (r, w')"
  shows "in_sync w'"
proof (cases "r = Ok ()")
  case True
  with api_handle_in_sync [OF law(1) h ok sync] run show ?thesis by simp
next
  case False
  let ?c = "begun_ctx c w" and ?i = "length (txs w)"
  have nf: "faults w (ticks w) = None" using h by (simp add: healthy_def)
  have com: "committed w' = committed w" using api_handle_atomic [OF run] False by auto
  obtain r1 v where v: "ssi_call X ?c req (begun w) = (r1, v)" by fastforce
  have ev: "evolve (Some ?i) (begun w) v" using frameD [OF ssi_call_evolve v] by simp
  then have hv: "healthy v" using h by (simp add: evolve_def healthy_def)
  have "published w' = published w"
  proof (cases r1)
    case (Ok resp)
    let ?txt = "Encode (response_json resp)"
    have vis: "VisitResponse ?txt v = (Ok (), tick (send_status 200 (v\<lparr>resp_body := resp_body v @ ?txt\<rparr>)))"
      using hv by (simp add: VisitResponse_def healthy_def)
    let ?u = "tick (send_status 200 (v\<lparr>resp_body := resp_body v @ ?txt\<rparr>))"
    have u: "strictHandler X req ?c (begun w) = (Ok (), ?u)" using v Ok vis by (simp add: strictHandler_eq bindE_def)
    obtain r2 z where z: "CommitContext ?c ?u = (r2, z)" by fastforce
    with u run have "w' = z" and r2: "r2 \<noteq> Ok ()"
      using False by (auto simp: api_handle_begun [OF nf] tryE_def go_simps split: res.splits)
    then have pub: "published w' = published v" using commit_published [OF z] by simp
    have "tx_view ?c v = None"
    proof (rule ccontr)
      assume "tx_view ?c v \<noteq> None"
      then obtain b t where t: "tx_lookup ?i v = TxOpen b t"
        by (auto simp: tx_view_def begun_ctx_def split: tx.splits)
      then have "tx_le (tx_lookup ?i (begun w)) (tx_lookup ?i v)"
        using evolve_own [OF ev] by (simp add: begun_def)
      then have "tx_le (TxOpen (committed w) (committed w)) (TxOpen b t)" by (simp only: begun_lookup t)
      then have "b = committed ?u" using ev by (simp add: evolve_def)
      moreover have "tx_lookup ?i ?u = TxOpen b t" using t by (simp add: tx_lookup_def split: if_splits)
      ultimately have "\<exists>z'. CommitContext ?c ?u = (Ok (), z')"
        using Commit_healthy [of ?u ?c t ?i b] hv by (simp add: begun_ctx_def tx_view_def healthy_def tx_lookup_def)
      with z r2 show False by simp
    qed
    moreover have "agree (begun w) (committed w)" using sync by (auto simp: in_sync_def agree_def relations_def)
    ultimately show ?thesis
      using ssi_call_open [OF law(1) begun_running [OF h] ok _ _ v [unfolded Ok]] pub by simp
  next
    case (Err e)
    have "published v = published (begun w)"
      using ssi_call_quiet [OF law(2), of ?c] v Err unfolding quiet_def by blast
    moreover obtain r2 z where z: "RollbackContext ?c (send_status (echo_ErrorStatus X e) v) = (r2, z)" by fastforce
    moreover have "published z = published v" using frameD [OF rollback_silent z] by (simp add: silent_def)
    ultimately show ?thesis
      using run v Err
      by (cases r2) (auto simp: api_handle_begun [OF nf] strictHandler_eq go_simps eCtx_Error_def)
  next
    case (Panic s)
    have "published v = published (begun w)"
      using ssi_call_quiet [OF law(2), of ?c] v Panic unfolding quiet_def by blast
    then show ?thesis using run v Panic by (auto simp: api_handle_begun [OF nf] strictHandler_eq go_simps)
  qed
  with com sync in_sync_cong [of w' w] show ?thesis by blast
qed

end
