(* ===== verification/TokenExchange.thy ===== *)
theory TokenExchange
  imports UserStore
begin

text \<open>
  The token exchange grant, \<open>src/internal/rfc8693\<close>, with the JWKS URI provider of
  \<open>src/internal/jwks/strategy.go\<close>.

  The record \<open>tokext\<close> holds what the grant calls of fosite's \<open>jwt\<close> package, of the JWKS fetcher, of
  \<open>net/url\<close> and of the clock. \<open>jwt.Parse(token, keyfunc)\<close> is its two halves around the call of
  \<open>keyfunc\<close>: \<open>jwt_ParseUnverified\<close> and \<open>jwt_Verify\<close>. Tracing has no effect on the result and is left
  out.

  \<open>HandleTokenEndpointRequest\<close> works on the requester, whose form, client, session and granted
  audience are the record \<open>access_request\<close>; it returns the requester as it leaves it.
\<close>

section \<open>Libraries and configuration\<close>

text \<open>\<open>jwt.Token\<close>, \<open>jwt.JWTClaims\<close> and \<open>jose.JSONWebKey\<close>, as far as the grant looks at them.\<close>

record JWTToken =
  tok_Header :: claims_map
  tok_Claims :: claims_map
  tok_Raw :: string

record JWTClaims =
  jc_Subject :: string
  jc_Issuer :: string
  jc_Extra :: claims_map

record JSONWebKey =
  jwk_KeyID :: string
  jwk_Use :: string
  jwk_Key :: string

definition JWTClaims0 :: JWTClaims where
  "JWTClaims0 = \<lparr>jc_Subject = [], jc_Issuer = [], jc_Extra = []\<rparr>"

record tokext =
  jwt_ParseUnverified :: "string \<Rightarrow> JWTToken \<times> goerr option"
  jwt_Verify :: "JWTToken \<Rightarrow> JSONWebKey \<Rightarrow> goerr option"
  jwt_FromMapClaims :: "claims_map \<Rightarrow> JWTClaims"
  jwt_ToMapClaims :: "JWTClaims \<Rightarrow> claims_map"
  jwt_Add :: "JWTClaims \<Rightarrow> string \<Rightarrow> gval \<Rightarrow> JWTClaims"
  jwks_Resolve :: "nat \<Rightarrow> string \<Rightarrow> JSONWebKey list res"
  url_JoinPath :: "string \<Rightarrow> string \<Rightarrow> string res"
  time_Now :: "nat \<Rightarrow> int"

record oauth_config =
  cfg_HasJWKSURIProvider :: bool
  cfg_HasTransactionManager :: bool
  cfg_AccessTokenIssuer :: string
  cfg_AccessTokenLifespan :: int
  cfg_SigningKeyID :: string

record jwt_session =
  js_kid :: string
  js_Claims :: JWTClaims
  js_ExpiresAt :: int
  js_Subject :: string

datatype session = SessNil | SessJWT jwt_session | SessOther

record access_request =
  ar_GrantTypes :: "string list"
  ar_Form :: url_values
  ar_ClientID :: string
  ar_Session :: session
  ar_GrantedAudience :: "string list"

definition GrantTypeTokenExchange :: string where
  "GrantTypeTokenExchange = ''urn:ietf:params:oauth:grant-type:token-exchange''"
definition TokenTypeJWT :: string where "TokenTypeJWT = ''urn:ietf:params:oauth:token-type:jwt''"
definition ParamSubjectToken :: string where "ParamSubjectToken = ''subject_token''"
definition ParamSubjectTokenType :: string where "ParamSubjectTokenType = ''subject_token_type''"
definition ParamActorToken :: string where "ParamActorToken = ''actor_token''"
definition ClaimClientID :: string where "ClaimClientID = ''client_id''"
definition ClaimSubOverride :: string where "ClaimSubOverride = ''identity-api.infratographer.com/sub''"

text \<open>\<open>jwt.ValidationError\<close>: the four kinds the sources name.\<close>

definition ValidationErrorMalformed :: nat where "ValidationErrorMalformed = 1"
definition ValidationErrorUnverifiable :: nat where "ValidationErrorUnverifiable = 2"
definition ValidationErrorSignatureInvalid :: nat where "ValidationErrorSignatureInvalid = 4"
definition ValidationErrorIssuer :: nat where "ValidationErrorIssuer = 64"

text \<open>\<open>fosite.ErrInvalidRequest\<close> and \<open>fosite.ErrServerError\<close> with a hint.\<close>

definition ErrInvalidRequest :: "string \<Rightarrow> goerr" where "ErrInvalidRequest hint = FositeError 400 hint None"
definition ErrServerError :: "string \<Rightarrow> goerr" where "ErrServerError hint = FositeError 500 hint None"

section \<open>Finding the key\<close>

definition GetIssuerJWKSURI :: "('ast, 'expr) ext \<Rightarrow> ctx \<Rightarrow> string \<Rightarrow> string dbio" where
  "GetIssuerJWKSURI X c iss = bindE (GetIssuerByURI X c iss) (\<lambda>issuer. ret (iss_JWKSURI issuer))"

definition findMatchingKey ::
    "('ast, 'expr) ext \<Rightarrow> tokext \<Rightarrow> oauth_config \<Rightarrow> ctx \<Rightarrow> JWTToken \<Rightarrow> JSONWebKey dbio" where
  "findMatchingKey X T config c token =
    (let claims = jwt_FromMapClaims T (tok_Claims token); issuer = jc_Issuer claims
     in if issuer = [] then fail (ValidationError ValidationErrorIssuer None)
        else if \<not> cfg_HasJWKSURIProvider config
        then fail (ValidationError ValidationErrorUnverifiable (Some (LibError ''no issuer JWKS URI provider defined'')))
        else
          tryE (GetIssuerJWKSURI X c issuer)
            (\<lambda>err. fail (ValidationError ValidationErrorIssuer (Some err)))
            (\<lambda>jwksURI.
          tryE (with_entropy (\<lambda>n. jwks_Resolve T n jwksURI))
            (\<lambda>err. fail (ValidationError ValidationErrorUnverifiable (Some err)))
            (\<lambda>jwks.
          case map_of (tok_Header token) ''kid'' of
            Some (VStr kid) \<Rightarrow>
              (case find (\<lambda>key. jwk_Use key = ''sig'') (filter (\<lambda>key. jwk_KeyID key = kid) jwks) of
                 Some key \<Rightarrow> ret key
               | None \<Rightarrow> fail (ValidationError ValidationErrorSignatureInvalid None))
          | _ \<Rightarrow> fail (ValidationError ValidationErrorMalformed None))))"

text \<open>\<open>jwt.Parse\<close>: the token and the error. An error of \<open>keyfunc\<close> is passed on.\<close>

definition jwt_Parse ::
    "tokext \<Rightarrow> string \<Rightarrow> (JWTToken \<Rightarrow> JSONWebKey dbio) \<Rightarrow> (JWTToken \<times> goerr option) dbio" where
  "jwt_Parse T token keyfunc =
     (case jwt_ParseUnverified T token of
        (tok, Some err) \<Rightarrow> ret (tok, Some err)
      | (tok, None) \<Rightarrow>
          tryE (keyfunc tok)
            (\<lambda>err. ret (tok, Some err))
            (\<lambda>key. ret (tok, jwt_Verify T tok key)))"

definition validateJWT ::
    "('ast, 'expr) ext \<Rightarrow> tokext \<Rightarrow> oauth_config \<Rightarrow> ctx \<Rightarrow> string \<Rightarrow> JWTToken dbio" where
  "validateJWT X T config c token =
     bindE (jwt_Parse T token (findMatchingKey X T config c)) (\<lambda>(parsed, err).
       case err of
         None \<Rightarrow> ret parsed
       | Some e \<Rightarrow>
          (let claims = jwt_FromMapClaims T (tok_Claims parsed)
           in case e of
                ValidationError kind inner \<Rightarrow>
                  (if kind = ValidationErrorUnverifiable then fail (ErrServerError (''Server error: '' @ Error e))
                   else fail (FositeError 400 (''Invalid subject token: '' @ Error e)
                          (Some (ErrorInvalidTokenRequest (jc_Issuer claims) (jc_Subject claims)))))
              | _ \<Rightarrow> fail (ErrServerError [])))"

definition getSubjectClaims ::
    "('ast, 'expr) ext \<Rightarrow> tokext \<Rightarrow> oauth_config \<Rightarrow> ctx \<Rightarrow> string \<Rightarrow> JWTClaims dbio" where
  "getSubjectClaims X T config c token =
     bindE (validateJWT X T config c token) (\<lambda>validated.
     ret (jwt_FromMapClaims T (tok_Claims validated)))"

section \<open>Conditions and mappings\<close>

definition ClaimConditionStrategy_Eval ::
    "('ast, 'expr) ext \<Rightarrow> tokext \<Rightarrow> ctx \<Rightarrow> JWTClaims \<Rightarrow> bool dbio" where
  "ClaimConditionStrategy_Eval X T c claims =
     (if jc_Issuer claims = [] then fail (ErrMissingClaim ''iss'')
      else bindE (GetIssuerByURI X c (jc_Issuer claims)) (\<lambda>issuer.
        case iss_ClaimConditions issuer of
          Some (Some ast) \<Rightarrow>
            bindE (lift (Eval X ast [(CELVariableClaims, VMap (jwt_ToMapClaims T claims))])) (\<lambda>res.
              case res of
                VBool result \<Rightarrow> ret result
              | _ \<Rightarrow> fail ErrInvalidClaimCondition)
        | _ \<Rightarrow> ret True))"

definition MapClaims ::
    "('ast, 'expr) ext \<Rightarrow> tokext \<Rightarrow> ctx \<Rightarrow> JWTClaims \<Rightarrow> JWTClaims dbio" where
  "MapClaims X T c claims =
     (if jc_Subject claims = [] then fail (ErrMissingClaim ''sub'')
      else if jc_Issuer claims = [] then fail (ErrMissingClaim ''iss'')
      else bindE (GetIssuerByURI X c (jc_Issuer claims)) (\<lambda>issuer.
        let inputMap = jwt_ToMapClaims T claims;
            subSHA256 = hex_EncodeToString (Sum256 (bytes (jc_Subject claims)));
            inputEnv = [(CELVariableClaims, VMap inputMap), (CELVariableSubSHA256, VStr subSHA256)]
        in bindE (lift (map_values (\<lambda>v. Eval X v inputEnv) (mapping_entries (iss_ClaimMappings issuer)))) (\<lambda>outputMap.
           ret (jwt_FromMapClaims T outputMap))))"

definition getMappedSubjectClaims ::
    "('ast, 'expr) ext \<Rightarrow> tokext \<Rightarrow> ctx \<Rightarrow> JWTClaims \<Rightarrow> JWTClaims dbio" where
  "getMappedSubjectClaims X T c claims = MapClaims X T c claims"

section \<open>The token endpoint\<close>

definition populateUserInfo :: "tokext \<Rightarrow> ctx \<Rightarrow> JWTClaims \<Rightarrow> UserInfo dbio" where
  "populateUserInfo T c claims =
     tryE (LookupUserInfoByClaims c (jc_Issuer claims) (jc_Subject claims))
       (\<lambda>err. if \<not> errors_Is err ErrUserInfoNotFound then fail err
              else lift (ParseUserInfoFromClaims (jwt_ToMapClaims T claims)))
       ret"

text \<open>The subject the claim mapping may put in place of the token's.\<close>

definition mapped_subject :: "tokext \<Rightarrow> JWTClaims \<Rightarrow> JWTClaims \<Rightarrow> JWTClaims" where
  "mapped_subject T mappedClaims claims =
     (case map_of (jwt_ToMapClaims T mappedClaims) ''sub'' of
        Some (VStr substr) \<Rightarrow> claims\<lparr>jc_Subject := substr\<rparr>
      | _ \<Rightarrow> claims)"

text \<open>The ID the claim mapping may ask for; a claim that is no string panics.\<close>

definition override_ID :: "('ast, 'expr) ext \<Rightarrow> tokext \<Rightarrow> JWTClaims \<Rightarrow> UserInfo \<Rightarrow> UserInfo dbio" where
  "override_ID X T mappedClaims userInfo =
     (case map_of (jwt_ToMapClaims T mappedClaims) ClaimSubOverride of
        None \<Rightarrow> ret userInfo
      | Some VNil \<Rightarrow> ret userInfo
      | Some (VStr subOverride) \<Rightarrow>
          (if subOverride = [] then ret userInfo
           else
            (let digest = RawURLEncoding_EncodeToString (Sum256 (bytes (ui_Issuer userInfo)))
             in tryE (lift (gidx_Parse X (IdentityUserIDPrefix @ ''-'' @ digest @ ''-'' @ subOverride)))
                  (\<lambda>err. fail (ErrServerError (''could not parse overridden subject to prefixed id: '' @ Error err)))
                  (\<lambda>customPrefixedID. ret (userInfo\<lparr>ui_ID := customPrefixedID\<rparr>))))
      | Some _ \<Rightarrow> gopanic ''interface conversion'')"

fun add_claims :: "tokext \<Rightarrow> claims_map \<Rightarrow> JWTClaims \<Rightarrow> JWTClaims" where
  "add_claims T [] cl = cl"
| "add_claims T ((k, v) # m) cl = add_claims T m (if k \<noteq> ClaimSubOverride then jwt_Add T cl k v else cl)"

text \<open>The steps after the user is stored and committed: claims, header, session, audience.\<close>

definition build_session ::
    "tokext \<Rightarrow> oauth_config \<Rightarrow> JWTClaims \<Rightarrow> JWTClaims \<Rightarrow> UserInfo \<Rightarrow> access_request \<Rightarrow> access_request dbio" where
  "build_session T config claims mappedClaims userInfo requester =
     bindE (with_entropy (\<lambda>n. Ok (time_Now T n))) (\<lambda>now.
       let newClaims = JWTClaims0\<lparr>jc_Subject := ui_ID userInfo, jc_Issuer := cfg_AccessTokenIssuer config\<rparr>;
           newClaims = add_claims T (jwt_ToMapClaims T mappedClaims) newClaims;
           expiry = now + cfg_AccessTokenLifespan config;
           clientID = (if ar_ClientID requester \<noteq> [] then Some (ar_ClientID requester) else None);
           newClaims = jwt_Add T newClaims ClaimClientID (VStringPtr clientID);
           kid = cfg_SigningKeyID config;
           session = \<lparr>js_kid = kid, js_Claims = newClaims, js_ExpiresAt = expiry, js_Subject = jc_Subject claims\<rparr>
       in case ar_Session requester of
            SessOther \<Rightarrow> fail (ErrServerError ''requester session is not a jwt session'')
          | _ \<Rightarrow>
              tryE (lift (url_JoinPath T (jc_Issuer newClaims) ''userinfo''))
                (\<lambda>err. fail (ErrServerError (''failed to build userinfo audience: '' @ Error err)))
                (\<lambda>userInfoAud.
                  ret (requester\<lparr>ar_GrantedAudience := ar_GrantedAudience requester @ [userInfoAud],
                                 ar_Session := SessJWT session\<rparr>)))"

definition HandleTokenEndpointRequest ::
    "('ast, 'expr) ext \<Rightarrow> tokext \<Rightarrow> oauth_config \<Rightarrow> ctx \<Rightarrow> access_request \<Rightarrow> access_request dbio" where
  "HandleTokenEndpointRequest X T config c requester =
    (let form = ar_Form requester;
         subjectToken = Values_Get form ParamSubjectToken;
         subjectTokenType = Values_Get form ParamSubjectTokenType;
         actorToken = Values_Get form ParamActorToken
     in if subjectToken = [] then fail (ErrInvalidRequest ''Missing required parameter 'subject_token'.'')
        else if subjectTokenType = [] then fail (ErrInvalidRequest ''Missing required parameter 'subject_token_type'.'')
        else if actorToken \<noteq> [] then fail (ErrInvalidRequest ''Delegation is not supported by this handler.'')
        else if subjectTokenType \<noteq> TokenTypeJWT
        then fail (ErrInvalidRequest (''Unsupported subject token type '' @ [CHR 0x27] @ subjectTokenType @ [CHR 0x27, CHR ''.'']))
        else
          bindE (getSubjectClaims X T config c subjectToken) (\<lambda>claims.
          tryE (ClaimConditionStrategy_Eval X T c claims)
            (\<lambda>err. fail (ErrInvalidRequest (''error evaluating claim conditions: '' @ Error err)))
            (\<lambda>ok. if \<not> ok then fail (ErrInvalidRequest ''claim conditions not satisfied'') else
          tryE (getMappedSubjectClaims X T c claims)
            (\<lambda>err. fail (ErrInvalidRequest (''error mapping claims: '' @ Error err)))
            (\<lambda>mappedClaims.
              let mappedSubjectClaim = mapped_subject T mappedClaims claims in
          if \<not> cfg_HasTransactionManager config then fail (ErrServerError ''unable to find transaction manager'') else
          tryE (BeginContext c)
            (\<lambda>err. fail (ErrServerError ''could not start transaction''))
            (\<lambda>dbCtx.
          tryE (populateUserInfo T dbCtx mappedSubjectClaim)
            (\<lambda>err. fail (ErrInvalidRequest (''unable to populate user info: '' @ Error err)))
            (\<lambda>userInfo.
          bindE (override_ID X T mappedClaims userInfo) (\<lambda>userInfo.
          tryE (StoreUserInfo X dbCtx userInfo)
            (\<lambda>err. tryE (RollbackContext dbCtx)
               (\<lambda>rbErr. fail (ErrInvalidRequest
                  (''unable to store user info: '' @ Error err @ '' / rollback error: '' @ Error rbErr)))
               (\<lambda>_. fail (ErrInvalidRequest
                  (''unable to store user info: '' @ Error err @ '' / rollback error: %!s(<nil>)''))))
            (\<lambda>userInfo.
          tryE (CommitContext dbCtx)
            (\<lambda>err. fail (ErrServerError (''could not commit user info: '' @ Error err)))
            (\<lambda>_. build_session T config claims mappedClaims userInfo requester)))))))))"

definition CanSkipClientAuth :: "access_request \<Rightarrow> bool" where
  "CanSkipClientAuth requester = True"

definition CanHandleTokenEndpointRequest :: "access_request \<Rightarrow> bool" where
  "CanHandleTokenEndpointRequest requester = (ar_GrantTypes requester = [GrantTypeTokenExchange])"

section \<open>What an exchange guarantees\<close>

text \<open>What the \<open>jwt\<close> package documents of \<open>ToMapClaims\<close> and of \<open>Add\<close>.\<close>

definition jwt_law :: "tokext \<Rightarrow> bool" where
  "jwt_law T \<longleftrightarrow>
     (\<forall>cl. map_of (jwt_ToMapClaims T cl) ''sub'' = (if jc_Subject cl = [] then None else Some (VStr (jc_Subject cl)))) \<and>
     (\<forall>cl. map_of (jwt_ToMapClaims T cl) ''iss'' = (if jc_Issuer cl = [] then None else Some (VStr (jc_Issuer cl)))) \<and>
     (\<forall>cl k v. jc_Subject (jwt_Add T cl k v) = jc_Subject cl \<and> jc_Issuer (jwt_Add T cl k v) = jc_Issuer cl)"

text \<open>The token was signed with a key that the issuer of its claims publishes for signatures.\<close>

definition signed_by_issuer ::
    "('ast, 'expr) ext \<Rightarrow> tokext \<Rightarrow> tables \<Rightarrow> string \<Rightarrow> JWTClaims \<Rightarrow> bool" where
  "signed_by_issuer X T t token claims \<longleftrightarrow>
     (\<exists>tok i keys key n. jwt_ParseUnverified T token = (tok, None) \<and> claims = jwt_FromMapClaims T (tok_Claims tok) \<and>
        i \<in> set (issuers t) \<and> ir_uri i = jc_Issuer claims \<and> jc_Issuer claims \<noteq> [] \<and>
        jwks_Resolve T n (ir_jwksuri i) = Ok keys \<and> key \<in> set keys \<and> jwk_Use key = ''sig'' \<and>
        map_of (tok_Header tok) ''kid'' = Some (VStr (jwk_KeyID key)) \<and> jwt_Verify T tok key = None)"

text \<open>Lookups outside a transaction see the durable tables, and change nothing.\<close>

lemma ctx_query_none:
  assumes "ctx_tx c = CtxNil" and "ctx_query c f w = (Ok x, w')"
  shows "x = f (committed w) \<and> committed w' = committed w \<and> txs w' = txs w"
  using assms
  by (auto simp: ctx_query_def getContextTx_def go_simps db_query_def db_call_def snapshot_def split: option.splits)

lemma GetIssuerByURI_no_tx:
  assumes "ctx_tx c = CtxNil" and "GetIssuerByURI X c uri w = (Ok iss, w')"
  shows "(\<exists>i \<in> set (issuers (committed w)). ir_uri i = uri \<and> decode_issuer X i = Ok iss) \<and>
    committed w' = committed w \<and> txs w' = txs w"
proof -
  obtain rows r rs where q: "ctx_query c (select_issuer_uri uri) w = (Ok rows, w')" "rows = r # rs" "decode_issuer X r = Ok iss"
    using assms(2) by (auto simp: GetIssuerByURI_def scanIssuer_def bindE_eq_Ok tryE_eq_Ok scan_row_eq split: if_splits)
  note u = ctx_query_none [OF assms(1) q(1)]
  with q(2) have "r \<in> set (select_issuer_uri uri (committed w))" by (metis list.set_intros(1))
  then have "r \<in> set (issuers (committed w)) \<and> ir_uri r = uri" by (simp add: select_issuer_uri_def)
  with q(3) u show ?thesis by blast
qed

lemma decode_issuer_jwksuri: "decode_issuer X i = Ok iss \<Longrightarrow> iss_JWKSURI iss = ir_jwksuri i"
  by (auto simp: decode_issuer_def)

text \<open>Successful outcomes of the case distinctions on claims and headers.\<close>

lemma case_kid_Ok:
  "(case h of Some (VStr kid) \<Rightarrow> f kid | _ \<Rightarrow> fail e) w = (Ok x, w') \<longleftrightarrow> (\<exists>kid. h = Some (VStr kid) \<and> f kid w = (Ok x, w'))"
  by (simp split: option.splits gval.splits)

lemma case_bool_Ok: "(case v of VBool r \<Rightarrow> ret r | _ \<Rightarrow> fail e) w = (Ok x, w') \<longleftrightarrow> v = VBool x \<and> w' = w"
  by (auto split: gval.splits)

lemma case_found_Ok: "(case k of Some key \<Rightarrow> ret key | None \<Rightarrow> fail e) w = (Ok x, w') \<longleftrightarrow> k = Some x \<and> w' = w"
  by (auto split: option.splits)

lemma if_fail_Ok: "(if b then fail e else m) w = (Ok x, w') \<longleftrightarrow> \<not> b \<and> m w = (Ok x, w')"
  by simp

lemma findMatchingKey_Ok:
  assumes ctx: "ctx_tx c = CtxNil" and res: "findMatchingKey X T cfg c tok w = (Ok key, w')"
    and claims: "claims = jwt_FromMapClaims T (tok_Claims tok)"
  shows "(\<exists>i keys n. i \<in> set (issuers (committed w)) \<and> ir_uri i = jc_Issuer claims \<and> jc_Issuer claims \<noteq> [] \<and>
      jwks_Resolve T n (ir_jwksuri i) = Ok keys \<and> key \<in> set keys \<and> jwk_Use key = ''sig'' \<and>
      map_of (tok_Header tok) ''kid'' = Some (VStr (jwk_KeyID key))) \<and> committed w' = committed w \<and> txs w' = txs w"
proof -
  obtain iss v keys kid where v: "GetIssuerByURI X c (jc_Issuer claims) w = (Ok iss, v)"
      "jwks_Resolve T (ticks v) (iss_JWKSURI iss) = Ok keys" "w' = tick v" "jc_Issuer claims \<noteq> []"
      "map_of (tok_Header tok) ''kid'' = Some (VStr kid)"
      "find (\<lambda>key. jwk_Use key = ''sig'') (filter (\<lambda>key. jwk_KeyID key = kid) keys) = Some key"
    using res unfolding findMatchingKey_def Let_def claims [symmetric] if_fail_Ok
    by (auto simp: GetIssuerJWKSURI_def bindE_eq_Ok tryE_eq_Ok with_entropy_def case_kid_Ok case_found_Ok)
  have key: "key \<in> set (filter (\<lambda>key. jwk_KeyID key = kid) keys) \<and> jwk_Use key = ''sig''"
    using find_SomeD [OF v(6)] by simp
  obtain i where i: "i \<in> set (issuers (committed w))" "ir_uri i = jc_Issuer claims" "decode_issuer X i = Ok iss"
      "committed v = committed w" "txs v = txs w"
    using GetIssuerByURI_no_tx [OF ctx v(1)] by blast
  have "jwks_Resolve T (ticks v) (ir_jwksuri i) = Ok keys" using v(2) decode_issuer_jwksuri [OF i(3)] by simp
  with i v(3,4,5) key show ?thesis by auto
qed

lemma validateJWT_Ok:
  assumes "validateJWT X T cfg c token w = (Ok tok, w')"
  shows "\<exists>key. jwt_ParseUnverified T token = (tok, None) \<and> findMatchingKey X T cfg c tok w = (Ok key, w') \<and>
    jwt_Verify T tok key = None"
proof -
  obtain p e v where p: "jwt_Parse T token (findMatchingKey X T cfg c) w = (Ok (p, e), v)"
    and rest: "(case e of None \<Rightarrow> ret p
       | Some e \<Rightarrow>
          (let claims = jwt_FromMapClaims T (tok_Claims p)
           in case e of
                ValidationError kind inner \<Rightarrow>
                  (if kind = ValidationErrorUnverifiable then fail (ErrServerError (''Server error: '' @ Error e))
                   else fail (FositeError 400 (''Invalid subject token: '' @ Error e)
                          (Some (ErrorInvalidTokenRequest (jc_Issuer claims) (jc_Subject claims)))))
              | _ \<Rightarrow> fail (ErrServerError []))) v = (Ok tok, w')"
    using assms unfolding validateJWT_def bindE_eq_Ok by (elim exE conjE) (simp only: prod.case, fastforce)
  from rest have "e = None" "p = tok" "v = w'"
    by (cases e; simp; cases "the e"; simp add: Let_def split: if_splits)+
  with p show ?thesis
    by (cases "jwt_ParseUnverified T token"; cases "snd (jwt_ParseUnverified T token)")
      (auto simp: jwt_Parse_def tryE_eq_Ok)
qed

lemma getSubjectClaims_Ok:
  assumes ctx: "ctx_tx c = CtxNil" and res: "getSubjectClaims X T cfg c token w = (Ok claims, w')"
  shows "signed_by_issuer X T (committed w) token claims \<and> committed w' = committed w \<and> txs w' = txs w"
proof -
  obtain tok where tok: "validateJWT X T cfg c token w = (Ok tok, w')" "claims = jwt_FromMapClaims T (tok_Claims tok)"
    using res by (auto simp: getSubjectClaims_def bindE_eq_Ok)
  obtain key where key: "jwt_ParseUnverified T token = (tok, None)" "findMatchingKey X T cfg c tok w = (Ok key, w')"
      "jwt_Verify T tok key = None" using validateJWT_Ok [OF tok(1)] by blast
  from findMatchingKey_Ok [OF ctx key(2) tok(2)] key(1,3) tok(2) show ?thesis
    unfolding signed_by_issuer_def by blast
qed

text \<open>The condition the issuer puts on the claims holds.\<close>

definition conditions_hold :: "('ast, 'expr) ext \<Rightarrow> tokext \<Rightarrow> tables \<Rightarrow> JWTClaims \<Rightarrow> bool" where
  "conditions_hold X T t claims \<longleftrightarrow>
     (\<exists>i iss. i \<in> set (issuers t) \<and> ir_uri i = jc_Issuer claims \<and> decode_issuer X i = Ok iss \<and>
        (\<forall>ast. iss_ClaimConditions iss = Some (Some ast) \<longrightarrow>
           Eval X ast [(CELVariableClaims, VMap (jwt_ToMapClaims T claims))] = Ok (VBool True)))"

lemma ClaimConditionStrategy_Eval_True:
  assumes ctx: "ctx_tx c = CtxNil" and res: "ClaimConditionStrategy_Eval X T c claims w = (Ok True, w')"
  shows "conditions_hold X T (committed w) claims \<and> committed w' = committed w \<and> txs w' = txs w"
proof -
  obtain iss v where v: "GetIssuerByURI X c (jc_Issuer claims) w = (Ok iss, v)" "w' = v"
      "\<forall>ast. iss_ClaimConditions iss = Some (Some ast) \<longrightarrow>
         Eval X ast [(CELVariableClaims, VMap (jwt_ToMapClaims T claims))] = Ok (VBool True)"
    using res unfolding ClaimConditionStrategy_Eval_def if_fail_Ok bindE_eq_Ok
    by (elim exE conjE) (rule that, assumption, auto simp: bindE_eq_Ok case_bool_Ok split: option.splits)
  then show ?thesis
    using GetIssuerByURI_no_tx [OF ctx v(1)] unfolding conditions_hold_def by blast
qed

lemma MapClaims_Ok:
  assumes "ctx_tx c = CtxNil" and "getMappedSubjectClaims X T c claims w = (Ok m, w')"
  shows "committed w' = committed w \<and> txs w' = txs w \<and> jc_Subject claims \<noteq> []"
  using assms
  by (auto simp: getMappedSubjectClaims_def MapClaims_def Let_def bindE_eq_Ok split: if_splits
      dest!: GetIssuerByURI_no_tx [OF assms(1)])

lemma populateUserInfo_Ok:
  assumes law: "jwt_law T" and ctx: "ctx_tx c = CtxTx k" and lk: "tx_lookup k w = TxOpen b t"
    and res: "populateUserInfo T c claims w = (Ok ui, w')"
  shows "ui_Issuer ui = jc_Issuer claims \<and> ui_Subject ui = jc_Subject claims \<and> ui_ID ui = [] \<and>
    tx_lookup k w' = TxOpen b t \<and> committed w' = committed w"
proof -
  have parse: "ui_Issuer ui = jc_Issuer claims \<and> ui_Subject ui = jc_Subject claims \<and> ui_ID ui = []"
    if "ParseUserInfoFromClaims (jwt_ToMapClaims T claims) = Ok ui"
    using that law by (auto simp: ParseUserInfoFromClaims_def parseClaim_def Let_def jwt_law_def split: if_splits)
  have sel: "(u, i) \<in> set (select_user_claims iss sub t) \<Longrightarrow> ir_uri i = iss \<and> ur_sub u = sub" for u i iss sub
    by (auto simp: select_user_claims_def)
  have hd: "select_user_claims iss sub t = (u, i) # rs \<Longrightarrow> ir_uri i = iss \<and> ur_sub u = sub" for u i iss sub rs
    by (rule sel) simp
  show ?thesis
    using res ctx lk
    by (auto simp: populateUserInfo_def LookupUserInfoByClaims_def ctx_query_def getContextTx_def tryE_eq_Ok bindE_eq_Ok
        tx_query_def db_call_def scan_row_eq user_of_rows_def tryE_def bindE_def
        dest!: parse hd split: option.splits if_splits res.splits prod.splits)
qed

lemma override_ID_Ok:
  "override_ID X T m ui w = (Ok ui', w') \<Longrightarrow> w' = w \<and> ui_Issuer ui' = ui_Issuer ui \<and> ui_Subject ui' = ui_Subject ui"
  by (auto simp: override_ID_def Let_def tryE_eq_Ok go_simps split: option.splits gval.splits if_splits res.splits)

lemma add_claims_subject:
  "jwt_law T \<Longrightarrow> jc_Subject (add_claims T m cl) = jc_Subject cl \<and> jc_Issuer (add_claims T m cl) = jc_Issuer cl"
  by (induction T m cl rule: add_claims.induct) (auto simp: jwt_law_def)

lemma build_session_Ok:
  assumes law: "jwt_law T" and res: "build_session T cfg cl m ui req w = (Ok req', w')"
  shows "\<exists>s. ar_Session req' = SessJWT s \<and> jc_Subject (js_Claims s) = ui_ID ui \<and>
    jc_Issuer (js_Claims s) = cfg_AccessTokenIssuer cfg \<and> js_kid s = cfg_SigningKeyID cfg \<and> js_Subject s = jc_Subject cl \<and>
    js_ExpiresAt s = time_Now T (ticks w) + cfg_AccessTokenLifespan cfg \<and> committed w' = committed w"
proof -
  have add: "jc_Subject (jwt_Add T c k v) = jc_Subject c \<and> jc_Issuer (jwt_Add T c k v) = jc_Issuer c" for c k v
    using law by (simp add: jwt_law_def)
  show ?thesis
    using res add add_claims_subject [OF law]
    by (cases "ar_Session req")
      (auto simp: build_session_def Let_def bindE_eq_Ok tryE_eq_Ok with_entropy_def JWTClaims0_def)
qed

text \<open>
  The token's subject after the exchange: a user of the issuer that signed the token, with the
  subject the claim mapping gives.
\<close>

definition exchanged_user ::
    "tokext \<Rightarrow> JWTClaims \<Rightarrow> JWTClaims \<Rightarrow> tables \<Rightarrow> tables \<Rightarrow> string \<Rightarrow> bool" where
  "exchanged_user T claims mapped t t' uid \<longleftrightarrow>
     (\<exists>i u. i \<in> set (issuers t) \<and> ir_uri i = jc_Issuer claims \<and> u \<in> set (user_info t') \<and> ur_iss_id u = ir_id i \<and>
        ur_sub u = jc_Subject (mapped_subject T mapped claims) \<and> ur_id u = uid \<and>
        (t' = t \<or> t' = t\<lparr>user_info := user_info t @ [u]\<rparr>) \<and> schema_ok t' \<and>
        (\<forall>v \<in> set (user_info t). ur_sub v = ur_sub u \<and> ur_iss_id v = ir_id i \<longrightarrow> ur_id v = uid))"

lemma mapped_subject_issuer [simp]: "jc_Issuer (mapped_subject T m cl) = jc_Issuer cl"
  by (auto simp: mapped_subject_def split: option.splits gval.splits)

lemma BeginContext_Ok:
  assumes "BeginContext c w = (Ok c', w')"
  shows "\<exists>k. ctx_tx c' = CtxTx k \<and> tx_lookup k w' = TxOpen (committed w) (committed w) \<and> committed w' = committed w"
  using assms
  by (cases "faults w (ticks w)")
    (auto simp: BeginContext_def beginTxContext_cases tx_lookup_def intro!: exI [of _ "length (txs w)"])

lemma CommitContext_Ok:
  assumes "CommitContext c w = (Ok u, w')" and "ctx_tx c = CtxTx k" and "tx_lookup k w = TxOpen b t"
  shows "committed w' = t"
  using assms(1)
  by (cases "faults w (ticks w)")
    (auto simp: CommitContext_def commitContextTx_def getContextTx_def assms(2) go_simps tx_Commit_cases [OF assms(3)] split: if_splits)

text \<open>From the claims on: the part of the exchange that runs in a transaction.\<close>

lemma exchange_tx:
  assumes law: "jwt_law T" and ok: "schema_ok (committed w)"
    and b: "BeginContext c w = (Ok c', w1)" and p: "populateUserInfo T c' (mapped_subject T m claims) w1 = (Ok ui, w2)"
    and o': "override_ID X T m ui w2 = (Ok ui2, w3)" and s: "StoreUserInfo X c' ui2 w3 = (Ok ui3, w4)"
    and cm: "CommitContext c' w4 = (Ok (), w5)"
  shows "exchanged_user T claims m (committed w) (committed w5) (ui_ID ui3)"
proof -
  obtain k where k: "ctx_tx c' = CtxTx k" "tx_lookup k w1 = TxOpen (committed w) (committed w)" "committed w1 = committed w"
    using BeginContext_Ok [OF b] by blast
  have ui: "ui_Issuer ui = jc_Issuer claims" "ui_Subject ui = jc_Subject (mapped_subject T m claims)"
      "tx_lookup k w2 = TxOpen (committed w) (committed w)"
    using populateUserInfo_Ok [OF law k(1,2) p] by auto
  have w3: "w3 = w2" "ui_Issuer ui2 = ui_Issuer ui" "ui_Subject ui2 = ui_Subject ui"
    using override_ID_Ok [OF o'] by auto
  obtain t' i u where u: "tx_lookup k w4 = TxOpen (committed w) t'" "i \<in> set (issuers (committed w))"
      "ir_uri i = ui_Issuer ui2" "u \<in> set (user_info t')" "ur_iss_id u = ir_id i"
      "ur_sub u = ui_Subject ui2" "ui3 = ui2\<lparr>ui_ID := ur_id u\<rparr>"
      "t' = committed w \<or> t' = (committed w)\<lparr>user_info := user_info (committed w) @ [u]\<rparr>" "schema_ok t'"
      "\<forall>v \<in> set (user_info (committed w)). schema_ok (committed w) \<and> ur_sub v = ui_Subject ui2 \<and> ur_iss_id v = ir_id i
        \<longrightarrow> ur_id u = ur_id v"
    using StoreUserInfo_Ok [OF k(1) ui(3) [folded w3(1)] s] by (elim exE conjE) (rule that)
  have "committed w5 = t'" by (rule CommitContext_Ok [OF cm k(1) u(1)])
  then show ?thesis
    unfolding exchanged_user_def using u ui(1,2) w3(2,3) ok by (intro exI [of _ i] exI [of _ u]) simp
qed

lemma exchange_Ok:
  assumes law: "jwt_law T" and ctx: "ctx_tx c = CtxNil" and ok: "schema_ok (committed w)"
    and res: "HandleTokenEndpointRequest X T cfg c req w = (Ok req', w')"
  shows "\<exists>claims mapped s. signed_by_issuer X T (committed w) (Values_Get (ar_Form req) ParamSubjectToken) claims \<and>
    conditions_hold X T (committed w) claims \<and> ar_Session req' = SessJWT s \<and>
    jc_Issuer (js_Claims s) = cfg_AccessTokenIssuer cfg \<and>
    exchanged_user T claims mapped (committed w) (committed w') (jc_Subject (js_Claims s))"
proof -
  obtain claims v1 v2 mapped v3 c' v4 ui v5 ui2 v6 ui3 v7 v8 where
    st: "getSubjectClaims X T cfg c (Values_Get (ar_Form req) ParamSubjectToken) w = (Ok claims, v1)"
      "ClaimConditionStrategy_Eval X T c claims v1 = (Ok True, v2)"
      "getMappedSubjectClaims X T c claims v2 = (Ok mapped, v3)" "BeginContext c v3 = (Ok c', v4)"
      "populateUserInfo T c' (mapped_subject T mapped claims) v4 = (Ok ui, v5)"
      "override_ID X T mapped ui v5 = (Ok ui2, v6)" "StoreUserInfo X c' ui2 v6 = (Ok ui3, v7)"
      "CommitContext c' v7 = (Ok (), v8)" "build_session T cfg claims mapped ui3 req v8 = (Ok req', w')"
    using res unfolding HandleTokenEndpointRequest_def Let_def if_fail_Ok
    by (auto simp: bindE_eq_Ok tryE_eq_Ok if_fail_Ok split: if_splits)
  note c1 = getSubjectClaims_Ok [OF ctx st(1)]
  note c2 = ClaimConditionStrategy_Eval_True [OF ctx st(2)]
  note c3 = MapClaims_Ok [OF ctx st(3)]
  obtain s where s: "ar_Session req' = SessJWT s" "jc_Subject (js_Claims s) = ui_ID ui3"
      "jc_Issuer (js_Claims s) = cfg_AccessTokenIssuer cfg" "committed w' = committed v8"
    using build_session_Ok [OF law st(9)] by blast
  have "committed v3 = committed w" using c1 c2 c3 by simp
  moreover from this have "exchanged_user T claims mapped (committed v3) (committed v8) (ui_ID ui3)"
    using exchange_tx [OF law _ st(4-8)] ok by simp
  ultimately show ?thesis using s c1 c2 by (intro exI [of _ claims] exI [of _ mapped] exI [of _ s]) simp
qed

end
