(* ===== verification/TokenEndpoint.thy ===== *)
theory TokenEndpoint
  imports TokenExchange ClientStore
begin

text \<open>
  The rest of the token endpoint: the client credentials grant, \<open>src/internal/oauth2\<close>, the response
  of the token exchange grant, \<open>src/internal/rfc8693\<close>, the handler of \<open>/token\<close> with the audit data it
  leaves, \<open>src/internal/routes/exchange.go\<close> and \<open>src/internal/auditx\<close>, and the keys tokens are
  signed with, \<open>src/internal/fositex/fosite.go\<close>.

  The record \<open>provext\<close> holds what is called of fosite and of the cryptographic libraries. The session
  of a request is a pointer the handlers write through; the model returns the request as it is
  left.
\<close>

section \<open>Libraries\<close>

record access_response =
  resp_AccessToken :: string
  resp_IssuedTokenType :: string
  resp_TokenType :: string
  resp_ExpiresIn :: int

record provext =
  fosite_GetEffectiveLifespan :: "OAuthClient \<Rightarrow> int \<Rightarrow> int"
  fosite_AudienceStrategy :: "string list \<Rightarrow> string list \<Rightarrow> goerr option"
  fosite_GenerateAccessToken :: "nat \<Rightarrow> access_request \<Rightarrow> string res"
  fosite_IssueAccessToken :: "nat \<Rightarrow> int \<Rightarrow> access_request \<Rightarrow> access_response res"
  fosite_ErrorStatus :: "goerr \<Rightarrow> int option"
  os_ReadFile :: "string \<Rightarrow> string res"
  pem_Decode :: "string \<Rightarrow> (string \<times> string) option \<times> string"
  x509_ParsePKCS8PrivateKey :: "string \<Rightarrow> (string \<times> string) res"

section \<open>Client credentials\<close>

definition GrantTypeClientCredentials :: string where "GrantTypeClientCredentials = ''client_credentials''"

text \<open>\<open>request.GetSession().(*oauth2.JWTSession)\<close> panics when the session is of another type.\<close>

definition ClientCredentials_HandleTokenEndpointRequest ::
    "('ast, 'expr) ext \<Rightarrow> tokext \<Rightarrow> provext \<Rightarrow> oauth_config \<Rightarrow> OAuthClient \<Rightarrow> access_request \<Rightarrow> access_request dbio" where
  "ClientCredentials_HandleTokenEndpointRequest X T P config client request =
     (if IsPublic client
      then fail (FositeError 400 ''The OAuth 2.0 Client is marked as public and is not allowed to use authorization grant 'client_credentials'.'' None)
      else
       (let resources = (case map_of (ar_Form request) ''resource'' of None \<Rightarrow> [] | Some rs \<Rightarrow> rs)
        in case fosite_AudienceStrategy P (GetAudience client) resources of
             Some err \<Rightarrow> fail err
           | None \<Rightarrow>
              (let request = request\<lparr>ar_GrantedAudience := ar_GrantedAudience request @ resources\<rparr>;
                   atLifespan = fosite_GetEffectiveLifespan P client (cfg_AccessTokenLifespan config)
               in case ar_Session request of
                    SessJWT session \<Rightarrow>
                      bindE (lift (gidx_Parse X (GetID client))) (\<lambda>clientID.
                      bindE (with_entropy (\<lambda>n. Ok (time_Now T n))) (\<lambda>now.
                        let claims = jwt_Add T JWTClaims0 ClaimClientID (VStr clientID);
                            session = session\<lparr>js_kid := cfg_SigningKeyID config,
                                              js_ExpiresAt := now + atLifespan,
                                              js_Claims := claims\<lparr>jc_Subject := clientID\<rparr>\<rparr>
                        in ret (request\<lparr>ar_Session := SessJWT session\<rparr>)))
                  | _ \<Rightarrow> gopanic ''interface conversion'')))"

definition ClientCredentials_CanSkipClientAuth :: "access_request \<Rightarrow> bool" where
  "ClientCredentials_CanSkipClientAuth requester = False"

definition ClientCredentials_CanHandleTokenEndpointRequest :: "access_request \<Rightarrow> bool" where
  "ClientCredentials_CanHandleTokenEndpointRequest requester =
     (ar_GrantTypes requester = [GrantTypeClientCredentials])"

definition ErrUnknownRequest :: goerr where "ErrUnknownRequest = FositeError 400 [] None"
definition BearerAccessToken :: string where "BearerAccessToken = ''bearer''"

text \<open>\<open>IssueAccessToken\<close> of fosite's \<open>HandleHelper\<close> fills the response with the token it generates.\<close>

definition ClientCredentials_PopulateTokenEndpointResponse ::
    "provext \<Rightarrow> oauth_config \<Rightarrow> OAuthClient \<Rightarrow> access_request \<Rightarrow> access_response dbio" where
  "ClientCredentials_PopulateTokenEndpointResponse P config client request =
     (if \<not> ClientCredentials_CanHandleTokenEndpointRequest request then fail ErrUnknownRequest
      else with_entropy (\<lambda>n. fosite_IssueAccessToken P n
             (fosite_GetEffectiveLifespan P client (cfg_AccessTokenLifespan config)) request))"

section \<open>Response of a token exchange\<close>

definition PopulateTokenEndpointResponse :: "provext \<Rightarrow> oauth_config \<Rightarrow> access_request \<Rightarrow> access_response dbio" where
  "PopulateTokenEndpointResponse P config requester =
     (if \<not> CanHandleTokenEndpointRequest requester then fail ErrUnknownRequest
      else bindE (with_entropy (\<lambda>n. fosite_GenerateAccessToken P n requester)) (\<lambda>token.
        ret \<lparr>resp_AccessToken = token, resp_IssuedTokenType = TokenTypeJWT,
             resp_TokenType = BearerAccessToken, resp_ExpiresIn = cfg_AccessTokenLifespan config\<rparr>))"

section \<open>Audit data and the handler of the token endpoint\<close>

text \<open>The values of an echo context under the two keys of \<open>auditx\<close>.\<close>

record audit_ctx =
  au_outcome :: "string option"
  au_subject :: "(string \<times> string) list option"

definition SetSubject :: "(string \<times> string) list \<Rightarrow> audit_ctx \<Rightarrow> audit_ctx" where
  "SetSubject subject c = c\<lparr>au_subject := Some subject\<rparr>"

definition getSubject :: "audit_ctx \<Rightarrow> (string \<times> string) list option" where
  "getSubject c = (case au_subject c of None \<Rightarrow> None | Some s \<Rightarrow> Some s)"

definition SetOutcome :: "string \<Rightarrow> audit_ctx \<Rightarrow> audit_ctx" where
  "SetOutcome outcome c = c\<lparr>au_outcome := Some outcome\<rparr>"

definition getOutcome :: "string \<Rightarrow> audit_ctx \<Rightarrow> string" where
  "getOutcome dflt c = (case au_outcome c of None \<Rightarrow> dflt | Some s \<Rightarrow> s)"

definition OutcomeSucceeded :: string where "OutcomeSucceeded = ''succeeded''"
definition OutcomeDenied :: string where "OutcomeDenied = ''denied''"
definition OutcomeFailed :: string where "OutcomeFailed = ''failed''"

definition getOutcomeFromError :: "provext \<Rightarrow> goerr \<Rightarrow> string" where
  "getOutcomeFromError P err =
     (case fosite_ErrorStatus P err of
        None \<Rightarrow> OutcomeFailed
      | Some status \<Rightarrow>
          (if 400 \<le> status \<and> status < 500 then OutcomeDenied
           else if 500 \<le> status then OutcomeFailed
           else OutcomeSucceeded))"

text \<open>\<open>errors.As(err, &tokErr)\<close>: the first \<open>ErrorInvalidTokenRequest\<close> of the chain.\<close>

fun as_invalid_token_request :: "goerr \<Rightarrow> (string \<times> string) list option" where
  "as_invalid_token_request (ErrorInvalidTokenRequest iss sub) = Some [(''issuer'', iss), (''subject'', sub)]"
| "as_invalid_token_request (FositeError c h (Some cause)) = as_invalid_token_request cause"
| "as_invalid_token_request _ = None"

definition setContextFromError :: "provext \<Rightarrow> goerr \<Rightarrow> audit_ctx \<Rightarrow> audit_ctx" where
  "setContextFromError P err c =
    (let c = SetOutcome (getOutcomeFromError P err) c
     in case as_invalid_token_request err of None \<Rightarrow> c | Some subj \<Rightarrow> SetSubject subj c)"

text \<open>
  The handler, for the provider's two calls: what it writes and the audit data it leaves. It returns
  \<open>nil\<close> in every case. A request comes with its client; its session is the one the handler made.
\<close>

datatype token_reply = WriteAccessError goerr | WriteAccessResponse access_response

type_synonym access_requester = "OAuthClient \<times> access_request"

definition tokenHandler_Handle ::
    "provext \<Rightarrow> access_requester dbio \<Rightarrow> (access_requester \<Rightarrow> access_response dbio) \<Rightarrow> audit_ctx \<Rightarrow> (token_reply \<times> audit_ctx) dbio" where
  "tokenHandler_Handle P newAccessRequest newAccessResponse c =
     tryE newAccessRequest
       (\<lambda>err. ret (WriteAccessError err, setContextFromError P err c))
       (\<lambda>accessRequest.
         case ar_Session (snd accessRequest) of
           SessJWT session \<Rightarrow>
             (let c = SetSubject [(''subject'', jc_Subject (js_Claims session))] c
              in tryE (newAccessResponse accessRequest)
                   (\<lambda>err. ret (WriteAccessError err, c))
                   (\<lambda>response. ret (WriteAccessResponse response, c)))
         | _ \<Rightarrow> gopanic ''nil pointer dereference'')"

section \<open>Signing keys\<close>

record PrivateKey =
  pk_KeyID :: string
  pk_Algorithm :: string
  pk_Path :: string

record signing_jwk =
  sj_Kind :: string
  sj_Key :: string
  sj_KeyID :: string
  sj_Algorithm :: string

definition readSymmetricKey :: "provext \<Rightarrow> string \<Rightarrow> (string \<times> string) res" where
  "readSymmetricKey P path = bindR (os_ReadFile P path) (\<lambda>bs. Ok (''symmetric'', bs))"

text \<open>The instance of \<open>readAsymmetricKey\<close> at \<open>*rsa.PrivateKey\<close>; a parsed key is its kind and its
  material.\<close>

definition readAsymmetricKey :: "provext \<Rightarrow> string \<Rightarrow> (string \<times> string) res" where
  "readAsymmetricKey P path =
     bindR (os_ReadFile P path) (\<lambda>bs.
       case pem_Decode P bs of
         (None, rest) \<Rightarrow> Err (ErrInvalidKey ''invalid private key'')
       | (Some (typ, block), rest) \<Rightarrow>
          (if typ \<noteq> ''PRIVATE KEY'' then Err (ErrInvalidKey ''invalid private key'')
           else if rest \<noteq> [] then Err (ErrInvalidKey ''extra data in private key'')
           else bindR (x509_ParsePKCS8PrivateKey P block) (\<lambda>key.
             if fst key \<noteq> ''rsa'' then Err (ErrInvalidKey ''key is not a valid signing key'')
             else Ok key)))"

definition readPrivateKey :: "provext \<Rightarrow> PrivateKey \<Rightarrow> signing_jwk res" where
  "readPrivateKey P key =
     bindR (if pk_Algorithm key \<in> {''RS256'', ''RS384'', ''RS512''} then readAsymmetricKey P (pk_Path key)
            else if pk_Algorithm key \<in> {''HS256'', ''HS384'', ''HS512''} then readSymmetricKey P (pk_Path key)
            else Err (ErrInvalidKey (''unsupported private key type '' @ pk_Algorithm key))) (\<lambda>rawKey.
     Ok \<lparr>sj_Kind = fst rawKey, sj_Key = snd rawKey, sj_KeyID = pk_KeyID key, sj_Algorithm = pk_Algorithm key\<rparr>)"

definition parsePrivateKeys :: "provext \<Rightarrow> PrivateKey list \<Rightarrow> (signing_jwk \<times> signing_jwk list) res" where
  "parsePrivateKeys P keys =
     (case keys of
        [] \<Rightarrow> Err (ErrInvalidKey ''no private keys provided'')
      | first # others \<Rightarrow>
          bindR (readPrivateKey P first) (\<lambda>signingKey.
          bindR (traverse (readPrivateKey P) others) (\<lambda>jwks.
          Ok (signingKey, signingKey # jwks))))"

record OAuthConfigFile =
  of_Issuer :: string
  of_AccessTokenLifespan :: int
  of_Secret :: string
  of_PrivateKeys :: "PrivateKey list"

record OAuth2Config =
  oc2_AccessTokenIssuer :: string
  oc2_AccessTokenLifespan :: int
  oc2_GlobalSecret :: string
  oc2_SigningKey :: signing_jwk
  oc2_SigningJWKS :: "signing_jwk list"
  oc2_userInfoAudience :: string

text \<open>Durations are counted in seconds.\<close>

definition NewOAuth2Config :: "tokext \<Rightarrow> provext \<Rightarrow> OAuthConfigFile \<Rightarrow> OAuth2Config res" where
  "NewOAuth2Config T P config =
     bindR (parsePrivateKeys P (of_PrivateKeys config)) (\<lambda>(signingKey, jwks).
     bindR (url_JoinPath T (of_Issuer config) ''userinfo'') (\<lambda>userInfoAudience.
     Ok \<lparr>oc2_AccessTokenIssuer = of_Issuer config, oc2_AccessTokenLifespan = of_AccessTokenLifespan config,
         oc2_GlobalSecret = of_Secret config, oc2_SigningKey = signingKey, oc2_SigningJWKS = jwks,
         oc2_userInfoAudience = userInfoAudience\<rparr>))"

section \<open>Facts\<close>

lemma client_credentials_Ok:
  assumes "ClientCredentials_HandleTokenEndpointRequest X T P cfg client req w = (Ok req', w')"
    and add: "\<forall>cl k v. jc_Issuer (jwt_Add T cl k v) = jc_Issuer cl"
  shows "fosite_AudienceStrategy P (oc_Audience client) (case map_of (ar_Form req) ''resource'' of None \<Rightarrow> [] | Some rs \<Rightarrow> rs) = None \<and>
    ar_GrantedAudience req' = ar_GrantedAudience req @ (case map_of (ar_Form req) ''resource'' of None \<Rightarrow> [] | Some rs \<Rightarrow> rs) \<and>
    (\<exists>cid s. gidx_Parse X (oc_ID client) = Ok cid \<and> ar_Session req' = SessJWT s \<and> jc_Subject (js_Claims s) = cid \<and>
       js_kid s = cfg_SigningKeyID cfg \<and>
       js_ExpiresAt s = time_Now T (ticks w) + fosite_GetEffectiveLifespan P client (cfg_AccessTokenLifespan cfg)) \<and>
    committed w' = committed w \<and> txs w' = txs w"
  using assms
  by (cases "ar_Session req")
    (auto simp: ClientCredentials_HandleTokenEndpointRequest_def Let_def GetAudience_def GetID_def bindE_eq_Ok with_entropy_def
      gopanic_def split: option.splits if_splits)

lemma parsePrivateKeys_Ok:
  assumes "parsePrivateKeys P keys = Ok (k, ks)"
  shows "keys \<noteq> [] \<and> ks \<noteq> [] \<and> k = hd ks \<and> map sj_KeyID ks = map pk_KeyID keys"
proof -
  obtain k0 rest where keys: "keys = k0 # rest" using assms by (cases keys) (auto simp: parsePrivateKeys_def)
  then obtain ks' where ks: "readPrivateKey P k0 = Ok k" "traverse (readPrivateKey P) rest = Ok ks'" "ks = k # ks'"
    using assms by (auto simp: parsePrivateKeys_def)
  have id: "readPrivateKey P x = Ok j \<Longrightarrow> sj_KeyID j = pk_KeyID x" for x j
    by (auto simp: readPrivateKey_def)
  have "map sj_KeyID ks' = map pk_KeyID rest"
    by (rule nth_equalityI) (simp_all add: traverse_Ok_length [OF ks(2)] traverse_Ok_nth [OF ks(2)] id)
  with keys ks id show ?thesis by auto
qed

end
