(* ===== verification/ServiceInvariant.thy ===== *)
theory ServiceInvariant
  imports PermissionSync TokenEndpoint
begin

section \<open>Frames of the token exchange\<close>

lemma gval_frame:
  assumes "frame R a1" "\<And>x. frame R (a2 x)" "\<And>x. frame R (a3 x)" "\<And>x. frame R (a4 x)" "\<And>x. frame R (a5 x)"
    "\<And>x. frame R (a6 x)" "\<And>x. frame R (a7 x)"
  shows "frame R (case v of VNil \<Rightarrow> a1 | VStr x \<Rightarrow> a2 x | VBool x \<Rightarrow> a3 x | VInt x \<Rightarrow> a4 x | VList x \<Rightarrow> a5 x | VMap x \<Rightarrow> a6 x | VStringPtr x \<Rightarrow> a7 x)"
  using assms by (cases v) simp_all

lemma session_frame:
  assumes "frame R a1" "\<And>x. frame R (a2 x)" "frame R a3"
  shows "frame R (case v of SessNil \<Rightarrow> a1 | SessJWT x \<Rightarrow> a2 x | SessOther \<Rightarrow> a3)"
  using assms by (cases v) simp_all

lemma GetIssuerJWKSURI_frames [frame_rules]:
  "frame (evolve o') (GetIssuerJWKSURI X c s)" "frame silent (GetIssuerJWKSURI X c s)"
  unfolding GetIssuerJWKSURI_def by (intro frame_rules)+

lemma findMatchingKey_frames [frame_rules]:
  "frame (evolve o') (findMatchingKey X T cfg c tok)" "frame silent (findMatchingKey X T cfg c tok)"
  unfolding findMatchingKey_def Let_def by (intro frame_rules gval_frame)+

lemma validateJWT_frames [frame_rules]:
  "frame (evolve o') (validateJWT X T cfg c tok)" "frame silent (validateJWT X T cfg c tok)"
  unfolding validateJWT_def jwt_Parse_def Let_def
  by (intro frame_rules; (simp split: goerr.split)?; (intro allI conjI impI)?; intro frame_rules)+

lemma exchange_step_frames [frame_rules]:
  "frame (evolve o') (getSubjectClaims X T cfg c tok)" "frame silent (getSubjectClaims X T cfg c tok)"
  "frame (evolve o') (ClaimConditionStrategy_Eval X T c cl)" "frame silent (ClaimConditionStrategy_Eval X T c cl)"
  "frame (evolve o') (getMappedSubjectClaims X T c cl)" "frame silent (getMappedSubjectClaims X T c cl)"
  "frame (evolve o') (populateUserInfo T c cl)" "frame silent (populateUserInfo T c cl)"
  "frame (evolve o') (override_ID X T m ui)" "frame silent (override_ID X T m ui)"
  unfolding getSubjectClaims_def ClaimConditionStrategy_Eval_def getMappedSubjectClaims_def MapClaims_def
    populateUserInfo_def override_ID_def Let_def
  by (intro frame_rules gval_frame)+

lemma build_session_frames [frame_rules]:
  "frame (evolve o') (build_session T cfg cl m ui req)" "frame silent (build_session T cfg cl m ui req)"
  unfolding build_session_def Let_def
  by (intro frame_rules session_frame)+

section \<open>The schema holds everywhere\<close>

text \<open>Every version of the tables there is satisfies the schema: the durable one and the view of each
  open transaction.\<close>

fun tx_ok :: "tx \<Rightarrow> bool" where
  "tx_ok TxDone = True"
| "tx_ok (TxOpen b t) = schema_ok t"

definition world_ok :: "world \<Rightarrow> bool" where
  "world_ok w \<longleftrightarrow> schema_ok (committed w) \<and> list_all tx_ok (txs w)"

definition keeps :: "world \<Rightarrow> world \<Rightarrow> bool" where
  "keeps w w' \<longleftrightarrow> (world_ok w \<longrightarrow> world_ok w') \<and> healthy w' = healthy w"

interpretation kp: frame_rel keeps
  by unfold_locales (auto simp: keeps_def)

lemma evolve_keeps: "evolve o' w w' \<Longrightarrow> keeps w w'"
proof -
  assume ev: "evolve o' w w'"
  have "tx_ok (txs w' ! j)" if "j < length (txs w)" "tx_ok (txs w ! j)" for j
    using ev that by (cases "txs w ! j"; cases "txs w' ! j") (auto simp: evolve_def split: if_splits)
  with ev show ?thesis by (auto simp: keeps_def world_ok_def evolve_def healthy_def list_all_length)
qed

lemma frame_keeps: "frame (evolve o') m \<Longrightarrow> frame keeps m"
  by (auto simp: frame_def intro: evolve_keeps)

lemma BeginContext_keeps: "frame keeps (BeginContext c)"
  by (auto simp: frame_def BeginContext_def beginTxContext_cases keeps_def world_ok_def healthy_def split: option.splits)

lemma list_all_update: "list_all P xs \<Longrightarrow> P x \<Longrightarrow> list_all P (xs[i := x])"
  by (auto simp: list_all_iff dest: set_update_subset_insert [THEN subsetD])

lemma CommitContext_keeps: "frame keeps (CommitContext c)"
proof (rule frameI)
  fix w
  show "keeps w (snd (CommitContext c w))"
  proof (cases "ctx_tx c")
    case (CtxTx i)
    show ?thesis
    proof (cases "tx_lookup i w")
      case (TxOpen b t)
      then have "world_ok w \<Longrightarrow> schema_ok t"
        using tx_lookup_Open [OF TxOpen] by (auto simp: world_ok_def list_all_length tx_lookup_def)
      with CtxTx TxOpen show ?thesis
        by (auto simp: CommitContext_def commitContextTx_def getContextTx_def go_simps tx_Commit_cases keeps_def world_ok_def
            healthy_def list_all_update split: option.splits)
    next
      case TxDone
      with CtxTx show ?thesis
        by (simp add: CommitContext_def commitContextTx_def getContextTx_def go_simps tx_Commit_def kp.frame_refl)
    qed
  qed (simp_all add: CommitContext_def commitContextTx_def getContextTx_def go_simps kp.frame_refl)
qed

lemma send_status_keeps: "keeps w (send_status n w)"
  by (simp add: keeps_def world_ok_def healthy_def)

lemma eCtx_Error_keeps: "frame keeps (eCtx_Error X e)"
  by (simp add: frame_def eCtx_Error_def send_status_keeps)

lemma VisitResponse_keeps: "frame keeps (VisitResponse b)"
  by (auto simp: frame_def VisitResponse_def keeps_def world_ok_def healthy_def split: option.splits)

lemmas keeps_rules = kp.closed BeginContext_keeps CommitContext_keeps eCtx_Error_keeps VisitResponse_keeps
  frame_keeps [OF rollback_evolve] frame_keeps [OF ssi_call_evolve]
  frame_keeps [OF exchange_step_frames(1)] frame_keeps [OF exchange_step_frames(3)] frame_keeps [OF exchange_step_frames(5)]
  frame_keeps [OF exchange_step_frames(7)] frame_keeps [OF exchange_step_frames(9)] frame_keeps [OF build_session_frames(1)]
  frame_keeps [OF StoreUserInfo_evolve] frame_keeps [OF seed_loop_frames(1)]

lemma serve_keeps: "frame keeps (serve X req c)"
  unfolding serve_def api_handle_def storageMiddleware_def strictHandler_eq by (intro keeps_rules)

lemma HandleTokenEndpointRequest_keeps: "frame keeps (HandleTokenEndpointRequest X T cfg c req)"
  unfolding HandleTokenEndpointRequest_def Let_def by (intro keeps_rules)

lemma seedDatabase_keeps: "frame keeps (seedDatabase X c seeds)"
  unfolding seedDatabase_def
  by (intro keeps_rules frame_keeps [OF rollback_evolve [unfolded RollbackContext_def]]
      BeginContext_keeps [unfolded BeginContext_def] CommitContext_keeps [unfolded CommitContext_def])

end
