(* ===== verification/NoPanic.thy ===== *)
theory NoPanic
  imports ServiceInvariant
begin

text \<open>
  No request to the management API panics, and each one closes the transaction it began, provided the
  libraries it calls do not panic themselves.
\<close>

section \<open>Calls that do not panic\<close>

definition calm :: "'a res \<Rightarrow> bool" where
  "calm r \<longleftrightarrow> (\<forall>s. r \<noteq> Panic s)"

definition tame :: "'a dbio \<Rightarrow> bool" where
  "tame m \<longleftrightarrow> (\<forall>w. calm (fst (m w)))"

named_theorems tame_rules \<open>closure rules for calls that do not panic\<close>

lemma calm_simps [simp]: "calm (Ok a)" "calm (Err e)" "\<not> calm (Panic s)"
  by (simp_all add: calm_def)

lemma calm_bindR: "calm r \<Longrightarrow> (\<And>a. calm (f a)) \<Longrightarrow> calm (bindR r f)"
  by (cases r) simp_all

lemma calm_traverse: "(\<And>x. calm (f x)) \<Longrightarrow> calm (traverse f xs)"
  by (induction xs) (auto intro!: calm_bindR)

lemma calm_map_values: "(\<And>v. calm (f v)) \<Longrightarrow> calm (map_values f m)"
  unfolding map_values_def by (intro calm_traverse) (auto intro: calm_bindR)

lemma tame_basic [tame_rules]: "tame (ret a)" "tame (fail e)" "tame get"
  by (simp_all add: tame_def go_simps)

lemma tame_lift [tame_rules]: "calm r \<Longrightarrow> tame (lift r)"
  by (simp add: tame_def lift_def)

lemma tame_tryE [tame_rules]: "tame m \<Longrightarrow> (\<And>e. tame (h e)) \<Longrightarrow> (\<And>a. tame (f a)) \<Longrightarrow> tame (tryE m h f)"
  unfolding tame_def tryE_def
proof (intro allI)
  fix w
  assume a: "\<forall>w. calm (fst (m w))" "\<And>e. \<forall>w. calm (fst (h e w))" "\<And>a. \<forall>w. calm (fst (f a w))"
  obtain r v where "m w = (r, v)" by fastforce
  with a(1) [rule_format, of w] a(2,3)
  show "calm (fst (case m w of (Ok x, xa) \<Rightarrow> f x xa | (Err e, xa) \<Rightarrow> h e xa | (Panic s, w') \<Rightarrow> (Panic s, w')))"
    by (cases r) simp_all
qed

lemma tame_bindE [tame_rules]: "tame m \<Longrightarrow> (\<And>a. tame (f a)) \<Longrightarrow> tame (bindE m f)"
  unfolding bindE_tryE by (intro tame_rules)

lemma tame_cases [tame_rules]:
  "tame m \<Longrightarrow> tame n \<Longrightarrow> tame (if b then m else n)"
  "tame m \<Longrightarrow> (\<And>a. tame (f a)) \<Longrightarrow> tame (case x of None \<Rightarrow> m | Some a \<Rightarrow> f a)"
  "(\<And>a b. tame (g a b)) \<Longrightarrow> tame (case y of (a, b) \<Rightarrow> g a b)"
  "(\<And>a. tame (h a)) \<Longrightarrow> tame (let a = z in h a)"
  by (auto split: option.splits prod.splits simp: Let_def)

lemma tame_stmt [tame_rules]:
  "tame (tx_exec i f)" "tame (tx_query i g)" "tame (db_query at h)" "tame (db_query_rows at k)" "tame (scan_row rs)"
  "tame (tx_exec_check i chk f)" "tame (page_query fv cols col rf)"
  by (auto simp: tame_def tx_exec_def tx_query_def db_query_def db_query_rows_def scan_row_def tx_exec_check_def page_query_def
      db_call_def go_simps split: tx.splits option.splits prod.splits list.splits)

lemma tame_entropy: "(\<And>n. calm (f n)) \<Longrightarrow> tame (with_entropy f)"
  by (simp add: tame_def with_entropy_def)

definition ctx_fine :: "ctx \<Rightarrow> bool" where
  "ctx_fine c \<longleftrightarrow> ctx_tx c \<noteq> CtxOther"

lemma tame_context [tame_rules]:
  assumes "ctx_fine c"
  shows "tame (getContextTx c)" "tame (ctx_query c f)" "tame (CommitContext c)" "tame (RollbackContext c)"
proof -
  show g: "tame (getContextTx c)"
    using assms by (cases "ctx_tx c") (simp_all add: ctx_fine_def getContextTx_def tame_rules)
  show "tame (ctx_query c f)" unfolding ctx_query_def by (intro tame_rules g)
  have "tame (tx_Commit i)" "tame (tx_Rollback i)" for i
    by (auto simp: tame_def tx_Commit_def tx_Rollback_def db_call_def split: tx.splits option.splits)
  then show "tame (CommitContext c)" "tame (RollbackContext c)"
    unfolding CommitContext_def commitContextTx_def RollbackContext_def rollbackContextTx_def
    by (simp_all add: tame_bindE g)
qed

text \<open>No library function panics.\<close>

definition ext_calm :: "('ast, 'expr) ext \<Rightarrow> bool" where
  "ext_calm X \<longleftrightarrow> (\<forall>s. calm (gidx_Parse X s)) \<and> (\<forall>p n. calm (gidx_NewID X p n)) \<and> (\<forall>a. calm (cel_AstToString X a)) \<and>
     (\<forall>a. calm (cel_AstToCheckedExpr X a)) \<and> (\<forall>e. calm (prototext_Marshal X e)) \<and> (\<forall>s. calm (prototext_Unmarshal X s)) \<and>
     (\<forall>n s. calm (hasher_Hash X n s)) \<and>
     (\<forall>n k. calm (randx_RuneSequence X n k))"

lemma calm_ext:
  assumes "ext_calm X"
  shows "calm (gidx_Parse X s)" "calm (gidx_NewID X p n)" "calm (cel_AstToString X a)" "calm (cel_AstToCheckedExpr X a)"
    "calm (prototext_Marshal X e)" "calm (prototext_Unmarshal X s)"
    "calm (hasher_Hash X n s)" "calm (randx_RuneSequence X n k)"
  using assms by (simp_all add: ext_calm_def)

lemma calm_types:
  assumes "ext_calm X"
  shows "calm (NewClaimsMapping X m)" "calm (NewClaimConditions X s)" "calm (ClaimsMapping_MarshalJSON X cm)"
    "calm (ClaimsMapping_UnmarshalJSON X s)" "calm (ClaimConditions_MarshalJSON X cc)" "calm (ClaimConditions_UnmarshalJSON X s)"
    "calm (ToV1Issuer X iss)" "calm (ToV1Issuers X isss)" "calm (issuerUpdateToColBindings X u)" "calm (decode_issuer X r)"
proof -
  have parse: "calm (ParseCEL X s)" for s by (simp add: ParseCEL_def split: option.splits)
  show "calm (NewClaimsMapping X m)" unfolding NewClaimsMapping_def by (intro calm_map_values parse)
  show "calm (NewClaimConditions X s)" unfolding NewClaimConditions_def by (auto intro: calm_bindR parse)
  show mm: "calm (ClaimsMapping_MarshalJSON X cm)" for cm
    unfolding ClaimsMapping_MarshalJSON_def by (intro calm_bindR calm_map_values calm_ext [OF assms]) simp_all
  show mu: "calm (ClaimsMapping_UnmarshalJSON X s)" for s
    unfolding ClaimsMapping_UnmarshalJSON_def
    by (intro calm_bindR calm_map_values calm_ext [OF assms]) (simp_all add: json_Unmarshal_def split: option.splits)
  show cm: "calm (ClaimConditions_MarshalJSON X cc)" for cc
    unfolding ClaimConditions_MarshalJSON_def by (auto intro: calm_bindR calm_ext [OF assms] split: option.splits)
  show cu: "calm (ClaimConditions_UnmarshalJSON X s)" for s
    unfolding ClaimConditions_UnmarshalJSON_def by (auto intro: calm_bindR calm_ext [OF assms])
  show tv: "calm (ToV1Issuer X iss)" for iss
    unfolding ToV1Issuer_def ClaimsMapping_Repr_def
    by (intro calm_bindR calm_map_values calm_ext [OF assms]) (auto intro: calm_ext [OF assms] split: option.splits)
  show "calm (ToV1Issuers X isss)" unfolding ToV1Issuers_def by (intro calm_traverse tv)
  show "calm (issuerUpdateToColBindings X u)"
    unfolding issuerUpdateToColBindings_def Let_def
    by (intro calm_bindR) (auto intro: calm_bindR mm cm split: option.splits)
  show "calm (decode_issuer X r)"
    unfolding decode_issuer_def by (intro calm_bindR) (auto intro: calm_bindR mu cu split: option.splits)
qed

section \<open>The handlers\<close>

lemma tame_group_store [tame_rules]:
  assumes c: "ctx_fine c"
  shows "tame (fetchGroupByID c s)" "tame (CreateGroup c g)" "tame (UpdateGroup c s u)" "tame (DeleteGroup c s)"
    "tame (AddGroupMembers c s ss)" "tame (ListGroupMembers c s q)" "tame (RemoveGroupMember c s s')"
    "tame (ReplaceGroupMembers c s ss)" "tame (ListGroupsBySubject c s p)" "tame (ListGroupsByOwner c s p)"
    "tame (GroupMembersCount c s)"
proof -
  show f: "tame (fetchGroupByID c s)" for s unfolding fetchGroupByID_def scanGroup_def by (intro tame_rules c)
  show "tame (CreateGroup c g)" unfolding CreateGroup_def insertGroup_def by (intro tame_rules c f)
  show "tame (UpdateGroup c s u)" "tame (DeleteGroup c s)" "tame (RemoveGroupMember c s s')"
    unfolding UpdateGroup_def DeleteGroup_def RemoveGroupMember_def by (intro tame_rules c f)+
  show a: "tame (AddGroupMembers c s ss)" for ss unfolding AddGroupMembers_def by (intro tame_rules c f)
  show l: "tame (ListGroupMembers c s q)" for q unfolding ListGroupMembers_def by (intro tame_rules c f)
  show "tame (ReplaceGroupMembers c s ss)" unfolding ReplaceGroupMembers_def by (intro tame_rules c f l a)
  have "calm (case g of None \<Rightarrow> Err ErrScanNull | Some r \<Rightarrow> Ok (h r))" for g and h :: "group_row \<Rightarrow> Group"
    by (simp split: option.splits)
  then show "tame (ListGroupsBySubject c s p)"
    unfolding ListGroupsBySubject_def by (intro tame_rules calm_traverse) (simp split: prod.splits)
  show "tame (ListGroupsByOwner c s p)" "tame (GroupMembersCount c s)"
    unfolding ListGroupsByOwner_def GroupMembersCount_def by (intro tame_rules)+
qed

lemma tame_issuer_store [tame_rules]:
  assumes c: "ctx_fine c" and X: "ext_calm X"
  shows "tame (CreateIssuer X c iss)" "tame (GetIssuerByID X c s)" "tame (GetOwnerIssuers X c s p)"
    "tame (UpdateIssuer X c s u)" "tame (CreateOAuthClient X c cl)"
  unfolding CreateIssuer_def insertIssuer_def GetIssuerByID_def scanIssuer_def GetOwnerIssuers_def UpdateIssuer_def
    CreateOAuthClient_def
  by (intro tame_rules tame_entropy calm_traverse calm_types calm_ext c X)+

lemma tame_other_store [tame_rules]:
  assumes c: "ctx_fine c"
  shows "tame (DeleteIssuer c s)" "tame (DeleteOAuthClient c s)" "tame (LookupOAuthClientByID c s)"
    "tame (GetOwnerOAuthClients c s p)" "tame (LookupUserOwnerID c s)" "tame (LookupUserInfoByID c s)"
    "tame (LookupUserInfosByIssuerID c s p)" "tame (rollbackAndReturnError c code msg)"
  unfolding DeleteIssuer_def DeleteOAuthClient_def LookupOAuthClientByID_def GetOwnerOAuthClients_def LookupUserOwnerID_def
    LookupUserInfoByID_def LookupUserInfosByIssuerID_def rollbackAndReturnError_def
  by (intro tame_rules c)+

lemma tame_guards [tame_rules]:
  "ext_calm X \<Longrightarrow> tame (parse_or_400 X msg s)" "tame (CheckAccess X c res act)"
  unfolding parse_or_400_def CheckAccess_def by (intro tame_rules calm_ext; assumption)+

lemma tame_parse_all [tame_rules]: "ext_calm X \<Longrightarrow> tame (parse_all_or_400 X ss)"
  by (induction ss) (auto intro!: tame_rules)

lemma tame_events [tame_rules]:
  "tame (Events_AddGroupMembers X g ss)" "tame (Events_RemoveGroupMembers X g ss)"
  "tame (Events_CreateGroup X p g)" "tame (Events_DeleteGroup X p g)"
  by (auto simp: tame_def Events_AddGroupMembers_def Events_RemoveGroupMembers_def Events_CreateGroup_def Events_DeleteGroup_def
      CreateAuthRelationships_def DeleteAuthRelationships_def publish_def Let_def ret_def split: option.splits)

lemma calm_pagination: "calm (set_pagination f p ids pg)"
  by (auto simp: set_pagination_def Let_def NewCursor_def)

lemma calm_responses:
  "calm (ToV1Group g)" "calm (ToV1Groups gs)" "calm (ToV1User u)" "calm (ToV1Users us)" "calm (ToV1OAuthClients cs)"
  "calm (ListOwnerIssuers_SetPagination p c1)" "calm (GetOwnerOAuthClients_SetPagination p c2)"
  "calm (ListGroups_SetPagination p c3)" "calm (ListUserGroups_SetPagination p c4)"
  "calm (GetIssuerUsers_SetPagination p c5)" "calm (ListGroupMembers_SetPagination p c6)"
  unfolding ToV1Groups_def ToV1Users_def ListOwnerIssuers_SetPagination_def GetOwnerOAuthClients_SetPagination_def
    ListGroups_SetPagination_def ListUserGroups_SetPagination_def GetIssuerUsers_SetPagination_def ListGroupMembers_SetPagination_def
  by (auto simp: ToV1Group_def ToV1User_def ToV1OAuthClients_def intro!: calm_traverse calm_bindR calm_pagination)

lemma tame_handlers:
  assumes c: "ctx_fine c" and X: "ext_calm X"
  shows "tame (ssi_call X c req)"
  by (cases req; simp only: ssi_call.simps respond_def handler_defs fetch_issuer_def fetch_client_def fetch_group_def
      GetGroupByID_def GenerateSecureToken_def)
    (intro tame_rules tame_entropy calm_types calm_ext calm_responses c X)+

lemma api_handle_tame:
  assumes "ext_calm X"
  shows "calm (fst (api_handle X req c w))"
proof (cases "faults w (ticks w)")
  case (Some e)
  then show ?thesis by (simp add: api_handle_def storageMiddleware_def tryE_def BeginContext_cases fail_def)
next
  case None
  have c: "ctx_fine (begun_ctx c w)" by (simp add: ctx_fine_def begun_ctx_def)
  have e: "tame (eCtx_Error X err)" "tame (VisitResponse b)" for err b
    by (auto simp: tame_def eCtx_Error_def VisitResponse_def split: option.splits)
  have "tame (tryE (strictHandler X req (begun_ctx c w))
      (\<lambda>err. bindE (eCtx_Error X err) (\<lambda>_. tryE (RollbackContext (begun_ctx c w))
         (\<lambda>rbErr. fail (HTTPError 502 (MsgErr rbErr))) (\<lambda>_. fail err)))
      (\<lambda>_. tryE (CommitContext (begun_ctx c w)) (\<lambda>err. fail (HTTPError 502 (MsgErr err))) (\<lambda>_. ret ())))"
    unfolding strictHandler_eq by (intro tame_rules tame_handlers c assms e)
  then show ?thesis unfolding api_handle_begun [OF None] tame_def by blast
qed

section \<open>Transactions are closed\<close>

lemma evolve_txs_other:
  assumes "evolve (Some (length xs)) w w'" and "txs w = xs @ [x]"
  shows "\<exists>y. txs w' = xs @ [y]"
proof -
  have len: "length (txs w') = Suc (length xs)" using assms by (simp add: evolve_def)
  have "txs w' ! j = xs ! j" if "j < length xs" for j using assms that by (auto simp: evolve_def nth_append)
  with len have "take (length xs) (txs w') = xs" by (simp add: list_eq_iff_nth_eq)
  moreover have "txs w' = take (length xs) (txs w') @ [txs w' ! length xs]"
    using len by (metis lessI take_Suc_conv_app_nth take_all_iff order_refl)
  ultimately show ?thesis by metis
qed

lemma closed_list: "(xs @ [y])[length xs := TxDone] = xs @ [TxDone]"
  by simp

lemma Commit_closes:
  assumes "txs w = xs @ [y]" and "ctx_tx c = CtxTx (length xs)" and "CommitContext c w = (r, w')"
  shows "txs w' = xs @ [TxDone]"
  using assms
  by (cases y) (auto simp: CommitContext_def commitContextTx_def getContextTx_def go_simps tx_Commit_def db_call_def tx_lookup_def
      split: option.splits if_splits)

lemma Rollback_closes:
  assumes "txs w = xs @ [y]" and "ctx_tx c = CtxTx (length xs)" and "RollbackContext c w = (r, w')"
  shows "txs w' = xs @ [TxDone]"
  using assms
  by (cases y) (auto simp: RollbackContext_def rollbackContextTx_def getContextTx_def go_simps tx_Rollback_def db_call_def tx_lookup_def
      split: option.splits if_splits)

lemma api_handle_closes:
  assumes run: "api_handle X req c w = (r, w')" and calm: "calm r"
  shows "txs w' = txs w \<or> txs w' = txs w @ [TxDone]"
proof (cases "faults w (ticks w)")
  case (Some e)
  with run show ?thesis by (auto simp: api_handle_def storageMiddleware_def tryE_def BeginContext_cases)
next
  case None
  let ?c = "begun_ctx c w"
  have ct: "ctx_tx ?c = CtxTx (length (txs w))" by (simp add: begun_ctx_def)
  obtain r1 v where v: "ssi_call X ?c req (begun w) = (r1, v)" by fastforce
  have "evolve (Some (length (txs w))) (begun w) v" using frameD [OF ssi_call_evolve v] by simp
  from evolve_txs_other [OF this] obtain y where y: "txs v = txs w @ [y]" by (auto simp: begun_def)
  obtain r2 u where u: "strictHandler X req ?c (begun w) = (r2, u)" by fastforce
  have "txs u = txs v"
    using u v by (cases r1) (auto simp: strictHandler_eq bindE_def answers_def dest: VisitResponse_answers)
  with y have uy: "txs u = txs w @ [y]" by simp
  show ?thesis
  proof (cases r2)
    case (Ok x)
    obtain r3 z where z: "CommitContext ?c u = (r3, z)" by fastforce
    have "txs z = txs w @ [TxDone]" by (rule Commit_closes [OF uy ct z])
    with run u Ok z show ?thesis by (cases r3) (auto simp: api_handle_begun [OF None] go_simps)
  next
    case (Err e)
    let ?u = "send_status (echo_ErrorStatus X e) u"
    obtain r3 z where z: "RollbackContext ?c ?u = (r3, z)" by fastforce
    have "txs z = txs w @ [TxDone]" by (rule Rollback_closes [OF _ ct z]) (simp add: uy)
    with run u Err z show ?thesis by (cases r3) (auto simp: api_handle_begun [OF None] go_simps eCtx_Error_def)
  qed (use run u calm in \<open>auto simp: api_handle_begun [OF None] go_simps\<close>)
qed

end
