(* ===== verification/Listings.thy ===== *)
theory Listings
  imports RequestSafety
begin

text \<open>
  The listings of the management API as a client sees them: the pages a handler returns, followed by
  their \<open>next\<close> cursors, are the whole listing. The facts of the locale \<open>paged_listing\<close> are carried
  from the rows of a table to the responses of the handlers.
\<close>

section \<open>A client of a listing\<close>

text \<open>The items and the pagination of the response \<open>f p\<close> to the request for page \<open>p\<close>.\<close>

definition pages_of :: "('c \<Rightarrow> 'a list) \<Rightarrow> (page_params \<Rightarrow> 'c res) \<Rightarrow> page_params \<Rightarrow> 'a list" where
  "pages_of items f p = (case f p of Ok coll \<Rightarrow> items coll | _ \<Rightarrow> [])"

definition next_of :: "('c \<Rightarrow> v1Pagination) \<Rightarrow> (page_params \<Rightarrow> 'c res) \<Rightarrow> page_params \<Rightarrow> 'a list \<Rightarrow> v1Pagination res" where
  "next_of pg f p page = bindR (f p) (\<lambda>coll. Ok (pg coll))"

definition follow :: "nat \<Rightarrow> ('c \<Rightarrow> 'a list) \<Rightarrow> ('c \<Rightarrow> v1Pagination) \<Rightarrow> (page_params \<Rightarrow> 'c res) \<Rightarrow> page_params \<Rightarrow> 'a list option" where
  "follow n items pg f = walk_pages n (pages_of items f) (next_of pg f)"

lemma set_pagination_Ok: "v = [] \<or> last v \<noteq> [] \<Longrightarrow> \<exists>r. set_pagination field p v pg = Ok r"
  by (auto simp: set_pagination_def Let_def NewCursor_def)

text \<open>Responses that hold the rows of the pages, one by one converted, and their pagination.\<close>

lemma follow_rows:
  assumes f: "\<And>p. f p = bindR (setp p (pages p)) (\<lambda>pg. Ok (mk (map g (pages p)) pg))"
    and mk: "\<And>xs pg. items (mk xs pg) = xs" "\<And>xs pg. pgn (mk xs pg) = pg"
  shows "walk_pages n pages setp p = Some rows \<Longrightarrow> follow n items pgn f p = Some (map g rows)"
  unfolding follow_def
proof (induction n arbitrary: p rows)
  case (Suc n)
  then show ?case
    by (cases "setp p (pages p)")
      (auto simp: Let_def pages_of_def next_of_def f mk split: option.splits)
qed simp

lemma sort_key_singleton: "sort_key (\<lambda>r. [k r]) xs = sort_key k xs"
proof -
  have "insort_key (\<lambda>r. [k r]) x ys = insort_key k x ys" for x ys by (induction ys) auto
  then show ?thesis by (induction xs) simp_all
qed

lemma map_sort_key: "map k (sort_key k xs) = sort (map k xs)"
proof -
  have "map k (insort_key k x ys) = insort (k x) (map k ys)" for x ys by (induction ys) auto
  then show ?thesis by (induction xs) simp_all
qed

lemma walk_pages_mono: "walk_pages n pages setp p = Some rows \<Longrightarrow> n \<le> m \<Longrightarrow> walk_pages m pages setp p = Some rows"
proof (induction n arbitrary: m p rows)
  case (Suc n)
  from Suc.prems(2) obtain k where k: "m = Suc k" "n \<le> k" by (cases m) auto
  from Suc.prems(1) obtain pg where pg: "setp p (pages p) = Ok pg" by (cases "setp p (pages p)") (simp_all add: Let_def)
  show ?case
  proof (cases "pg_Next pg")
    case None
    with Suc.prems(1) pg k(1) show ?thesis by (simp add: Let_def)
  next
    case (Some nx)
    with Suc.prems(1) pg obtain rest where "walk_pages n pages setp (p\<lparr>pp_Cursor := Some nx\<rparr>) = Some rest" "rows = pages p @ rest"
      by (auto simp: Let_def)
    with Suc.IH [OF _ k(2)] Some pg k(1) show ?thesis by (simp add: Let_def)
  qed
qed simp

section \<open>Groups of an owner\<close>

definition v1_group :: "Group \<Rightarrow> v1Group" where
  "v1_group g = \<lparr>v1g_ID = g_ID g, v1g_Name = g_Name g, v1g_OwnerID = Some (g_OwnerID g),
                 v1g_Description = nonempty_ptr (g_Description g)\<rparr>"

lemma ToV1Groups_map: "ToV1Groups gs = Ok (map v1_group gs)"
  unfolding ToV1Groups_def by (rule traverse_Ok_map) (simp add: ToV1Group_def v1_group_def)

abbreviation owned_groups :: "string \<Rightarrow> tables \<Rightarrow> group_row list" where
  "owned_groups oid t \<equiv> filter (\<lambda>r. gr_owner_id r = oid) (groups t)"

lemma apiHandler_ListGroups_page:
  assumes "at_rest c w" and "gidx_Parse X oid = Ok oid'" and "permissions_CheckAccess X (ctx_actor c) oid ''iam_group_list'' = None"
  shows "fst (apiHandler_ListGroups X c oid p w) =
    (let page = list_page ListGroups_paginator (AostString ''-1m'') group_col (owned_groups oid (committed w)) p
     in bindR (groups_next p page)
          (\<lambda>pg. Ok \<lparr>gc_Groups = map (\<lambda>r. v1_group (group_of_row r)) page, gc_Pagination = pg\<rparr>))"
proof -
  have [simp]: "v1g_ID (v1_group (group_of_row r)) = gr_id r" for r by (simp add: v1_group_def)
  show ?thesis
    using assms
    by (cases "groups_next p (list_page ListGroups_paginator (AostString ''-1m'') group_col (owned_groups oid (committed w)) p)")
      (simp_all add: apiHandler_ListGroups_def parse_or_400_def CheckAccess_def ListGroupsByOwner_page ToV1Groups_map
        ListGroups_SetPagination_def groups_next_def bindE_def tryE_def lift_def ret_def Let_def comp_def)
qed


lemma at_rest_sample: "at_rest ctx0 (world_of t)"
  by (simp add: at_rest_def healthy_sample ctx0_def)


text \<open>C37: with a limit above 100 the walk stops short. The first page holds as many groups as were asked
  for, but the response says the limit was 100 and has no \<open>next\<close> cursor although groups are left.\<close>

theorem ListGroups_over_limit:
  assumes "at_rest c w" and "gidx_Parse X oid = Ok oid'"
    and "permissions_CheckAccess X (ctx_actor c) oid ''iam_group_list'' = None"
    and "100 < requested_limit p" and "pp_Cursor p = None" and "requested_limit p < int (length (owned_groups oid (committed w)))"
  shows "\<exists>coll. fst (apiHandler_ListGroups X c oid p w) = Ok coll \<and> int (length (gc_Groups coll)) = requested_limit p \<and>
    gc_Pagination coll = \<lparr>pg_Limit = 100, pg_Next = None\<rparr>"
  using groups_pl.over_limit [OF assms(4-6), of "AostString ''-1m''"] assms(4)
  by (simp add: apiHandler_ListGroups_page [OF assms(1-3)] Let_def)

definition many_groups :: "nat \<Rightarrow> tables" where
  "many_groups n = empty_tables\<lparr>groups := map (\<lambda>i. \<lparr>gr_id = show_nat i, gr_owner_id = ''tnnt-1'', gr_name = show_nat i,
     gr_description = []\<rparr>) [0..<n]\<rparr>"

theorem ListGroups_over_limit_witness:
  "\<exists>coll. fst (apiHandler_ListGroups ext0 ctx0 ''tnnt-1'' \<lparr>pp_Cursor = None, pp_Limit = Some 150\<rparr> (world_of (many_groups 200))) = Ok coll \<and>
     length (gc_Groups coll) = 150 \<and> pg_Next (gc_Pagination coll) = None"
proof -
  let ?p = "\<lparr>pp_Cursor = None, pp_Limit = Some 150\<rparr>"
  have "owned_groups ''tnnt-1'' (committed (world_of (many_groups 200))) = groups (many_groups 200)"
    by (simp add: many_groups_def filter_id_conv)
  then have "requested_limit ?p < int (length (owned_groups ''tnnt-1'' (committed (world_of (many_groups 200)))))"
    by (simp add: many_groups_def requested_limit_def)
  moreover have h: "gidx_Parse ext0 ''tnnt-1'' = Ok ''tnnt-1''"
      "permissions_CheckAccess ext0 (ctx_actor ctx0) ''tnnt-1'' ''iam_group_list'' = None"
      "100 < requested_limit ?p" "pp_Cursor ?p = None"
    by (simp_all add: ext0_def ctx0_def requested_limit_def)
  ultimately obtain coll where
    "fst (apiHandler_ListGroups ext0 ctx0 ''tnnt-1'' ?p (world_of (many_groups 200))) = Ok coll"
    "int (length (gc_Groups coll)) = requested_limit ?p" "gc_Pagination coll = \<lparr>pg_Limit = 100, pg_Next = None\<rparr>"
    using ListGroups_over_limit [OF at_rest_sample h] by blast
  then show ?thesis by (simp add: requested_limit_def)
qed

section \<open>Members of a group\<close>

lemma ListGroupMembers_page_running:
  assumes run: "running c w t" and rest: "ctx_aost c = AostNil" "history w ''-1m'' = committed w"
    and ok: "schema_ok t" and gid: "gid \<in> set (map gr_id (groups t))"
  shows "fst (ListGroupMembers c gid (Some (ListGroupMembers_paginator p)) w) =
    Ok (map mr_subject_id (list_page ListGroupMembers_paginator (AostString ''-1m'') member_col
       (select_members gid (committed w)) p))"
proof -
  have r: "at_rest c (tick w)" using run rest by (simp add: at_rest_def running_def)
  obtain g where "fetchGroupByID c gid w = (Ok g, tick w)"
    using select_group_cases [OF ok, of gid] gid by (auto simp: fetchGroupByID_running [OF run])
  then show ?thesis
    by (simp add: ListGroupMembers_def Let_def bindE_def ret_def list_page_def
        page_query_at_rest [OF r, where f = "''subject_id''"] ListGroupMembers_paginator_def groupMemberCols_def)
qed

lemma apiHandler_ListGroupMembers_page:
  assumes "running c w t" and "ctx_aost c = AostNil" "history w ''-1m'' = committed w"
    and "schema_ok t" and "gid \<in> set (map gr_id (groups t))" and "gidx_Parse X gid = Ok gid'"
    and "permissions_CheckAccess X (ctx_actor c) gid ''iam_group_members_list'' = None"
  shows "fst (apiHandler_ListGroupMembers X c gid p w) =
    (let page = list_page ListGroupMembers_paginator (AostString ''-1m'') member_col (select_members gid (committed w)) p
     in bindR (members_next p page)
          (\<lambda>pg. Ok \<lparr>gmc_GroupID = gid, gmc_MemberIDs = map mr_subject_id page, gmc_Pagination = pg\<rparr>))"
proof -
  obtain v where "ListGroupMembers c gid (Some (ListGroupMembers_paginator p)) w = (Ok (map mr_subject_id
      (list_page ListGroupMembers_paginator (AostString ''-1m'') member_col (select_members gid (committed w)) p)), v)"
    using ListGroupMembers_page_running [OF assms(1-5), of p] by (metis prod.collapse)
  then show ?thesis
    using assms(6,7)
    by (cases "members_next p (list_page ListGroupMembers_paginator (AostString ''-1m'') member_col (select_members gid (committed w)) p)")
      (simp_all add: apiHandler_ListGroupMembers_def parse_or_400_def CheckAccess_def ListGroupMembers_SetPagination_def
        members_next_def bindE_def tryE_def lift_def ret_def Let_def)
qed

text \<open>Following the cursors of the listing of a group's members, each page inside a transaction of its
  own, ends and yields the members of the group, each once, in the order of their IDs.\<close>

theorem ListGroupMembers_complete:
  assumes "running c w t" and "ctx_aost c = AostNil" "history w ''-1m'' = committed w"
    and "schema_ok t" and "gid \<in> set (map gr_id (groups t))" and "gidx_Parse X gid = Ok gid'"
    and "permissions_CheckAccess X (ctx_actor c) gid ''iam_group_members_list'' = None"
    and ok: "schema_ok (committed w)" and ids: "[] \<notin> members (committed w) gid"
    and p: "requested_limit p \<le> 100" "pp_Cursor p = None"
  shows "\<exists>ms. follow (Suc (length (group_members (committed w)))) gmc_MemberIDs gmc_Pagination
      (\<lambda>p. fst (apiHandler_ListGroupMembers X c gid p w)) p = Some ms \<and>
    sorted ms \<and> distinct ms \<and> set ms = members (committed w) gid"
proof -
  let ?rows = "select_members gid (committed w)"
  let ?at = "AostString ''-1m''" let ?page = "list_page ListGroupMembers_paginator ?at member_col ?rows"
  have d: "distinct (map mr_subject_id ?rows)"
  proof -
    have "distinct (map (\<lambda>m. (mr_group_id m, mr_subject_id m)) (group_members (committed w)))"
      using ok by (simp add: schema_ok_def keys_ok_def)
    then have "inj_on mr_subject_id (set ?rows)" "distinct (group_members (committed w))"
      by (auto simp: distinct_map inj_on_def select_members_def)
    then show ?thesis by (simp add: distinct_map select_members_def)
  qed
  have ne: "\<forall>r \<in> set ?rows. mr_subject_id r \<noteq> []"
    using ids by (force simp: members_def select_members_def)
  have "walk_pages (Suc (length ?rows)) ?page members_next p = Some (sort_key mr_subject_id ?rows)"
    using members_pl.walk_complete [of ?rows p ?at] d ne p by (simp add: member_col_def sort_key_singleton)
  then have "walk_pages (Suc (length (group_members (committed w)))) ?page members_next p = Some (sort_key mr_subject_id ?rows)"
    by (rule walk_pages_mono) (simp add: select_members_def)
  from follow_rows [of _ members_next ?page "\<lambda>xs pg. \<lparr>gmc_GroupID = gid, gmc_MemberIDs = xs, gmc_Pagination = pg\<rparr>"
      mr_subject_id gmc_MemberIDs gmc_Pagination, OF _ _ _ this]
    apiHandler_ListGroupMembers_page [OF assms(1-7)]
  have "follow (Suc (length (group_members (committed w)))) gmc_MemberIDs gmc_Pagination
      (\<lambda>p. fst (apiHandler_ListGroupMembers X c gid p w)) p = Some (map mr_subject_id (sort_key mr_subject_id ?rows))"
    by (simp add: Let_def)
  moreover have "distinct (map mr_subject_id (sort_key mr_subject_id ?rows))" using d by (simp add: distinct_map)
  moreover have "set (map mr_subject_id (sort_key mr_subject_id ?rows)) = members (committed w) gid"
    using members_select [of gid "committed w"] by simp
  ultimately show ?thesis by (metis sorted_sort_key)
qed

theorem ListGroupMembers_complete_witness:
  "\<exists>ms. follow 2 gmc_MemberIDs gmc_Pagination
     (\<lambda>p. fst (apiHandler_ListGroupMembers ext0 tx_ctx ''idntgrp-1'' p (tx_world tables1))) \<lparr>pp_Cursor = None, pp_Limit = None\<rparr> = Some ms \<and>
   set ms = {''idntusr-1''}"
proof -
  let ?p = "\<lparr>pp_Cursor = None, pp_Limit = None\<rparr>" and ?w = "tx_world tables1"
  have m: "members tables1 ''idntgrp-1'' = {''idntusr-1''}" by (auto simp: members_def tables1_def)
  have h: "ctx_aost tx_ctx = AostNil" "history ?w ''-1m'' = committed ?w"
      "''idntgrp-1'' \<in> set (map gr_id (groups tables1))" "gidx_Parse ext0 ''idntgrp-1'' = Ok ''idntgrp-1''"
      "permissions_CheckAccess ext0 (ctx_actor tx_ctx) ''idntgrp-1'' ''iam_group_members_list'' = None"
      "schema_ok (committed ?w)" "[] \<notin> members (committed ?w) ''idntgrp-1''" "requested_limit ?p \<le> 100" "pp_Cursor ?p = None"
    using m schema_tables1
    by (simp_all add: tx_ctx_def ctx0_def tx_world_def world_of_def ext0_def requested_limit_def)
      (simp add: tables1_def group1_def)
  have "length (group_members (committed ?w)) = 1" by (simp add: tables1_def)
  then show ?thesis
    using ListGroupMembers_complete [OF running_sample h(1,2) schema_tables1 h(3-9)] m by (auto simp: numeral_2_eq_2)
qed

section \<open>Clients of an owner\<close>

abbreviation owned_clients :: "string \<Rightarrow> tables \<Rightarrow> client_row list" where
  "owned_clients oid t \<equiv> filter (\<lambda>r. cr_owner_id r = oid) (oauth_clients t)"

lemma apiHandler_GetOwnerOAuthClients_page:
  assumes "at_rest c w" and "permissions_CheckAccess X (ctx_actor c) oid ''iam_oauthclient_list'' = None"
  shows "fst (apiHandler_GetOwnerOAuthClients X c oid p w) =
    (let page = list_page GetOwnerOAuthClients_paginator (AostString ''-1m'') client_col (owned_clients oid (committed w)) p
     in bindR (clients_next p page)
          (\<lambda>pg. Ok \<lparr>occ_Clients = map (\<lambda>r. ToV1OAuthClient (client_of_row r)) page, occ_Pagination = pg\<rparr>))"
proof -
  have [simp]: "v1c_ID (ToV1OAuthClient (client_of_row r)) = cr_id r" for r by (simp add: ToV1OAuthClient_def client_of_row_def)
  show ?thesis
    using assms
    by (cases "clients_next p (list_page GetOwnerOAuthClients_paginator (AostString ''-1m'') client_col (owned_clients oid (committed w)) p)")
      (simp_all add: apiHandler_GetOwnerOAuthClients_def CheckAccess_def GetOwnerOAuthClients_page ToV1OAuthClients_def
        GetOwnerOAuthClients_SetPagination_def clients_next_def bindE_def lift_def ret_def Let_def comp_def)
qed

text \<open>Following the cursors of the listing of an owner's clients ends and yields all its clients, each
  once, in the order of their IDs, and no response carries a secret or its hash.\<close>

theorem GetOwnerOAuthClients_complete:
  assumes "at_rest c w" and ok: "schema_ok (committed w)"
    and "permissions_CheckAccess X (ctx_actor c) oid ''iam_oauthclient_list'' = None"
    and ids: "\<forall>r \<in> set (oauth_clients (committed w)). cr_id r \<noteq> []"
    and p: "requested_limit p \<le> 100" "pp_Cursor p = None"
  shows "\<exists>cs. follow (Suc (length (owned_clients oid (committed w)))) occ_Clients occ_Pagination
      (\<lambda>p. fst (apiHandler_GetOwnerOAuthClients X c oid p w)) p = Some cs \<and>
    map v1c_ID cs = sort (map cr_id (owned_clients oid (committed w))) \<and> list_all (\<lambda>cl. v1c_Secret cl = None) cs"
proof -
  let ?rows = "owned_clients oid (committed w)" and ?at = "AostString ''-1m''"
  have "distinct (map cr_id ?rows)" using ok by (simp add: schema_ok_def keys_ok_def distinct_map_filter)
  then have "walk_pages (Suc (length ?rows)) (list_page GetOwnerOAuthClients_paginator ?at client_col ?rows) clients_next p =
      Some (sort_key cr_id ?rows)"
    using clients_pl.walk_complete [of ?rows p ?at] ids p by (simp add: client_col_def sort_key_singleton)
  from follow_rows [of _ clients_next _ "\<lambda>xs pg. \<lparr>occ_Clients = xs, occ_Pagination = pg\<rparr>"
      "\<lambda>r. ToV1OAuthClient (client_of_row r)" occ_Clients occ_Pagination, OF _ _ _ this]
    apiHandler_GetOwnerOAuthClients_page [OF assms(1,3)]
  have "follow (Suc (length ?rows)) occ_Clients occ_Pagination (\<lambda>p. fst (apiHandler_GetOwnerOAuthClients X c oid p w)) p =
      Some (map (\<lambda>r. ToV1OAuthClient (client_of_row r)) (sort_key cr_id ?rows))"
    by (simp add: Let_def)
  moreover have "map v1c_ID (map (\<lambda>r. ToV1OAuthClient (client_of_row r)) (sort_key cr_id ?rows)) = map cr_id (sort_key cr_id ?rows)"
    by (simp add: ToV1OAuthClient_def client_of_row_def)
  moreover have "map cr_id (sort_key cr_id ?rows) = sort (map cr_id ?rows)"
    by (rule map_sort_key)
  moreover have "list_all (\<lambda>cl. v1c_Secret cl = None) (map (\<lambda>r. ToV1OAuthClient (client_of_row r)) (sort_key cr_id ?rows))"
    by (simp add: list_all_iff ToV1OAuthClient_no_secret)
  ultimately show ?thesis by metis
qed

theorem GetOwnerOAuthClients_complete_witness:
  "\<exists>cs. follow 2 occ_Clients occ_Pagination (\<lambda>p. fst (apiHandler_GetOwnerOAuthClients ext0 ctx0 ''tnnt-1'' p
       (world_of (tables1\<lparr>oauth_clients := [\<lparr>cr_id = ''idntcli-1'', cr_owner_id = ''tnnt-1'', cr_name = ''svc'',
          cr_secret = ''hashed:s3cret'', cr_audience = []\<rparr>]\<rparr>)))) \<lparr>pp_Cursor = None, pp_Limit = None\<rparr> = Some cs \<and>
     map v1c_ID cs = [''idntcli-1''] \<and> list_all (\<lambda>cl. v1c_Secret cl = None) cs"
proof -
  let ?t = "tables1\<lparr>oauth_clients := [\<lparr>cr_id = ''idntcli-1'', cr_owner_id = ''tnnt-1'', cr_name = ''svc'',
          cr_secret = ''hashed:s3cret'', cr_audience = []\<rparr>]\<rparr>" and ?p = "\<lparr>pp_Cursor = None, pp_Limit = None\<rparr>"
  have h: "schema_ok (committed (world_of ?t))"
      "permissions_CheckAccess ext0 (ctx_actor ctx0) ''tnnt-1'' ''iam_oauthclient_list'' = None"
      "\<forall>r \<in> set (oauth_clients (committed (world_of ?t))). cr_id r \<noteq> []" "requested_limit ?p \<le> 100" "pp_Cursor ?p = None"
    using schema_tables1 by (simp_all add: schema_ok_def keys_ok_def refs_ok_def ext0_def ctx0_def requested_limit_def)
  show ?thesis
    using GetOwnerOAuthClients_complete [OF at_rest_sample h] by (simp add: numeral_2_eq_2)
qed

end
