(* ===== verification/Service.thy ===== *)
theory Service
  imports NoPanic Listings
begin

text \<open>
  The whole service as a state machine. A step is a request to the management API, a request to the
  token endpoint, or the seeding of the issuers; the steps of a run follow one another, and each may
  fail at any call to the database or to a library.

  Two invariants are proved by rule induction: every version of the tables satisfies the schema,
  whatever fails; and the permissions API agrees with the tables as long as neither it nor the
  database fails.
\<close>

section \<open>Steps that change no relation\<close>

text \<open>No open transaction changes groups or members; the token endpoint may leave such a transaction
  open.\<close>

fun leak_ok :: "tx \<Rightarrow> bool" where
  "leak_ok TxDone = True"
| "leak_ok (TxOpen b t) = (table_relations t = table_relations b)"

definition still :: "world \<Rightarrow> world \<Rightarrow> bool" where
  "still w w' \<longleftrightarrow> published w' = published w \<and>
     (list_all leak_ok (txs w) \<longrightarrow>
        list_all leak_ok (txs w') \<and> table_relations (committed w') = table_relations (committed w))"

interpretation st: frame_rel still
  by unfold_locales (auto simp: still_def)

lemma evolve_steady_still:
  assumes ev: "evolve o' w w'" and sd: "steady w w'"
  shows "still w w'"
proof -
  have len: "length (txs w') = length (txs w)" using ev by (simp add: evolve_def)
  have "leak_ok (txs w' ! j)" if "j < length (txs w)" and ok: "leak_ok (txs w ! j)" for j
  proof (cases "txs w' ! j")
    case (TxOpen b' t')
    then have "tx_lookup j w' = TxOpen b' t'" using that len by (simp add: tx_lookup_def)
    with sd obtain b t where bt: "tx_lookup j w = TxOpen b t" "table_relations t' = table_relations t"
      unfolding steady_def by blast
    then have "txs w ! j = TxOpen b t" using that by (simp add: tx_lookup_def)
    moreover from this have "b' = b" using ev that TxOpen by (auto simp: evolve_def split: if_splits)
    ultimately show ?thesis using TxOpen bt ok by simp
  qed simp
  with ev sd len show ?thesis by (auto simp: still_def steady_def evolve_def list_all_length)
qed

lemma frame_still: "frame (evolve o') m \<Longrightarrow> frame steady m \<Longrightarrow> frame still m"
  by (auto simp: frame_def intro: evolve_steady_still)

lemma evolve_None_steady: "evolve None w w' \<Longrightarrow> silent w w' \<Longrightarrow> steady w w'"
  by (auto simp: steady_def silent_def evolve_def tx_lookup_def split: if_splits)

lemma read_still: "(\<And>o'. frame (evolve o') m) \<Longrightarrow> frame silent m \<Longrightarrow> frame still m"
  by (rule frame_still [of None]) (auto simp: frame_def intro: evolve_None_steady)

lemma BeginContext_still: "frame still (BeginContext c)"
  by (auto simp: frame_def BeginContext_def beginTxContext_cases still_def split: option.splits)

lemma leak_ok_lookup: "list_all leak_ok (txs w) \<Longrightarrow> leak_ok (tx_lookup i w)"
  by (auto simp: tx_lookup_def list_all_length)

lemma CommitContext_still: "frame still (CommitContext c)"
proof (rule frameI)
  fix w
  have "still w (snd (tx_Commit i w))" for i
    using leak_ok_lookup [of w i]
    by (cases "tx_lookup i w") (auto simp: tx_Commit_def db_call_def still_def list_all_update split: option.splits)
  then show "still w (snd (CommitContext c w))"
    by (cases "ctx_tx c") (simp_all add: CommitContext_def commitContextTx_def getContextTx_def go_simps st.frame_refl)
qed

lemma RollbackContext_still: "frame still (RollbackContext c)"
proof (rule frameI)
  fix w
  have "still w (snd (tx_Rollback i w))" for i
    by (cases "tx_lookup i w") (auto simp: tx_Rollback_def db_call_def still_def list_all_update split: option.splits)
  then show "still w (snd (RollbackContext c w))"
    by (cases "ctx_tx c") (simp_all add: RollbackContext_def rollbackContextTx_def getContextTx_def go_simps st.frame_refl)
qed

lemma upsert_user_relations: "table_relations (fst (upsert_user u t)) = table_relations t"
  by (auto simp: upsert_user_def table_relations_def Let_def split: if_splits option.splits prod.splits)

lemma StoreUserInfo_still: "frame still (StoreUserInfo X c u)"
proof (rule frame_still [OF StoreUserInfo_evolve])
  show "frame steady (StoreUserInfo X c u)"
    unfolding StoreUserInfo_def Let_def
    by (intro frame_rules tx_exec_steady upsert_user_relations frame_untouched_steady [OF query_untouched(3)])
qed

lemma seed_loop_still: "frame still (seed_loop X c seeds)"
proof (rule frame_still [OF seed_loop_frames(1)])
  show "frame steady (seed_loop X c seeds)"
    by (induction seeds) (auto simp: insertIssuer_def intro!: frame_rules)
qed

lemmas still_rules = st.closed BeginContext_still CommitContext_still RollbackContext_still StoreUserInfo_still
  read_still [OF exchange_step_frames(1,2)] read_still [OF exchange_step_frames(3,4)] read_still [OF exchange_step_frames(5,6)]
  read_still [OF exchange_step_frames(7,8)] read_still [OF exchange_step_frames(9,10)] read_still [OF build_session_frames]

lemma HandleTokenEndpointRequest_still: "frame still (HandleTokenEndpointRequest X T cfg c req)"
  unfolding HandleTokenEndpointRequest_def Let_def by (intro still_rules)

lemma seedDatabase_still: "frame still (seedDatabase X c seeds)"
  unfolding seedDatabase_def
  by (intro still_rules seed_loop_still BeginContext_still [unfolded BeginContext_def]
      CommitContext_still [unfolded CommitContext_def] RollbackContext_still [unfolded RollbackContext_def])

section \<open>Runs of the service\<close>

definition no_tables :: tables where
  "no_tables = \<lparr>issuers = [], user_info = [], oauth_clients = [], groups = [], group_members = []\<rparr>"

inductive service_run :: "('ast, 'expr) ext \<Rightarrow> tokext \<Rightarrow> oauth_config \<Rightarrow> world \<Rightarrow> bool"
  for X T config where
  start: "committed w = no_tables \<Longrightarrow> txs w = [] \<Longrightarrow> published w = [] \<Longrightarrow> service_run X T config w"
| api: "service_run X T config w \<Longrightarrow> serve X req c (w\<lparr>reply := None\<rparr>) = (r, w') \<Longrightarrow> service_run X T config w'"
| exchange: "service_run X T config w \<Longrightarrow> HandleTokenEndpointRequest X T config c areq w = (r', w') \<Longrightarrow>
    service_run X T config w'"
| seed: "service_run X T config w \<Longrightarrow> seedDatabase X c seeds w = (r, w') \<Longrightarrow> service_run X T config w'"

lemma no_tables_ok: "schema_ok no_tables"
  by (simp add: schema_ok_def keys_ok_def refs_ok_def no_tables_def)

lemma world_ok_reply [simp]: "world_ok (w\<lparr>reply := x\<rparr>) = world_ok w" "healthy (w\<lparr>reply := x\<rparr>) = healthy w"
  by (simp_all add: world_ok_def healthy_def)

lemma service_run_world_ok: "service_run X T config w \<Longrightarrow> world_ok w"
proof (induction rule: service_run.induct)
  case (api w req c r w')
  have "keeps (w\<lparr>reply := None\<rparr>) w'" by (rule frameD [OF serve_keeps api.hyps(2)])
  with api.IH show ?case by (simp add: keeps_def)
next
  case (exchange w c areq r' w')
  have "keeps w w'" by (rule frameD [OF HandleTokenEndpointRequest_keeps exchange.hyps(2)])
  with exchange.IH show ?case by (simp add: keeps_def)
next
  case (seed w c seeds r w')
  have "keeps w w'" by (rule frameD [OF seedDatabase_keeps seed.hyps(2)])
  with seed.IH show ?case by (simp add: keeps_def)
qed (simp add: world_ok_def no_tables_ok)

text \<open>A request to the management API, with its answer to an error.\<close>

lemma serve_api:
  assumes "serve X req c w = (r, w')" and "ext_calm X"
  shows "r = Ok () \<and> (\<exists>r1 v. api_handle X req c w = (r1, v) \<and> calm r1 \<and> committed w' = committed v \<and>
    published w' = published v \<and> txs w' = txs v)"
proof -
  obtain r1 v where v: "api_handle X req c w = (r1, v)" by fastforce
  have "calm r1" using api_handle_tame [OF assms(2), of req c w] v by simp
  with assms(1) v show ?thesis by (cases r1) (auto simp: serve_def go_simps eCtx_Error_def)
qed

lemma in_sync_still: "still w w' \<Longrightarrow> list_all leak_ok (txs w) \<Longrightarrow> in_sync w \<Longrightarrow> in_sync w' \<and> list_all leak_ok (txs w')"
  by (auto simp: still_def in_sync_def agree_def relations_def)

definition services_ok :: "('ast, 'expr) ext \<Rightarrow> bool" where
  "services_ok X \<longleftrightarrow> gidx_law X \<and> uniform X \<and> ext_calm X"

lemma service_run_in_sync:
  assumes "service_run X T config w" and ok: "services_ok X" and h: "healthy w"
  shows "in_sync w \<and> list_all leak_ok (txs w)"
  using assms(1) h
proof (induction rule: service_run.induct)
  case (start w)
  then show ?case by (simp add: in_sync_def agree_def relations_def table_relations_def no_tables_def)
next
  case (api w req c r w')
  let ?w = "w\<lparr>reply := None\<rparr>"
  have "keeps ?w w'" by (rule frameD [OF serve_keeps api.hyps(2)])
  with api.prems have h: "healthy w" by (simp add: keeps_def)
  have IH: "in_sync w" "list_all leak_ok (txs w)" using api.IH [OF h] by auto
  have sch: "schema_ok (committed w)" using service_run_world_ok [OF api.hyps(1)] by (simp add: world_ok_def)
  obtain r1 v where v: "api_handle X req c ?w = (r1, v)" "calm r1" "committed w' = committed v" "published w' = published v"
      "txs w' = txs v"
    using serve_api [OF api.hyps(2)] ok by (auto simp: services_ok_def)
  have "in_sync ?w" using IH(1) in_sync_cong [of ?w w] by simp
  then have "in_sync v"
    using api_handle_always_in_sync [OF _ _ _ _ _ v(1)] ok h sch by (simp add: services_ok_def)
  then have "in_sync w'" using in_sync_cong [OF v(3,4)] by simp
  moreover have "list_all leak_ok (txs w')" using api_handle_closes [OF v(1,2)] IH(2) v(5) by auto
  ultimately show ?case ..
next
  case (exchange w c areq r' w')
  have "keeps w w'" by (rule frameD [OF HandleTokenEndpointRequest_keeps exchange.hyps(2)])
  with exchange.prems exchange.IH have "in_sync w" "list_all leak_ok (txs w)" by (auto simp: keeps_def)
  with in_sync_still [OF frameD [OF HandleTokenEndpointRequest_still exchange.hyps(2)]] show ?case by blast
next
  case (seed w c seeds r w')
  have "keeps w w'" by (rule frameD [OF seedDatabase_keeps seed.hyps(2)])
  with seed.prems seed.IH have "in_sync w" "list_all leak_ok (txs w)" by (auto simp: keeps_def)
  with in_sync_still [OF frameD [OF seedDatabase_still seed.hyps(2)]] show ?case by blast
qed

end
