(* ===== verification/Footprint.thy ===== *)
theory Footprint
  imports ServiceInvariant
begin

text \<open>
  What a request to the management API may change, \<open>request_footprint\<close>: which rows of which table it may
  change or remove, and which rows it may add. Every request stays within its footprint, whatever
  fails on the way; likewise a token exchange adds at most a user of the issuer that signed the
  token, and seeding adds issuers of the owners it names. With the access checks this gives the
  separation of the tenants.
\<close>

section \<open>Footprints\<close>

text \<open>For one table: the rows that may be changed or removed, and the rows that may be added.\<close>

type_synonym 'r part = "('r \<Rightarrow> bool) \<times> ('r \<Rightarrow> bool)"

definition nothing :: "'r part" where "nothing = (\<lambda>_. False, \<lambda>_. False)"
definition changes :: "('r \<Rightarrow> bool) \<Rightarrow> 'r part" where "changes P = (P, \<lambda>_. False)"
definition adds :: "('r \<Rightarrow> bool) \<Rightarrow> 'r part" where "adds P = (\<lambda>_. False, P)"

text \<open>\<open>kept key F xs xs'\<close>: the rows that may not be changed are as before, followed by new rows that may be
  added; and no row has another key than one that was there or may be added.\<close>

definition kept :: "('r \<Rightarrow> 'k) \<Rightarrow> 'r part \<Rightarrow> 'r list \<Rightarrow> 'r list \<Rightarrow> bool" where
  "kept key F xs xs' \<longleftrightarrow>
     (\<exists>new. filter (\<lambda>r. \<not> fst F r) xs' = filter (\<lambda>r. \<not> fst F r) xs @ new \<and> list_all (snd F) new) \<and>
     key ` set xs' \<subseteq> key ` set xs \<union> key ` Collect (snd F)"

lemma kept_refl: "kept key F xs xs"
  by (simp add: kept_def)

lemma kept_trans:
  assumes "kept key F xs ys" and "kept key F ys zs"
  shows "kept key F xs zs"
proof -
  obtain n m where "filter (\<lambda>r. \<not> fst F r) zs = filter (\<lambda>r. \<not> fst F r) xs @ (n @ m)" "list_all (snd F) (n @ m)"
    using assms by (auto simp: kept_def)
  moreover have "key ` set zs \<subseteq> key ` set xs \<union> key ` Collect (snd F)"
    using assms unfolding kept_def by blast
  ultimately show ?thesis unfolding kept_def by blast
qed

lemma kept_append: "snd F x \<Longrightarrow> kept key F xs (xs @ [x])"
  by (auto simp: kept_def)

lemma kept_filter: "(\<And>r. \<not> P r \<Longrightarrow> fst F r) \<Longrightarrow> kept key F xs (filter P xs)"
  unfolding kept_def by (intro conjI exI [of _ "[]"]) (auto intro: filter_cong)

lemma kept_map:
  assumes "\<And>r. D r \<Longrightarrow> fst F r \<and> fst F (u r) \<and> key (u r) = key r"
  shows "kept key F xs (map (\<lambda>r. if D r then u r else r) xs)"
proof -
  have "filter (\<lambda>r. \<not> fst F r) (map (\<lambda>r. if D r then u r else r) xs) = filter (\<lambda>r. \<not> fst F r) xs"
    using assms by (induction xs) auto
  moreover have "key ` set (map (\<lambda>r. if D r then u r else r) xs) = key ` set xs"
    using assms by (induction xs) auto
  ultimately show ?thesis by (simp add: kept_def)
qed

text \<open>\<open>spares key Q F xs\<close>: no row with \<open>Q\<close> is of the footprint; both are given by the key of the row. Then
  the rows with \<open>Q\<close> are as before, in their order.\<close>

definition spares :: "('r \<Rightarrow> 'k) \<Rightarrow> ('r \<Rightarrow> bool) \<Rightarrow> 'r part \<Rightarrow> 'r list \<Rightarrow> bool" where
  "spares key Q F xs \<longleftrightarrow>
     (\<forall>r r'. key r = key r' \<longrightarrow> Q r = Q r' \<and> fst F r = fst F r') \<and>
     (\<forall>r \<in> set xs. Q r \<longrightarrow> \<not> fst F r) \<and> (\<forall>r. snd F r \<longrightarrow> \<not> Q r)"

lemma kept_spared:
  assumes "kept key F xs xs'" and s: "spares key Q F xs"
  shows "filter Q xs' = filter Q xs"
proof -
  obtain n where n: "filter (\<lambda>r. \<not> fst F r) xs' = filter (\<lambda>r. \<not> fst F r) xs @ n" "list_all (snd F) n"
      "key ` set xs' \<subseteq> key ` set xs \<union> key ` Collect (snd F)"
    using assms unfolding kept_def by blast
  have old: "r \<in> set xs \<Longrightarrow> Q r \<Longrightarrow> \<not> fst F r" and new: "snd F r \<Longrightarrow> \<not> Q r" for r
    using s unfolding spares_def by blast+
  have "\<not> fst F r" if r: "r \<in> set xs'" "Q r" for r
  proof -
    from n(3) r(1) obtain r' where "key r = key r'" "r' \<in> set xs \<or> snd F r'" by blast
    with r(2) s show ?thesis unfolding spares_def by blast
  qed
  then have "filter Q xs' = filter Q (filter (\<lambda>r. \<not> fst F r) xs')" by (auto simp: filter_filter intro: filter_cong)
  also have "\<dots> = filter Q (filter (\<lambda>r. \<not> fst F r) xs)"
    unfolding n(1) using n(2) new by (auto simp: filter_empty_conv list_all_iff)
  also have "\<dots> = filter Q xs" using old by (auto simp: filter_filter intro: filter_cong)
  finally show ?thesis .
qed

lemma spares_nothing: "(\<And>r r'. key r = key r' \<Longrightarrow> Q r = Q r') \<Longrightarrow> spares key Q nothing xs"
  unfolding spares_def nothing_def fst_conv snd_conv by blast

record footprint =
  fp_issuers :: "issuer_row part"
  fp_users :: "user_row part"
  fp_clients :: "client_row part"
  fp_groups :: "group_row part"
  fp_members :: "member_row part"

definition no_footprint :: footprint where
  "no_footprint = \<lparr>fp_issuers = nothing, fp_users = nothing, fp_clients = nothing, fp_groups = nothing, fp_members = nothing\<rparr>"

definition within :: "footprint \<Rightarrow> tables \<Rightarrow> tables \<Rightarrow> bool" where
  "within F t t' \<longleftrightarrow>
     kept (\<lambda>r. (ir_id r, ir_owner_id r)) (fp_issuers F) (issuers t) (issuers t') \<and>
     kept (\<lambda>u. (ur_id u, ur_iss_id u)) (fp_users F) (user_info t) (user_info t') \<and>
     kept (\<lambda>r. (cr_id r, cr_owner_id r)) (fp_clients F) (oauth_clients t) (oauth_clients t') \<and>
     kept (\<lambda>g. (gr_id g, gr_owner_id g)) (fp_groups F) (groups t) (groups t') \<and>
     kept (\<lambda>m. (mr_group_id m, mr_subject_id m)) (fp_members F) (group_members t) (group_members t')"

lemma within_refl: "within F t t"
  by (simp add: within_def kept_refl)

lemma within_trans: "within F t u \<Longrightarrow> within F u v \<Longrightarrow> within F t v"
  unfolding within_def by (meson kept_trans)

text \<open>The footprint of each request, by the IDs it names. Requests that read have none.\<close>

fun request_footprint :: "api_request \<Rightarrow> footprint" where
  "request_footprint (ReqCreateIssuer oid b) = no_footprint\<lparr>fp_issuers := adds (\<lambda>r. ir_owner_id r = oid)\<rparr>"
| "request_footprint (ReqUpdateIssuer iid b) = no_footprint\<lparr>fp_issuers := changes (\<lambda>r. ir_id r = iid)\<rparr>"
| "request_footprint (ReqDeleteIssuer iid) =
     no_footprint\<lparr>fp_issuers := changes (\<lambda>r. ir_id r = iid), fp_users := changes (\<lambda>u. ur_iss_id u = iid)\<rparr>"
| "request_footprint (ReqCreateOAuthClient oid b) = no_footprint\<lparr>fp_clients := adds (\<lambda>r. cr_owner_id r = oid)\<rparr>"
| "request_footprint (ReqDeleteOAuthClient cid) = no_footprint\<lparr>fp_clients := changes (\<lambda>r. cr_id r = cid)\<rparr>"
| "request_footprint (ReqCreateGroup oid b) = no_footprint\<lparr>fp_groups := adds (\<lambda>r. gr_owner_id r = oid)\<rparr>"
| "request_footprint (ReqUpdateGroup gid b) = no_footprint\<lparr>fp_groups := changes (\<lambda>r. gr_id r = gid)\<rparr>"
| "request_footprint (ReqDeleteGroup gid) = no_footprint\<lparr>fp_groups := changes (\<lambda>r. gr_id r = gid)\<rparr>"
| "request_footprint (ReqAddGroupMembers gid b) =
     no_footprint\<lparr>fp_members := adds (\<lambda>m. mr_group_id m = gid \<and> mr_subject_id m \<in> set (ag_MemberIDs b))\<rparr>"
| "request_footprint (ReqReplaceGroupMembers gid b) =
     no_footprint\<lparr>fp_members :=
       (\<lambda>m. mr_group_id m = gid \<and> mr_subject_id m \<notin> set (ag_MemberIDs b),
        \<lambda>m. mr_group_id m = gid \<and> mr_subject_id m \<in> set (ag_MemberIDs b))\<rparr>"
| "request_footprint (ReqRemoveGroupMember gid sid) =
     no_footprint\<lparr>fp_members := changes (\<lambda>m. mr_group_id m = gid \<and> mr_subject_id m = sid)\<rparr>"
| "request_footprint req = no_footprint"

section \<open>Statements within a footprint\<close>

lemmas fp_simps = within_def no_footprint_def kept_refl changes_def adds_def

lemma within_insert_issuer: "snd (fp_issuers F) r \<Longrightarrow> within F t (insert_issuer r t)"
  by (simp add: within_def insert_issuer_def kept_refl kept_append)

lemma set_columns_key [simp]:
  "ir_id (fold set_column bs r) = ir_id r" "ir_owner_id (fold set_column bs r) = ir_owner_id r"
  by (induction bs arbitrary: r) (auto simp: set_column_def)

lemma within_update_issuer:
  "(\<And>r. ir_id r = iid \<Longrightarrow> fst (fp_issuers F) r) \<Longrightarrow> within F t (fst (update_issuer bs iid t))"
  by (auto simp: within_def update_issuer_def Let_def kept_refl intro!: kept_map)

lemma within_delete_issuer:
  "(\<And>r. ir_id r = iid \<Longrightarrow> fst (fp_issuers F) r) \<Longrightarrow> within F t (fst (delete_issuer iid t))"
  "(\<And>u. ur_iss_id u = iid \<Longrightarrow> fst (fp_users F) u) \<Longrightarrow> within F t (delete_issuer_users iid t)"
  by (auto simp: within_def delete_issuer_def delete_issuer_users_def kept_refl intro!: kept_filter)

lemma within_clients:
  "snd (fp_clients F) r \<Longrightarrow> within F t (fst (insert_client r t))"
  "(\<And>r. cr_id r = cid \<Longrightarrow> fst (fp_clients F) r) \<Longrightarrow> within F t (delete_client cid t)"
  by (auto simp: within_def insert_client_def delete_client_def kept_refl intro!: kept_append kept_filter)

lemma within_groups:
  "snd (fp_groups F) g \<Longrightarrow> within F t (insert_group g t)"
  "(\<And>r. gr_id r = gid \<Longrightarrow> fst (fp_groups F) r) \<Longrightarrow> within F t (update_group name desc gid t)"
  "(\<And>r. gr_id r = gid \<Longrightarrow> fst (fp_groups F) r) \<Longrightarrow> within F t (delete_group gid t)"
  by (auto simp: within_def insert_group_def update_group_def delete_group_def kept_refl intro!: kept_append kept_filter kept_map)

lemma within_delete_members:
  "(\<And>m. mr_group_id m = gid \<and> mr_subject_id m = s \<Longrightarrow> fst (fp_members F) m) \<Longrightarrow> within F t (fst (delete_member gid s t))"
  "(\<And>m. mr_group_id m = gid \<and> mr_subject_id m \<in> set ss \<Longrightarrow> fst (fp_members F) m) \<Longrightarrow> within F t (delete_members gid ss t)"
  by (auto simp: within_def delete_member_def delete_members_def Let_def kept_refl intro!: kept_filter)

lemma within_upsert_members:
  "(\<And>s. s \<in> set ss \<Longrightarrow> snd (fp_members F) \<lparr>mr_group_id = gid, mr_subject_id = s\<rparr>) \<Longrightarrow> within F t (upsert_members gid ss t)"
proof (induction ss arbitrary: t)
  case (Cons s ss)
  let ?r = "\<lparr>mr_group_id = gid, mr_subject_id = s\<rparr>"
  let ?t = "if ?r \<in> set (group_members t) then t else t\<lparr>group_members := group_members t @ [?r]\<rparr>"
  have "within F t ?t" using Cons.prems by (auto simp: within_def kept_refl intro!: kept_append)
  from within_trans [OF this Cons.IH] Cons.prems show ?case by (simp add: Let_def)
qed (simp add: within_refl)

section \<open>Calls within a footprint\<close>

text \<open>The transaction \<open>k\<close> is finished, or its tables have changed within the footprint.\<close>

definition stays :: "footprint \<Rightarrow> nat \<Rightarrow> world \<Rightarrow> world \<Rightarrow> bool" where
  "stays F k w w' \<longleftrightarrow>
     (case tx_lookup k w of
        TxDone \<Rightarrow> tx_lookup k w' = TxDone
      | TxOpen b t \<Rightarrow> tx_lookup k w' = TxDone \<or> (\<exists>t'. tx_lookup k w' = TxOpen b t' \<and> within F t t'))"

interpretation st: frame_rel "stays F k" for F k
proof unfold_locales
  show "stays F k w w" for w by (simp add: stays_def within_refl split: tx.splits)
  show "stays F k u w" if "stays F k u v" "stays F k v w" for u v w
    using that by (auto simp: stays_def split: tx.splits intro: within_trans)
qed

text \<open>The result of a call may be used for what follows it.\<close>

context frame_rel
begin

lemma bindE_frame_val:
  "frame R m \<Longrightarrow> (\<And>a w w'. m w = (Ok a, w') \<Longrightarrow> frame R (f a)) \<Longrightarrow> frame R (bindE m f)"
  unfolding frame_def bindE_def
  by (auto split: prod.splits res.splits) (metis frame_trans snd_conv frame_refl)+

end

lemma stays_read: "frame (evolve None) m \<Longrightarrow> frame (stays F k) m"
  unfolding frame_def
proof (intro allI)
  fix w assume "\<forall>w. evolve None w (snd (m w))"
  then have e: "evolve None w (snd (m w))" by blast
  then have "txs (snd (m w)) = txs w" unfolding evolve_def by (auto intro: nth_equalityI)
  then show "stays F k w (snd (m w))" by (simp add: stays_def tx_lookup_def within_refl split: tx.splits)
qed

lemma stays_exec: "(\<And>t. within F t (fst (f t))) \<Longrightarrow> frame (stays F k) (tx_exec k f)"
  by (auto simp: frame_def stays_def tx_exec_def db_call_def tx_lookup_put_tx within_refl Let_def
      split: tx.splits option.splits prod.splits dest: tx_lookup_Open) (metis fst_conv)+

lemma stays_exec_check: "(\<And>t. within F t (fst (f t))) \<Longrightarrow> frame (stays F k) (tx_exec_check k chk f)"
  using stays_exec [of F f k]
  by (auto simp: frame_def tx_exec_check_def db_call_def stays_def within_refl split: tx.splits option.splits)

lemma stays_tx: "ctx_tx c = CtxTx k \<Longrightarrow> frame (stays F k) (f k) \<Longrightarrow> frame (stays F k) (bindE (getContextTx c) f)"
  by (simp add: getContextTx_def)

lemma stays_rollback: "ctx_tx c = CtxTx k \<Longrightarrow> frame (stays F k) (RollbackContext c)"
  by (auto simp: RollbackContext_def rollbackContextTx_def getContextTx_def frame_def stays_def tx_Rollback_def db_call_def
      tx_lookup_put_tx within_refl split: tx.splits option.splits dest: tx_lookup_Open)

lemma stays_rollback_error: "ctx_tx c = CtxTx k \<Longrightarrow> frame (stays F k) (rollbackAndReturnError c code msg)"
  unfolding rollbackAndReturnError_def by (intro st.tryE_frame st.fail_frame stays_rollback)

section \<open>Operations within a footprint\<close>

lemma fetchGroupByID_id: "fetchGroupByID c gid w = (Ok g, w') \<Longrightarrow> g_ID g = gid"
proof -
  assume "fetchGroupByID c gid w = (Ok g, w')"
  then obtain rows r rs v where r: "ctx_query c (select_group gid) w = (Ok rows, v)" "rows = r # rs" "g = group_of_row r"
    by (auto simp: fetchGroupByID_def scanGroup_def bindE_eq_Ok tryE_eq_Ok scan_row_eq split: if_splits)
  then obtain t where "select_group gid t = r # rs"
    by (auto simp: ctx_query_def getContextTx_def go_simps tx_query_def db_query_def db_call_def
        split: ctxval.splits tx.splits option.splits if_splits)
  then have "r \<in> set (select_group gid t)" by simp
  then show "g_ID g = gid" using r(3) by (simp add: select_group_def group_of_row_def)
qed

lemma insertIssuer_stays:
  assumes "ctx_tx c = CtxTx k" and "\<And>r. ir_owner_id r = iss_OwnerID iss \<Longrightarrow> snd (fp_issuers F) r"
  shows "frame (stays F k) (insertIssuer X c iss)"
  unfolding insertIssuer_def
  by (intro st.bindE_frame stays_tx [OF assms(1)] stays_exec st.ret_frame st.lift_frame st.option_frame)
    (auto intro!: within_insert_issuer assms)

lemma CreateIssuer_stays:
  assumes "ctx_tx c = CtxTx k" and "\<And>r. ir_owner_id r = iss_OwnerID iss \<Longrightarrow> snd (fp_issuers F) r"
  shows "frame (stays F k) (CreateIssuer X c iss)"
  unfolding CreateIssuer_def by (intro st.bindE_frame st.ret_frame insertIssuer_stays assms)

lemma UpdateIssuer_stays:
  assumes "ctx_tx c = CtxTx k" and "\<And>r. ir_id r = iid \<Longrightarrow> fst (fp_issuers F) r"
  shows "frame (stays F k) (UpdateIssuer X c iid u)"
  unfolding UpdateIssuer_def
  by (intro stays_tx [OF assms(1)] st.bindE_frame st.let_frame st.prod_frame st.lift_frame stays_exec_check
      within_update_issuer assms(2) stays_read scanIssuer_frames(1))

lemma DeleteIssuer_stays:
  assumes "ctx_tx c = CtxTx k" and "\<And>r. ir_id r = iid \<Longrightarrow> fst (fp_issuers F) r"
    and "\<And>u. ur_iss_id u = iid \<Longrightarrow> fst (fp_users F) u"
  shows "frame (stays F k) (DeleteIssuer c iid)"
  unfolding DeleteIssuer_def
  by (intro stays_tx [OF assms(1)] st.bindE_frame st.if_frame st.ret_frame st.fail_frame stays_exec)
    (auto intro!: within_delete_issuer assms)

lemma client_ops_stay:
  assumes "ctx_tx c = CtxTx k"
  shows "(\<And>r. cr_owner_id r = oc_OwnerID cl \<Longrightarrow> snd (fp_clients F) r) \<Longrightarrow> frame (stays F k) (CreateOAuthClient X c cl)"
    "(\<And>r. cr_id r = cid \<Longrightarrow> fst (fp_clients F) r) \<Longrightarrow> frame (stays F k) (DeleteOAuthClient c cid)"
  unfolding CreateOAuthClient_def DeleteOAuthClient_def Let_def
  by (intro stays_tx [OF assms(1)] st.bindE_frame st.ret_frame stays_exec stays_read [OF with_entropy_frames(1)] stays_read [OF scan_row_frames(1)];
      simp add: within_clients)+

lemma CreateGroup_stays:
  assumes "ctx_tx c = CtxTx k" and "\<And>r. gr_owner_id r = g_OwnerID g \<Longrightarrow> snd (fp_groups F) r"
  shows "frame (stays F k) (CreateGroup c g)"
  unfolding CreateGroup_def insertGroup_def
  by (intro st.tryE_frame stays_tx [OF assms(1)] st.if_frame st.fail_frame stays_exec stays_read fetchGroupByID_frames(1))
    (auto intro!: within_groups assms simp: row_of_group_def)

lemma UpdateGroup_stays:
  assumes "ctx_tx c = CtxTx k" and "\<And>r. gr_id r = gid \<Longrightarrow> fst (fp_groups F) r"
  shows "frame (stays F k) (UpdateGroup c gid u)"
  unfolding UpdateGroup_def Let_def
proof (rule stays_tx [OF assms(1)], rule st.bindE_frame_val)
  show "frame (stays F k) (fetchGroupByID c gid)" by (rule stays_read) (rule fetchGroupByID_frames)
qed (use assms(2) in \<open>auto dest!: fetchGroupByID_id intro!: st.tryE_frame st.if_frame st.fail_frame st.ret_frame stays_exec within_groups(2) split: option.splits\<close>)

lemma DeleteGroup_stays:
  assumes "ctx_tx c = CtxTx k" and "\<And>r. gr_id r = gid \<Longrightarrow> fst (fp_groups F) r"
  shows "frame (stays F k) (DeleteGroup c gid)"
  unfolding DeleteGroup_def
  by (intro stays_tx [OF assms(1)] st.bindE_frame stays_exec stays_read fetchGroupByID_frames(1)) (simp add: within_groups assms(2))

lemma AddGroupMembers_stays:
  assumes "ctx_tx c = CtxTx k" and "\<And>s. s \<in> set ss \<Longrightarrow> snd (fp_members F) \<lparr>mr_group_id = gid, mr_subject_id = s\<rparr>"
  shows "frame (stays F k) (AddGroupMembers c gid ss)"
  unfolding AddGroupMembers_def
  by (intro st.if_frame st.ret_frame stays_tx [OF assms(1)] st.bindE_frame stays_exec_check stays_read fetchGroupByID_frames(1))
    (simp add: within_upsert_members assms(2))

lemma RemoveGroupMember_stays:
  assumes "ctx_tx c = CtxTx k" and "\<And>m. mr_group_id m = gid \<and> mr_subject_id m = s \<Longrightarrow> fst (fp_members F) m"
  shows "frame (stays F k) (RemoveGroupMember c gid s)"
  unfolding RemoveGroupMember_def
  by (intro stays_tx [OF assms(1)] st.bindE_frame st.if_frame st.ret_frame st.fail_frame stays_exec stays_read fetchGroupByID_frames(1))
    (simp add: within_delete_members assms(2))

lemma ReplaceGroupMembers_stays:
  assumes "ctx_tx c = CtxTx k"
    and "\<And>m. mr_group_id m = gid \<and> mr_subject_id m \<notin> set ss \<Longrightarrow> fst (fp_members F) m"
    and "\<And>s. s \<in> set ss \<Longrightarrow> snd (fp_members F) \<lparr>mr_group_id = gid, mr_subject_id = s\<rparr>"
  shows "frame (stays F k) (ReplaceGroupMembers c gid ss)"
  unfolding ReplaceGroupMembers_def Diff_def Let_def prod.case
  by (intro stays_tx [OF assms(1)] st.bindE_frame st.ret_frame stays_exec AddGroupMembers_stays [OF assms(1)] stays_read read_frames)
    (auto intro!: within_delete_members assms(2,3))

section \<open>Requests within their footprint\<close>

lemmas stays_rules = st.bindE_frame st.tryE_frame st.if_frame st.option_frame st.prod_frame st.let_frame st.ret_frame st.fail_frame st.lift_frame

lemma fetch_group_id: "fetch_group c gid w = (Ok g, w') \<Longrightarrow> g_ID g = gid"
  by (auto simp: fetch_group_def GetGroupByID_def tryE_eq_Ok dest: fetchGroupByID_id split: if_splits)

lemma guards_stay:
  "frame (stays F k) (CheckAccess X c res act)" "frame (stays F k) (parse_or_400 X msg s)" "frame (stays F k) (parse_all_or_400 X ss)"
  "frame (stays F k) (fetch_issuer X c i)" "frame (stays F k) (fetch_client c i)" "frame (stays F k) (fetch_group c i)"
  "frame (stays F k) (with_entropy f)" "frame (stays F k) (GenerateSecureToken X n)" "frame (stays F k) (GroupMembersCount c i)"
  "frame (stays F k) (Events_AddGroupMembers X i ss)" "frame (stays F k) (Events_RemoveGroupMembers X i ss)"
  "frame (stays F k) (Events_CreateGroup X j i)" "frame (stays F k) (Events_DeleteGroup X j i)"
  by (rule stays_read, intro frame_rules)+

lemma issuer_requests_stay:
  assumes "ctx_tx c = CtxTx k"
  shows "frame (stays (request_footprint (ReqCreateIssuer oid ci)) k) (apiHandler_CreateIssuer X c oid ci)"
    "frame (stays (request_footprint (ReqUpdateIssuer iid iu)) k) (apiHandler_UpdateIssuer X c iid iu)"
    "frame (stays (request_footprint (ReqDeleteIssuer iid)) k) (apiHandler_DeleteIssuer X c iid)"
  unfolding apiHandler_CreateIssuer_def apiHandler_UpdateIssuer_def apiHandler_DeleteIssuer_def
  by (intro stays_rules guards_stay CreateIssuer_stays [OF assms] UpdateIssuer_stays [OF assms] DeleteIssuer_stays [OF assms];
      simp add: fp_simps)+

lemma client_requests_stay:
  assumes "ctx_tx c = CtxTx k"
  shows "frame (stays (request_footprint (ReqCreateOAuthClient oid cc)) k) (apiHandler_CreateOAuthClient X c oid cc)"
    "frame (stays (request_footprint (ReqDeleteOAuthClient cid)) k) (apiHandler_DeleteOAuthClient X c cid)"
  unfolding apiHandler_CreateOAuthClient_def apiHandler_DeleteOAuthClient_def
  by (intro stays_rules guards_stay client_ops_stay [OF assms]; simp add: fp_simps)+

lemma group_requests_stay:
  assumes "ctx_tx c = CtxTx k"
  shows "frame (stays (request_footprint (ReqCreateGroup oid cg)) k) (apiHandler_CreateGroup X c oid cg)"
    "frame (stays (request_footprint (ReqUpdateGroup gid ug)) k) (apiHandler_UpdateGroup X c gid ug)"
  unfolding apiHandler_CreateGroup_def apiHandler_UpdateGroup_def
  by (intro stays_rules guards_stay stays_rollback_error [OF assms] CreateGroup_stays [OF assms] UpdateGroup_stays [OF assms]; simp add: fp_simps)+

lemma delete_group_stays:
  assumes "ctx_tx c = CtxTx k"
  shows "frame (stays (request_footprint (ReqDeleteGroup gid)) k) (apiHandler_DeleteGroup X c gid)"
  unfolding apiHandler_DeleteGroup_def
  by (rule st.bindE_frame [OF guards_stay(2)], rule st.bindE_frame [OF guards_stay(1)], rule st.bindE_frame_val [OF guards_stay(6)],
      drule fetch_group_id,
      intro stays_rules guards_stay stays_rollback_error [OF assms] DeleteGroup_stays [OF assms]) (simp add: fp_simps)

lemma member_requests_stay:
  assumes "ctx_tx c = CtxTx k"
  shows "frame (stays (request_footprint (ReqAddGroupMembers gid ag)) k) (apiHandler_AddGroupMembers X c gid ag)"
    "frame (stays (request_footprint (ReqReplaceGroupMembers gid ag)) k) (apiHandler_ReplaceGroupMembers X c gid ag)"
    "frame (stays (request_footprint (ReqRemoveGroupMember gid sid)) k) (apiHandler_RemoveGroupMember X c gid sid)"
  unfolding apiHandler_AddGroupMembers_def apiHandler_ReplaceGroupMembers_def apiHandler_RemoveGroupMember_def
  by (intro stays_rules guards_stay stays_rollback_error [OF assms] AddGroupMembers_stays [OF assms] ReplaceGroupMembers_stays [OF assms]
      RemoveGroupMember_stays [OF assms]; simp add: fp_simps)+

lemma read_requests_stay:
  "frame (stays F k) (apiHandler_GetOAuthClient X c i)" "frame (stays F k) (apiHandler_GetGroupByID X c i)"
  "frame (stays F k) (apiHandler_ListGroupMembers X c i p)" "frame (stays F k) (apiHandler_GetIssuerByID X c i)"
  "frame (stays F k) (apiHandler_GetIssuerUsers X c i p)" "frame (stays F k) (apiHandler_GetOwnerOAuthClients X c i p)"
  "frame (stays F k) (apiHandler_ListGroups X c i p)" "frame (stays F k) (apiHandler_ListOwnerIssuers X c i p)"
  "frame (stays F k) (apiHandler_GetUserByID X c i)" "frame (stays F k) (apiHandler_ListUserGroups X c i p)"
  unfolding apiHandler_GetOAuthClient_def apiHandler_GetGroupByID_def apiHandler_ListGroupMembers_def apiHandler_GetIssuerByID_def
    apiHandler_GetIssuerUsers_def apiHandler_GetOwnerOAuthClients_def apiHandler_ListGroups_def apiHandler_ListOwnerIssuers_def
    apiHandler_GetUserByID_def apiHandler_ListUserGroups_def
  by (rule stays_read, intro frame_rules)+

lemma ssi_call_stays:
  assumes "ctx_tx c = CtxTx k"
  shows "frame (stays (request_footprint req) k) (ssi_call X c req)"
  by (cases req)
    (simp_all only: ssi_call.simps respond_def,
     (rule st.bindE_frame [OF _ st.ret_frame],
      rule read_requests_stay issuer_requests_stay [OF assms] client_requests_stay [OF assms] group_requests_stay [OF assms]
        delete_group_stays [OF assms] member_requests_stay [OF assms])+)

lemma VisitResponse_stays: "frame (stays F k) (VisitResponse b)"
  by (auto simp: frame_def stays_def VisitResponse_def send_status_def tx_lookup_def within_refl split: tx.splits option.splits)

lemma strictHandler_stays: "ctx_tx c = CtxTx k \<Longrightarrow> frame (stays (request_footprint req) k) (strictHandler X req c)"
  unfolding strictHandler_eq by (intro st.bindE_frame ssi_call_stays VisitResponse_stays)

lemma requests_stay_within:
  assumes "api_handle X req c w = (r, w')"
  shows "within (request_footprint req) (committed w) (committed w')"
  using api_handle_atomic [OF assms]
proof (elim disjE exE conjE)
  fix c' v u
  assume b: "BeginContext c w = (Ok c', v)" and h: "strictHandler X req c' v = (Ok (), u)"
    and t: "tx_view c' u = Some (committed w')"
  then have c': "c' = begun_ctx c w" "v = begun w" by (auto simp: BeginContext_cases split: option.splits)
  have tx: "ctx_tx c' = CtxTx (length (txs w))" by (simp add: c'(1) begun_ctx_def)
  have "stays (request_footprint req) (length (txs w)) (begun w) u"
    using frameD [OF strictHandler_stays [OF tx] h] c'(2) by simp
  with t tx show ?thesis by (auto simp: stays_def begun_lookup tx_view_def split: tx.splits)
qed (simp add: within_refl)

section \<open>Separation of the tenants\<close>

text \<open>What the tables hold of one owner: its issuers and their users, its clients, its groups and their
  members.\<close>

definition tenant :: "string \<Rightarrow> tables \<Rightarrow> tables" where
  "tenant oid t =
    (let own_issuers = filter (\<lambda>r. ir_owner_id r = oid) (issuers t);
         own_groups = filter (\<lambda>g. gr_owner_id g = oid) (groups t)
     in \<lparr>issuers = own_issuers,
         user_info = filter (\<lambda>u. ur_iss_id u \<in> ir_id ` set own_issuers) (user_info t),
         oauth_clients = filter (\<lambda>r. cr_owner_id r = oid) (oauth_clients t),
         groups = own_groups,
         group_members = filter (\<lambda>m. mr_group_id m \<in> gr_id ` set own_groups) (group_members t)\<rparr>)"

definition avoids :: "footprint \<Rightarrow> string \<Rightarrow> tables \<Rightarrow> bool" where
  "avoids F oid t \<longleftrightarrow>
     spares (\<lambda>r. (ir_id r, ir_owner_id r)) (\<lambda>r. ir_owner_id r = oid) (fp_issuers F) (issuers t) \<and>
     spares (\<lambda>u. (ur_id u, ur_iss_id u)) (\<lambda>u. ur_iss_id u \<in> ir_id ` set (issuers (tenant oid t))) (fp_users F) (user_info t) \<and>
     spares (\<lambda>r. (cr_id r, cr_owner_id r)) (\<lambda>r. cr_owner_id r = oid) (fp_clients F) (oauth_clients t) \<and>
     spares (\<lambda>g. (gr_id g, gr_owner_id g)) (\<lambda>g. gr_owner_id g = oid) (fp_groups F) (groups t) \<and>
     spares (\<lambda>m. (mr_group_id m, mr_subject_id m)) (\<lambda>m. mr_group_id m \<in> gr_id ` set (groups (tenant oid t)))
       (fp_members F) (group_members t)"

lemma tenant_parts:
  "issuers (tenant oid t) = filter (\<lambda>r. ir_owner_id r = oid) (issuers t)"
  "groups (tenant oid t) = filter (\<lambda>g. gr_owner_id g = oid) (groups t)"
  by (simp_all add: tenant_def Let_def)

lemma tenant_kept:
  assumes "within F t t'" and "avoids F oid t"
  shows "tenant oid t' = tenant oid t"
proof -
  note kept = assms(1) [unfolded within_def] and spared = assms(2) [unfolded avoids_def tenant_parts]
  from kept spared have i: "filter (\<lambda>r. ir_owner_id r = oid) (issuers t') = filter (\<lambda>r. ir_owner_id r = oid) (issuers t)"
    by (elim conjE) (rule kept_spared)
  from kept spared have c: "filter (\<lambda>r. cr_owner_id r = oid) (oauth_clients t') = filter (\<lambda>r. cr_owner_id r = oid) (oauth_clients t)"
    by (elim conjE) (rule kept_spared)
  from kept spared have g: "filter (\<lambda>g. gr_owner_id g = oid) (groups t') = filter (\<lambda>g. gr_owner_id g = oid) (groups t)"
    by (elim conjE) (rule kept_spared)
  from kept spared have u: "filter (\<lambda>u. ur_iss_id u \<in> ir_id ` set (issuers (tenant oid t))) (user_info t') =
      filter (\<lambda>u. ur_iss_id u \<in> ir_id ` set (issuers (tenant oid t))) (user_info t)"
    unfolding tenant_parts by (elim conjE) (rule kept_spared)
  from kept spared have m: "filter (\<lambda>m. mr_group_id m \<in> gr_id ` set (groups (tenant oid t))) (group_members t') =
      filter (\<lambda>m. mr_group_id m \<in> gr_id ` set (groups (tenant oid t))) (group_members t)"
    unfolding tenant_parts by (elim conjE) (rule kept_spared)
  show ?thesis using u m unfolding tenant_parts by (simp add: tenant_def Let_def i c g)
qed

text \<open>An actor with no permission on the owner, nor on a group of the owner.\<close>

definition stranger :: "('ast, 'expr) ext \<Rightarrow> string \<Rightarrow> string \<Rightarrow> tables \<Rightarrow> bool" where
  "stranger X actor oid t \<longleftrightarrow>
     (\<forall>res \<in> insert oid (gr_id ` set (groups (tenant oid t))). \<forall>act. permissions_CheckAccess X actor res act \<noteq> None)"

lemma authorised_owner:
  assumes "authorised X actor req t" and "required_access req t = owner_access own act (\<lambda>r. key r = i) rows"
    and "distinct (map key rows)" and "r \<in> set rows" and "key r = i"
  shows "permissions_CheckAccess X actor (own r) act = None"
proof -
  from assms(1,2) obtain s where s: "find (\<lambda>r. key r = i) rows = Some s" "permissions_CheckAccess X actor (own s) act = None"
    by (auto simp: authorised_def owner_access_def split: option.splits)
  then have "s \<in> set rows" "key s = i" by (auto simp: find_Some_iff)
  with assms(3-5) have "s = r" by (auto simp: distinct_map dest: inj_onD)
  with s(2) show ?thesis by simp
qed

lemma strangers_row:
  assumes "stranger X actor oid t" and "authorised X actor req t" and "schema_ok t"
  shows "required_access req t = Some (res, act) \<Longrightarrow> res \<noteq> oid \<and> res \<notin> gr_id ` set (groups (tenant oid t))"
    and "required_access req t = owner_access ir_owner_id act (\<lambda>r. ir_id r = i) (issuers t) \<Longrightarrow> r \<in> set (issuers t) \<Longrightarrow>
      ir_id r = i \<Longrightarrow> ir_owner_id r \<noteq> oid"
    and "required_access req t = owner_access cr_owner_id act (\<lambda>r. cr_id r = i) (oauth_clients t) \<Longrightarrow> q \<in> set (oauth_clients t) \<Longrightarrow>
      cr_id q = i \<Longrightarrow> cr_owner_id q \<noteq> oid"
proof -
  have "permissions_CheckAccess X actor res act = None" if "required_access req t = Some (res, act)"
    using assms(2) that by (simp add: authorised_def)
  then show "required_access req t = Some (res, act) \<Longrightarrow> res \<noteq> oid \<and> res \<notin> gr_id ` set (groups (tenant oid t))"
    using assms(1) unfolding stranger_def by blast
  have own: "permissions_CheckAccess X actor oid act \<noteq> None" using assms(1) by (simp add: stranger_def)
  have "distinct (map ir_id (issuers t))" "distinct (map cr_id (oauth_clients t))"
    using assms(3) by (simp_all add: schema_ok_def keys_ok_def)
  note found = authorised_owner [OF assms(2) _ this(1)] authorised_owner [OF assms(2) _ this(2)]
  show "required_access req t = owner_access ir_owner_id act (\<lambda>r. ir_id r = i) (issuers t) \<Longrightarrow> r \<in> set (issuers t) \<Longrightarrow>
      ir_id r = i \<Longrightarrow> ir_owner_id r \<noteq> oid"
    using found(1) own by metis
  show "required_access req t = owner_access cr_owner_id act (\<lambda>r. cr_id r = i) (oauth_clients t) \<Longrightarrow> q \<in> set (oauth_clients t) \<Longrightarrow>
      cr_id q = i \<Longrightarrow> cr_owner_id q \<noteq> oid"
    using found(2) own by metis
qed

lemmas avoids_simps = avoids_def no_footprint_def spares_def nothing_def changes_def adds_def

lemma strangers_avoid:
  assumes "authorised X actor req t" and "stranger X actor oid t" and "schema_ok t"
  shows "avoids (request_footprint req) oid t"
proof -
  note row = strangers_row [OF assms(2,1,3)]
  have named: "\<forall>res act. required_access req t = Some (res, act) \<longrightarrow> res \<noteq> oid \<and> res \<notin> gr_id ` set (groups (tenant oid t))"
    using row(1) by blast
  show ?thesis
  proof (cases req)
    case (ReqDeleteIssuer i)
    then have "\<forall>r \<in> set (issuers t). ir_id r = i \<longrightarrow> ir_owner_id r \<noteq> oid" using row(2) by simp
    then show ?thesis by (auto simp: ReqDeleteIssuer avoids_simps tenant_parts)
  next
    case (ReqUpdateIssuer i b)
    then have "\<forall>r \<in> set (issuers t). ir_id r = i \<longrightarrow> ir_owner_id r \<noteq> oid" using row(2) by simp
    then show ?thesis by (auto simp: ReqUpdateIssuer avoids_simps tenant_parts)
  next
    case (ReqDeleteOAuthClient i)
    then have "\<forall>r \<in> set (oauth_clients t). cr_id r = i \<longrightarrow> cr_owner_id r \<noteq> oid" using row(3) by simp
    then show ?thesis by (auto simp: ReqDeleteOAuthClient avoids_simps)
  qed (use named in \<open>auto simp: avoids_simps tenant_parts\<close>)
qed

lemma strangers_keep_tenant:
  assumes run: "api_handle X req c w = (r, w')" and "stranger X (ctx_actor c) oid (committed w)" and "schema_ok (committed w)"
  shows "tenant oid (committed w') = tenant oid (committed w)"
proof (cases "authorised X (ctx_actor c) req (committed w)")
  case True
  from tenant_kept [OF requests_stay_within [OF run] strangers_avoid [OF True assms(2,3)]] show ?thesis .
next
  case False
  from api_handle_unauthorised [OF False run] show ?thesis by simp
qed

lemma serve_committed: "\<exists>r w'. api_handle X req c w = (r, w') \<and> committed (snd (serve X req c w)) = committed w'"
  by (cases "api_handle X req c w"; cases "fst (api_handle X req c w)")
    (auto simp: serve_def go_simps eCtx_Error_def send_status_def)

section \<open>Token exchanges and seeding\<close>

text \<open>Where the durable tables are after a call: \<open>S\<close> is closed under calls that do not commit.\<close>

definition lands :: "tables set \<Rightarrow> 'a dbio \<Rightarrow> world \<Rightarrow> bool" where
  "lands S m w \<longleftrightarrow> committed (snd (m w)) \<in> S"

definition at_rest :: "world \<Rightarrow> world \<Rightarrow> bool" where
  "at_rest w w' \<longleftrightarrow> committed w' = committed w"

interpretation ar: frame_rel at_rest
  by unfold_locales (simp_all add: at_rest_def)

lemma at_rest_evolve: "frame (evolve o') m \<Longrightarrow> frame at_rest m"
  by (simp add: frame_def at_rest_def evolve_def)

lemma at_rest_tx: "frame at_rest (BeginContext c)" "frame at_rest (beginTxContext c)" "frame at_rest (RollbackContext c)"
    "frame at_rest (rollbackContextTx c)"
  by (auto simp: frame_def at_rest_def BeginContext_def beginTxContext_cases RollbackContext_def rollbackContextTx_def getContextTx_def
      tx_Rollback_def db_call_def go_simps split: option.splits ctxval.splits tx.splits)

lemma lands_rest: "frame at_rest m \<Longrightarrow> committed w \<in> S \<Longrightarrow> lands S m w"
  by (simp add: frame_def at_rest_def lands_def)

lemma lands_bindE:
  assumes "frame at_rest m" and "committed w \<in> S"
    and "\<And>a v. m w = (Ok a, v) \<Longrightarrow> committed v = committed w \<Longrightarrow> lands S (f a) v"
  shows "lands S (bindE m f) w"
proof -
  obtain r v where v: "m w = (r, v)" by fastforce
  then have "committed v = committed w" using assms(1) by (metis frame_def at_rest_def snd_conv)
  with v assms(2,3) show ?thesis by (cases r) (auto simp: lands_def bindE_def)
qed

lemma lands_tryE:
  assumes "frame at_rest m" and "committed w \<in> S" and "\<And>e. frame at_rest (h e)"
    and "\<And>a v. m w = (Ok a, v) \<Longrightarrow> committed v = committed w \<Longrightarrow> lands S (f a) v"
  shows "lands S (tryE m h f) w"
proof -
  obtain r v where v: "m w = (r, v)" by fastforce
  then have c: "committed v = committed w" using assms(1) by (metis frame_def at_rest_def snd_conv)
  have "committed (snd (h e v)) = committed w" for e using assms(3) [of e] c by (simp add: frame_def at_rest_def)
  with v c assms(2,4) show ?thesis by (cases r) (auto simp: lands_def tryE_def)
qed

text \<open>A commit of the transaction \<open>k\<close>, and calls after it that do not commit.\<close>

lemma lands_commit:
  assumes "\<exists>k. ctx_tx c = CtxTx k \<and> (tx_lookup k w = TxDone \<or> (\<exists>b t. tx_lookup k w = TxOpen b t \<and> t \<in> S))" and "committed w \<in> S"
    and "\<And>e. frame at_rest (h e)" and "\<And>a. frame at_rest (f a)"
  shows "lands S (tryE (CommitContext c) h f) w"
proof -
  obtain r v where v: "CommitContext c w = (r, v)" by fastforce
  have "committed v \<in> S"
    using v assms(1,2)
    by (auto simp: CommitContext_def commitContextTx_def getContextTx_def go_simps tx_Commit_def db_call_def
        split: option.splits if_splits)
  then have "committed (snd (h e v)) \<in> S" "committed (snd (f a v)) \<in> S" for e a
    using assms(3) [of e] assms(4) [of a] by (simp_all add: frame_def at_rest_def)
  with v \<open>committed v \<in> S\<close> show ?thesis by (cases r) (auto simp: lands_def tryE_def)
qed

lemma lands_fail: "committed w \<in> S \<Longrightarrow> lands S (fail e) w"
  by (simp add: lands_def fail_def)

lemma lands_if: "(b \<Longrightarrow> lands S m w) \<Longrightarrow> (\<not> b \<Longrightarrow> lands S n w) \<Longrightarrow> lands S (if b then m else n) w"
  by simp

text \<open>A token exchange, also one that fails, adds at most one user, and this is a user of the issuer that
  signed the subject token.\<close>

definition exchange_result :: "('ast, 'expr) ext \<Rightarrow> tokext \<Rightarrow> string \<Rightarrow> tables \<Rightarrow> tables set" where
  "exchange_result X T token t = insert t
     {t\<lparr>user_info := user_info t @ [u]\<rparr> | u claims i. signed_by_issuer X T t token claims \<and> i \<in> set (issuers t) \<and>
        ir_uri i = jc_Issuer claims \<and> ur_iss_id u = ir_id i}"

lemma exchange_in_tx:
  assumes law: "jwt_law T" and sig: "signed_by_issuer X T (committed w) token claims"
    and b: "BeginContext c w = (Ok c', w1)"
    and p: "populateUserInfo T c' (mapped_subject T m claims) w1 = (Ok ui, w2)" and o': "override_ID X T m ui w2 = (Ok ui2, w3)"
    and s: "StoreUserInfo X c' ui2 w3 = (Ok ui3, w4)"
  shows "\<exists>k t. ctx_tx c' = CtxTx k \<and> tx_lookup k w4 = TxOpen (committed w) t \<and> t \<in> exchange_result X T token (committed w)"
proof -
  obtain k where k: "ctx_tx c' = CtxTx k" "tx_lookup k w1 = TxOpen (committed w) (committed w)" "committed w1 = committed w"
    using BeginContext_Ok [OF b] by blast
  have ui: "ui_Issuer ui = jc_Issuer claims" "tx_lookup k w2 = TxOpen (committed w) (committed w)"
    using populateUserInfo_Ok [OF law k(1,2) p] by auto
  have w3: "w3 = w2" "ui_Issuer ui2 = ui_Issuer ui" using override_ID_Ok [OF o'] by auto
  from StoreUserInfo_Ok [OF k(1) ui(2) [folded w3(1)] s] k(1) sig ui(1) w3(2) show ?thesis
    by (auto simp: exchange_result_def)
qed

lemma exchange_lands:
  assumes law: "jwt_law T" and ctx: "ctx_tx c = CtxNil"
  shows "lands (exchange_result X T (Values_Get (ar_Form req) ParamSubjectToken) (committed w)) (HandleTokenEndpointRequest X T cfg c req) w"
proof -
  define token where "token = Values_Get (ar_Form req) ParamSubjectToken"
  define S where "S = exchange_result X T token (committed w)"
  have S: "committed w \<in> S" by (simp add: S_def exchange_result_def)
  note steps = at_rest_evolve [OF exchange_step_frames(1)] at_rest_evolve [OF exchange_step_frames(3)] at_rest_evolve [OF exchange_step_frames(5)]
    at_rest_evolve [OF exchange_step_frames(7)] at_rest_evolve [OF exchange_step_frames(9)] at_rest_evolve [OF StoreUserInfo_evolve]
    at_rest_evolve [OF build_session_frames(1)] at_rest_tx ar.fail_frame ar.tryE_frame
  have stored: "\<exists>k. ctx_tx c' = CtxTx k \<and> (tx_lookup k v4 = TxDone \<or> (\<exists>b t. tx_lookup k v4 = TxOpen b t \<and> t \<in> S))"
    if "getSubjectClaims X T cfg c token w = (Ok claims, v)" "BeginContext c v0 = (Ok c', v1)"
      "populateUserInfo T c' (mapped_subject T m claims) v1 = (Ok ui, v2)" "override_ID X T m ui v2 = (Ok ui2, v3)"
      "StoreUserInfo X c' ui2 v3 = (Ok ui3, v4)" "committed v0 = committed w" for claims v v0 c' v1 m ui v2 ui2 v3 ui3 v4
  proof -
    have "signed_by_issuer X T (committed v0) token claims" using getSubjectClaims_Ok [OF ctx that(1)] that(6) by simp
    from exchange_in_tx [OF law this that(2-5)] that(6) show ?thesis unfolding S_def by auto
  qed
  show ?thesis
    unfolding HandleTokenEndpointRequest_def Let_def token_def [symmetric] S_def [symmetric]
    by (rule lands_if lands_fail lands_commit steps | rule lands_tryE | rule lands_bindE | (rule stored, assumption+, simp)
        | (simp add: S; fail))+
qed

text \<open>Seeding adds issuers of the owners that the seeds name.\<close>

definition seed_footprint :: "SeedIssuer list \<Rightarrow> footprint" where
  "seed_footprint seeds = no_footprint\<lparr>fp_issuers := adds (\<lambda>r. ir_owner_id r \<in> seed_OwnerID ` set seeds)\<rparr>"

lemma seed_loop_stays:
  assumes "ctx_tx c = CtxTx k" and "\<And>r. ir_owner_id r \<in> seed_OwnerID ` set seeds \<Longrightarrow> snd (fp_issuers F) r"
  shows "frame (stays F k) (seed_loop X c seeds)"
  using assms(2)
proof (induction seeds)
  case (Cons s seeds)
  have "frame (stays F k) (insertIssuer X c iss)" if "buildIssuerFromSeed X s = Ok iss" for iss
    by (rule insertIssuer_stays [OF assms(1)]) (use that Cons.prems in \<open>auto simp: buildIssuerFromSeed_def\<close>)
  then show ?case
    unfolding seed_loop.simps using Cons
    by (intro st.bindE_frame_val [OF st.lift_frame] st.bindE_frame) (auto simp: lift_def)
qed (simp add: st.ret_frame)

lemma seeding_lands: "lands (Collect (within (seed_footprint seeds) (committed w))) (seedDatabase X c seeds) w"
proof -
  define S where "S = Collect (within (seed_footprint seeds) (committed w))"
  have S: "committed w \<in> S" by (simp add: S_def within_refl)
  have loop: "\<exists>k. ctx_tx c' = CtxTx k \<and> (tx_lookup k v2 = TxDone \<or> (\<exists>b t. tx_lookup k v2 = TxOpen b t \<and> t \<in> S))"
    if b: "beginTxContext c w = (Ok c', v)" and l: "seed_loop X c' seeds v = (Ok (), v2)" for c' v v2
  proof -
    obtain k where k: "ctx_tx c' = CtxTx k" "tx_lookup k v = TxOpen (committed w) (committed w)"
      using BeginContext_Ok [of c w c' v] b by (auto simp: BeginContext_def)
    have "stays (seed_footprint seeds) k v v2"
      by (rule frameD [OF seed_loop_stays [OF k(1)] l]) (simp add: seed_footprint_def adds_def)
    with k show ?thesis by (auto simp: stays_def S_def)
  qed
  show ?thesis
    unfolding seedDatabase_def S_def [symmetric] CommitContext_def [symmetric]
    by (rule lands_commit at_rest_tx ar.fail_frame ar.ret_frame ar.bindE_frame at_rest_evolve [OF seed_loop_frames(1)] | rule lands_bindE
        | (rule loop, assumption, simp) | (simp add: S; fail))+
qed

section \<open>The whole service\<close>

text \<open>What the service does: it serves requests to the management API and token requests, and is seeded.\<close>

datatype event = ApiCall api_request ctx | Exchange access_request ctx | Seeding "SeedIssuer list" ctx

fun handle_event :: "('ast, 'expr) ext \<Rightarrow> tokext \<Rightarrow> oauth_config \<Rightarrow> event \<Rightarrow> world \<Rightarrow> world" where
  "handle_event X T config (ApiCall req c) w = snd (serve X req c (w\<lparr>reply := None\<rparr>))"
| "handle_event X T config (Exchange req c) w = snd (HandleTokenEndpointRequest X T config c req w)"
| "handle_event X T config (Seeding seeds c) w = snd (seedDatabase X c seeds w)"

text \<open>Events that are not of the owner: the actor of a request has no permission on it or its groups, the
  subject token is not signed by an issuer of the owner, no seed names it.\<close>

fun outside :: "('ast, 'expr) ext \<Rightarrow> tokext \<Rightarrow> string \<Rightarrow> tables \<Rightarrow> event \<Rightarrow> bool" where
  "outside X T oid t (ApiCall req c) = stranger X (ctx_actor c) oid t"
| "outside X T oid t (Exchange req c) =
     (ctx_tx c = CtxNil \<and> (\<forall>claims. \<not> signed_by_issuer X T (tenant oid t) (Values_Get (ar_Form req) ParamSubjectToken) claims))"
| "outside X T oid t (Seeding seeds c) = (oid \<notin> seed_OwnerID ` set seeds)"

lemma tenant_idem: "tenant oid (tenant oid t) = tenant oid t"
  by (auto simp: tenant_def Let_def intro!: filter_cong)

lemma outside_tenant: "outside X T oid (tenant oid t) e = outside X T oid t e"
  by (cases e) (simp_all add: stranger_def tenant_idem)

lemma exchange_keeps_tenant:
  assumes t': "t' \<in> exchange_result X T token t" and out: "\<forall>claims. \<not> signed_by_issuer X T (tenant oid t) token claims"
    and ok: "schema_ok t"
  shows "tenant oid t' = tenant oid t"
proof (cases "t' = t")
  case False
  with t' obtain u claims i where u: "t' = t\<lparr>user_info := user_info t @ [u]\<rparr>" "signed_by_issuer X T t token claims"
      "i \<in> set (issuers t)" "ir_uri i = jc_Issuer claims" "ur_iss_id u = ir_id i"
    by (auto simp: exchange_result_def)
  have d: "distinct (map ir_uri (issuers t))" "distinct (map ir_id (issuers t))" using ok by (simp_all add: schema_ok_def keys_ok_def)
  have "ir_owner_id i \<noteq> oid"
  proof
    assume "ir_owner_id i = oid"
    then have "\<forall>j \<in> set (issuers t). ir_uri j = jc_Issuer claims \<longrightarrow> j \<in> set (issuers (tenant oid t))"
      using d(1) u(3,4) by (auto simp: tenant_parts distinct_map) (metis inj_onD)
    with u(2) have "signed_by_issuer X T (tenant oid t) token claims" unfolding signed_by_issuer_def by blast
    with out show False by blast
  qed
  then have "ur_iss_id u \<notin> ir_id ` set (issuers (tenant oid t))"
    using d(2) u(3,5) by (auto simp: tenant_parts distinct_map dest: inj_onD)
  then show ?thesis by (simp add: u(1) tenant_def Let_def)
qed simp

lemma seeding_keeps_tenant:
  "within (seed_footprint seeds) t t' \<Longrightarrow> oid \<notin> seed_OwnerID ` set seeds \<Longrightarrow> tenant oid t' = tenant oid t"
  by (rule tenant_kept) (auto simp: seed_footprint_def avoids_simps)

lemma outsiders_keep_tenant:
  assumes "jwt_law T" and "world_ok w" and "outside X T oid (committed w) e"
  shows "tenant oid (committed (handle_event X T config e w)) = tenant oid (committed w) \<and> world_ok (handle_event X T config e w)"
proof
  have ok: "schema_ok (committed w)" using assms(2) by (simp add: world_ok_def)
  show "tenant oid (committed (handle_event X T config e w)) = tenant oid (committed w)"
  proof (cases e)
    case (ApiCall req c)
    let ?w = "w\<lparr>reply := None\<rparr>"
    obtain r w' where "api_handle X req c ?w = (r, w')" "committed (snd (serve X req c ?w)) = committed w'"
      using serve_committed by blast
    with strangers_keep_tenant [of X req c ?w] ok assms(3) ApiCall show ?thesis by simp
  next
    case (Exchange req c)
    with assms(3) have ctx: "ctx_tx c = CtxNil"
      and out: "\<forall>claims. \<not> signed_by_issuer X T (tenant oid (committed w)) (Values_Get (ar_Form req) ParamSubjectToken) claims"
      by simp_all
    from exchange_keeps_tenant [OF exchange_lands [OF assms(1) ctx, unfolded lands_def] out ok] Exchange show ?thesis by simp
  next
    case (Seeding seeds c)
    from seeding_keeps_tenant [OF seeding_lands [of seeds w X c, unfolded lands_def mem_Collect_eq]] assms(3) Seeding
    show ?thesis by simp
  qed
  have "keeps (w\<lparr>reply := None\<rparr>) (handle_event X T config e (w\<lparr>reply := None\<rparr>))" if "e = ApiCall req c" for req c
    using serve_keeps [of X req c] that by (simp add: frame_def)
  moreover have "keeps w (handle_event X T config e w)" if "\<nexists>req c. e = ApiCall req c"
    using HandleTokenEndpointRequest_keeps [of X T config] seedDatabase_keeps [of X] that by (cases e) (simp_all add: frame_def)
  ultimately show "world_ok (handle_event X T config e w)"
    using assms(2) by (cases e) (auto simp: keeps_def world_ok_def)
qed

text \<open>However many events there are, what the tables hold of the owner is as it was.\<close>

lemma outsiders_run:
  assumes "jwt_law T" and "world_ok w" and "\<forall>e \<in> set events. outside X T oid (committed w) e"
  shows "tenant oid (committed (fold (handle_event X T config) events w)) = tenant oid (committed w)"
  using assms(2,3)
proof (induction events arbitrary: w)
  case (Cons e events)
  let ?w = "handle_event X T config e w"
  have e: "tenant oid (committed ?w) = tenant oid (committed w)" "world_ok ?w"
    using outsiders_keep_tenant [OF assms(1) Cons.prems(1)] Cons.prems(2) by auto
  have "\<forall>e \<in> set events. outside X T oid (committed ?w) e"
    using Cons.prems(2) e(1) outside_tenant by (metis list.set_intros(2))
  with Cons.IH [OF e(2)] e(1) show ?case by simp
qed simp

end
