(* ===== verification/GeneratedServer.thy ===== *)
theory GeneratedServer
  imports HttpServer
begin

text \<open>
  The server that is generated from the API description, \<open>src/internal/api/httpsrv/server.gen.go\<close>: the
  routes, the wrappers that convert an HTTP request to the parameters of an operation, and the
  strict handlers that call the operation and send its response.

  The record \<open>oapi\<close> holds what the generated code calls of its runtime library and of echo: the
  request validator, the conversion of path and query parameters, and \<open>ctx.Bind\<close>, which decodes the
  body. The list of strict middlewares is empty (\<open>NewStrictHandler(h.handler, nil)\<close>), so that the
  handler of an operation is called as it is.

  The generated code amounts to one function: \<open>request_of\<close> decodes a request, and each of the wrappers
  is the strict handler on what it returns.
\<close>

section \<open>Requests as echo sees them\<close>

record echo_ctx =
  ec_Method :: string
  ec_Path :: string
  ec_Params :: "(string \<times> string) list"
  ec_Query :: url_values
  ec_Body :: string
  ec_Authorization :: string

record oapi =
  oapi_Validate :: "echo_ctx \<Rightarrow> goerr option"
  oapi_BindStyledParameter :: "string \<Rightarrow> string \<Rightarrow> string res"
  oapi_BindCursor :: "string \<Rightarrow> url_values \<Rightarrow> cursor res"
  oapi_BindLimit :: "string \<Rightarrow> url_values \<Rightarrow> int option res"
  echo_BindUpdateGroup :: "echo_ctx \<Rightarrow> v1UpdateGroup res"
  echo_BindGroupMembers :: "echo_ctx \<Rightarrow> v1AddGroupMembers res"
  echo_BindIssuerUpdate :: "echo_ctx \<Rightarrow> v1IssuerUpdate res"
  echo_BindCreateOAuthClient :: "echo_ctx \<Rightarrow> v1CreateOAuthClient res"
  echo_BindCreateGroup :: "echo_ctx \<Rightarrow> v1CreateGroup res"
  echo_BindCreateIssuer :: "echo_ctx \<Rightarrow> v1CreateIssuer res"

text \<open>\<open>ctx.Param\<close>: the empty string when there is no such parameter.\<close>

definition Param :: "echo_ctx \<Rightarrow> string \<Rightarrow> string" where
  "Param ec name = (case map_of (ec_Params ec) name of None \<Rightarrow> [] | Some v \<Rightarrow> v)"

definition invalid_format :: "string \<Rightarrow> goerr \<Rightarrow> goerr" where
  "invalid_format name err = HTTPError 400 (MsgText (''Invalid format for parameter '' @ name @ '': '' @ Error err))"

definition bind_path :: "oapi \<Rightarrow> echo_ctx \<Rightarrow> string \<Rightarrow> string dbio" where
  "bind_path L ec name =
     tryE (lift (oapi_BindStyledParameter L name (Param ec name))) (\<lambda>err. fail (invalid_format name err)) ret"

text \<open>The query parameters \<open>cursor\<close> and \<open>limit\<close> of a listing.\<close>

definition bind_page :: "oapi \<Rightarrow> echo_ctx \<Rightarrow> page_params dbio" where
  "bind_page L ec =
     tryE (lift (oapi_BindCursor L ''cursor'' (ec_Query ec))) (\<lambda>err. fail (invalid_format ''cursor'' err)) (\<lambda>cur.
     tryE (lift (oapi_BindLimit L ''limit'' (ec_Query ec))) (\<lambda>err. fail (invalid_format ''limit'' err)) (\<lambda>lim.
     ret \<lparr>pp_Cursor = cur, pp_Limit = lim\<rparr>))"

section \<open>Strict handlers\<close>

definition strict_DeleteOAuthClient :: "('ast, 'expr) ext \<Rightarrow> string \<Rightarrow> ctx \<Rightarrow> unit dbio" where
  "strict_DeleteOAuthClient X clientID c = strictHandler X (ReqDeleteOAuthClient clientID) c"

definition strict_GetOAuthClient :: "('ast, 'expr) ext \<Rightarrow> string \<Rightarrow> ctx \<Rightarrow> unit dbio" where
  "strict_GetOAuthClient X clientID c = strictHandler X (ReqGetOAuthClient clientID) c"

definition strict_DeleteGroup :: "('ast, 'expr) ext \<Rightarrow> string \<Rightarrow> ctx \<Rightarrow> unit dbio" where
  "strict_DeleteGroup X groupID c = strictHandler X (ReqDeleteGroup groupID) c"

definition strict_GetGroupByID :: "('ast, 'expr) ext \<Rightarrow> string \<Rightarrow> ctx \<Rightarrow> unit dbio" where
  "strict_GetGroupByID X groupID c = strictHandler X (ReqGetGroupByID groupID) c"

definition strict_UpdateGroup :: "oapi \<Rightarrow> ('ast, 'expr) ext \<Rightarrow> echo_ctx \<Rightarrow> string \<Rightarrow> ctx \<Rightarrow> unit dbio" where
  "strict_UpdateGroup L X ec groupID c =
     bindE (lift (echo_BindUpdateGroup L ec)) (\<lambda>body. strictHandler X (ReqUpdateGroup groupID body) c)"

definition strict_ListGroupMembers :: "('ast, 'expr) ext \<Rightarrow> string \<Rightarrow> page_params \<Rightarrow> ctx \<Rightarrow> unit dbio" where
  "strict_ListGroupMembers X groupID params c = strictHandler X (ReqListGroupMembers groupID params) c"

definition strict_AddGroupMembers :: "oapi \<Rightarrow> ('ast, 'expr) ext \<Rightarrow> echo_ctx \<Rightarrow> string \<Rightarrow> ctx \<Rightarrow> unit dbio" where
  "strict_AddGroupMembers L X ec groupID c =
     bindE (lift (echo_BindGroupMembers L ec)) (\<lambda>body. strictHandler X (ReqAddGroupMembers groupID body) c)"

definition strict_ReplaceGroupMembers :: "oapi \<Rightarrow> ('ast, 'expr) ext \<Rightarrow> echo_ctx \<Rightarrow> string \<Rightarrow> ctx \<Rightarrow> unit dbio" where
  "strict_ReplaceGroupMembers L X ec groupID c =
     bindE (lift (echo_BindGroupMembers L ec)) (\<lambda>body. strictHandler X (ReqReplaceGroupMembers groupID body) c)"

definition strict_RemoveGroupMember :: "('ast, 'expr) ext \<Rightarrow> string \<Rightarrow> string \<Rightarrow> ctx \<Rightarrow> unit dbio" where
  "strict_RemoveGroupMember X groupID subjectID c = strictHandler X (ReqRemoveGroupMember groupID subjectID) c"

definition strict_DeleteIssuer :: "('ast, 'expr) ext \<Rightarrow> string \<Rightarrow> ctx \<Rightarrow> unit dbio" where
  "strict_DeleteIssuer X iid c = strictHandler X (ReqDeleteIssuer iid) c"

definition strict_GetIssuerByID :: "('ast, 'expr) ext \<Rightarrow> string \<Rightarrow> ctx \<Rightarrow> unit dbio" where
  "strict_GetIssuerByID X iid c = strictHandler X (ReqGetIssuerByID iid) c"

definition strict_UpdateIssuer :: "oapi \<Rightarrow> ('ast, 'expr) ext \<Rightarrow> echo_ctx \<Rightarrow> string \<Rightarrow> ctx \<Rightarrow> unit dbio" where
  "strict_UpdateIssuer L X ec iid c =
     bindE (lift (echo_BindIssuerUpdate L ec)) (\<lambda>body. strictHandler X (ReqUpdateIssuer iid body) c)"

definition strict_GetIssuerUsers :: "('ast, 'expr) ext \<Rightarrow> string \<Rightarrow> page_params \<Rightarrow> ctx \<Rightarrow> unit dbio" where
  "strict_GetIssuerUsers X iid params c = strictHandler X (ReqGetIssuerUsers iid params) c"

definition strict_GetOwnerOAuthClients :: "('ast, 'expr) ext \<Rightarrow> string \<Rightarrow> page_params \<Rightarrow> ctx \<Rightarrow> unit dbio" where
  "strict_GetOwnerOAuthClients X ownerID params c = strictHandler X (ReqGetOwnerOAuthClients ownerID params) c"

definition strict_CreateOAuthClient :: "oapi \<Rightarrow> ('ast, 'expr) ext \<Rightarrow> echo_ctx \<Rightarrow> string \<Rightarrow> ctx \<Rightarrow> unit dbio" where
  "strict_CreateOAuthClient L X ec ownerID c =
     bindE (lift (echo_BindCreateOAuthClient L ec)) (\<lambda>body. strictHandler X (ReqCreateOAuthClient ownerID body) c)"

definition strict_ListGroups :: "('ast, 'expr) ext \<Rightarrow> string \<Rightarrow> page_params \<Rightarrow> ctx \<Rightarrow> unit dbio" where
  "strict_ListGroups X ownerID params c = strictHandler X (ReqListGroups ownerID params) c"

definition strict_CreateGroup :: "oapi \<Rightarrow> ('ast, 'expr) ext \<Rightarrow> echo_ctx \<Rightarrow> string \<Rightarrow> ctx \<Rightarrow> unit dbio" where
  "strict_CreateGroup L X ec ownerID c =
     bindE (lift (echo_BindCreateGroup L ec)) (\<lambda>body. strictHandler X (ReqCreateGroup ownerID body) c)"

definition strict_ListOwnerIssuers :: "('ast, 'expr) ext \<Rightarrow> string \<Rightarrow> page_params \<Rightarrow> ctx \<Rightarrow> unit dbio" where
  "strict_ListOwnerIssuers X ownerID params c = strictHandler X (ReqListOwnerIssuers ownerID params) c"

definition strict_CreateIssuer :: "oapi \<Rightarrow> ('ast, 'expr) ext \<Rightarrow> echo_ctx \<Rightarrow> string \<Rightarrow> ctx \<Rightarrow> unit dbio" where
  "strict_CreateIssuer L X ec ownerID c =
     bindE (lift (echo_BindCreateIssuer L ec)) (\<lambda>body. strictHandler X (ReqCreateIssuer ownerID body) c)"

definition strict_GetUserByID :: "('ast, 'expr) ext \<Rightarrow> string \<Rightarrow> ctx \<Rightarrow> unit dbio" where
  "strict_GetUserByID X userID c = strictHandler X (ReqGetUserByID userID) c"

definition strict_ListUserGroups :: "('ast, 'expr) ext \<Rightarrow> string \<Rightarrow> page_params \<Rightarrow> ctx \<Rightarrow> unit dbio" where
  "strict_ListUserGroups X userID params c = strictHandler X (ReqListUserGroups userID params) c"

section \<open>Wrappers\<close>

definition Wrapper_DeleteOAuthClient :: "oapi \<Rightarrow> ('ast, 'expr) ext \<Rightarrow> echo_ctx \<Rightarrow> ctx \<Rightarrow> unit dbio" where
  "Wrapper_DeleteOAuthClient L X ec c = bindE (bind_path L ec ''clientID'') (\<lambda>clientID. strict_DeleteOAuthClient X clientID c)"

definition Wrapper_GetOAuthClient :: "oapi \<Rightarrow> ('ast, 'expr) ext \<Rightarrow> echo_ctx \<Rightarrow> ctx \<Rightarrow> unit dbio" where
  "Wrapper_GetOAuthClient L X ec c = bindE (bind_path L ec ''clientID'') (\<lambda>clientID. strict_GetOAuthClient X clientID c)"

definition Wrapper_DeleteGroup :: "oapi \<Rightarrow> ('ast, 'expr) ext \<Rightarrow> echo_ctx \<Rightarrow> ctx \<Rightarrow> unit dbio" where
  "Wrapper_DeleteGroup L X ec c = bindE (bind_path L ec ''groupID'') (\<lambda>groupID. strict_DeleteGroup X groupID c)"

definition Wrapper_GetGroupByID :: "oapi \<Rightarrow> ('ast, 'expr) ext \<Rightarrow> echo_ctx \<Rightarrow> ctx \<Rightarrow> unit dbio" where
  "Wrapper_GetGroupByID L X ec c = bindE (bind_path L ec ''groupID'') (\<lambda>groupID. strict_GetGroupByID X groupID c)"

definition Wrapper_UpdateGroup :: "oapi \<Rightarrow> ('ast, 'expr) ext \<Rightarrow> echo_ctx \<Rightarrow> ctx \<Rightarrow> unit dbio" where
  "Wrapper_UpdateGroup L X ec c = bindE (bind_path L ec ''groupID'') (\<lambda>groupID. strict_UpdateGroup L X ec groupID c)"

definition Wrapper_ListGroupMembers :: "oapi \<Rightarrow> ('ast, 'expr) ext \<Rightarrow> echo_ctx \<Rightarrow> ctx \<Rightarrow> unit dbio" where
  "Wrapper_ListGroupMembers L X ec c = bindE (bind_path L ec ''groupID'') (\<lambda>groupID.
     bindE (bind_page L ec) (\<lambda>params. strict_ListGroupMembers X groupID params c))"

definition Wrapper_AddGroupMembers :: "oapi \<Rightarrow> ('ast, 'expr) ext \<Rightarrow> echo_ctx \<Rightarrow> ctx \<Rightarrow> unit dbio" where
  "Wrapper_AddGroupMembers L X ec c = bindE (bind_path L ec ''groupID'') (\<lambda>groupID. strict_AddGroupMembers L X ec groupID c)"

definition Wrapper_ReplaceGroupMembers :: "oapi \<Rightarrow> ('ast, 'expr) ext \<Rightarrow> echo_ctx \<Rightarrow> ctx \<Rightarrow> unit dbio" where
  "Wrapper_ReplaceGroupMembers L X ec c = bindE (bind_path L ec ''groupID'') (\<lambda>groupID. strict_ReplaceGroupMembers L X ec groupID c)"

definition Wrapper_RemoveGroupMember :: "oapi \<Rightarrow> ('ast, 'expr) ext \<Rightarrow> echo_ctx \<Rightarrow> ctx \<Rightarrow> unit dbio" where
  "Wrapper_RemoveGroupMember L X ec c = bindE (bind_path L ec ''groupID'') (\<lambda>groupID.
     bindE (bind_path L ec ''subjectID'') (\<lambda>subjectID. strict_RemoveGroupMember X groupID subjectID c))"

definition Wrapper_DeleteIssuer :: "oapi \<Rightarrow> ('ast, 'expr) ext \<Rightarrow> echo_ctx \<Rightarrow> ctx \<Rightarrow> unit dbio" where
  "Wrapper_DeleteIssuer L X ec c = bindE (bind_path L ec ''id'') (\<lambda>iid. strict_DeleteIssuer X iid c)"

definition Wrapper_GetIssuerByID :: "oapi \<Rightarrow> ('ast, 'expr) ext \<Rightarrow> echo_ctx \<Rightarrow> ctx \<Rightarrow> unit dbio" where
  "Wrapper_GetIssuerByID L X ec c = bindE (bind_path L ec ''id'') (\<lambda>iid. strict_GetIssuerByID X iid c)"

definition Wrapper_UpdateIssuer :: "oapi \<Rightarrow> ('ast, 'expr) ext \<Rightarrow> echo_ctx \<Rightarrow> ctx \<Rightarrow> unit dbio" where
  "Wrapper_UpdateIssuer L X ec c = bindE (bind_path L ec ''id'') (\<lambda>iid. strict_UpdateIssuer L X ec iid c)"

definition Wrapper_GetIssuerUsers :: "oapi \<Rightarrow> ('ast, 'expr) ext \<Rightarrow> echo_ctx \<Rightarrow> ctx \<Rightarrow> unit dbio" where
  "Wrapper_GetIssuerUsers L X ec c = bindE (bind_path L ec ''id'') (\<lambda>iid.
     bindE (bind_page L ec) (\<lambda>params. strict_GetIssuerUsers X iid params c))"

definition Wrapper_GetOwnerOAuthClients :: "oapi \<Rightarrow> ('ast, 'expr) ext \<Rightarrow> echo_ctx \<Rightarrow> ctx \<Rightarrow> unit dbio" where
  "Wrapper_GetOwnerOAuthClients L X ec c = bindE (bind_path L ec ''ownerID'') (\<lambda>ownerID.
     bindE (bind_page L ec) (\<lambda>params. strict_GetOwnerOAuthClients X ownerID params c))"

definition Wrapper_CreateOAuthClient :: "oapi \<Rightarrow> ('ast, 'expr) ext \<Rightarrow> echo_ctx \<Rightarrow> ctx \<Rightarrow> unit dbio" where
  "Wrapper_CreateOAuthClient L X ec c = bindE (bind_path L ec ''ownerID'') (\<lambda>ownerID. strict_CreateOAuthClient L X ec ownerID c)"

definition Wrapper_ListGroups :: "oapi \<Rightarrow> ('ast, 'expr) ext \<Rightarrow> echo_ctx \<Rightarrow> ctx \<Rightarrow> unit dbio" where
  "Wrapper_ListGroups L X ec c = bindE (bind_path L ec ''ownerID'') (\<lambda>ownerID.
     bindE (bind_page L ec) (\<lambda>params. strict_ListGroups X ownerID params c))"

definition Wrapper_CreateGroup :: "oapi \<Rightarrow> ('ast, 'expr) ext \<Rightarrow> echo_ctx \<Rightarrow> ctx \<Rightarrow> unit dbio" where
  "Wrapper_CreateGroup L X ec c = bindE (bind_path L ec ''ownerID'') (\<lambda>ownerID. strict_CreateGroup L X ec ownerID c)"

definition Wrapper_ListOwnerIssuers :: "oapi \<Rightarrow> ('ast, 'expr) ext \<Rightarrow> echo_ctx \<Rightarrow> ctx \<Rightarrow> unit dbio" where
  "Wrapper_ListOwnerIssuers L X ec c = bindE (bind_path L ec ''ownerID'') (\<lambda>ownerID.
     bindE (bind_page L ec) (\<lambda>params. strict_ListOwnerIssuers X ownerID params c))"

definition Wrapper_CreateIssuer :: "oapi \<Rightarrow> ('ast, 'expr) ext \<Rightarrow> echo_ctx \<Rightarrow> ctx \<Rightarrow> unit dbio" where
  "Wrapper_CreateIssuer L X ec c = bindE (bind_path L ec ''ownerID'') (\<lambda>ownerID. strict_CreateIssuer L X ec ownerID c)"

definition Wrapper_GetUserByID :: "oapi \<Rightarrow> ('ast, 'expr) ext \<Rightarrow> echo_ctx \<Rightarrow> ctx \<Rightarrow> unit dbio" where
  "Wrapper_GetUserByID L X ec c = bindE (bind_path L ec ''userID'') (\<lambda>userID. strict_GetUserByID X userID c)"

definition Wrapper_ListUserGroups :: "oapi \<Rightarrow> ('ast, 'expr) ext \<Rightarrow> echo_ctx \<Rightarrow> ctx \<Rightarrow> unit dbio" where
  "Wrapper_ListUserGroups L X ec c = bindE (bind_path L ec ''userID'') (\<lambda>userID.
     bindE (bind_page L ec) (\<lambda>params. strict_ListUserGroups X userID params c))"

section \<open>Routes\<close>

datatype operation =
    OpDeleteOAuthClient
  | OpGetOAuthClient
  | OpDeleteGroup
  | OpGetGroupByID
  | OpUpdateGroup
  | OpListGroupMembers
  | OpAddGroupMembers
  | OpReplaceGroupMembers
  | OpRemoveGroupMember
  | OpDeleteIssuer
  | OpGetIssuerByID
  | OpUpdateIssuer
  | OpGetIssuerUsers
  | OpGetOwnerOAuthClients
  | OpCreateOAuthClient
  | OpListGroups
  | OpCreateGroup
  | OpListOwnerIssuers
  | OpCreateIssuer
  | OpGetUserByID
  | OpListUserGroups

fun Wrapper :: "oapi \<Rightarrow> ('ast, 'expr) ext \<Rightarrow> operation \<Rightarrow> echo_ctx \<Rightarrow> ctx \<Rightarrow> unit dbio" where
  "Wrapper L X OpDeleteOAuthClient = Wrapper_DeleteOAuthClient L X"
| "Wrapper L X OpGetOAuthClient = Wrapper_GetOAuthClient L X"
| "Wrapper L X OpDeleteGroup = Wrapper_DeleteGroup L X"
| "Wrapper L X OpGetGroupByID = Wrapper_GetGroupByID L X"
| "Wrapper L X OpUpdateGroup = Wrapper_UpdateGroup L X"
| "Wrapper L X OpListGroupMembers = Wrapper_ListGroupMembers L X"
| "Wrapper L X OpAddGroupMembers = Wrapper_AddGroupMembers L X"
| "Wrapper L X OpReplaceGroupMembers = Wrapper_ReplaceGroupMembers L X"
| "Wrapper L X OpRemoveGroupMember = Wrapper_RemoveGroupMember L X"
| "Wrapper L X OpDeleteIssuer = Wrapper_DeleteIssuer L X"
| "Wrapper L X OpGetIssuerByID = Wrapper_GetIssuerByID L X"
| "Wrapper L X OpUpdateIssuer = Wrapper_UpdateIssuer L X"
| "Wrapper L X OpGetIssuerUsers = Wrapper_GetIssuerUsers L X"
| "Wrapper L X OpGetOwnerOAuthClients = Wrapper_GetOwnerOAuthClients L X"
| "Wrapper L X OpCreateOAuthClient = Wrapper_CreateOAuthClient L X"
| "Wrapper L X OpListGroups = Wrapper_ListGroups L X"
| "Wrapper L X OpCreateGroup = Wrapper_CreateGroup L X"
| "Wrapper L X OpListOwnerIssuers = Wrapper_ListOwnerIssuers L X"
| "Wrapper L X OpCreateIssuer = Wrapper_CreateIssuer L X"
| "Wrapper L X OpGetUserByID = Wrapper_GetUserByID L X"
| "Wrapper L X OpListUserGroups = Wrapper_ListUserGroups L X"

definition RegisterHandlersWithBaseURL :: "string \<Rightarrow> (string \<times> string \<times> operation) list" where
  "RegisterHandlersWithBaseURL baseURL =
   [(''DELETE'', baseURL @ ''/api/v1/clients/:clientID'', OpDeleteOAuthClient),
    (''GET'', baseURL @ ''/api/v1/clients/:clientID'', OpGetOAuthClient),
    (''DELETE'', baseURL @ ''/api/v1/groups/:groupID'', OpDeleteGroup),
    (''GET'', baseURL @ ''/api/v1/groups/:groupID'', OpGetGroupByID),
    (''PATCH'', baseURL @ ''/api/v1/groups/:groupID'', OpUpdateGroup),
    (''GET'', baseURL @ ''/api/v1/groups/:groupID/members'', OpListGroupMembers),
    (''POST'', baseURL @ ''/api/v1/groups/:groupID/members'', OpAddGroupMembers),
    (''PUT'', baseURL @ ''/api/v1/groups/:groupID/members'', OpReplaceGroupMembers),
    (''DELETE'', baseURL @ ''/api/v1/groups/:groupID/members/:subjectID'', OpRemoveGroupMember),
    (''DELETE'', baseURL @ ''/api/v1/issuers/:id'', OpDeleteIssuer),
    (''GET'', baseURL @ ''/api/v1/issuers/:id'', OpGetIssuerByID),
    (''PATCH'', baseURL @ ''/api/v1/issuers/:id'', OpUpdateIssuer),
    (''GET'', baseURL @ ''/api/v1/issuers/:id/users'', OpGetIssuerUsers),
    (''GET'', baseURL @ ''/api/v1/owners/:ownerID/clients'', OpGetOwnerOAuthClients),
    (''POST'', baseURL @ ''/api/v1/owners/:ownerID/clients'', OpCreateOAuthClient),
    (''GET'', baseURL @ ''/api/v1/owners/:ownerID/groups'', OpListGroups),
    (''POST'', baseURL @ ''/api/v1/owners/:ownerID/groups'', OpCreateGroup),
    (''GET'', baseURL @ ''/api/v1/owners/:ownerID/issuers'', OpListOwnerIssuers),
    (''POST'', baseURL @ ''/api/v1/owners/:ownerID/issuers'', OpCreateIssuer),
    (''GET'', baseURL @ ''/api/v1/users/:userID'', OpGetUserByID),
    (''GET'', baseURL @ ''/api/v1/users/:userID/groups'', OpListUserGroups)]"

definition RegisterHandlers :: "(string \<times> string \<times> operation) list" where
  "RegisterHandlers = RegisterHandlersWithBaseURL []"

section \<open>What the generated code does\<close>

text \<open>The request a wrapper decodes.\<close>

definition path_param :: "oapi \<Rightarrow> echo_ctx \<Rightarrow> string \<Rightarrow> string res" where
  "path_param L ec name = (case oapi_BindStyledParameter L name (Param ec name) of Err e \<Rightarrow> Err (invalid_format name e) | r \<Rightarrow> r)"

definition page_of :: "oapi \<Rightarrow> echo_ctx \<Rightarrow> page_params res" where
  "page_of L ec =
     (case oapi_BindCursor L ''cursor'' (ec_Query ec) of
        Err e \<Rightarrow> Err (invalid_format ''cursor'' e)
      | Panic s \<Rightarrow> Panic s
      | Ok cur \<Rightarrow>
         (case oapi_BindLimit L ''limit'' (ec_Query ec) of
            Err e \<Rightarrow> Err (invalid_format ''limit'' e)
          | Panic s \<Rightarrow> Panic s
          | Ok lim \<Rightarrow> Ok \<lparr>pp_Cursor = cur, pp_Limit = lim\<rparr>))"

fun request_of :: "oapi \<Rightarrow> operation \<Rightarrow> echo_ctx \<Rightarrow> api_request res" where
  "request_of L OpDeleteOAuthClient ec = bindR (path_param L ec ''clientID'') (\<lambda>i. Ok (ReqDeleteOAuthClient i))"
| "request_of L OpGetOAuthClient ec = bindR (path_param L ec ''clientID'') (\<lambda>i. Ok (ReqGetOAuthClient i))"
| "request_of L OpDeleteGroup ec = bindR (path_param L ec ''groupID'') (\<lambda>i. Ok (ReqDeleteGroup i))"
| "request_of L OpGetGroupByID ec = bindR (path_param L ec ''groupID'') (\<lambda>i. Ok (ReqGetGroupByID i))"
| "request_of L OpUpdateGroup ec = bindR (path_param L ec ''groupID'') (\<lambda>i. bindR (echo_BindUpdateGroup L ec) (\<lambda>b. Ok (ReqUpdateGroup i b)))"
| "request_of L OpListGroupMembers ec = bindR (path_param L ec ''groupID'') (\<lambda>i. bindR (page_of L ec) (\<lambda>p. Ok (ReqListGroupMembers i p)))"
| "request_of L OpAddGroupMembers ec = bindR (path_param L ec ''groupID'') (\<lambda>i. bindR (echo_BindGroupMembers L ec) (\<lambda>b. Ok (ReqAddGroupMembers i b)))"
| "request_of L OpReplaceGroupMembers ec = bindR (path_param L ec ''groupID'') (\<lambda>i. bindR (echo_BindGroupMembers L ec) (\<lambda>b. Ok (ReqReplaceGroupMembers i b)))"
| "request_of L OpRemoveGroupMember ec = bindR (path_param L ec ''groupID'') (\<lambda>i. bindR (path_param L ec ''subjectID'') (\<lambda>s. Ok (ReqRemoveGroupMember i s)))"
| "request_of L OpDeleteIssuer ec = bindR (path_param L ec ''id'') (\<lambda>i. Ok (ReqDeleteIssuer i))"
| "request_of L OpGetIssuerByID ec = bindR (path_param L ec ''id'') (\<lambda>i. Ok (ReqGetIssuerByID i))"
| "request_of L OpUpdateIssuer ec = bindR (path_param L ec ''id'') (\<lambda>i. bindR (echo_BindIssuerUpdate L ec) (\<lambda>b. Ok (ReqUpdateIssuer i b)))"
| "request_of L OpGetIssuerUsers ec = bindR (path_param L ec ''id'') (\<lambda>i. bindR (page_of L ec) (\<lambda>p. Ok (ReqGetIssuerUsers i p)))"
| "request_of L OpGetOwnerOAuthClients ec = bindR (path_param L ec ''ownerID'') (\<lambda>i. bindR (page_of L ec) (\<lambda>p. Ok (ReqGetOwnerOAuthClients i p)))"
| "request_of L OpCreateOAuthClient ec = bindR (path_param L ec ''ownerID'') (\<lambda>i. bindR (echo_BindCreateOAuthClient L ec) (\<lambda>b. Ok (ReqCreateOAuthClient i b)))"
| "request_of L OpListGroups ec = bindR (path_param L ec ''ownerID'') (\<lambda>i. bindR (page_of L ec) (\<lambda>p. Ok (ReqListGroups i p)))"
| "request_of L OpCreateGroup ec = bindR (path_param L ec ''ownerID'') (\<lambda>i. bindR (echo_BindCreateGroup L ec) (\<lambda>b. Ok (ReqCreateGroup i b)))"
| "request_of L OpListOwnerIssuers ec = bindR (path_param L ec ''ownerID'') (\<lambda>i. bindR (page_of L ec) (\<lambda>p. Ok (ReqListOwnerIssuers i p)))"
| "request_of L OpCreateIssuer ec = bindR (path_param L ec ''ownerID'') (\<lambda>i. bindR (echo_BindCreateIssuer L ec) (\<lambda>b. Ok (ReqCreateIssuer i b)))"
| "request_of L OpGetUserByID ec = bindR (path_param L ec ''userID'') (\<lambda>i. Ok (ReqGetUserByID i))"
| "request_of L OpListUserGroups ec = bindR (path_param L ec ''userID'') (\<lambda>i. bindR (page_of L ec) (\<lambda>p. Ok (ReqListUserGroups i p)))"

lemmas strict_defs = strict_DeleteOAuthClient_def strict_GetOAuthClient_def strict_DeleteGroup_def strict_GetGroupByID_def strict_UpdateGroup_def strict_ListGroupMembers_def strict_AddGroupMembers_def strict_ReplaceGroupMembers_def strict_RemoveGroupMember_def strict_DeleteIssuer_def strict_GetIssuerByID_def strict_UpdateIssuer_def strict_GetIssuerUsers_def strict_GetOwnerOAuthClients_def strict_CreateOAuthClient_def strict_ListGroups_def strict_CreateGroup_def strict_ListOwnerIssuers_def strict_CreateIssuer_def strict_GetUserByID_def strict_ListUserGroups_def

lemmas wrapper_defs = Wrapper_DeleteOAuthClient_def Wrapper_GetOAuthClient_def Wrapper_DeleteGroup_def Wrapper_GetGroupByID_def Wrapper_UpdateGroup_def Wrapper_ListGroupMembers_def Wrapper_AddGroupMembers_def Wrapper_ReplaceGroupMembers_def Wrapper_RemoveGroupMember_def Wrapper_DeleteIssuer_def Wrapper_GetIssuerByID_def Wrapper_UpdateIssuer_def Wrapper_GetIssuerUsers_def Wrapper_GetOwnerOAuthClients_def Wrapper_CreateOAuthClient_def Wrapper_ListGroups_def Wrapper_CreateGroup_def Wrapper_ListOwnerIssuers_def Wrapper_CreateIssuer_def Wrapper_GetUserByID_def Wrapper_ListUserGroups_def

lemma bind_path_lift: "bind_path L ec name = lift (path_param L ec name)"
  by (auto simp: bind_path_def path_param_def fun_eq_iff go_simps split: res.splits)

lemma bind_page_lift: "bind_page L ec = lift (page_of L ec)"
  by (auto simp: bind_page_def page_of_def fun_eq_iff go_simps split: res.splits)

lemma bindE_lift_bindR: "bindE (lift (bindR r f)) g = bindE (lift r) (\<lambda>x. bindE (lift (f x)) g)"
  by (cases r) (simp_all add: fun_eq_iff go_simps)

lemma Wrapper_decodes: "Wrapper L X op ec c = bindE (lift (request_of L op ec)) (\<lambda>req. strictHandler X req c)"
  by (cases op) (simp_all only: Wrapper.simps request_of.simps wrapper_defs strict_defs bind_path_lift bind_page_lift bindE_lift_bindR bindE_lift)

end
