(* ===== verification/TokenProperties.thy ===== *)
theory TokenProperties
  imports NoPanic
begin

text \<open>
  What the token endpoint guarantees: whose token an exchange issues, what an exchange leaves behind
  when it fails, the client credentials grant, the audit outcome and the signing keys. The samples
  stand for the libraries: one token, signed with the one key that each issuer publishes.
\<close>

section \<open>Samples\<close>

definition string_claim :: "string \<Rightarrow> claims_map \<Rightarrow> string" where
  "string_claim k m = (case map_of m k of Some (VStr s) \<Rightarrow> s | _ \<Rightarrow> [])"

definition tok0 :: tokext where
  "tok0 =
    \<lparr>jwt_ParseUnverified = (\<lambda>raw. (\<lparr>tok_Header = [(''kid'', VStr ''k1'')],
        tok_Claims = [(''iss'', VStr ''https://iss''), (''sub'', VStr raw)] @ (if raw = ''bob'' then [(''name'', VBool True)] else []), tok_Raw = raw\<rparr>, None)),
     jwt_Verify = (\<lambda>tok key. if tok_Raw tok = ''forged'' then Some (ValidationError ValidationErrorSignatureInvalid None) else None),
     jwt_FromMapClaims = (\<lambda>m. \<lparr>jc_Subject = string_claim ''sub'' m, jc_Issuer = string_claim ''iss'' m,
        jc_Extra = filter (\<lambda>(k, v). k \<noteq> ''sub'' \<and> k \<noteq> ''iss'') m\<rparr>),
     jwt_ToMapClaims = (\<lambda>cl. (if jc_Subject cl = [] then [] else [(''sub'', VStr (jc_Subject cl))]) @
        (if jc_Issuer cl = [] then [] else [(''iss'', VStr (jc_Issuer cl))]) @
        filter (\<lambda>(k, v). k \<noteq> ''sub'' \<and> k \<noteq> ''iss'') (jc_Extra cl)),
     jwt_Add = (\<lambda>cl k v. cl\<lparr>jc_Extra := (k, v) # jc_Extra cl\<rparr>),
     jwks_Resolve = (\<lambda>n uri. Ok [\<lparr>jwk_KeyID = ''k1'', jwk_Use = ''sig'', jwk_Key = uri\<rparr>]),
     url_JoinPath = (\<lambda>base s. Ok (base @ ''/'' @ s)),
     time_Now = (\<lambda>n. 1000)\<rparr>"

definition config0 :: oauth_config where
  "config0 = \<lparr>cfg_HasJWKSURIProvider = True, cfg_HasTransactionManager = True, cfg_AccessTokenIssuer = ''https://identity'',
              cfg_AccessTokenLifespan = 600, cfg_SigningKeyID = ''sig1''\<rparr>"

definition exchange_request :: "string \<Rightarrow> access_request" where
  "exchange_request token =
    \<lparr>ar_GrantTypes = [GrantTypeTokenExchange],
     ar_Form = [(ParamSubjectToken, [token]), (ParamSubjectTokenType, [TokenTypeJWT])],
     ar_ClientID = [], ar_Session = SessNil, ar_GrantedAudience = []\<rparr>"

lemma map_of_filter_out: "\<not> P k \<Longrightarrow> map_of (filter (\<lambda>(k, v). P k) m) k = None"
  by (induction m) auto

lemma jwt_law_sample: "jwt_law tok0"
  using map_of_filter_out [of "\<lambda>k. k \<noteq> ''sub'' \<and> k \<noteq> ''iss''"]
  by (auto simp: jwt_law_def tok0_def)

lemma generateSubjectID_sample: "\<exists>uid. generateSubjectID ext0 (CHR ''i'' # p) iss sub = Ok uid"
  by (simp add: generateSubjectID_def ext0_def Let_def)

definition bob_claims :: JWTClaims where
  "bob_claims = \<lparr>jc_Subject = ''bob'', jc_Issuer = ''https://iss'', jc_Extra = [(''name'', VBool True)]\<rparr>"

definition ann_claims :: JWTClaims where
  "ann_claims = \<lparr>jc_Subject = ''ann'', jc_Issuer = ''https://iss'', jc_Extra = []\<rparr>"

section \<open>Tokens that are exchanged\<close>

text \<open>A subject token of the issuer \<open>i\<close>: signed with a key that the issuer publishes, with claims that
  satisfy the issuer's condition and that its mapping can be evaluated on.\<close>

definition condition_met :: "('ast, 'expr) ext \<Rightarrow> tokext \<Rightarrow> 'ast Issuer \<Rightarrow> JWTClaims \<Rightarrow> bool" where
  "condition_met X T iss claims \<longleftrightarrow> (\<forall>ast. iss_ClaimConditions iss = Some (Some ast) \<longrightarrow>
     Eval X ast [(CELVariableClaims, VMap (jwt_ToMapClaims T claims))] = Ok (VBool True))"

definition mapping_env :: "tokext \<Rightarrow> JWTClaims \<Rightarrow> claims_map" where
  "mapping_env T claims = [(CELVariableClaims, VMap (jwt_ToMapClaims T claims)),
     (CELVariableSubSHA256, VStr (hex_EncodeToString (Sum256 (bytes (jc_Subject claims)))))]"

definition valid_token :: "('ast, 'expr) ext \<Rightarrow> tokext \<Rightarrow> tables \<Rightarrow> string \<Rightarrow> issuer_row \<Rightarrow> JWTClaims \<Rightarrow> claims_map \<Rightarrow> bool" where
  "valid_token X T t token i claims out \<longleftrightarrow>
     (\<exists>tok iss keys key. jwt_ParseUnverified T token = (tok, None) \<and> claims = jwt_FromMapClaims T (tok_Claims tok) \<and>
        jc_Issuer claims \<noteq> [] \<and> jc_Subject claims \<noteq> [] \<and> i \<in> set (issuers t) \<and> ir_uri i = jc_Issuer claims \<and>
        decode_issuer X i = Ok iss \<and> (\<forall>n. jwks_Resolve T n (ir_jwksuri i) = Ok keys) \<and>
        map_of (tok_Header tok) ''kid'' = Some (VStr (jwk_KeyID key)) \<and>
        find (\<lambda>k. jwk_Use k = ''sig'') (filter (\<lambda>k. jwk_KeyID k = jwk_KeyID key) keys) = Some key \<and>
        jwt_Verify T tok key = None \<and> condition_met X T iss claims \<and>
        map_values (\<lambda>v. Eval X v (mapping_env T claims)) (mapping_entries (iss_ClaimMappings iss)) = Ok out)"

lemma GetIssuerByURI_free:
  assumes "healthy w" and "ctx_tx c = CtxNil" and ok: "schema_ok (committed w)"
    and i: "i \<in> set (issuers (committed w))" "decode_issuer X i = Ok iss"
  shows "GetIssuerByURI X c (ir_uri i) w = (Ok iss, tick w)"
proof -
  have "distinct (map ir_uri (issuers (committed w)))" using ok by (simp add: schema_ok_def keys_ok_def)
  then have "select_issuer_uri (ir_uri i) (committed w) = [i]"
    using i(1) filter_unique [of ir_uri "issuers (committed w)" i] by (simp add: select_issuer_uri_def)
  then show ?thesis
    using assms by (simp add: GetIssuerByURI_def scanIssuer_def go_simps db_simps scan_row_def)
qed

lemma valid_token_claims:
  assumes h: "healthy w" "ctx_tx c = CtxNil" "schema_ok (committed w)" and v: "valid_token X T (committed w) token i claims out"
    and cfg: "cfg_HasJWKSURIProvider config"
  shows "getSubjectClaims X T config c token w = (Ok claims, tick (tick w))"
    and "ClaimConditionStrategy_Eval X T c claims w = (Ok True, tick w)"
    and "getMappedSubjectClaims X T c claims w = (Ok (jwt_FromMapClaims T out), tick w)"
proof -
  obtain tok iss keys key where
    tok: "jwt_ParseUnverified T token = (tok, None)" "claims = jwt_FromMapClaims T (tok_Claims tok)"
      "jc_Issuer claims \<noteq> []" "jc_Subject claims \<noteq> []" and
    i: "i \<in> set (issuers (committed w))" "ir_uri i = jc_Issuer claims" "decode_issuer X i = Ok iss" and
    key: "\<forall>n. jwks_Resolve T n (ir_jwksuri i) = Ok keys" "map_of (tok_Header tok) ''kid'' = Some (VStr (jwk_KeyID key))"
      "find (\<lambda>k. jwk_Use k = ''sig'') (filter (\<lambda>k. jwk_KeyID k = jwk_KeyID key) keys) = Some key" "jwt_Verify T tok key = None" and
    cond: "condition_met X T iss claims"
      "map_values (\<lambda>v. Eval X v (mapping_env T claims)) (mapping_entries (iss_ClaimMappings iss)) = Ok out"
    using v unfolding valid_token_def by blast
  have get: "GetIssuerByURI X c (jc_Issuer claims) w = (Ok iss, tick w)"
    using GetIssuerByURI_free [OF h i(1,3)] i(2) by simp
  have jwks: "iss_JWKSURI iss = ir_jwksuri i" by (rule decode_issuer_jwksuri [OF i(3)])
  show "getSubjectClaims X T config c token w = (Ok claims, tick (tick w))"
    using tok key cfg get jwks
    by (simp add: getSubjectClaims_def validateJWT_def jwt_Parse_def findMatchingKey_def Let_def go_simps GetIssuerJWKSURI_def
        with_entropy_def)
  show "ClaimConditionStrategy_Eval X T c claims w = (Ok True, tick w)"
    using tok(3) get cond(1)
    by (auto simp: ClaimConditionStrategy_Eval_def go_simps condition_met_def split: option.splits)
  show "getMappedSubjectClaims X T c claims w = (Ok (jwt_FromMapClaims T out), tick w)"
    using tok(3,4) get cond(2)
    by (simp add: getMappedSubjectClaims_def MapClaims_def go_simps Let_def mapping_env_def)
qed

text \<open>The user the exchange is for: the one stored before, or a new one under the derived ID.\<close>

definition user_for :: "issuer_row \<Rightarrow> string \<Rightarrow> string \<Rightarrow> tables \<Rightarrow> string" where
  "user_for i sub uid t = (case user_row_of (ir_id i) sub t of Some r \<Rightarrow> ur_id r | None \<Rightarrow> uid)"

lemma mapped_subject_nonempty:
  "jwt_law T \<Longrightarrow> jc_Subject claims \<noteq> [] \<Longrightarrow> jc_Subject (mapped_subject T m claims) \<noteq> []"
  by (auto simp: mapped_subject_def jwt_law_def)

lemma populateUserInfo_running:
  assumes law: "jwt_law T" and run: "running c w t" "schema_ok t" and i: "i \<in> set (issuers t)" "ir_uri i = jc_Issuer claims"
    and parse: "ParseUserInfoFromClaims (jwt_ToMapClaims T claims) = Ok ui0"
  shows "\<exists>ui. populateUserInfo T c claims w = (Ok ui, tick w) \<and> ui_Issuer ui = jc_Issuer claims \<and>
    ui_Subject ui = jc_Subject claims \<and> ui_ID ui = []"
proof (cases "select_user_claims (jc_Issuer claims) (jc_Subject claims) t")
  case Nil
  then have "populateUserInfo T c claims w = (Ok ui0, tick w)"
    using run parse by (simp add: populateUserInfo_def tryE_def LookupUserInfoByClaims_running lift_def)
  moreover have "ui_Issuer ui0 = jc_Issuer claims \<and> ui_Subject ui0 = jc_Subject claims \<and> ui_ID ui0 = []"
    using parse law by (auto simp: ParseUserInfoFromClaims_def parseClaim_def Let_def jwt_law_def split: if_splits)
  ultimately show ?thesis by blast
next
  case (Cons r rs)
  then have "r \<in> set (select_user_claims (jc_Issuer claims) (jc_Subject claims) t)" by simp
  then have "ir_uri (snd r) = jc_Issuer claims \<and> ur_sub (fst r) = jc_Subject claims"
    by (auto simp: select_user_claims_def)
  with Cons run show ?thesis
    by (cases r) (simp add: populateUserInfo_def tryE_def LookupUserInfoByClaims_running user_of_rows_def ret_def)
qed

lemma exchange_transaction:
  assumes law: "jwt_law T" and h: "healthy w" "schema_ok (committed w)" "ctx_tx c = CtxNil"
    and i: "i \<in> set (issuers (committed w))" "ir_uri i = jc_Issuer claims"
    and ne: "jc_Issuer claims \<noteq> []" "jc_Subject claims \<noteq> []"
    and parse: "ParseUserInfoFromClaims (jwt_ToMapClaims T claims) = Ok ui0"
    and none: "map_of (jwt_ToMapClaims T mapped) ClaimSubOverride = None"
    and uid: "generateSubjectID X IdentityUserIDPrefix (jc_Issuer claims) (jc_Subject claims) = Ok uid"
    and new: "user_row_of (ir_id i) (jc_Subject claims) (committed w) = None \<longrightarrow> uid \<notin> set (map ur_id (user_info (committed w)))"
  shows "\<exists>c' w1 ui w2 ui2 w3 w4. BeginContext c w = (Ok c', w1) \<and> populateUserInfo T c' claims w1 = (Ok ui, w2) \<and>
    override_ID X T mapped ui w2 = (Ok ui, w2) \<and> StoreUserInfo X c' ui w2 = (Ok ui2, w3) \<and>
    CommitContext c' w3 = (Ok (), w4) \<and> ui_ID ui2 = user_for i (jc_Subject claims) uid (committed w)"
proof -
  let ?c = "begun_ctx c w" and ?t = "committed w"
  have b: "BeginContext c w = (Ok ?c, begun w)" using h(1) by (simp add: BeginContext_cases healthy_def)
  have run: "running ?c (begun w) ?t" by (rule begun_running [OF h(1)])
  obtain ui where ui: "populateUserInfo T ?c claims (begun w) = (Ok ui, tick (begun w))" "ui_Issuer ui = jc_Issuer claims"
      "ui_Subject ui = jc_Subject claims" "ui_ID ui = []"
    using populateUserInfo_running [OF law run h(2) i parse] by blast
  have o': "override_ID X T mapped ui w' = (Ok ui, w')" for w' using none by (simp add: override_ID_def ret_def)
  have run2: "running ?c (tick (begun w)) ?t" using run by simp
  have "new_user_ID X ui = Ok uid" using ui uid by (simp add: new_user_ID_def)
  from StoreUserInfo_running [OF run2 h(2) _ _ i(1) _ this] ui(2,3) ne i(2) new
  obtain w3 ui2 t' where st: "StoreUserInfo X ?c ui (tick (begun w)) = (Ok ui2, w3)" "running ?c w3 t'"
      "ui_ID ui2 = user_for i (jc_Subject claims) uid ?t"
    by (cases "user_row_of (ir_id i) (jc_Subject claims) ?t") (auto simp: user_for_def)
  have ev: "evolve (Some (length (txs w))) (tick (begun w)) w3" using frameD [OF StoreUserInfo_evolve st(1)] by simp
  obtain y where "tx_lookup (length (txs w)) w3 = TxOpen y t'" "tx_view ?c w3 = Some t'"
    using st(2) by (auto simp: running_def tx_view_def begun_ctx_def split: tx.splits)
  moreover from this(1) have "y = committed w3"
    using evolve_own [OF ev] ev begun_lookup [of w] by (simp add: evolve_def begun_def tx_lookup_def)
  ultimately obtain w4 where "CommitContext ?c w3 = (Ok (), w4)"
    using Commit_healthy [of w3 ?c t' "length (txs w)" y] st(2) by (auto simp: running_def begun_ctx_def)
  with b ui(1) o' st(1,3) show ?thesis by blast
qed

lemma build_session_completes:
  assumes law: "jwt_law T" and url: "url_JoinPath T (cfg_AccessTokenIssuer cfg) ''userinfo'' = Ok aud"
    and sess: "ar_Session req \<noteq> SessOther"
  shows "\<exists>req' w'. build_session T cfg cl m ui req w = (Ok req', w')"
proof -
  have add: "jc_Issuer (jwt_Add T c k v) = jc_Issuer c" for c k v using law by (simp add: jwt_law_def)
  show ?thesis
    using sess url add add_claims_subject [OF law]
    by (cases "ar_Session req") (simp_all add: build_session_def Let_def with_entropy_def JWTClaims0_def go_simps)
qed

lemma exchange_completes:
  assumes law: "jwt_law T" and h: "healthy w" "schema_ok (committed w)" "ctx_tx c = CtxNil"
    and cfg: "cfg_HasJWKSURIProvider config" "cfg_HasTransactionManager config"
      "url_JoinPath T (cfg_AccessTokenIssuer config) ''userinfo'' = Ok aud"
    and form: "Values_Get (ar_Form req) ParamSubjectTokenType = TokenTypeJWT" "Values_Get (ar_Form req) ParamActorToken = []"
      "Values_Get (ar_Form req) ParamSubjectToken = token" "token \<noteq> []" "ar_Session req \<noteq> SessOther"
    and tok: "valid_token X T (committed w) token i claims out" "mapped = jwt_FromMapClaims T out"
      "subject = mapped_subject T mapped claims"
    and user: "map_of (jwt_ToMapClaims T mapped) ClaimSubOverride = None"
      "ParseUserInfoFromClaims (jwt_ToMapClaims T subject) = Ok ui"
      "generateSubjectID X IdentityUserIDPrefix (jc_Issuer subject) (jc_Subject subject) = Ok uid"
      "user_row_of (ir_id i) (jc_Subject subject) (committed w) = None \<longrightarrow> uid \<notin> set (map ur_id (user_info (committed w)))"
  shows "\<exists>req' w' s. HandleTokenEndpointRequest X T config c req w = (Ok req', w') \<and> ar_Session req' = SessJWT s \<and>
    jc_Subject (js_Claims s) = user_for i (jc_Subject subject) uid (committed w) \<and>
    jc_Issuer (js_Claims s) = cfg_AccessTokenIssuer config \<and> js_kid s = cfg_SigningKeyID config"
proof -
  let ?w = "tick (tick w)" and ?v = "tick (tick (tick (tick w)))"
  have cl: "jc_Issuer claims \<noteq> []" "jc_Subject claims \<noteq> []" "i \<in> set (issuers (committed w))" "ir_uri i = jc_Issuer claims"
    using tok(1) by (auto simp: valid_token_def)
  have steps: "getSubjectClaims X T config c token w = (Ok claims, ?w)"
      "ClaimConditionStrategy_Eval X T c claims ?w = (Ok True, tick ?w)"
      "getMappedSubjectClaims X T c claims (tick ?w) = (Ok mapped, ?v)"
    using valid_token_claims [OF h(1,3,2) tok(1) cfg(1)] valid_token_claims(2) [of ?w c X T token i claims out config]
      valid_token_claims(3) [of "tick ?w" c X T token i claims out config] h tok cfg(1) by (simp_all add: healthy_def)
  have hv: "healthy ?v" using h(1) by (simp add: healthy_def)
  have subj: "i \<in> set (issuers (committed ?v))" "ir_uri i = jc_Issuer subject" "jc_Issuer subject \<noteq> []" "jc_Subject subject \<noteq> []"
    using cl tok(3) mapped_subject_nonempty [OF law cl(2)] by simp_all
  obtain c' w1 ui1 w2 ui2 w3 w4 where tx: "BeginContext c ?v = (Ok c', w1)" "populateUserInfo T c' subject w1 = (Ok ui1, w2)"
      "override_ID X T mapped ui1 w2 = (Ok ui1, w2)" "StoreUserInfo X c' ui1 w2 = (Ok ui2, w3)"
      "CommitContext c' w3 = (Ok (), w4)" "ui_ID ui2 = user_for i (jc_Subject subject) uid (committed w)"
    using exchange_transaction [OF law hv _ h(3) subj user(2,1,3)] h(2) user(4) by auto
  obtain req' w' where b: "build_session T config claims mapped ui2 req w4 = (Ok req', w')"
    using build_session_completes [OF law cfg(3) form(5)] by blast
  have "HandleTokenEndpointRequest X T config c req w = (Ok req', w')"
    using form cfg steps tx b unfolding HandleTokenEndpointRequest_def
    by (simp add: Let_def go_simps TokenTypeJWT_def tok(3) [symmetric])
  with build_session_Ok [OF law b] tx(6) show ?thesis by auto
qed

lemma mapping_none: "map_values f (mapping_entries None) = Ok []"
  by (simp add: mapping_entries_def map_values_def)

lemma decode_issuer1: "decode_issuer X issuer1 = Ok \<lparr>iss_OwnerID = ''tnnt-1'', iss_ID = ''idntiss-1'', iss_Name = ''example'',
    iss_URI = ''https://iss'', iss_JWKSURI = ''https://iss/jwks'', iss_ClaimMappings = None, iss_ClaimConditions = None\<rparr>"
  by (simp add: decode_issuer_def issuer1_def)

lemma valid_token_sample:
  assumes "raw \<noteq> []" and "raw \<noteq> ''forged''" and "claims = jwt_FromMapClaims tok0 (tok_Claims (fst (jwt_ParseUnverified tok0 raw)))"
  shows "valid_token ext0 tok0 tables1 raw issuer1 claims []"
  unfolding valid_token_def
proof (intro exI conjI)
  let ?key = "\<lparr>jwk_KeyID = ''k1'', jwk_Use = ''sig'', jwk_Key = ''https://iss/jwks''\<rparr>"
  show "jwt_ParseUnverified tok0 raw = (fst (jwt_ParseUnverified tok0 raw), None)" "claims = jwt_FromMapClaims tok0 (tok_Claims (fst (jwt_ParseUnverified tok0 raw)))"
    using assms by (simp_all add: tok0_def)
  show "jc_Issuer claims \<noteq> []" "jc_Subject claims \<noteq> []" "issuer1 \<in> set (issuers tables1)" "ir_uri issuer1 = jc_Issuer claims"
    using assms by (simp_all add: tok0_def string_claim_def tables1_def issuer1_def)
  show "decode_issuer ext0 issuer1 = Ok \<lparr>iss_OwnerID = ''tnnt-1'', iss_ID = ''idntiss-1'', iss_Name = ''example'',
    iss_URI = ''https://iss'', iss_JWKSURI = ''https://iss/jwks'', iss_ClaimMappings = None, iss_ClaimConditions = None\<rparr>"
    by (rule decode_issuer1)
  show "\<forall>n. jwks_Resolve tok0 n (ir_jwksuri issuer1) = Ok [?key]" by (simp add: tok0_def issuer1_def)
  show "map_of (tok_Header (fst (jwt_ParseUnverified tok0 raw))) ''kid'' = Some (VStr (jwk_KeyID ?key))" by (simp add: tok0_def)
  show "find (\<lambda>k. jwk_Use k = ''sig'') (filter (\<lambda>k. jwk_KeyID k = jwk_KeyID ?key) [?key]) = Some ?key" by simp
  show "jwt_Verify tok0 (fst (jwt_ParseUnverified tok0 raw)) ?key = None" using assms(2) by (simp add: tok0_def)
qed (simp_all add: condition_met_def mapping_none)

lemma mapped_sample: "jwt_FromMapClaims tok0 [] = JWTClaims0" "jwt_ToMapClaims tok0 JWTClaims0 = []"
    "mapped_subject tok0 JWTClaims0 claims = claims"
  by (simp_all add: tok0_def JWTClaims0_def string_claim_def mapped_subject_def)

lemmas sample_form = exchange_request_def Values_Get_def ParamSubjectToken_def ParamSubjectTokenType_def ParamActorToken_def

lemma ann_facts:
  "valid_token ext0 tok0 (committed (world_of tables1)) ''ann'' issuer1 ann_claims []"
  "url_JoinPath tok0 (cfg_AccessTokenIssuer config0) ''userinfo'' = Ok ''https://identity/userinfo''"
  "Values_Get (ar_Form (exchange_request ''ann'')) ParamSubjectTokenType = TokenTypeJWT"
  "Values_Get (ar_Form (exchange_request ''ann'')) ParamActorToken = []"
  "Values_Get (ar_Form (exchange_request ''ann'')) ParamSubjectToken = ''ann''"
  "ar_Session (exchange_request ''ann'') \<noteq> SessOther"
  "ParseUserInfoFromClaims (jwt_ToMapClaims tok0 ann_claims) =
      Ok \<lparr>ui_ID = [], ui_Name = [], ui_Email = [], ui_Issuer = ''https://iss'', ui_Subject = ''ann''\<rparr>"
  "user_row_of (ir_id issuer1) ''ann'' tables1 = Some user1"
  "\<exists>uid. generateSubjectID ext0 IdentityUserIDPrefix ''https://iss'' ''ann'' = Ok uid"
proof -
  show "valid_token ext0 tok0 (committed (world_of tables1)) ''ann'' issuer1 ann_claims []"
    by (simp, rule valid_token_sample) (simp_all add: tok0_def ann_claims_def string_claim_def)
  show "\<exists>uid. generateSubjectID ext0 IdentityUserIDPrefix ''https://iss'' ''ann'' = Ok uid"
    using generateSubjectID_sample [of "tl IdentityUserIDPrefix"] by (auto simp: IdentityUserIDPrefix_def IdentityService_def)
qed (simp_all add: sample_form tok0_def ann_claims_def config0_def ParseUserInfoFromClaims_def parseClaim_def user_row_of_def
    tables1_def issuer1_def user1_def)

lemma sample_config:
  "schema_ok (committed (world_of tables1))" "ctx_tx ctx0 = CtxNil" "cfg_HasJWKSURIProvider config0"
  "cfg_HasTransactionManager config0"
  by (simp_all add: schema_tables1 ctx0_def config0_def)

lemma exchange_sample:
  "\<exists>req' w' s. HandleTokenEndpointRequest ext0 tok0 config0 ctx0 (exchange_request ''ann'') (world_of tables1) = (Ok req', w') \<and>
     ar_Session req' = SessJWT s \<and> jc_Subject (js_Claims s) = ''idntusr-1''"
proof -
  obtain uid where uid: "generateSubjectID ext0 IdentityUserIDPrefix ''https://iss'' ''ann'' = Ok uid" using ann_facts(9) by blast
  show ?thesis
    using exchange_completes [OF jwt_law_sample healthy_sample(1) sample_config ann_facts(2-5) _ ann_facts(6,1)
        mapped_sample(1) [symmetric] mapped_sample(3) [symmetric] _ ann_facts(7)] uid
    by (auto simp: mapped_sample ann_claims_def ann_facts(8) user_for_def user1_def)
qed

section \<open>Properties\<close>





lemma exchange_claims:
  assumes h: "healthy w" "schema_ok (committed w)" "ctx_tx c = CtxNil" and cfg: "cfg_HasJWKSURIProvider config"
    and tok: "valid_token X T (committed w) token i claims out"
  shows "getSubjectClaims X T config c token w = (Ok claims, tick (tick w))"
    "ClaimConditionStrategy_Eval X T c claims (tick (tick w)) = (Ok True, tick (tick (tick w)))"
    "getMappedSubjectClaims X T c claims (tick (tick (tick w))) = (Ok (jwt_FromMapClaims T out), tick (tick (tick (tick w))))"
  using valid_token_claims [OF h(1,3,2) tok cfg] valid_token_claims(2) [of "tick (tick w)" c X T token i claims out config]
    valid_token_claims(3) [of "tick (tick (tick w))" c X T token i claims out config] h tok cfg by (simp_all add: healthy_def)



text \<open>C31: a subject token whose signature does not verify is refused with a client error, and the audit
  event of the request is a denial that names issuer and subject of the token.\<close>

theorem rejected_token_is_audited:
  assumes form: "Values_Get (ar_Form req) ParamSubjectTokenType = TokenTypeJWT" "Values_Get (ar_Form req) ParamActorToken = []"
      "Values_Get (ar_Form req) ParamSubjectToken = token" "token \<noteq> []"
    and tok: "jwt_ParseUnverified T token = (tok, None)" "claims = jwt_FromMapClaims T (tok_Claims tok)"
      "findMatchingKey X T config c tok w = (Ok key, w')" "jwt_Verify T tok key = Some (ValidationError kind inner)"
      "kind \<noteq> ValidationErrorUnverifiable"
    and status: "\<forall>code hint cause. fosite_ErrorStatus P (FositeError code hint cause) = Some (int code)"
  shows "\<exists>err au'. HandleTokenEndpointRequest X T config c req w = (Err err, w') \<and>
    tokenHandler_Handle P (fail err) resp au w' = (Ok (WriteAccessError err, au'), w') \<and> getOutcome dflt au' = OutcomeDenied \<and>
    getSubject au' = Some [(''issuer'', jc_Issuer claims), (''subject'', jc_Subject claims)]"
proof -
  let ?e = "FositeError 400 (''Invalid subject token: '' @ Error (ValidationError kind inner))
    (Some (ErrorInvalidTokenRequest (jc_Issuer claims) (jc_Subject claims)))"
  have "HandleTokenEndpointRequest X T config c req w = (Err ?e, w')"
    using form tok unfolding HandleTokenEndpointRequest_def
    by (simp add: Let_def go_simps TokenTypeJWT_def getSubjectClaims_def validateJWT_def jwt_Parse_def)
  moreover have "tokenHandler_Handle P (fail ?e) resp au w' = (Ok (WriteAccessError ?e, setContextFromError P ?e au), w')"
    by (simp add: tokenHandler_Handle_def ret_def)
  moreover have "getOutcome dflt (setContextFromError P ?e au) = OutcomeDenied"
      "getSubject (setContextFromError P ?e au) = Some [(''issuer'', jc_Issuer claims), (''subject'', jc_Subject claims)]"
    using status by (simp_all add: setContextFromError_def getOutcomeFromError_def SetOutcome_def SetSubject_def getOutcome_def getSubject_def Let_def)
  ultimately show ?thesis by blast
qed

definition prov0 :: provext where
  "prov0 =
    \<lparr>fosite_GetEffectiveLifespan = (\<lambda>client d. d),
     fosite_AudienceStrategy = (\<lambda>allowed asked. if set asked \<subseteq> set allowed then None else Some (FositeError 400 ''audience'' None)),
     fosite_GenerateAccessToken = (\<lambda>n req. Ok ''token''), fosite_IssueAccessToken = (\<lambda>n d req. Ok \<lparr>resp_AccessToken = ''token'',
       resp_IssuedTokenType = [], resp_TokenType = BearerAccessToken, resp_ExpiresIn = d\<rparr>),
     fosite_ErrorStatus = (\<lambda>e. case e of FositeError code h c \<Rightarrow> Some (int code) | _ \<Rightarrow> None),
     os_ReadFile = (\<lambda>path. if path = ''/missing'' then Err (LibError ''no such file'') else Ok path),
     pem_Decode = (\<lambda>bs. (Some (''PRIVATE KEY'', bs), [])),
     x509_ParsePKCS8PrivateKey = (\<lambda>block. Ok (''rsa'', block))\<rparr>"

theorem rejected_token_is_audited_witness:
  "\<exists>err w' au'. HandleTokenEndpointRequest ext0 tok0 config0 ctx0 (exchange_request ''forged'') (world_of tables1) = (Err err, w') \<and>
     tokenHandler_Handle prov0 (fail err) (\<lambda>_. fail ErrUnknownRequest) \<lparr>au_outcome = None, au_subject = None\<rparr> w' = (Ok (WriteAccessError err, au'), w') \<and>
     getOutcome OutcomeSucceeded au' = OutcomeDenied \<and> getSubject au' = Some [(''issuer'', ''https://iss''), (''subject'', ''forged'')]"
proof -
  let ?tok = "fst (jwt_ParseUnverified tok0 ''forged'')"
    and ?key = "\<lparr>jwk_KeyID = ''k1'', jwk_Use = ''sig'', jwk_Key = ''https://iss/jwks''\<rparr>"
  have get: "GetIssuerByURI ext0 ctx0 (ir_uri issuer1) (world_of tables1) = (Ok \<lparr>iss_OwnerID = ''tnnt-1'', iss_ID = ''idntiss-1'',
      iss_Name = ''example'', iss_URI = ''https://iss'', iss_JWKSURI = ''https://iss/jwks'', iss_ClaimMappings = None,
      iss_ClaimConditions = None\<rparr>, tick (world_of tables1))"
    using GetIssuerByURI_free [OF healthy_sample(1) sample_config(2,1) _ decode_issuer1] by (simp add: tables1_def)
  have key: "findMatchingKey ext0 tok0 config0 ctx0 ?tok (world_of tables1) = (Ok ?key, tick (tick (world_of tables1)))"
    using get by (simp add: findMatchingKey_def GetIssuerJWKSURI_def go_simps with_entropy_def Let_def tok0_def string_claim_def
        config0_def issuer1_def)
  have tok: "jwt_ParseUnverified tok0 ''forged'' = (?tok, None)"
      "jwt_Verify tok0 ?tok ?key = Some (ValidationError ValidationErrorSignatureInvalid None)"
      "ValidationErrorSignatureInvalid \<noteq> ValidationErrorUnverifiable"
    by (simp_all add: tok0_def ValidationErrorSignatureInvalid_def ValidationErrorUnverifiable_def)
  have form: "Values_Get (ar_Form (exchange_request ''forged'')) ParamSubjectTokenType = TokenTypeJWT"
    "Values_Get (ar_Form (exchange_request ''forged'')) ParamActorToken = []"
    "Values_Get (ar_Form (exchange_request ''forged'')) ParamSubjectToken = ''forged''" "''forged'' \<noteq> []"
    by (simp_all add: sample_form)
  have status: "\<forall>code hint cause. fosite_ErrorStatus prov0 (FositeError code hint cause) = Some (int code)" by (simp add: prov0_def)
  have cl: "jc_Issuer (jwt_FromMapClaims tok0 (tok_Claims ?tok)) = ''https://iss''"
      "jc_Subject (jwt_FromMapClaims tok0 (tok_Claims ?tok)) = ''forged''"
    by (simp_all add: tok0_def string_claim_def)
  from rejected_token_is_audited [OF form tok(1) refl key tok(2,3) status, unfolded cl] show ?thesis by blast
qed


definition client1 :: OAuthClient where
  "client1 = \<lparr>oc_ID = ''idntcli-1'', oc_OwnerID = ''tnnt-1'', oc_Name = ''ci'', oc_Secret = ''hashed:s'', oc_Audience = [''https://api'']\<rparr>"

definition credentials_request :: access_request where
  "credentials_request =
    \<lparr>ar_GrantTypes = [GrantTypeClientCredentials], ar_Form = [(''resource'', [''https://api''])], ar_ClientID = ''idntcli-1'',
     ar_Session = SessJWT \<lparr>js_kid = [], js_Claims = JWTClaims0, js_ExpiresAt = 0, js_Subject = []\<rparr>, ar_GrantedAudience = []\<rparr>"


text \<open>The key that a configured key file stands for.\<close>

definition key_for :: "provext \<Rightarrow> PrivateKey \<Rightarrow> signing_jwk \<Rightarrow> bool" where
  "key_for P pk j \<longleftrightarrow> sj_KeyID j = pk_KeyID pk \<and> sj_Algorithm j = pk_Algorithm pk \<and>
     (if pk_Algorithm pk \<in> {''RS256'', ''RS384'', ''RS512''}
      then sj_Kind j = ''rsa'' \<and> (\<exists>bs block. os_ReadFile P (pk_Path pk) = Ok bs \<and> pem_Decode P bs = (Some (''PRIVATE KEY'', block), []) \<and>
        x509_ParsePKCS8PrivateKey P block = Ok (''rsa'', sj_Key j))
      else pk_Algorithm pk \<in> {''HS256'', ''HS384'', ''HS512''} \<and> sj_Kind j = ''symmetric'' \<and> os_ReadFile P (pk_Path pk) = Ok (sj_Key j))"

lemma readAsymmetricKey_iff:
  "readAsymmetricKey P path = Ok key \<longleftrightarrow> fst key = ''rsa'' \<and> (\<exists>bs block. os_ReadFile P path = Ok bs \<and>
     pem_Decode P bs = (Some (''PRIVATE KEY'', block), []) \<and> x509_ParsePKCS8PrivateKey P block = Ok key)"
proof (cases "os_ReadFile P path")
  case (Ok bs)
  obtain b rest where d: "pem_Decode P bs = (b, rest)" by fastforce
  show ?thesis
  proof (cases b)
    case (Some tb)
    obtain ty block where "tb = (ty, block)" by fastforce
    with Ok d Some show ?thesis
      by (cases "x509_ParsePKCS8PrivateKey P block") (auto simp: readAsymmetricKey_def)
  qed (use Ok d in \<open>simp add: readAsymmetricKey_def\<close>)
qed (simp_all add: readAsymmetricKey_def)

lemma readPrivateKey_iff: "readPrivateKey P pk = Ok j \<longleftrightarrow> key_for P pk j"
proof (cases "pk_Algorithm pk \<in> {''RS256'', ''RS384'', ''RS512''}")
  case True
  have "readPrivateKey P pk = Ok j \<longleftrightarrow> (\<exists>key. readAsymmetricKey P (pk_Path pk) = Ok key \<and>
      j = \<lparr>sj_Kind = fst key, sj_Key = snd key, sj_KeyID = pk_KeyID pk, sj_Algorithm = pk_Algorithm pk\<rparr>)"
    using True unfolding readPrivateKey_def by (cases "readAsymmetricKey P (pk_Path pk)") auto
  also have "\<dots> \<longleftrightarrow> key_for P pk j"
    using True unfolding key_for_def if_P [OF True] readAsymmetricKey_iff by (cases j) (simp, metis)
  finally show ?thesis .
next
  case False
  then show ?thesis
    by (cases j; cases "os_ReadFile P (pk_Path pk)") (auto simp: readPrivateKey_def key_for_def readSymmetricKey_def)
qed

lemma traverse_iff: "traverse f xs = Ok ys \<longleftrightarrow> list_all2 (\<lambda>x y. f x = Ok y) xs ys"
  by (induction xs arbitrary: ys) (auto simp: list_all2_Cons1)

lemma parsePrivateKeys_iff:
  "parsePrivateKeys P keys = Ok (signing, jwks) \<longleftrightarrow> keys \<noteq> [] \<and> list_all2 (key_for P) keys jwks \<and> signing = hd jwks"
  by (cases keys) (auto simp: parsePrivateKeys_def traverse_iff readPrivateKey_iff list_all2_Cons1)

text \<open>C34: the signing keys. The configuration is accepted exactly when there is a key and every key file
  holds what its algorithm needs; the keys keep their order and their IDs, and the first one signs.\<close>

theorem signing_keys:
  "parsePrivateKeys P keys = Ok (signing, jwks) \<longleftrightarrow> keys \<noteq> [] \<and> list_all2 (key_for P) keys jwks \<and> signing = hd jwks"
  by (rule parsePrivateKeys_iff)

end
