(* ===== verification/WebServer.thy ===== *)
theory WebServer
  imports GeneratedServer TokenProperties
begin

text \<open>
  The HTTP server around the two parts of the service: the routes that \<open>cmd/serve.go\<close> adds, the
  authentication middleware and the paths it skips, the middlewares of the management API
  (\<open>APIHandler.Routes\<close>), the user info endpoint (\<open>src/internal/userinfo\<close>) and the documents that
  publish keys and endpoints (\<open>src/internal/routes\<close>).

  The record \<open>webext\<close> holds the libraries: echo's router, the JWT authentication of \<open>echojwtx\<close>, the
  middleware of the permissions API, \<open>net/url\<close> and the methods of \<open>jose.JSONWebKey\<close>. Audit events
  are written by a library and do not change the outcome of a request.
\<close>

section \<open>Routes\<close>

datatype target =
    TargetToken
  | TargetJWKS
  | TargetOIDC
  | TargetAPI operation
  | TargetUserInfo
  | TargetUserGroups

type_synonym route = "string \<times> string \<times> target"

record webext =
  echo_Route :: "route list \<Rightarrow> string \<Rightarrow> string \<Rightarrow> target option"
  echojwtx_Authenticate :: "echo_ctx \<Rightarrow> string res"
  echox_SkipDefaultEndpoints :: "echo_ctx \<Rightarrow> bool"
  permissions_Middleware :: "ctx \<Rightarrow> goerr option"
  url_Parse :: "string \<Rightarrow> string res"
  URL_JoinPath :: "string \<Rightarrow> string \<Rightarrow> string"
  jose_Public :: "signing_jwk \<Rightarrow> signing_jwk option"

definition Router_Routes :: "route list" where
  "Router_Routes =
   [(''POST'', ''/token'', TargetToken),
    (''GET'', ''/jwks.json'', TargetJWKS),
    (''GET'', ''/.well-known/openid-configuration'', TargetOIDC)]"

definition APIHandler_Routes :: "route list" where
  "APIHandler_Routes = map (\<lambda>(m, p, op). (m, p, TargetAPI op)) RegisterHandlers"

text \<open>The group of the handler has no prefix; echo puts a slash before the path.\<close>

definition UserInfo_Routes :: "route list" where
  "UserInfo_Routes = [(''GET'', ''/userinfo'', TargetUserInfo), (''GET'', ''/userinfo/groups'', TargetUserGroups)]"

definition server_routes :: "route list" where
  "server_routes = Router_Routes @ APIHandler_Routes @ UserInfo_Routes"

section \<open>Authentication\<close>

definition SkipNoAuthRoutes :: "echo_ctx \<Rightarrow> bool" where
  "SkipNoAuthRoutes ec =
     (if ec_Path ec \<in> {''/token'', ''/jwks.json'', ''/.well-known/openid-configuration''} then True else False)"

fun multiSkipper :: "(echo_ctx \<Rightarrow> bool) list \<Rightarrow> echo_ctx \<Rightarrow> bool" where
  "multiSkipper [] ec = False"
| "multiSkipper (skipper # skippers) ec = (if skipper ec then True else multiSkipper skippers ec)"

text \<open>The middleware that \<open>getAuthMiddleware\<close> builds: without a valid token the request ends here.\<close>

definition auth_Middleware ::
    "webext \<Rightarrow> (echo_ctx \<Rightarrow> bool) list \<Rightarrow> (echo_ctx \<Rightarrow> ctx \<Rightarrow> 'a dbio) \<Rightarrow> echo_ctx \<Rightarrow> ctx \<Rightarrow> 'a dbio" where
  "auth_Middleware B skippers nxt ec c =
     (if multiSkipper skippers ec then nxt ec c
      else bindE (lift (echojwtx_Authenticate B ec)) (\<lambda>actor. nxt ec (c\<lparr>ctx_actor := actor\<rparr>)))"

section \<open>Management API\<close>

text \<open>Validation against the API description, storage, audit, permissions, operation.\<close>

definition APIHandler_handle ::
    "oapi \<Rightarrow> webext \<Rightarrow> ('ast, 'expr) ext \<Rightarrow> operation \<Rightarrow> echo_ctx \<Rightarrow> ctx \<Rightarrow> unit dbio" where
  "APIHandler_handle L B X op ec c =
     (case oapi_Validate L ec of
        Some err \<Rightarrow> fail err
      | None \<Rightarrow>
          storageMiddleware X BeginContext CommitContext RollbackContext
            (\<lambda>c. case permissions_Middleware B c of
                Some err \<Rightarrow> fail err
              | None \<Rightarrow> Wrapper L X op ec c) c)"

section \<open>User info\<close>

definition userinfo_handle :: "('ast, 'expr) ext \<Rightarrow> ctx \<Rightarrow> UserInfo dbio" where
  "userinfo_handle X c =
     tryE (lift (gidx_Parse X (ctx_actor c)))
       (\<lambda>err. fail (HTTPError 500 (MsgText ''invalid subject'')))
       (\<lambda>resourceID.
     tryE (LookupUserInfoByID c resourceID)
       (\<lambda>err. fail (HTTPError 400 (MsgErr err)))
       ret)"

definition QueryParam :: "echo_ctx \<Rightarrow> string \<Rightarrow> string" where
  "QueryParam ec name = Values_Get (ec_Query ec) name"

definition listUserGroups :: "('ast, 'expr) ext \<Rightarrow> echo_ctx \<Rightarrow> ctx \<Rightarrow> v1GroupIDCollection dbio" where
  "listUserGroups X ec c =
     tryE (lift (gidx_Parse X (ctx_actor c)))
       (\<lambda>err. fail (HTTPError 500 (MsgText ''invalid subject'')))
       (\<lambda>resourceID.
     let cur = QueryParam ec ''cursor''; lim = QueryParam ec ''limit'' in
     bindE (if lim = [] then ret None
            else case Atoi lim of
                   None \<Rightarrow> fail (HTTPError 400 (MsgText (''invalid limit: '' @ lim)))
                 | Some limitInt \<Rightarrow> ret (Some (Limit limitInt))) (\<lambda>l.
     let pagination = \<lparr>pp_Cursor = (if cur \<noteq> [] then Some cur else None), pp_Limit = l\<rparr> in
     tryE (ListGroupsBySubject c resourceID (ListUserGroups_paginator pagination))
       (\<lambda>err. fail (HTTPError 400 (MsgErr err)))
       (\<lambda>gs.
     tryE (lift (ListUserGroups_SetPagination pagination
             \<lparr>gic_GroupIDs = ToPrefixedIDs gs, gic_Pagination = Pagination0\<rparr>))
       (\<lambda>err. fail (HTTPError 500 (MsgErr err)))
       ret)))"

section \<open>Keys and endpoints\<close>

text \<open>\<open>key.Public()\<close> and \<open>Valid()\<close> in one: the public part, if there is a valid one.\<close>

fun jwks_loop :: "webext \<Rightarrow> signing_jwk list \<Rightarrow> signing_jwk list \<Rightarrow> signing_jwk list" where
  "jwks_loop B [] out = out"
| "jwks_loop B (key # keys) out =
     (case jose_Public B key of
        Some public \<Rightarrow> jwks_loop B keys (out @ [public])
      | None \<Rightarrow> jwks_loop B keys out)"

definition jwksHandler_Handle :: "webext \<Rightarrow> OAuth2Config \<Rightarrow> signing_jwk list" where
  "jwksHandler_Handle B config = jwks_loop B (oc2_SigningJWKS config) []"

record providerJSON =
  pj_Issuer :: string
  pj_AuthURL :: string
  pj_TokenURL :: string
  pj_JWKSURL :: string
  pj_UserInfoURL :: string

definition oidcHandler_Handle :: "webext \<Rightarrow> string \<Rightarrow> providerJSON res" where
  "oidcHandler_Handle B issuer =
     (case url_Parse B issuer of
        Panic s \<Rightarrow> Panic s
      | Err err \<Rightarrow> Err (HTTPError 500 (MsgText ''bad issuer''))
      | Ok u \<Rightarrow> Ok \<lparr>pj_Issuer = issuer, pj_AuthURL = [], pj_TokenURL = URL_JoinPath B u ''/token'',
                    pj_JWKSURL = URL_JoinPath B u ''/jwks.json'', pj_UserInfoURL = URL_JoinPath B u ''/userinfo''\<rparr>)"

section \<open>The server\<close>

datatype web_reply =
    ReplyDone
  | ReplyToken token_reply
  | ReplyKeys "signing_jwk list"
  | ReplyProvider providerJSON
  | ReplyUser UserInfo
  | ReplyGroups v1GroupIDCollection

text \<open>The handlers that \<open>serve\<close> registers. The token endpoint is an argument: it runs inside fosite's
  provider.\<close>

fun dispatch ::
    "oapi \<Rightarrow> webext \<Rightarrow> ('ast, 'expr) ext \<Rightarrow> OAuth2Config \<Rightarrow> (echo_ctx \<Rightarrow> ctx \<Rightarrow> token_reply dbio) \<Rightarrow> target \<Rightarrow> echo_ctx \<Rightarrow> ctx \<Rightarrow> web_reply dbio" where
  "dispatch L B X config tok TargetToken ec c = bindE (tok ec c) (\<lambda>r. ret (ReplyToken r))"
| "dispatch L B X config tok TargetJWKS ec c = ret (ReplyKeys (jwksHandler_Handle B config))"
| "dispatch L B X config tok TargetOIDC ec c =
     bindE (lift (oidcHandler_Handle B (oc2_AccessTokenIssuer config))) (\<lambda>p. ret (ReplyProvider p))"
| "dispatch L B X config tok (TargetAPI op) ec c = bindE (APIHandler_handle L B X op ec c) (\<lambda>_. ret ReplyDone)"
| "dispatch L B X config tok TargetUserInfo ec c = bindE (userinfo_handle X c) (\<lambda>u. ret (ReplyUser u))"
| "dispatch L B X config tok TargetUserGroups ec c = bindE (listUserGroups X ec c) (\<lambda>g. ret (ReplyGroups g))"

definition web_serve ::
    "oapi \<Rightarrow> webext \<Rightarrow> ('ast, 'expr) ext \<Rightarrow> OAuth2Config \<Rightarrow> (echo_ctx \<Rightarrow> ctx \<Rightarrow> token_reply dbio) \<Rightarrow> echo_ctx \<Rightarrow> ctx \<Rightarrow> web_reply dbio" where
  "web_serve L B X config tok ec c =
     auth_Middleware B [echox_SkipDefaultEndpoints B, SkipNoAuthRoutes]
       (\<lambda>ec c. case echo_Route B server_routes (ec_Method ec) (ec_Path ec) of
            None \<Rightarrow> fail (HTTPError 404 (MsgText ''Not Found''))
          | Some target \<Rightarrow> dispatch L B X config tok target ec c) ec c"

section \<open>HTTP requests are requests of the API\<close>

lemma APIHandler_handle_cases:
  assumes "APIHandler_handle L B X op ec c w = (r, w')"
  shows "(\<exists>req. request_of L op ec = Ok req \<and> api_handle X req c w = (r, w')) \<or>
    r \<noteq> Ok () \<and> committed w' = committed w \<and> published w' = published w"
proof (cases "oapi_Validate L ec")
  case (Some e)
  with assms show ?thesis by (simp add: APIHandler_handle_def)
next
  case None
  let ?nxt = "\<lambda>c. case permissions_Middleware B c of Some err \<Rightarrow> fail err | None \<Rightarrow> Wrapper L X op ec c"
  have run: "storageMiddleware X BeginContext CommitContext RollbackContext ?nxt c w = (r, w')"
    using assms None by (simp add: APIHandler_handle_def)
  show ?thesis
  proof (cases "faults w (ticks w)")
    case (Some e)
    with run show ?thesis by (auto simp: storageMiddleware_def go_simps BeginContext_cases)
  next
    case none: None
    let ?c = "begun_ctx c w"
    show ?thesis
    proof (cases "\<exists>req. request_of L op ec = Ok req \<and> permissions_Middleware B ?c = None")
      case True
      then obtain req where req: "request_of L op ec = Ok req" "permissions_Middleware B ?c = None" by blast
      then have "?nxt ?c = strictHandler X req ?c" by (simp add: Wrapper_decodes bindE_lift)
      then have "api_handle X req c w = (r, w')"
        using run none by (simp add: api_handle_def storageMiddleware_def go_simps BeginContext_cases)
      with req show ?thesis by blast
    next
      case False
      then have "\<exists>q. ?nxt ?c = lift q \<and> (\<forall>x. q \<noteq> Ok x)"
        by (cases "permissions_Middleware B ?c"; cases "request_of L op ec")
          (auto simp: Wrapper_decodes bindE_lift fun_eq_iff go_simps intro: exI [of _ "Err _"] exI [of _ "Panic _"])
      then obtain q where q: "?nxt ?c = lift q" "\<forall>x. q \<noteq> Ok x" by blast
      have roll: "RollbackContext ?c v = (r', v') \<Longrightarrow> committed v' = committed v \<and> published v' = published v" for v r' v'
        using frameD [OF rollback_evolve] frameD [OF rollback_silent] by (fastforce simp: evolve_def silent_def)
      show ?thesis
      proof (cases q)
        case (Err e)
        obtain r2 z where z: "RollbackContext ?c (send_status (echo_ErrorStatus X e) (begun w)) = (r2, z)" by fastforce
        with run none q(1) Err roll [OF z] show ?thesis
          by (cases r2) (auto simp: storageMiddleware_def go_simps BeginContext_cases eCtx_Error_def)
      qed (use run none q in \<open>auto simp: storageMiddleware_def go_simps BeginContext_cases\<close>)
    qed
  qed
qed

section \<open>Protected routes\<close>

text \<open>What echo documents of its router: a request goes to a route of its method whose path matches,
  segment by segment, a segment \<open>:name\<close> standing for any one segment.\<close>

fun segments :: "string \<Rightarrow> string list" where
  "segments [] = [[]]"
| "segments (ch # s) = (if ch = CHR ''/'' then [] # segments s else (case segments s of [] \<Rightarrow> [[ch]] | seg # rest \<Rightarrow> (ch # seg) # rest))"

definition segment_matches :: "string \<Rightarrow> string \<Rightarrow> bool" where
  "segment_matches pat seg = (case pat of ch # _ \<Rightarrow> if ch = CHR '':'' then seg \<noteq> [] else seg = pat | [] \<Rightarrow> seg = [])"

definition path_matches :: "string \<Rightarrow> string \<Rightarrow> bool" where
  "path_matches pat path = list_all2 segment_matches (segments pat) (segments path)"

definition router_law :: "webext \<Rightarrow> bool" where
  "router_law B \<longleftrightarrow> (\<forall>rs m path t. echo_Route B rs m path = Some t \<longrightarrow> (\<exists>pat. (m, pat, t) \<in> set rs \<and> path_matches pat path))"

text \<open>The default endpoints of \<open>echox\<close> (health, version, metrics) are none of the service's paths.\<close>

definition default_endpoints_law :: "webext \<Rightarrow> bool" where
  "default_endpoints_law B \<longleftrightarrow> (\<forall>ec. echox_SkipDefaultEndpoints B ec \<longrightarrow>
     \<not> (\<exists>m pat t. (m, pat, t) \<in> set server_routes \<and> path_matches pat (ec_Path ec)))"

definition open_target :: "target \<Rightarrow> bool" where
  "open_target t = (t = TargetToken \<or> t = TargetJWKS \<or> t = TargetOIDC)"

lemma protected_paths:
  "list_all (\<lambda>(m, pat, t). open_target t \<or>
     list_all (\<lambda>path. \<not> path_matches pat path) [''/token'', ''/jwks.json'', ''/.well-known/openid-configuration'']) server_routes"
  by code_simp

lemma protected_not_skipped:
  assumes "(m, pat, t) \<in> set server_routes" and "path_matches pat (ec_Path ec)" and "\<not> open_target t"
  shows "\<not> SkipNoAuthRoutes ec"
proof -
  have "list_all (\<lambda>path. \<not> path_matches pat path) [''/token'', ''/jwks.json'', ''/.well-known/openid-configuration'']"
    using protected_paths assms(1,3) unfolding list_all_iff by blast
  then show ?thesis using assms(2) by (auto simp: SkipNoAuthRoutes_def)
qed

section \<open>Pages of the groups of a user\<close>

lemma page_query_length:
  "page_query v cols col rows_of w = (Ok rows, w') \<Longrightarrow> int (length rows) \<le> effective_limit v"
proof -
  have "0 \<le> effective_limit v" by (simp add: effective_limit_def defaultLimit_def)
  then show "page_query v cols col rows_of w = (Ok rows, w') \<Longrightarrow> int (length rows) \<le> effective_limit v"
    by (auto simp: page_query_def db_query_rows_def db_call_def select_page_def split: option.splits if_splits)
qed

lemma ListGroupsBySubject_length:
  assumes "ListGroupsBySubject c s p w = (Ok gs, w')"
  shows "int (length gs) \<le> max 10 (GetLimit p)"
  using assms Paginate_limit [of p] unfolding ListGroupsBySubject_def Let_def bindE_eq_Ok
  by (fastforce simp: lift_def dest!: page_query_length traverse_Ok_length intro: order_trans)

lemma set_pagination_limit: "set_pagination f p ids pg = Ok pg' \<Longrightarrow> pg_Limit pg' = Limit (requested_limit p)"
  by (auto simp: set_pagination_def Let_def bindR_eq_Ok split: if_splits)

section \<open>Properties\<close>


definition oapi0 :: oapi where
  "oapi0 =
    \<lparr>oapi_Validate = (\<lambda>ec. None), oapi_BindStyledParameter = (\<lambda>name v. if v = [] then Err (LibError ''empty'') else Ok v),
     oapi_BindCursor = (\<lambda>name q. Ok (if Values_Get q name = [] then None else Some (Values_Get q name))),
     oapi_BindLimit = (\<lambda>name q. Ok (Atoi (Values_Get q name))),
     echo_BindUpdateGroup = (\<lambda>ec. Ok \<lparr>ug_Description = None, ug_Name = Some (ec_Body ec)\<rparr>),
     echo_BindGroupMembers = (\<lambda>ec. Ok \<lparr>ag_MemberIDs = [ec_Body ec]\<rparr>),
     echo_BindIssuerUpdate = (\<lambda>ec. Err (LibError ''unsupported'')),
     echo_BindCreateOAuthClient = (\<lambda>ec. Ok \<lparr>cc_Audience = None, cc_Name = ec_Body ec\<rparr>),
     echo_BindCreateGroup = (\<lambda>ec. Ok \<lparr>cg_Description = None, cg_Name = ec_Body ec\<rparr>),
     echo_BindCreateIssuer = (\<lambda>ec. Err (LibError ''unsupported''))\<rparr>"

definition web0 :: webext where
  "web0 =
    \<lparr>echo_Route = (\<lambda>rs m path. map_option (\<lambda>(m, pat, t). t) (find (\<lambda>(m', pat, t). m' = m \<and> path_matches pat path) rs)),
     echojwtx_Authenticate = (\<lambda>ec. if ec_Authorization ec = [] then Err (HTTPError 401 (MsgText ''missing or malformed jwt'')) else Ok (ec_Authorization ec)),
     echox_SkipDefaultEndpoints = (\<lambda>ec. ec_Path ec \<in> {''/livez'', ''/readyz'', ''/version'', ''/metrics''}),
     permissions_Middleware = (\<lambda>c. None),
     url_Parse = Ok, URL_JoinPath = (\<lambda>u s. u @ s),
     jose_Public = (\<lambda>k. if sj_Kind k = ''rsa'' then Some (k\<lparr>sj_Kind := ''rsa-public'', sj_Key := []\<rparr>) else None)\<rparr>"

definition post_group :: echo_ctx where
  "post_group = \<lparr>ec_Method = ''POST'', ec_Path = ''/api/v1/owners/tnnt-1/groups'', ec_Params = [(''ownerID'', ''tnnt-1'')], ec_Query = [],
     ec_Body = ''ops'', ec_Authorization = ''alice''\<rparr>"


text \<open>C8: every route but the token endpoint and the two public documents needs a token. A request to the
  management API or to the user info endpoint that carries no valid token ends with the error of the
  authentication, before any handler runs.\<close>

theorem protected_routes_need_a_token:
  assumes law: "router_law B" "default_endpoints_law B"
    and route: "echo_Route B server_routes (ec_Method ec) (ec_Path ec) = Some t" "\<not> open_target t"
    and auth: "echojwtx_Authenticate B ec = Err e"
  shows "web_serve L B X config tok ec c w = (Err e, w)"
proof -
  obtain pat where pat: "(ec_Method ec, pat, t) \<in> set server_routes" "path_matches pat (ec_Path ec)"
    using law(1) route(1) unfolding router_law_def by blast
  then have "\<not> SkipNoAuthRoutes ec" "\<not> echox_SkipDefaultEndpoints B ec"
    using protected_not_skipped [OF pat route(2)] law(2) unfolding default_endpoints_law_def by blast+
  then show ?thesis using auth by (simp add: web_serve_def auth_Middleware_def go_simps)
qed

lemma router_sample: "router_law web0"
  unfolding router_law_def
proof (intro allI impI)
  fix rs m path t assume "echo_Route web0 rs m path = Some t"
  then obtain m' pat where "find (\<lambda>(m', pat, t). m' = m \<and> path_matches pat path) rs = Some (m', pat, t)"
    by (auto simp: web0_def)
  from find_SomeD [OF this] show "\<exists>pat. (m, pat, t) \<in> set rs \<and> path_matches pat path" by auto
qed

lemma default_endpoints_sample: "default_endpoints_law web0"
proof -
  have "list_all (\<lambda>(m, pat, t). list_all (\<lambda>path. \<not> path_matches pat path) [''/livez'', ''/readyz'', ''/version'', ''/metrics'']) server_routes"
    by code_simp
  then show ?thesis unfolding default_endpoints_law_def web0_def list_all_iff by fastforce
qed

definition key_files :: OAuthConfigFile where
  "key_files = \<lparr>of_Issuer = ''https://identity'', of_AccessTokenLifespan = 600, of_Secret = ''secret'',
     of_PrivateKeys = [\<lparr>pk_KeyID = ''k1'', pk_Algorithm = ''RS256'', pk_Path = ''/k1''\<rparr>,
       \<lparr>pk_KeyID = ''h1'', pk_Algorithm = ''HS256'', pk_Path = ''/h1''\<rparr>]\<rparr>"

definition oauth0 :: OAuth2Config where
  "oauth0 = (case NewOAuth2Config tok0 prov0 key_files of Ok config \<Rightarrow> config)"

lemma oauth0_Ok: "NewOAuth2Config tok0 prov0 key_files = Ok oauth0"
  by (simp add: oauth0_def NewOAuth2Config_def key_files_def parsePrivateKeys_def readPrivateKey_def readAsymmetricKey_def
      readSymmetricKey_def prov0_def tok0_def)

theorem protected_routes_need_a_token_witness:
  "web_serve oapi0 web0 ext0 oauth0 (\<lambda>ec c. fail ErrUnknownRequest) (post_group\<lparr>ec_Authorization := []\<rparr>) ctx0 (world_of tables1) =
     (Err (HTTPError 401 (MsgText ''missing or malformed jwt'')), world_of tables1)"
proof (rule protected_routes_need_a_token [OF router_sample default_endpoints_sample])
  show "echo_Route web0 server_routes (ec_Method (post_group\<lparr>ec_Authorization := []\<rparr>)) (ec_Path (post_group\<lparr>ec_Authorization := []\<rparr>)) =
      Some (TargetAPI OpCreateGroup)"
    by code_simp
  show "\<not> open_target (TargetAPI OpCreateGroup)" by (simp add: open_target_def)
  show "echojwtx_Authenticate web0 (post_group\<lparr>ec_Authorization := []\<rparr>) = Err (HTTPError 401 (MsgText ''missing or malformed jwt''))"
    by (simp add: web0_def)
qed

text \<open>What \<open>jose\<close> documents of \<open>Public\<close> and \<open>Valid\<close>: a symmetric key has no public part.\<close>

definition jose_law :: "webext \<Rightarrow> bool" where
  "jose_law B \<longleftrightarrow> (\<forall>k. sj_Kind k = ''symmetric'' \<longrightarrow> jose_Public B k = None) \<and>
     (\<forall>k. sj_Kind k = ''rsa'' \<longrightarrow> (\<exists>p. jose_Public B k = Some p \<and> sj_KeyID p = sj_KeyID k \<and> sj_Kind p = ''rsa-public''))"

lemma jwks_loop_eq: "jwks_loop B keys out = out @ map (the \<circ> jose_Public B) (filter (\<lambda>k. jose_Public B k \<noteq> None) keys)"
  by (induction keys arbitrary: out) auto

lemma published_loop:
  assumes law: "jose_law B" and keys: "list_all2 (key_for P) pks jwks"
  shows "list_all (\<lambda>p. sj_Kind p = ''rsa-public'') (jwks_loop B jwks []) \<and>
    map sj_KeyID (jwks_loop B jwks []) = map pk_KeyID (filter (\<lambda>k. pk_Algorithm k \<in> {''RS256'', ''RS384'', ''RS512''}) pks)"
  using keys
proof (induction rule: list_all2_induct)
  case (Cons pk pks j jwks)
  then show ?case
  proof (cases "pk_Algorithm pk \<in> {''RS256'', ''RS384'', ''RS512''}")
    case True
    with Cons.hyps(1) have "sj_Kind j = ''rsa''" "sj_KeyID j = pk_KeyID pk" unfolding key_for_def if_P [OF True] by auto
    with law obtain p where "jose_Public B j = Some p" "sj_KeyID p = pk_KeyID pk" "sj_Kind p = ''rsa-public''"
      unfolding jose_law_def by metis
    with Cons.IH True show ?thesis by (simp add: jwks_loop_eq)
  next
    case False
    with Cons.hyps(1) have "sj_Kind j = ''symmetric''" unfolding key_for_def if_not_P [OF False] by auto
    with law have "jose_Public B j = None" unfolding jose_law_def by blast
    with Cons.IH False show ?thesis by (simp add: jwks_loop_eq)
  qed
qed simp

text \<open>C33: the published keys. The document at \<open>/jwks.json\<close> lists the public parts of the RSA keys of the
  configuration, all of them, in order and under their IDs; neither private nor symmetric keys are
  published.\<close>

theorem only_public_keys_are_published:
  assumes "jose_law B" and "NewOAuth2Config T P file = Ok config"
  shows "list_all (\<lambda>p. sj_Kind p = ''rsa-public'') (jwksHandler_Handle B config) \<and>
    map sj_KeyID (jwksHandler_Handle B config) =
      map pk_KeyID (filter (\<lambda>k. pk_Algorithm k \<in> {''RS256'', ''RS384'', ''RS512''}) (of_PrivateKeys file))"
proof -
  obtain signing where "parsePrivateKeys P (of_PrivateKeys file) = Ok (signing, oc2_SigningJWKS config)"
    using assms(2) by (auto simp: NewOAuth2Config_def)
  then have "list_all2 (key_for P) (of_PrivateKeys file) (oc2_SigningJWKS config)"
    by (simp add: parsePrivateKeys_iff)
  from published_loop [OF assms(1) this] show ?thesis by (simp add: jwksHandler_Handle_def)
qed

theorem only_public_keys_are_published_witness:
  "map sj_KeyID (jwksHandler_Handle web0 oauth0) = [''k1'']"
proof -
  have "jose_law web0" by (simp add: jose_law_def web0_def)
  from only_public_keys_are_published [OF this oauth0_Ok] show ?thesis by (simp add: key_files_def)
qed

lemma LookupUserInfoByID_free:
  assumes "healthy w" and "ctx_tx c = CtxNil"
  shows "LookupUserInfoByID c uid w =
     (case select_user uid (committed w) of [] \<Rightarrow> Err ErrUserInfoNotFound | r # _ \<Rightarrow> Ok (user_of_rows r), tick w)"
  using assms by (auto simp: LookupUserInfoByID_def scan_row_def go_simps db_simps split: list.splits)

text \<open>C35: a user's groups come in bounded pages. Whatever limit and cursor the query of the user info endpoint
  has, the page it answers with says a limit between 1 and 100, and holds at most that many groups, or
  10 where the limit is below: a cursor that cannot be read also drops the limit.\<close>

theorem user_groups_page_bounded:
  assumes "listUserGroups X ec c w = (Ok page, w')"
  shows "1 \<le> pg_Limit (gic_Pagination page) \<and> pg_Limit (gic_Pagination page) \<le> 100 \<and>
    int (length (gic_GroupIDs page)) \<le> max 10 (pg_Limit (gic_Pagination page))"
proof -
  let ?cur = "if QueryParam ec ''cursor'' \<noteq> [] then Some (QueryParam ec ''cursor'') else None"
  from assms obtain l u v rid gs where l: "l = None \<or> (\<exists>n. l = Some (Limit n))"
    and gs: "ListGroupsBySubject c rid (ListUserGroups_paginator \<lparr>pp_Cursor = ?cur, pp_Limit = l\<rparr>) u = (Ok gs, v)"
    and set: "ListUserGroups_SetPagination \<lparr>pp_Cursor = ?cur, pp_Limit = l\<rparr>
        \<lparr>gic_GroupIDs = ToPrefixedIDs gs, gic_Pagination = Pagination0\<rparr> = Ok page"
    unfolding listUserGroups_def tryE_eq_Ok Let_def bindE_eq_Ok
    by (elim disjE exE conjE) (simp_all add: lift_def go_simps split: if_splits option.splits, blast+)
  define p where "p = \<lparr>pp_Cursor = ?cur, pp_Limit = l\<rparr>"
  note gs = gs [folded p_def] and set = set [folded p_def]
  have p: "pp_Limit p = l" by (simp add: p_def)
  have req: "requested_limit p \<le> Limit (requested_limit p)"
    using l p by (auto simp: requested_limit_def Limit_idem) (use Limit_bounds [of 0] in simp)
  from set have page: "pg_Limit (gic_Pagination page) = Limit (requested_limit p)" "gic_GroupIDs page = ToPrefixedIDs gs"
    by (auto simp: ListUserGroups_SetPagination_def bindR_eq_Ok dest: set_pagination_limit)
  from ListGroupsBySubject_length [OF gs] req
  have "int (length gs) \<le> max 10 (Limit (requested_limit p))" by (simp add: ListUserGroups_paginator_def)
  with page Limit_bounds show ?thesis by (simp add: ToPrefixedIDs_def)
qed

theorem user_groups_page_bounded_witness:
  "\<exists>page w'. listUserGroups ext0 \<lparr>ec_Method = ''GET'', ec_Path = ''/userinfo/groups'', ec_Params = [],
       ec_Query = [(''limit'', [''500''])], ec_Body = [], ec_Authorization = []\<rparr> (ctx0\<lparr>ctx_actor := ''idntusr-1''\<rparr>) (world_of tables1) =
       (Ok page, w') \<and> gic_GroupIDs page = [''idntgrp-1''] \<and> pg_Limit (gic_Pagination page) \<le> 100"
proof -
  let ?run = "listUserGroups ext0 \<lparr>ec_Method = ''GET'', ec_Path = ''/userinfo/groups'', ec_Params = [],
       ec_Query = [(''limit'', [''500''])], ec_Body = [], ec_Authorization = []\<rparr> (ctx0\<lparr>ctx_actor := ''idntusr-1''\<rparr>) (world_of tables1)"
  let ?page = "\<lparr>gic_GroupIDs = [''idntgrp-1''], gic_Pagination = Pagination0\<lparr>pg_Limit := 100\<rparr>\<rparr>"
  have "fst ?run = Ok ?page" by code_simp
  then obtain w' where run: "?run = (Ok ?page, w')" by (metis prod.collapse)
  from user_groups_page_bounded [OF this] run show ?thesis by simp
qed

text \<open>The user info endpoint knows the holder of an exchanged token. With the subject of the token as
  actor it answers with the user of the issuer that signed the subject token, under the mapped
  subject.\<close>

lemma userinfo_exchanged:
  assumes law: "jwt_law T" and ctx: "ctx_tx c = CtxNil" "ctx_tx c' = CtxNil" and ok: "schema_ok (committed w)"
    and exchange: "HandleTokenEndpointRequest X T cfg c req w = (Ok req', w')" "ar_Session req' = SessJWT s"
    and later: "healthy v" "committed v = committed w'"
    and actor: "ctx_actor c' = jc_Subject (js_Claims s)" "gidx_Parse X (ctx_actor c') = Ok (ctx_actor c')"
  shows "\<exists>claims mapped u v'. signed_by_issuer X T (committed w) (Values_Get (ar_Form req) ParamSubjectToken) claims \<and>
    userinfo_handle X c' v = (Ok u, v') \<and> ui_ID u = jc_Subject (js_Claims s) \<and> ui_Issuer u = jc_Issuer claims \<and>
    ui_Subject u = jc_Subject (mapped_subject T mapped claims)"
proof -
  obtain claims mapped s' where e: "signed_by_issuer X T (committed w) (Values_Get (ar_Form req) ParamSubjectToken) claims"
      "ar_Session req' = SessJWT s'" "exchanged_user T claims mapped (committed w) (committed w') (jc_Subject (js_Claims s'))"
    using exchange_Ok [OF law ctx(1) ok exchange(1)] by blast
  have s: "s' = s" using e(2) exchange(2) by simp
  obtain i u where u: "i \<in> set (issuers (committed w))" "ir_uri i = jc_Issuer claims" "u \<in> set (user_info (committed w'))"
      "ur_iss_id u = ir_id i" "ur_sub u = jc_Subject (mapped_subject T mapped claims)" "ur_id u = jc_Subject (js_Claims s)"
      "issuers (committed w') = issuers (committed w)" "schema_ok (committed w')"
    using e(3) unfolding exchanged_user_def s by force
  have "select_user (ur_id u) (committed v) = [(u, i)]"
    using select_user_in [OF u(8,3) _ u(4)] u(1,7) later(2) by simp
  then have "userinfo_handle X c' v = (Ok (user_of_rows (u, i)), tick v)"
    using actor u(6) LookupUserInfoByID_free [OF later(1) ctx(2)] by (simp add: userinfo_handle_def go_simps)
  with e(1) u(2,5,6) show ?thesis by (auto simp: user_of_rows_def)
qed

end
