(* ===== verification/Startup.thy ===== *)
theory Startup
  imports TokenEndpoint
begin

text \<open>
  Starting the storage engine and seeding it: \<open>newCRDBEngine\<close> and its options
  (\<open>src/internal/storage/crdb.go\<close>, \<open>engine.go\<close>), migrations (\<open>migrate.go\<close>), \<open>SeedDatabase\<close> (\<open>data.go\<close>) and the command
  \<open>seed-database\<close> (\<open>src/cmd/seed.go\<close>). The record \<open>startext\<close> holds the YAML decoder and the opening of
  the database; files are read by \<open>os_ReadFile\<close> of \<open>provext\<close>. A fatal log message ends the process:
  the model returns its error.
\<close>

section \<open>Storage engine\<close>

record startext =
  yaml_Unmarshal :: "string \<Rightarrow> SeedIssuer list res"
  crdbx_NewDB :: "goerr option"
  goose_Up :: "unit dbio"

type_synonym engine_option = "unit dbio"

definition engine_seedDatabase :: "('ast, 'expr) ext \<Rightarrow> ctx \<Rightarrow> SeedIssuer list \<Rightarrow> unit dbio" where
  "engine_seedDatabase X c data = seedDatabase X c data"

text \<open>\<open>context.Background()\<close>.\<close>

definition background :: ctx where
  "background = \<lparr>ctx_tx = CtxNil, ctx_aost = AostNil, ctx_actor = []\<rparr>"

definition WithSeedData :: "('ast, 'expr) ext \<Rightarrow> SeedIssuer list \<Rightarrow> engine_option" where
  "WithSeedData X data = engine_seedDatabase X background data"

text \<open>\<open>goose_Up\<close> runs the embedded migrations that have not run yet.\<close>

definition runMigrations :: "startext \<Rightarrow> unit dbio" where
  "runMigrations S = goose_Up S"

definition WithMigrations :: "startext \<Rightarrow> engine_option" where
  "WithMigrations S = runMigrations S"

fun apply_options :: "engine_option list \<Rightarrow> unit dbio" where
  "apply_options [] = ret ()"
| "apply_options (opt # options) = bindE opt (\<lambda>_. apply_options options)"

definition newCRDBEngine :: "startext \<Rightarrow> engine_option list \<Rightarrow> unit dbio" where
  "newCRDBEngine S options =
     (case crdbx_NewDB S of
        Some err \<Rightarrow> fail err
      | None \<Rightarrow> apply_options options)"

text \<open>The stubs by which the engine implements fosite's storage of access tokens.\<close>

definition CreateAccessTokenSession :: "unit dbio" where "CreateAccessTokenSession = ret ()"
definition DeleteAccessTokenSession :: "unit dbio" where "DeleteAccessTokenSession = gopanic ''unimplemented''"
definition GetAccessTokenSession :: "unit dbio" where "GetAccessTokenSession = gopanic ''unimplemented''"

section \<open>Migrations\<close>

definition RunMigrations :: "startext \<Rightarrow> unit dbio" where
  "RunMigrations S =
     (case crdbx_NewDB S of
        Some err \<Rightarrow> fail err
      | None \<Rightarrow> runMigrations S)"

definition cmd_migrate :: "startext \<Rightarrow> unit dbio" where
  "cmd_migrate S =
     tryE (RunMigrations S)
       (\<lambda>err. fail (LibError (''error running migrations: '' @ Error err)))
       (\<lambda>_. ret ())"

section \<open>Seeding\<close>

definition parseSeedData :: "provext \<Rightarrow> startext \<Rightarrow> string \<Rightarrow> SeedIssuer list res" where
  "parseSeedData P S path = bindR (os_ReadFile P path) (yaml_Unmarshal S)"

definition SeedDatabase :: "('ast, 'expr) ext \<Rightarrow> provext \<Rightarrow> startext \<Rightarrow> string \<Rightarrow> unit dbio" where
  "SeedDatabase X P S path =
     bindE (lift (parseSeedData P S path)) (\<lambda>data. newCRDBEngine S [WithSeedData X data])"

definition cmd_seedDatabase :: "('ast, 'expr) ext \<Rightarrow> provext \<Rightarrow> startext \<Rightarrow> string \<Rightarrow> unit dbio" where
  "cmd_seedDatabase X P S path =
     (if path = [] then fail (LibError ''no data path provided'')
      else tryE (SeedDatabase X P S path)
        (\<lambda>err. fail (LibError (''error seeding database: '' @ Error err)))
        (\<lambda>_. ret ()))"

section \<open>Properties\<close>

lemma SeedDatabase_eq:
  "SeedDatabase X P S path w =
     (case parseSeedData P S path of
        Err e \<Rightarrow> (Err e, w)
      | Panic s \<Rightarrow> (Panic s, w)
      | Ok seeds \<Rightarrow> (case crdbx_NewDB S of Some e \<Rightarrow> (Err e, w) | None \<Rightarrow> seedDatabase X background seeds w))"
  by (auto simp: SeedDatabase_def newCRDBEngine_def WithSeedData_def engine_seedDatabase_def go_simps
      split: res.splits option.splits prod.splits)

text \<open>C26: seeding is all or nothing, whatever fails: either the file is read and every issuer in it is built,
  stored and committed in order, or the command reports an error and the durable tables are as
  before.\<close>

theorem seeding_is_all_or_nothing:
  "let (res, w') = cmd_seedDatabase X P S path w in
   (\<exists>seeds rows. res = Ok () \<and> path \<noteq> [] \<and> parseSeedData P S path = Ok seeds \<and> traverse (seed_row X) seeds = Ok rows \<and>
      committed w' = (committed w)\<lparr>issuers := issuers (committed w) @ rows\<rparr>) \<or>
   res \<noteq> Ok () \<and> committed w' = committed w"
proof (cases "path = [] \<or> (\<forall>seeds. parseSeedData P S path \<noteq> Ok seeds) \<or> crdbx_NewDB S \<noteq> None")
  case True
  then show ?thesis
    by (cases "parseSeedData P S path") (auto simp: cmd_seedDatabase_def SeedDatabase_eq go_simps split: option.splits)
next
  case False
  then obtain seeds where "path \<noteq> []" "parseSeedData P S path = Ok seeds" "crdbx_NewDB S = None" by auto
  with seedDatabase_outcome [of X background seeds w] show ?thesis
    by (cases "seedDatabase X background seeds w"; cases "fst (seedDatabase X background seeds w)")
      (auto simp: cmd_seedDatabase_def SeedDatabase_eq go_simps)
qed

end
