(* ===== verification/Wiring.thy ===== *)
theory Wiring
  imports WebServer Startup
begin

text \<open>
  Putting the server together: the command \<open>serve\<close> (\<open>src/cmd/serve.go\<close>) with the constructors it calls,
  the strategies of the OAuth configuration (\<open>src/internal/fositex/config.go\<close>), the registration of
  the grants (\<open>NewOAuth2Provider\<close> in \<open>fosite.go\<close>), the options of the router (\<open>src/internal/routes/routes.go\<close>),
  the audit middleware (\<open>src/internal/auditx\<close>) and the embedded API description
  (\<open>src/pkg/api/v1/types.gen.go\<close>).

  The record \<open>bootext\<close> holds the libraries: the outcomes of their constructors, the part of fosite that
  runs the grants, and the authentication middleware. A fatal log message ends the process: the model
  returns its error. Loggers and tracers are left out.
\<close>

section \<open>Interfaces of the configuration\<close>

text \<open>The storage engine as the grants see it; the manager of transactions is what the type assertion
  \<open>userInfoSvc.(storage.TransactionManager)\<close> finds.\<close>

record TransactionManager =
  tm_BeginContext :: "ctx \<Rightarrow> ctx dbio"
  tm_CommitContext :: "ctx \<Rightarrow> unit dbio"
  tm_RollbackContext :: "ctx \<Rightarrow> unit dbio"

record UserInfoService =
  uis_LookupUserInfoByClaims :: "ctx \<Rightarrow> string \<Rightarrow> string \<Rightarrow> UserInfo dbio"
  uis_LookupUserInfoByID :: "ctx \<Rightarrow> string \<Rightarrow> UserInfo dbio"
  uis_LookupUserOwnerID :: "ctx \<Rightarrow> string \<Rightarrow> string dbio"
  uis_LookupUserInfosByIssuerID :: "ctx \<Rightarrow> string \<Rightarrow> paginator \<Rightarrow> UserInfo list dbio"
  uis_StoreUserInfo :: "ctx \<Rightarrow> UserInfo \<Rightarrow> UserInfo dbio"
  uis_ParseUserInfoFromClaims :: "claims_map \<Rightarrow> UserInfo res"
  uis_TransactionManager :: "TransactionManager option"

text \<open>\<open>fositex.OAuth2Config\<close> with the strategies that \<open>serve\<close> sets; \<open>None\<close> is \<open>nil\<close>.\<close>

record OAuth2Strategies = OAuth2Config +
  oc2_ClaimMappingStrategy :: "(ctx \<Rightarrow> JWTClaims \<Rightarrow> JWTClaims dbio) option"
  oc2_ClaimConditionStrategy :: "(ctx \<Rightarrow> JWTClaims \<Rightarrow> bool dbio) option"
  oc2_UserInfoStrategy :: "UserInfoService option"
  oc2_IssuerJWKSURIProvider :: "(ctx \<Rightarrow> string \<Rightarrow> string dbio) option"

definition new_strategies :: "OAuth2Config \<Rightarrow> OAuth2Strategies" where
  "new_strategies config = OAuth2Config.extend config (OAuth2Strategies.fields None None None None)"

definition GetIssuerJWKSURIProvider :: "OAuth2Strategies \<Rightarrow> (ctx \<Rightarrow> string \<Rightarrow> string dbio) option" where
  "GetIssuerJWKSURIProvider c = oc2_IssuerJWKSURIProvider c"

definition GetSigningKey :: "OAuth2Strategies \<Rightarrow> signing_jwk" where "GetSigningKey c = oc2_SigningKey c"
definition GetSigningJWKS :: "OAuth2Strategies \<Rightarrow> signing_jwk list" where "GetSigningJWKS c = oc2_SigningJWKS c"

definition GetClaimMappingStrategy :: "OAuth2Strategies \<Rightarrow> (ctx \<Rightarrow> JWTClaims \<Rightarrow> JWTClaims dbio) option" where
  "GetClaimMappingStrategy c = oc2_ClaimMappingStrategy c"

definition GetClaimConditionStrategy :: "OAuth2Strategies \<Rightarrow> (ctx \<Rightarrow> JWTClaims \<Rightarrow> bool dbio) option" where
  "GetClaimConditionStrategy c = oc2_ClaimConditionStrategy c"

definition GetUserInfoStrategy :: "OAuth2Strategies \<Rightarrow> UserInfoService option" where
  "GetUserInfoStrategy c = oc2_UserInfoStrategy c"

definition GetUserInfoAudience :: "OAuth2Strategies \<Rightarrow> string" where "GetUserInfoAudience c = oc2_userInfoAudience c"

text \<open>What the grants read of the configuration, through its getters and fosite's own.\<close>

definition config_view :: "OAuth2Strategies \<Rightarrow> oauth_config" where
  "config_view c =
    \<lparr>cfg_HasJWKSURIProvider = (GetIssuerJWKSURIProvider c \<noteq> None),
     cfg_HasTransactionManager = (case GetUserInfoStrategy c of None \<Rightarrow> False | Some s \<Rightarrow> uis_TransactionManager s \<noteq> None),
     cfg_AccessTokenIssuer = oc2_AccessTokenIssuer c, cfg_AccessTokenLifespan = oc2_AccessTokenLifespan c,
     cfg_SigningKeyID = sj_KeyID (GetSigningKey c)\<rparr>"

text \<open>The constructors of the strategies, and the storage engine as the user info strategy.\<close>

definition NewClaimMappingStrategy :: "('ast, 'expr) ext \<Rightarrow> tokext \<Rightarrow> ctx \<Rightarrow> JWTClaims \<Rightarrow> JWTClaims dbio" where
  "NewClaimMappingStrategy X T = MapClaims X T"

definition NewClaimConditionStrategy :: "('ast, 'expr) ext \<Rightarrow> tokext \<Rightarrow> ctx \<Rightarrow> JWTClaims \<Rightarrow> bool dbio" where
  "NewClaimConditionStrategy X T = ClaimConditionStrategy_Eval X T"

definition NewIssuerJWKSURIProvider :: "('ast, 'expr) ext \<Rightarrow> ctx \<Rightarrow> string \<Rightarrow> string dbio" where
  "NewIssuerJWKSURIProvider X = GetIssuerJWKSURI X"

definition engine_users :: "('ast, 'expr) ext \<Rightarrow> UserInfoService" where
  "engine_users X =
    \<lparr>uis_LookupUserInfoByClaims = LookupUserInfoByClaims, uis_LookupUserInfoByID = LookupUserInfoByID,
     uis_LookupUserOwnerID = LookupUserOwnerID, uis_LookupUserInfosByIssuerID = LookupUserInfosByIssuerID,
     uis_StoreUserInfo = StoreUserInfo X, uis_ParseUserInfoFromClaims = ParseUserInfoFromClaims,
     uis_TransactionManager = Some \<lparr>tm_BeginContext = BeginContext, tm_CommitContext = CommitContext,
       tm_RollbackContext = RollbackContext\<rparr>\<rparr>"

section \<open>Libraries\<close>

record token_handler =
  th_Type :: string
  th_CanSkipClientAuth :: "access_request \<Rightarrow> bool"
  th_CanHandleTokenEndpointRequest :: "access_request \<Rightarrow> bool"
  th_HandleTokenEndpointRequest :: "ctx \<Rightarrow> OAuthClient \<Rightarrow> access_request \<Rightarrow> access_request dbio"
  th_PopulateTokenEndpointResponse :: "OAuthClient \<Rightarrow> access_request \<Rightarrow> access_response dbio"

record 's bootext =
  otelx_InitTracer :: "goerr option"
  audithelpers_OpenAuditLogFile :: "string \<Rightarrow> goerr option"
  eventsx_NewNATSConnection :: "goerr option"
  permissions_New :: "(ctx \<Rightarrow> goerr option) res"
  gzip_NewReader :: "string \<Rightarrow> string res"
  buf_ReadFrom :: "string \<Rightarrow> string res"
  openapi3_LoadFromData :: "(string \<Rightarrow> string res) \<Rightarrow> string \<Rightarrow> 's res"
  OapiRequestValidator :: "'s \<Rightarrow> echo_ctx \<Rightarrow> goerr option"
  jose_Encode :: "signing_jwk list \<Rightarrow> string res"
  keyfunc_NewJWKSetJSON :: "string \<Rightarrow> signing_jwk list res"
  echojwtx_NewAuth :: "string \<Rightarrow> goerr option"
  echojwtx_Middleware :: "string \<Rightarrow> signing_jwk list \<Rightarrow> int \<Rightarrow> echo_ctx \<Rightarrow> string res"
  compose_GenerateAccessToken :: "signing_jwk \<Rightarrow> nat \<Rightarrow> access_request \<Rightarrow> string res"
  compose_IssueAccessToken :: "signing_jwk \<Rightarrow> nat \<Rightarrow> int \<Rightarrow> access_request \<Rightarrow> access_response res"
  fosite_Append :: "token_handler list \<Rightarrow> token_handler \<Rightarrow> token_handler list"
  fosite_AppendOther :: "string list \<Rightarrow> string \<Rightarrow> string list"
  fosite_NewAccessRequest :: "token_handler list \<Rightarrow> ctx \<Rightarrow> echo_ctx \<Rightarrow> session \<Rightarrow> access_requester dbio"
  fosite_NewAccessResponse :: "token_handler list \<Rightarrow> ctx \<Rightarrow> access_requester \<Rightarrow> access_response dbio"
  fosite_ClientCredentials :: "echo_ctx \<Rightarrow> (string \<times> string) option"
  fosite_Compare :: "string \<Rightarrow> string \<Rightarrow> bool"
  http_PostForm :: "echo_ctx \<Rightarrow> url_values"
  echox_NewServer :: "goerr option"

section \<open>OAuth provider\<close>

text \<open>What a factory makes, as the interfaces of fosite it implements. Handlers of the endpoints this
  service does not have are only named.\<close>

record endpoint_handler =
  eh_AuthorizeEndpointHandler :: "string option"
  eh_TokenEndpointHandler :: "token_handler option"
  eh_TokenIntrospector :: "string option"
  eh_RevocationHandler :: "string option"
  eh_PushedAuthorizeEndpointHandler :: "string option"

record provider =
  pv_AuthorizeEndpointHandlers :: "string list"
  pv_TokenEndpointHandlers :: "token_handler list"
  pv_TokenIntrospectionHandlers :: "string list"
  pv_RevocationHandlers :: "string list"
  pv_PushedAuthorizeEndpointHandlers :: "string list"

definition provider0 :: provider where
  "provider0 = \<lparr>pv_AuthorizeEndpointHandlers = [], pv_TokenEndpointHandlers = [], pv_TokenIntrospectionHandlers = [],
     pv_RevocationHandlers = [], pv_PushedAuthorizeEndpointHandlers = []\<rparr>"

text \<open>A factory is given the configuration; storage and strategy of the code are \<open>X\<close>, \<open>T\<close> and \<open>P\<close>.\<close>

type_synonym factory = "OAuth2Strategies \<Rightarrow> provext \<Rightarrow> endpoint_handler"

definition token_endpoint_handler :: "token_handler \<Rightarrow> endpoint_handler" where
  "token_endpoint_handler h = \<lparr>eh_AuthorizeEndpointHandler = None, eh_TokenEndpointHandler = Some h, eh_TokenIntrospector = None,
     eh_RevocationHandler = None, eh_PushedAuthorizeEndpointHandler = None\<rparr>"

definition NewTokenExchangeHandler :: "('ast, 'expr) ext \<Rightarrow> tokext \<Rightarrow> factory" where
  "NewTokenExchangeHandler X T config P =
     token_endpoint_handler \<lparr>th_Type = ''*rfc8693.TokenExchangeHandler'',
       th_CanSkipClientAuth = CanSkipClientAuth,
       th_CanHandleTokenEndpointRequest = CanHandleTokenEndpointRequest,
       th_HandleTokenEndpointRequest = (\<lambda>c client. HandleTokenEndpointRequest X T (config_view config) c),
       th_PopulateTokenEndpointResponse = (\<lambda>client. PopulateTokenEndpointResponse P (config_view config))\<rparr>"

definition NewClientCredentialsHandlerFactory :: "('ast, 'expr) ext \<Rightarrow> tokext \<Rightarrow> factory" where
  "NewClientCredentialsHandlerFactory X T config P =
     token_endpoint_handler \<lparr>th_Type = ''*oauth2.ClientCredentialsGrantHandler'',
       th_CanSkipClientAuth = ClientCredentials_CanSkipClientAuth,
       th_CanHandleTokenEndpointRequest = ClientCredentials_CanHandleTokenEndpointRequest,
       th_HandleTokenEndpointRequest = (\<lambda>c. ClientCredentials_HandleTokenEndpointRequest X T P (config_view config)),
       th_PopulateTokenEndpointResponse = ClientCredentials_PopulateTokenEndpointResponse P (config_view config)\<rparr>"

definition append_to :: "('h list \<Rightarrow> 'h \<Rightarrow> 'h list) \<Rightarrow> 'h option \<Rightarrow> 'h list \<Rightarrow> 'h list" where
  "append_to app h hs = (case h of None \<Rightarrow> hs | Some h \<Rightarrow> app hs h)"

definition register :: "'s bootext \<Rightarrow> endpoint_handler \<Rightarrow> provider \<Rightarrow> provider" where
  "register E res p =
    \<lparr>pv_AuthorizeEndpointHandlers =
       append_to (fosite_AppendOther E) (eh_AuthorizeEndpointHandler res) (pv_AuthorizeEndpointHandlers p),
     pv_TokenEndpointHandlers =
       append_to (fosite_Append E) (eh_TokenEndpointHandler res) (pv_TokenEndpointHandlers p),
     pv_TokenIntrospectionHandlers =
       append_to (fosite_AppendOther E) (eh_TokenIntrospector res) (pv_TokenIntrospectionHandlers p),
     pv_RevocationHandlers =
       append_to (fosite_AppendOther E) (eh_RevocationHandler res) (pv_RevocationHandlers p),
     pv_PushedAuthorizeEndpointHandlers =
       append_to (fosite_AppendOther E) (eh_PushedAuthorizeEndpointHandler res) (pv_PushedAuthorizeEndpointHandlers p)\<rparr>"

fun register_factories :: "'s bootext \<Rightarrow> OAuth2Strategies \<Rightarrow> provext \<Rightarrow> factory list \<Rightarrow> provider \<Rightarrow> provider" where
  "register_factories E configurator P [] p = p"
| "register_factories E configurator P (factory # factories) p =
     register_factories E configurator P factories (register E (factory configurator P) p)"

definition NewOAuth2Provider :: "'s bootext \<Rightarrow> OAuth2Strategies \<Rightarrow> provext \<Rightarrow> factory list \<Rightarrow> provider" where
  "NewOAuth2Provider E configurator P factories = register_factories E configurator P factories provider0"

text \<open>The JWT strategy signs with the key the configuration has when a token is generated.\<close>

definition NewOAuth2JWTStrategy :: "'s bootext \<Rightarrow> OAuth2Strategies \<Rightarrow> provext \<Rightarrow> provext" where
  "NewOAuth2JWTStrategy E config P =
     P\<lparr>fosite_GenerateAccessToken := compose_GenerateAccessToken E (GetSigningKey config),
       fosite_IssueAccessToken := compose_IssueAccessToken E (GetSigningKey config)\<rparr>"

definition NewAccessRequest :: "'s bootext \<Rightarrow> provider \<Rightarrow> ctx \<Rightarrow> echo_ctx \<Rightarrow> session \<Rightarrow> access_requester dbio" where
  "NewAccessRequest E p c ec session = fosite_NewAccessRequest E (pv_TokenEndpointHandlers p) c ec session"

definition NewAccessResponse :: "'s bootext \<Rightarrow> provider \<Rightarrow> ctx \<Rightarrow> access_requester \<Rightarrow> access_response dbio" where
  "NewAccessResponse E p c requester = fosite_NewAccessResponse E (pv_TokenEndpointHandlers p) c requester"

section \<open>Audit middleware\<close>

record audit_config =
  aud_Enabled :: bool
  aud_Path :: string
  aud_Component :: string

record audit_middleware =
  am_Component :: string
  am_Writer :: "string option"
  am_Metrics :: bool
  am_SubjectHandler :: "(audit_ctx \<Rightarrow> (string \<times> string) list option) option"
  am_OutcomeHandler :: "(string \<Rightarrow> audit_ctx \<Rightarrow> string) option"

definition NewJSONMiddleware :: "string \<Rightarrow> string option \<Rightarrow> audit_middleware" where
  "NewJSONMiddleware component writer = \<lparr>am_Component = component, am_Writer = writer, am_Metrics = False,
     am_SubjectHandler = None, am_OutcomeHandler = None\<rparr>"

text \<open>A middleware comes with the file its closer closes, if there is one.\<close>

definition newNopMiddleware :: "(audit_middleware \<times> string option) res" where
  "newNopMiddleware = Ok (NewJSONMiddleware [] None, None)"

definition NewMiddleware :: "'s bootext \<Rightarrow> audit_config \<Rightarrow> (audit_middleware \<times> string option) res" where
  "NewMiddleware E c =
     (if \<not> aud_Enabled c then newNopMiddleware
      else case audithelpers_OpenAuditLogFile E (aud_Path c) of
             Some err \<Rightarrow> Err err
           | None \<Rightarrow>
               Ok ((NewJSONMiddleware (aud_Component c) (Some (aud_Path c)))
                     \<lparr>am_Metrics := True, am_SubjectHandler := Some getSubject, am_OutcomeHandler := Some getOutcome\<rparr>,
                   Some (aud_Path c)))"

section \<open>API description\<close>

text \<open>\<open>path.Clean\<close>.\<close>

fun clean_segments :: "bool \<Rightarrow> string list \<Rightarrow> string list \<Rightarrow> string list" where
  "clean_segments rooted stack [] = rev stack"
| "clean_segments rooted stack (seg # segs) =
     (if seg = [] \<or> seg = ''.'' then clean_segments rooted stack segs
      else if seg = ''..'' then
        (case stack of
           [] \<Rightarrow> clean_segments rooted (if rooted then [] else [seg]) segs
         | prev # rest \<Rightarrow> clean_segments rooted (if prev = ''..'' then seg # stack else rest) segs)
      else clean_segments rooted (seg # stack) segs)"

fun join_segments :: "string list \<Rightarrow> string" where
  "join_segments [] = []"
| "join_segments [seg] = seg"
| "join_segments (seg # segs) = seg @ [CHR ''/''] @ join_segments segs"

definition path_Clean :: "string \<Rightarrow> string" where
  "path_Clean path =
    (let rooted = (case path of [] \<Rightarrow> False | ch # _ \<Rightarrow> ch = CHR ''/'');
         body = join_segments (clean_segments rooted [] (segments path));
         out = (if rooted then CHR ''/'' # body else body)
     in if out = [] then ''.'' else out)"

text \<open>The embedded description, \<open>swaggerSpec\<close>, is an argument. The position that
  base64's error names is left out.\<close>

definition decodeSpec :: "'s bootext \<Rightarrow> string list \<Rightarrow> string res" where
  "decodeSpec E swaggerSpec =
     (case StdEncoding_Decode (concat swaggerSpec) of
        None \<Rightarrow> Err (LibError ''error base64 decoding spec'')
      | Some zipped \<Rightarrow>
         (case gzip_NewReader E zipped of
            Panic s \<Rightarrow> Panic s
          | Err err \<Rightarrow> Err (LibError (''error decompressing spec: '' @ Error err))
          | Ok zr \<Rightarrow>
             (case buf_ReadFrom E zr of
                Panic s \<Rightarrow> Panic s
              | Err err \<Rightarrow> Err (LibError (''error decompressing spec: '' @ Error err))
              | Ok buf \<Rightarrow> Ok buf)))"

definition PathToRawSpec :: "'s bootext \<Rightarrow> string list \<Rightarrow> string \<Rightarrow> (string \<times> string res) list" where
  "PathToRawSpec E swaggerSpec pathToFile = (if pathToFile \<noteq> [] then [(pathToFile, decodeSpec E swaggerSpec)] else [])"

definition ReadFromURIFunc :: "(string \<times> string res) list \<Rightarrow> string \<Rightarrow> string res" where
  "ReadFromURIFunc resolvePath url =
    (let pathToFile = path_Clean url
     in case map_of resolvePath pathToFile of
          None \<Rightarrow> Err (LibError (''path not found: '' @ pathToFile))
        | Some spec \<Rightarrow> spec)"

definition GetSwagger :: "'s bootext \<Rightarrow> string list \<Rightarrow> 's res" where
  "GetSwagger E swaggerSpec =
     bindR (decodeSpec E swaggerSpec) (openapi3_LoadFromData E (ReadFromURIFunc (PathToRawSpec E swaggerSpec [])))"

definition oapiValidationMiddleware :: "'s bootext \<Rightarrow> string list \<Rightarrow> (echo_ctx \<Rightarrow> goerr option) res" where
  "oapiValidationMiddleware E swaggerSpec = bindR (GetSwagger E swaggerSpec) (\<lambda>swagger. Ok (OapiRequestValidator E swagger))"

section \<open>Handlers\<close>

record APIHandler =
  ah_validationMiddleware :: "echo_ctx \<Rightarrow> goerr option"
  ah_auditMiddleware :: "audit_middleware option"
  ah_middleware :: "ctx \<Rightarrow> goerr option"

definition NewAPIHandler ::
    "'s bootext \<Rightarrow> string list \<Rightarrow> audit_middleware option \<Rightarrow> (ctx \<Rightarrow> goerr option) \<Rightarrow> APIHandler res" where
  "NewAPIHandler E swaggerSpec amw mw =
     bindR (oapiValidationMiddleware E swaggerSpec) (\<lambda>validationMiddleware.
     Ok \<lparr>ah_validationMiddleware = validationMiddleware, ah_auditMiddleware = amw, ah_middleware = mw\<rparr>)"

record router =
  rt_provider :: "provider option"
  rt_config :: "OAuth2Strategies option"
  rt_issuer :: string
  rt_auditMiddleware :: "audit_middleware option"

type_synonym router_option = "router \<Rightarrow> router"

definition WithProvider :: "provider \<Rightarrow> router_option" where "WithProvider provider r = r\<lparr>rt_provider := Some provider\<rparr>"
definition WithOauthConfig :: "OAuth2Strategies \<Rightarrow> router_option" where "WithOauthConfig config r = r\<lparr>rt_config := Some config\<rparr>"
definition WithIssuer :: "string \<Rightarrow> router_option" where "WithIssuer issuer r = r\<lparr>rt_issuer := issuer\<rparr>"
definition WithAuditMiddleware :: "audit_middleware option \<Rightarrow> router_option" where
  "WithAuditMiddleware mw r = r\<lparr>rt_auditMiddleware := mw\<rparr>"

fun apply_router_options :: "router_option list \<Rightarrow> router \<Rightarrow> router" where
  "apply_router_options [] r = r"
| "apply_router_options (opt # opts) r = apply_router_options opts (opt r)"

definition NewRouter :: "router_option list \<Rightarrow> router" where
  "NewRouter opts = apply_router_options opts \<lparr>rt_provider = None, rt_config = None, rt_issuer = [], rt_auditMiddleware = None\<rparr>"

section \<open>The server\<close>

record auth =
  auth_Issuer :: string
  auth_Keys :: "signing_jwk list"
  auth_Skipper :: "echo_ctx \<Rightarrow> bool"

definition getAuthMiddleware :: "'s bootext \<Rightarrow> OAuth2Strategies \<Rightarrow> (echo_ctx \<Rightarrow> bool) list \<Rightarrow> auth res" where
  "getAuthMiddleware E config skippers =
    (let issuer = oc2_AccessTokenIssuer config
     in bindR (jose_Encode E (GetSigningJWKS config)) (\<lambda>buff.
        bindR (keyfunc_NewJWKSetJSON E buff) (\<lambda>jwks.
        case echojwtx_NewAuth E issuer of
          Some err \<Rightarrow> Err err
        | None \<Rightarrow> Ok \<lparr>auth_Issuer = issuer, auth_Keys = jwks, auth_Skipper = multiSkipper skippers\<rparr>)))"

record app_config =
  conf_OAuth :: OAuthConfigFile
  conf_Audit :: audit_config

text \<open>Where the configuration is read from, and \<open>initConfig\<close>: the file is read if it can be; the settings
  that are decoded are those of the file, if it was read, over the environment and the flags.\<close>

datatype config_source = ConfigFile string | ConfigSearch string string string

record viperext =
  viper_ReadInConfig :: "config_source \<Rightarrow> goerr option"
  viper_Unmarshal :: "config_source option \<Rightarrow> app_config res"

definition initConfig :: "viperext \<Rightarrow> string \<Rightarrow> app_config res" where
  "initConfig V cfgFile =
    (let source = (if cfgFile \<noteq> [] then ConfigFile cfgFile
           else ConfigSearch ''/etc/identity-api'' ''yaml'' ''identity-api'');
         err = viper_ReadInConfig V source
     in case viper_Unmarshal V (if err = None then Some source else None) of
          Panic s \<Rightarrow> Panic s
        | Err err \<Rightarrow> Err (LibError (''unable to decode app config: '' @ Error err))
        | Ok conf \<Rightarrow> Ok conf)"

record server =
  sv_config :: OAuth2Strategies
  sv_router :: router
  sv_api :: APIHandler
  sv_auth :: auth

definition fatal :: "string \<Rightarrow> goerr \<Rightarrow> 'a dbio" where
  "fatal msg err = fail (LibError (msg @ '': '' @ Error err))"

definition check :: "goerr option \<Rightarrow> unit dbio" where
  "check e = (case e of None \<Rightarrow> ret () | Some err \<Rightarrow> fail err)"

text \<open>\<open>serve\<close> up to \<open>srv.Run\<close>, and the wiring of the configuration in its middle.\<close>

definition wire_config :: "('ast, 'expr) ext \<Rightarrow> tokext \<Rightarrow> OAuth2Config \<Rightarrow> OAuth2Strategies" where
  "wire_config X T config =
     (new_strategies config)\<lparr>oc2_IssuerJWKSURIProvider := Some (NewIssuerJWKSURIProvider X),
        oc2_ClaimMappingStrategy := Some (NewClaimMappingStrategy X T),
        oc2_ClaimConditionStrategy := Some (NewClaimConditionStrategy X T),
        oc2_UserInfoStrategy := Some (engine_users X)\<rparr>"

definition cmd_serve ::
    "('ast, 'expr) ext \<Rightarrow> tokext \<Rightarrow> provext \<Rightarrow> webext \<Rightarrow> startext \<Rightarrow> 's bootext \<Rightarrow> string list \<Rightarrow> app_config \<Rightarrow> server dbio" where
  "cmd_serve X T P B S E swaggerSpec conf =
     tryE (check (otelx_InitTracer E)) (fatal ''error initializing tracing'') (\<lambda>_.
     tryE (lift (NewMiddleware E (conf_Audit conf))) (fatal ''Failed to initialize audit middleware'') (\<lambda>(auditMiddleware, auditCloseFn).
     tryE (check (eventsx_NewNATSConnection E)) (fatal ''failed to initialize NATS connection'') (\<lambda>_.
     tryE (lift (permissions_New E)) (fatal ''failed to initialize permissions'') (\<lambda>perms.
     tryE (newCRDBEngine S []) (fatal ''error initializing storage'') (\<lambda>_.
     tryE (lift (NewOAuth2Config T P (conf_OAuth conf))) (fatal ''error loading config'') (\<lambda>config.
       let oauth2Config = wire_config X T config;
           jwtStrategy = NewOAuth2JWTStrategy E oauth2Config P;
           provider = NewOAuth2Provider E oauth2Config jwtStrategy
             [NewTokenExchangeHandler X T, NewClientCredentialsHandlerFactory X T]
       in
     tryE (lift (NewAPIHandler E swaggerSpec (Some auditMiddleware) perms)) (fatal ''error initializing API server'') (\<lambda>apiHandler.
       let router = NewRouter [WithOauthConfig oauth2Config, WithProvider provider, WithIssuer (of_Issuer (conf_OAuth conf)),
             WithAuditMiddleware (Some auditMiddleware)]
       in
     tryE (lift (getAuthMiddleware E oauth2Config [echox_SkipDefaultEndpoints B, SkipNoAuthRoutes]))
       (fatal ''failed to initialize jwt authentication'') (\<lambda>authMdw.
     tryE (check (echox_NewServer E)) (fatal ''failed to initialize new server'') (\<lambda>_.
     ret \<lparr>sv_config = oauth2Config, sv_router = router, sv_api = apiHandler, sv_auth = authMdw\<rparr>)))))))))"

text \<open>A request to the running server, at a given time. The session of a token request is new.\<close>

definition new_session :: session where
  "new_session = SessJWT \<lparr>js_kid = [], js_Claims = JWTClaims0, js_ExpiresAt = 0, js_Subject = []\<rparr>"

definition token_endpoint :: "provext \<Rightarrow> 's bootext \<Rightarrow> server \<Rightarrow> echo_ctx \<Rightarrow> ctx \<Rightarrow> token_reply dbio" where
  "token_endpoint P E sv ec c =
     (case rt_provider (sv_router sv) of
        None \<Rightarrow> gopanic ''nil pointer dereference''
      | Some p \<Rightarrow>
          bindE (tokenHandler_Handle P (NewAccessRequest E p c ec new_session) (NewAccessResponse E p c)
                   \<lparr>au_outcome = None, au_subject = None\<rparr>) (\<lambda>(reply, au). ret reply))"

definition server_serve ::
    "oapi \<Rightarrow> webext \<Rightarrow> ('ast, 'expr) ext \<Rightarrow> provext \<Rightarrow> 's bootext \<Rightarrow> server \<Rightarrow> int \<Rightarrow> echo_ctx \<Rightarrow> ctx \<Rightarrow> web_reply dbio" where
  "server_serve L B X P E sv now ec c =
     web_serve (L\<lparr>oapi_Validate := ah_validationMiddleware (sv_api sv)\<rparr>)
       (B\<lparr>echojwtx_Authenticate := echojwtx_Middleware E (auth_Issuer (sv_auth sv)) (auth_Keys (sv_auth sv)) now,
          permissions_Middleware := ah_middleware (sv_api sv)\<rparr>)
       X (OAuth2Config.truncate (sv_config sv)) (token_endpoint P E sv) ec c"

end
