(* ===== verification/ServerProperties.thy ===== *)
theory ServerProperties
  imports Wiring
begin

text \<open>
  What holds of a server that \<open>cmd_serve\<close> has started: on which grounds its token endpoint issues a
  token, and that the service accepts the tokens it issues. What fosite, \<open>jose\<close>, \<open>keyfunc\<close>, \<open>echojwtx\<close>
  and echo document is stated as laws; the locale \<open>token_grant\<close> is what the provider relies on of a
  grant, with an interpretation for each of the two.
\<close>

section \<open>What is relied on of the libraries\<close>

text \<open>fosite documents of \<open>Append\<close> that it ignores duplicates of a type.\<close>

definition append_law :: "'s bootext \<Rightarrow> bool" where
  "append_law E \<longleftrightarrow> (\<forall>hs h. th_Type h \<notin> set (map th_Type hs) \<longrightarrow> fosite_Append E hs h = hs @ [h])"

text \<open>A client has authenticated itself when it is stored and its secret fits the stored hash.\<close>

definition authenticated :: "('ast, 'expr) ext \<Rightarrow> 's bootext \<Rightarrow> ctx \<Rightarrow> echo_ctx \<Rightarrow> OAuthClient \<Rightarrow> tables \<Rightarrow> bool" where
  "authenticated X E c ec client t \<longleftrightarrow>
     (\<exists>cid secret v v'. fosite_ClientCredentials E ec = Some (cid, secret) \<and> committed v = t \<and>
        GetClient X c cid v = (Ok client, v') \<and> fosite_Compare E (GetHashedSecret client) secret)"

definition exclusive :: "token_handler list \<Rightarrow> bool" where
  "exclusive hs \<longleftrightarrow> (\<forall>req. length (filter (\<lambda>h. th_CanHandleTokenEndpointRequest h req) hs) \<le> 1)"

text \<open>A token request is accepted by the one handler that can handle it, on a request made from the form
  of the HTTP request; only a handler that says so is run without an authenticated client. The
  response is the one this handler populates.\<close>

definition request_law :: "('ast, 'expr) ext \<Rightarrow> 's bootext \<Rightarrow> bool" where
  "request_law X E \<longleftrightarrow> (\<forall>hs c ec s w client req' w'. exclusive hs \<longrightarrow>
     fosite_NewAccessRequest E hs c ec s w = (Ok (client, req'), w') \<longrightarrow>
     (\<exists>h \<in> set hs. \<exists>req v. th_CanHandleTokenEndpointRequest h req \<and> ar_Session req = s \<and> ar_Form req = http_PostForm E ec \<and>
        (let g = Values_Get (ar_Form req) ''grant_type'' in g \<noteq> [] \<and> CHR '' '' \<notin> set g \<longrightarrow> ar_GrantTypes req = [g]) \<and>
        (th_CanSkipClientAuth h req \<or> authenticated X E c ec client (committed w)) \<and> committed v = committed w \<and>
        th_HandleTokenEndpointRequest h c client req v = (Ok req', w')))"

definition response_law :: "'s bootext \<Rightarrow> bool" where
  "response_law E \<longleftrightarrow> (\<forall>hs c client req w resp w'. exclusive hs \<longrightarrow>
     fosite_NewAccessResponse E hs c (client, req) w = (Ok resp, w') \<longrightarrow>
     (\<exists>h \<in> set hs. \<exists>v v'. committed v = committed w \<and> committed w' = committed v' \<and>
        th_PopulateTokenEndpointResponse h client req v = (Ok resp, v')))"

text \<open>Keys written as JSON by \<open>jose\<close> are read back by \<open>keyfunc\<close>.\<close>

definition keyfunc_law :: "'s bootext \<Rightarrow> bool" where
  "keyfunc_law E \<longleftrightarrow> (\<forall>ks s ks'. jose_Encode E ks = Ok s \<longrightarrow> keyfunc_NewJWKSetJSON E s = Ok ks' \<longrightarrow> ks' = ks)"

text \<open>A token that is signed by a key is accepted as long as it is valid where its issuer is the expected
  one and the key is found under the ID in its header; the actor is its subject.\<close>

definition auth_law :: "'s bootext \<Rightarrow> bool" where
  "auth_law E \<longleftrightarrow> (\<forall>key n req s tok keys now ec. compose_GenerateAccessToken E key n req = Ok tok \<longrightarrow> ar_Session req = SessJWT s \<longrightarrow>
     filter (\<lambda>k. sj_KeyID k = js_kid s) keys = [key] \<longrightarrow> now < js_ExpiresAt s \<longrightarrow> ec_Authorization ec = ''Bearer '' @ tok \<longrightarrow>
     echojwtx_Middleware E (jc_Issuer (js_Claims s)) keys now ec = Ok (jc_Subject (js_Claims s)))"

text \<open>A path without parameters goes to the route that is registered for it.\<close>

definition static_law :: "webext \<Rightarrow> bool" where
  "static_law B \<longleftrightarrow> (\<forall>rs m path t. (m, path, t) \<in> set rs \<longrightarrow> CHR '':'' \<notin> set path \<longrightarrow> CHR ''*'' \<notin> set path \<longrightarrow>
     distinct (map (\<lambda>(m, path, t). (m, path)) rs) \<longrightarrow> echo_Route B rs m path = Some t)"

section \<open>The grants\<close>

text \<open>What the provider relies on of a grant: a request it accepts carries a session for the signing key of
  the service, and is still one of the same grant.\<close>

locale token_grant =
  fixes h :: token_handler and kid :: string
  assumes session: "th_HandleTokenEndpointRequest h c client req w = (Ok req', w') \<Longrightarrow> \<exists>s. ar_Session req' = SessJWT s \<and> js_kid s = kid"
    and keeps: "th_HandleTokenEndpointRequest h c client req w = (Ok req', w') \<Longrightarrow>
      ar_GrantTypes req' = ar_GrantTypes req \<and> ar_Form req' = ar_Form req"
begin

text \<open>The handler of the token endpoint never dereferences a missing session, and its audit data names the
  subject of the token.\<close>

lemma handled:
  assumes "th_HandleTokenEndpointRequest h c client req v = (Ok req', w1)" and "newReq w = (Ok (client, req'), w1)"
  shows "\<exists>s. ar_Session req' = SessJWT s \<and> js_kid s = kid \<and>
    tokenHandler_Handle P newReq newResp au w =
      (tryE (newResp (client, req')) (\<lambda>err. ret (WriteAccessError err, SetSubject [(''subject'', jc_Subject (js_Claims s))] au))
        (\<lambda>r. ret (WriteAccessResponse r, SetSubject [(''subject'', jc_Subject (js_Claims s))] au))) w1"
  using session [OF assms(1)] assms(2) by (auto simp: tokenHandler_Handle_def tryE_def Let_def)

end

abbreviation token_part :: "endpoint_handler \<Rightarrow> token_handler" where
  "token_part e \<equiv> the (eh_TokenEndpointHandler e)"

lemma exchange_session:
  assumes "HandleTokenEndpointRequest X T cfg c req w = (Ok req', w')"
  shows "(\<exists>s. ar_Session req' = SessJWT s \<and> js_kid s = cfg_SigningKeyID cfg \<and>
      (\<exists>n. js_ExpiresAt s = time_Now T n + cfg_AccessTokenLifespan cfg)) \<and>
    ar_GrantTypes req' = ar_GrantTypes req \<and> ar_Form req' = ar_Form req"
proof -
  obtain claims mapped ui v where "build_session T cfg claims mapped ui req v = (Ok req', w')"
    using assms unfolding HandleTokenEndpointRequest_def Let_def if_fail_Ok
    by (auto simp: bindE_eq_Ok tryE_eq_Ok if_fail_Ok split: if_splits)
  then show ?thesis
    by (cases "ar_Session req") (auto simp: build_session_def Let_def bindE_eq_Ok tryE_eq_Ok with_entropy_def)
qed

interpretation exchange: token_grant "token_part (NewTokenExchangeHandler X T config P)" "sj_KeyID (GetSigningKey config)" for X T config P
  by unfold_locales
    (use exchange_session in \<open>fastforce simp: NewTokenExchangeHandler_def token_endpoint_handler_def config_view_def\<close>)+

lemma credentials_session:
  assumes "ClientCredentials_HandleTokenEndpointRequest X T P cfg client req w = (Ok req', w')"
  shows "(\<exists>s. ar_Session req' = SessJWT s \<and> js_kid s = cfg_SigningKeyID cfg) \<and>
    ar_GrantTypes req' = ar_GrantTypes req \<and> ar_Form req' = ar_Form req"
  using assms
  by (cases "ar_Session req")
    (auto simp: ClientCredentials_HandleTokenEndpointRequest_def Let_def bindE_eq_Ok with_entropy_def gopanic_def split: option.splits if_splits)

interpretation credentials: token_grant "token_part (NewClientCredentialsHandlerFactory X T config P)" "sj_KeyID (GetSigningKey config)" for X T config P
  by unfold_locales
    (use credentials_session in \<open>fastforce simp: NewClientCredentialsHandlerFactory_def token_endpoint_handler_def config_view_def\<close>)+

section \<open>What a server that has started is\<close>

lemma cmd_serve_Ok:
  assumes "cmd_serve X T P B S E spec conf w = (Ok sv, w')"
  shows "\<exists>config p. NewOAuth2Config T P (conf_OAuth conf) = Ok config \<and> sv_config sv = wire_config X T config \<and>
    rt_provider (sv_router sv) = Some p \<and>
    p = NewOAuth2Provider E (sv_config sv) (NewOAuth2JWTStrategy E (sv_config sv) P)
      [NewTokenExchangeHandler X T, NewClientCredentialsHandlerFactory X T] \<and>
    getAuthMiddleware E (sv_config sv) [echox_SkipDefaultEndpoints B, SkipNoAuthRoutes] = Ok (sv_auth sv)"
  using assms unfolding cmd_serve_def fatal_def
  by (auto simp: tryE_eq_Ok Let_def NewRouter_def WithOauthConfig_def WithProvider_def WithIssuer_def WithAuditMiddleware_def
      split: prod.splits)

definition grants :: "('ast, 'expr) ext \<Rightarrow> tokext \<Rightarrow> provext \<Rightarrow> 's bootext \<Rightarrow> OAuth2Strategies \<Rightarrow> token_handler list" where
  "grants X T P E config =
     [token_part (NewTokenExchangeHandler X T config (NewOAuth2JWTStrategy E config P)),
      token_part (NewClientCredentialsHandlerFactory X T config (NewOAuth2JWTStrategy E config P))]"

lemma provider_handlers:
  assumes "append_law E"
  shows "pv_TokenEndpointHandlers (NewOAuth2Provider E config (NewOAuth2JWTStrategy E config P)
      [NewTokenExchangeHandler X T, NewClientCredentialsHandlerFactory X T]) = grants X T P E config"
  using assms
  by (simp add: NewOAuth2Provider_def register_def append_to_def provider0_def NewTokenExchangeHandler_def
      NewClientCredentialsHandlerFactory_def token_endpoint_handler_def append_law_def grants_def)

lemma grants_exclusive: "exclusive (grants X T P E config)"
  by (simp add: exclusive_def grants_def NewTokenExchangeHandler_def NewClientCredentialsHandlerFactory_def token_endpoint_handler_def
      CanHandleTokenEndpointRequest_def ClientCredentials_CanHandleTokenEndpointRequest_def GrantTypeTokenExchange_def GrantTypeClientCredentials_def)

lemma view_of_wired:
  "config_view (wire_config X T config) = \<lparr>cfg_HasJWKSURIProvider = True, cfg_HasTransactionManager = True,
     cfg_AccessTokenIssuer = oc2_AccessTokenIssuer config, cfg_AccessTokenLifespan = oc2_AccessTokenLifespan config,
     cfg_SigningKeyID = sj_KeyID (oc2_SigningKey config)\<rparr>"
  by (simp add: config_view_def wire_config_def new_strategies_def OAuth2Config.defs OAuth2Strategies.defs
      GetIssuerJWKSURIProvider_def GetUserInfoStrategy_def GetSigningKey_def engine_users_def)

section \<open>Token requests\<close>

lemma authenticated_row:
  assumes "authenticated X E c ec client t" and "ctx_tx c = CtxNil"
  shows "\<exists>cid secret r. fosite_ClientCredentials E ec = Some (cid, secret) \<and> gidx_Parse X cid = Ok (cr_id r) \<and>
    r \<in> set (oauth_clients t) \<and> client = client_of_row r \<and> fosite_Compare E (cr_secret r) secret"
proof -
  obtain cid secret v v' where a: "fosite_ClientCredentials E ec = Some (cid, secret)" "committed v = t"
      "GetClient X c cid v = (Ok client, v')" "fosite_Compare E (GetHashedSecret client) secret"
    using assms(1) unfolding authenticated_def by blast
  then obtain k rows r rs where q: "gidx_Parse X cid = Ok k" "ctx_query c (select_client k) v = (Ok rows, v')" "rows = r # rs" "client = client_of_row r"
    by (auto simp: GetClient_def LookupOAuthClientByID_def bindE_eq_Ok tryE_eq_Ok scan_row_eq split: if_splits)
  have "r \<in> set (select_client k t)"
    using ctx_query_none [OF assms(2) q(2)] q(3) a(2) by (metis list.set_intros(1))
  then have "r \<in> set (oauth_clients t) \<and> cr_id r = k" by (simp add: select_client_def)
  with a q show ?thesis by (auto simp: GetHashedSecret_def client_of_row_def)
qed

text \<open>The two ways a token request is accepted.\<close>

lemma request_cases:
  assumes law: "request_law X E"
    and run: "fosite_NewAccessRequest E (grants X T P E config) c ec s w = (Ok (client, req'), w')"
  obtains (exchange) req v where "ar_Form req = http_PostForm E ec" "committed v = committed w" "CanHandleTokenEndpointRequest req"
      "HandleTokenEndpointRequest X T (config_view config) c req v = (Ok req', w')"
  | (credentials) req v where "ar_Form req = http_PostForm E ec" "committed v = committed w"
      "ClientCredentials_CanHandleTokenEndpointRequest req" "authenticated X E c ec client (committed w)"
      "ClientCredentials_HandleTokenEndpointRequest X T (NewOAuth2JWTStrategy E config P) (config_view config) client req v = (Ok req', w')"
      "Values_Get (http_PostForm E ec) ''grant_type'' \<noteq> GrantTypeTokenExchange"
proof -
  obtain h req v where h: "h \<in> set (grants X T P E config)" "th_CanHandleTokenEndpointRequest h req" "ar_Form req = http_PostForm E ec"
      "th_CanSkipClientAuth h req \<or> authenticated X E c ec client (committed w)" "committed v = committed w"
      "th_HandleTokenEndpointRequest h c client req v = (Ok req', w')"
      "let g = Values_Get (ar_Form req) ''grant_type'' in g \<noteq> [] \<and> CHR '' '' \<notin> set g \<longrightarrow> ar_GrantTypes req = [g]"
    using law run grants_exclusive unfolding request_law_def by blast
  from h(1) consider "h = token_part (NewTokenExchangeHandler X T config (NewOAuth2JWTStrategy E config P))"
    | "h = token_part (NewClientCredentialsHandlerFactory X T config (NewOAuth2JWTStrategy E config P))"
    by (auto simp: grants_def)
  then show thesis
  proof cases
    case 1
    with h show thesis by (intro exchange) (simp_all add: NewTokenExchangeHandler_def token_endpoint_handler_def)
  next
    case 2
    then have c: "ar_GrantTypes req = [GrantTypeClientCredentials]" "authenticated X E c ec client (committed w)"
      using h(2,4) by (simp_all add: NewClientCredentialsHandlerFactory_def token_endpoint_handler_def
          ClientCredentials_CanHandleTokenEndpointRequest_def ClientCredentials_CanSkipClientAuth_def)
    have "Values_Get (http_PostForm E ec) ''grant_type'' \<noteq> GrantTypeTokenExchange"
      using h(7) c(1) by (auto simp: Let_def h(3) GrantTypeTokenExchange_def GrantTypeClientCredentials_def)
    with 2 h c show thesis
      by (intro credentials) (simp_all add: NewClientCredentialsHandlerFactory_def token_endpoint_handler_def)
  qed
qed

lemma response_cases:
  assumes law: "response_law E"
    and run: "fosite_NewAccessResponse E (grants X T P E config) c (client, req) w = (Ok resp, w')"
  obtains (exchange) n where "CanHandleTokenEndpointRequest req" "committed w' = committed w"
      "compose_GenerateAccessToken E (GetSigningKey config) n req = Ok (resp_AccessToken resp)"
  | (credentials) n d where "ClientCredentials_CanHandleTokenEndpointRequest req" "committed w' = committed w"
      "compose_IssueAccessToken E (GetSigningKey config) n d req = Ok resp"
proof -
  obtain h v v' where h: "h \<in> set (grants X T P E config)" "committed v = committed w" "committed w' = committed v'"
      "th_PopulateTokenEndpointResponse h client req v = (Ok resp, v')"
    using law run grants_exclusive unfolding response_law_def by blast
  from h(1) consider "h = token_part (NewTokenExchangeHandler X T config (NewOAuth2JWTStrategy E config P))"
    | "h = token_part (NewClientCredentialsHandlerFactory X T config (NewOAuth2JWTStrategy E config P))"
    by (auto simp: grants_def)
  then show thesis
  proof cases
    case 1
    with h show thesis
      by (intro exchange [of "ticks v"]) (auto simp: NewTokenExchangeHandler_def token_endpoint_handler_def PopulateTokenEndpointResponse_def
          bindE_eq_Ok with_entropy_def NewOAuth2JWTStrategy_def split: if_splits)
  next
    case 2
    with h show thesis
      by (intro credentials [of "ticks v"]) (auto simp: NewClientCredentialsHandlerFactory_def token_endpoint_handler_def
          ClientCredentials_PopulateTokenEndpointResponse_def with_entropy_def NewOAuth2JWTStrategy_def split: if_splits)
  qed
qed

lemma token_endpoint_Ok:
  assumes "append_law E" "cmd_serve X T P B S E spec conf u = (Ok sv, u')"
    and "token_endpoint P E sv ec c w = (Ok (WriteAccessResponse resp), w')"
  shows "\<exists>client req w1. fosite_NewAccessRequest E (grants X T P E (sv_config sv)) c ec new_session w = (Ok (client, req), w1) \<and>
    fosite_NewAccessResponse E (grants X T P E (sv_config sv)) c (client, req) w1 = (Ok resp, w')"
proof -
  obtain p where p: "rt_provider (sv_router sv) = Some p" "pv_TokenEndpointHandlers p = grants X T P E (sv_config sv)"
    using cmd_serve_Ok [OF assms(2)] provider_handlers [OF assms(1)] by metis
  have "fosite_NewAccessRequest E (grants X T P E (sv_config sv)) c ec new_session w = (Ok (cl, rq), w1) \<Longrightarrow> ?thesis" for cl rq w1
    using assms(3) p by (cases "ar_Session rq")
      (auto simp: token_endpoint_def tokenHandler_Handle_def bindE_eq_Ok tryE_eq_Ok NewAccessRequest_def NewAccessResponse_def
        Let_def gopanic_def)
  then show ?thesis
    using assms(3) p by (auto simp: token_endpoint_def tokenHandler_Handle_def bindE_eq_Ok tryE_eq_Ok NewAccessRequest_def)
qed

lemma exclusive_grant_types: "CanHandleTokenEndpointRequest req \<Longrightarrow> \<not> ClientCredentials_CanHandleTokenEndpointRequest req"
  by (simp add: CanHandleTokenEndpointRequest_def ClientCredentials_CanHandleTokenEndpointRequest_def GrantTypeTokenExchange_def
      GrantTypeClientCredentials_def)

text \<open>What a token is issued on: a subject token of a registered issuer, whose user is stored, or the secret
  of a stored client.\<close>

definition exchange_grounds :: "('ast, 'expr) ext \<Rightarrow> tokext \<Rightarrow> 's bootext \<Rightarrow> echo_ctx \<Rightarrow> tables \<Rightarrow> tables \<Rightarrow> string \<Rightarrow> bool" where
  "exchange_grounds X T E ec t t' uid \<longleftrightarrow>
     (\<exists>claims mapped. signed_by_issuer X T t (Values_Get (http_PostForm E ec) ParamSubjectToken) claims \<and>
        conditions_hold X T t claims \<and> exchanged_user T claims mapped t t' uid)"

definition client_grounds :: "('ast, 'expr) ext \<Rightarrow> 's bootext \<Rightarrow> echo_ctx \<Rightarrow> tables \<Rightarrow> tables \<Rightarrow> string \<Rightarrow> bool" where
  "client_grounds X E ec t t' uid \<longleftrightarrow> t' = t \<and>
     (\<exists>cid secret r. fosite_ClientCredentials E ec = Some (cid, secret) \<and> gidx_Parse X cid = Ok (cr_id r) \<and>
        r \<in> set (oauth_clients t) \<and> fosite_Compare E (cr_secret r) secret \<and> gidx_Parse X (cr_id r) = Ok uid)"

definition issued :: "'s bootext \<Rightarrow> signing_jwk \<Rightarrow> access_request \<Rightarrow> access_response \<Rightarrow> bool" where
  "issued E key req resp \<longleftrightarrow>
     (\<exists>n. compose_GenerateAccessToken E key n req = Ok (resp_AccessToken resp)) \<or>
     (\<exists>n d. compose_IssueAccessToken E key n d req = Ok resp)"

lemma request_grounds:
  assumes law: "jwt_law T" "request_law X E" and ctx: "ctx_tx c = CtxNil" and ok: "schema_ok (committed w)"
    and run: "fosite_NewAccessRequest E (grants X T P E config) c ec new_session w = (Ok (client, req), w')"
  shows "\<exists>s. ar_Session req = SessJWT s \<and> js_kid s = sj_KeyID (GetSigningKey config) \<and>
    (exchange_grounds X T E ec (committed w) (committed w') (jc_Subject (js_Claims s)) \<or>
     client_grounds X E ec (committed w) (committed w') (jc_Subject (js_Claims s)))"
  using law(2) run
proof (cases rule: request_cases)
  case (exchange req0 v)
  have "schema_ok (committed v)" using ok exchange(2) by simp
  from exchange_Ok [OF law(1) ctx this exchange(4)] exchange_session [OF exchange(4)] exchange(1,2) show ?thesis
    by (fastforce simp: exchange_grounds_def config_view_def)
next
  case (credentials req0 v)
  have add: "\<forall>cl k v. jc_Issuer (jwt_Add T cl k v) = jc_Issuer cl" using law(1) by (simp add: jwt_law_def)
  obtain s where s: "ar_Session req = SessJWT s" "js_kid s = sj_KeyID (GetSigningKey config)"
      "gidx_Parse X (oc_ID client) = Ok (jc_Subject (js_Claims s))" "committed w' = committed w"
    using client_credentials_Ok [OF credentials(5) add] credentials(2) by (auto simp: config_view_def)
  obtain cid secret row where "fosite_ClientCredentials E ec = Some (cid, secret)" "gidx_Parse X cid = Ok (cr_id row)"
      "row \<in> set (oauth_clients (committed w))" "client = client_of_row row" "fosite_Compare E (cr_secret row) secret"
    using authenticated_row [OF credentials(4) ctx] by blast
  with s show ?thesis by (auto simp: client_grounds_def client_of_row_def)
qed

lemma filter_key:
  assumes "distinct (map sj_KeyID ks)" and "k \<in> set ks"
  shows "filter (\<lambda>j. sj_KeyID j = sj_KeyID k) ks = [k]"
  using assms
proof (induction ks)
  case (Cons j ks)
  then show ?case by (cases "j = k") (auto simp: filter_empty_conv image_iff)
qed simp

text \<open>The keys the authentication knows: all keys of the configuration, the signing key among them, once.\<close>

lemma auth_keys:
  assumes law: "keyfunc_law E" and boot: "cmd_serve X T P B S E spec conf u = (Ok sv, u')"
    and ids: "distinct (map pk_KeyID (of_PrivateKeys (conf_OAuth conf)))"
  shows "auth_Issuer (sv_auth sv) = of_Issuer (conf_OAuth conf) \<and>
    filter (\<lambda>k. sj_KeyID k = sj_KeyID (GetSigningKey (sv_config sv))) (auth_Keys (sv_auth sv)) = [GetSigningKey (sv_config sv)] \<and>
    cfg_AccessTokenIssuer (config_view (sv_config sv)) = of_Issuer (conf_OAuth conf) \<and>
    cfg_AccessTokenLifespan (config_view (sv_config sv)) = of_AccessTokenLifespan (conf_OAuth conf)"
proof -
  obtain config where c: "NewOAuth2Config T P (conf_OAuth conf) = Ok config" "sv_config sv = wire_config X T config"
      "getAuthMiddleware E (sv_config sv) [echox_SkipDefaultEndpoints B, SkipNoAuthRoutes] = Ok (sv_auth sv)"
    using cmd_serve_Ok [OF boot] by blast
  have w: "GetSigningKey (sv_config sv) = oc2_SigningKey config" "GetSigningJWKS (sv_config sv) = oc2_SigningJWKS config"
      "oc2_AccessTokenIssuer (sv_config sv) = oc2_AccessTokenIssuer config"
    by (simp_all add: c(2) wire_config_def new_strategies_def OAuth2Config.defs OAuth2Strategies.defs GetSigningKey_def GetSigningJWKS_def)
  have f: "parsePrivateKeys P (of_PrivateKeys (conf_OAuth conf)) = Ok (oc2_SigningKey config, oc2_SigningJWKS config)"
      "oc2_AccessTokenIssuer config = of_Issuer (conf_OAuth conf)"
      "oc2_AccessTokenLifespan config = of_AccessTokenLifespan (conf_OAuth conf)"
    using c(1) by (auto simp: NewOAuth2Config_def)
  have a: "auth_Issuer (sv_auth sv) = of_Issuer (conf_OAuth conf)" "auth_Keys (sv_auth sv) = oc2_SigningJWKS config"
    using c(3) law by (auto simp: getAuthMiddleware_def Let_def w f(2) keyfunc_law_def split: option.splits dest!: sym [of _ "sv_auth sv"])
  have "oc2_SigningKey config \<in> set (oc2_SigningJWKS config)" "distinct (map sj_KeyID (oc2_SigningJWKS config))"
    using parsePrivateKeys_Ok [OF f(1)] ids by auto
  from filter_key [OF this(2,1)] a f(2,3) show ?thesis unfolding w(1) by (simp add: c(2) view_of_wired)
qed

lemma exchanged_token:
  assumes law: "jwt_law T" "append_law E" "request_law X E" "response_law E"
    and boot: "cmd_serve X T P B S E spec conf u = (Ok sv, u')"
    and run: "token_endpoint P E sv ec c w = (Ok (WriteAccessResponse resp), w')"
    and grant: "Values_Get (http_PostForm E ec) ''grant_type'' = GrantTypeTokenExchange"
  shows "\<exists>req0 v req w1 n. HandleTokenEndpointRequest X T (config_view (sv_config sv)) c req0 v = (Ok req, w1) \<and>
    ar_Form req0 = http_PostForm E ec \<and> committed v = committed w \<and> committed w' = committed w1 \<and>
    compose_GenerateAccessToken E (GetSigningKey (sv_config sv)) n req = Ok (resp_AccessToken resp)"
proof -
  let ?cfg = "sv_config sv"
  obtain client req w1 where r: "fosite_NewAccessRequest E (grants X T P E ?cfg) c ec new_session w = (Ok (client, req), w1)"
      "fosite_NewAccessResponse E (grants X T P E ?cfg) c (client, req) w1 = (Ok resp, w')"
    using token_endpoint_Ok [OF law(2) boot run] by blast
  obtain req0 v where q: "ar_Form req0 = http_PostForm E ec" "committed v = committed w" "CanHandleTokenEndpointRequest req0"
      "HandleTokenEndpointRequest X T (config_view ?cfg) c req0 v = (Ok req, w1)"
    using law(3) r(1) by (cases rule: request_cases) (use grant in auto)
  have "\<not> ClientCredentials_CanHandleTokenEndpointRequest req"
    using exchange_session [OF q(4)] q(3) exclusive_grant_types by (simp add: CanHandleTokenEndpointRequest_def)
  with law(4) r(2) q show ?thesis by (cases rule: response_cases) blast+
qed

lemma server_routes_distinct: "distinct (map (\<lambda>(m, path, t). (m, path)) server_routes)"
  by code_simp

text \<open>A request to the user info endpoint with a valid token.\<close>

lemma userinfo_request:
  assumes law: "default_endpoints_law B" "static_law B"
    and use: "ec_Method ec = ''GET''" "ec_Path ec = ''/userinfo''"
    and auth: "echojwtx_Middleware E (auth_Issuer (sv_auth sv)) (auth_Keys (sv_auth sv)) now ec = Ok actor"
  shows "server_serve L B X P E sv now ec c v = bindE (userinfo_handle X (c\<lparr>ctx_actor := actor\<rparr>)) (\<lambda>u. ret (ReplyUser u)) v"
proof -
  have r: "(''GET'', ''/userinfo'', TargetUserInfo) \<in> set server_routes" by (simp add: server_routes_def UserInfo_Routes_def)
  then have "echo_Route B server_routes ''GET'' ''/userinfo'' = Some TargetUserInfo"
    using law(2) server_routes_distinct unfolding static_law_def by simp
  moreover have "path_matches ''/userinfo'' (ec_Path ec)" unfolding use(2) by code_simp
  then have "\<not> SkipNoAuthRoutes ec" "\<not> echox_SkipDefaultEndpoints B ec"
    using protected_not_skipped [OF r] law(1) r unfolding default_endpoints_law_def open_target_def by blast+
  ultimately show ?thesis
    using auth use by (simp add: server_serve_def web_serve_def auth_Middleware_def bindE_lift)
qed

text \<open>The subject of an issued token is an ID that gidx accepts.\<close>

definition well_formed_subject :: "('ast, 'expr) ext \<Rightarrow> 's bootext \<Rightarrow> signing_jwk \<Rightarrow> access_response \<Rightarrow> bool" where
  "well_formed_subject X E key resp \<longleftrightarrow>
     (\<forall>n req s. compose_GenerateAccessToken E key n req = Ok (resp_AccessToken resp) \<longrightarrow> ar_Session req = SessJWT s \<longrightarrow>
        gidx_Parse X (jc_Subject (js_Claims s)) = Ok (jc_Subject (js_Claims s)))"

section \<open>Samples\<close>

definition start0 :: startext where
  "start0 = \<lparr>yaml_Unmarshal = (\<lambda>s. Ok []), crdbx_NewDB = None, goose_Up = ret ()\<rparr>"

text \<open>A token is the subject it is for, and a provider that asks the first handler that can handle a request.\<close>

definition boot0 :: "unit bootext" where
  "boot0 =
    \<lparr>otelx_InitTracer = None, audithelpers_OpenAuditLogFile = (\<lambda>path. None), eventsx_NewNATSConnection = None,
     permissions_New = Ok (\<lambda>c. None), gzip_NewReader = Ok, buf_ReadFrom = Ok, openapi3_LoadFromData = (\<lambda>read s. Ok ()),
     OapiRequestValidator = (\<lambda>_ ec. None),
     jose_Encode = (\<lambda>ks. if ks = oc2_SigningJWKS oauth0 then Ok ''keys'' else Err (LibError ''keys'')),
     keyfunc_NewJWKSetJSON = (\<lambda>s. Ok (oc2_SigningJWKS oauth0)), echojwtx_NewAuth = (\<lambda>iss. None),
     echojwtx_Middleware = (\<lambda>iss keys now ec. if take 7 (ec_Authorization ec) = ''Bearer '' then Ok (drop 7 (ec_Authorization ec))
       else Err (HTTPError 401 (MsgText ''missing or malformed jwt''))),
     compose_GenerateAccessToken = (\<lambda>key n req. case ar_Session req of SessJWT s \<Rightarrow> Ok (jc_Subject (js_Claims s)) | _ \<Rightarrow> Err (LibError ''session'')),
     compose_IssueAccessToken = (\<lambda>key n d req. Ok \<lparr>resp_AccessToken = ''token'', resp_IssuedTokenType = [],
       resp_TokenType = BearerAccessToken, resp_ExpiresIn = d\<rparr>),
     fosite_Append = (\<lambda>hs h. hs @ [h]), fosite_AppendOther = (\<lambda>hs h. hs @ [h]),
     fosite_NewAccessRequest = (\<lambda>hs c ec s.
       let form = ec_Query ec;
           req = \<lparr>ar_GrantTypes = [Values_Get form ''grant_type''], ar_Form = form, ar_ClientID = [], ar_Session = s, ar_GrantedAudience = []\<rparr>
       in case find (\<lambda>h. th_CanHandleTokenEndpointRequest h req) hs of
            None \<Rightarrow> fail ErrUnknownRequest
          | Some h \<Rightarrow> if \<not> th_CanSkipClientAuth h req then fail ErrUnknownRequest
              else bindE (th_HandleTokenEndpointRequest h c client1 req) (\<lambda>req'. ret (client1, req'))),
     fosite_NewAccessResponse = (\<lambda>hs c (client, req).
       case find (\<lambda>h. th_CanHandleTokenEndpointRequest h req) hs of
         None \<Rightarrow> fail ErrUnknownRequest
       | Some h \<Rightarrow> th_PopulateTokenEndpointResponse h client req),
     fosite_ClientCredentials = (\<lambda>ec. None), fosite_Compare = (\<lambda>hash secret. hash = ''hashed:'' @ secret),
     http_PostForm = ec_Query, echox_NewServer = None\<rparr>"

definition web1 :: webext where
  "web1 = web0\<lparr>echo_Route := (\<lambda>rs m path. case find (\<lambda>(m', path', t). m' = m \<and> path' = path) rs of
     Some (_, _, t) \<Rightarrow> Some t | None \<Rightarrow> echo_Route web0 rs m path)\<rparr>"

definition conf0 :: app_config where
  "conf0 = \<lparr>conf_OAuth = key_files, conf_Audit = \<lparr>aud_Enabled = True, aud_Path = ''/audit.log'', aud_Component = ''identity''\<rparr>\<rparr>"

definition started :: "server res \<times> world" where
  "started = cmd_serve ext0 tok0 prov0 web1 start0 boot0 [] conf0 (world_of tables1)"

definition server0 :: server where "server0 = (case fst started of Ok sv \<Rightarrow> sv)"

definition post_token :: echo_ctx where
  "post_token = \<lparr>ec_Method = ''POST'', ec_Path = ''/token'', ec_Params = [],
     ec_Query = [(''grant_type'', [GrantTypeTokenExchange]), (ParamSubjectToken, [''ann'']), (ParamSubjectTokenType, [TokenTypeJWT])],
     ec_Body = [], ec_Authorization = []\<rparr>"

definition get_userinfo :: "string \<Rightarrow> echo_ctx" where
  "get_userinfo token = \<lparr>ec_Method = ''GET'', ec_Path = ''/userinfo'', ec_Params = [], ec_Query = [], ec_Body = [],
     ec_Authorization = ''Bearer '' @ token\<rparr>"

lemma started_Ok: "cmd_serve ext0 tok0 prov0 web1 start0 boot0 [] conf0 (world_of tables1) = (Ok server0, snd started)"
proof -
  have o: "NewOAuth2Config tok0 prov0 (conf_OAuth conf0) = Ok oauth0" using oauth0_Ok by (simp add: conf0_def)
  have b: "otelx_InitTracer boot0 = None" "audithelpers_OpenAuditLogFile boot0 p = None" "eventsx_NewNATSConnection boot0 = None"
    "permissions_New boot0 = Ok (\<lambda>c. None)" "gzip_NewReader boot0 = Ok" "buf_ReadFrom boot0 = Ok" "openapi3_LoadFromData boot0 = (\<lambda>read s. Ok ())"
    "jose_Encode boot0 (oc2_SigningJWKS oauth0) = Ok ''keys''" "keyfunc_NewJWKSetJSON boot0 s = Ok (oc2_SigningJWKS oauth0)"
    "echojwtx_NewAuth boot0 i = None" "echox_NewServer boot0 = None" for p s i by (simp_all add: boot0_def)
  have k: "GetSigningJWKS (wire_config ext0 tok0 oauth0) = oc2_SigningJWKS oauth0"
    by (simp add: wire_config_def new_strategies_def OAuth2Config.defs OAuth2Strategies.defs GetSigningJWKS_def)
  have "\<exists>sv. fst started = Ok sv"
    by (simp add: started_def cmd_serve_def check_def go_simps NewMiddleware_def newNopMiddleware_def b o newCRDBEngine_def start0_def
      NewAPIHandler_def oapiValidationMiddleware_def GetSwagger_def decodeSpec_def StdEncoding_Decode_def URLEncoding_DecodeString_def
      getAuthMiddleware_def k Let_def)
  then show ?thesis by (cases started) (auto simp: server0_def started_def)
qed

lemma boot0_request:
  "fosite_NewAccessRequest boot0 hs c ec s =
    (let form = ec_Query ec;
         req = \<lparr>ar_GrantTypes = [Values_Get form ''grant_type''], ar_Form = form, ar_ClientID = [], ar_Session = s, ar_GrantedAudience = []\<rparr>
     in case find (\<lambda>h. th_CanHandleTokenEndpointRequest h req) hs of
          None \<Rightarrow> fail ErrUnknownRequest
        | Some h \<Rightarrow> if \<not> th_CanSkipClientAuth h req then fail ErrUnknownRequest
            else bindE (th_HandleTokenEndpointRequest h c client1 req) (\<lambda>req'. ret (client1, req')))"
  by (simp add: boot0_def)

lemma boot0_response:
  "fosite_NewAccessResponse boot0 hs c (client, req) =
    (case find (\<lambda>h. th_CanHandleTokenEndpointRequest h req) hs of
       None \<Rightarrow> fail ErrUnknownRequest
     | Some h \<Rightarrow> th_PopulateTokenEndpointResponse h client req)"
  by (simp add: boot0_def)

lemma boot0_generate:
  "compose_GenerateAccessToken boot0 key n req =
     (case ar_Session req of SessJWT s \<Rightarrow> Ok (jc_Subject (js_Claims s)) | _ \<Rightarrow> Err (LibError ''session''))"
  by (simp add: boot0_def)

lemma boot0_laws: "append_law boot0" "response_law boot0" "keyfunc_law boot0" "auth_law boot0"
proof -
  show "response_law boot0"
    by (fastforce simp: response_law_def boot0_def find_Some_iff fail_def split: option.splits)
  show "auth_law boot0" by (auto simp: auth_law_def boot0_def)
qed (auto simp: append_law_def keyfunc_law_def boot0_def split: if_splits)

lemma request_law_sample: "request_law ext0 boot0"
  unfolding request_law_def
proof (intro allI impI)
  fix hs c s w client req' w' and ec :: echo_ctx
  let ?req = "\<lparr>ar_GrantTypes = [Values_Get (ec_Query ec) ''grant_type''], ar_Form = ec_Query ec, ar_ClientID = [], ar_Session = s, ar_GrantedAudience = []\<rparr>"
  assume "fosite_NewAccessRequest boot0 hs c ec s w = (Ok (client, req'), w')"
  then obtain h where h: "find (\<lambda>h. th_CanHandleTokenEndpointRequest h ?req) hs = Some h" "th_CanSkipClientAuth h ?req"
      "th_HandleTokenEndpointRequest h c client ?req w = (Ok req', w')"
    by (auto simp: boot0_def Let_def bindE_eq_Ok split: option.splits if_splits)
  then have "h \<in> set hs" "th_CanHandleTokenEndpointRequest h ?req" by (auto simp: find_Some_iff)
  with h show "\<exists>h\<in>set hs. \<exists>req v. th_CanHandleTokenEndpointRequest h req \<and> ar_Session req = s \<and> ar_Form req = http_PostForm boot0 ec \<and>
      (let g = Values_Get (ar_Form req) ''grant_type'' in g \<noteq> [] \<and> CHR '' '' \<notin> set g \<longrightarrow> ar_GrantTypes req = [g]) \<and>
      (th_CanSkipClientAuth h req \<or> authenticated ext0 boot0 c ec client (committed w)) \<and> committed v = committed w \<and>
      th_HandleTokenEndpointRequest h c client req v = (Ok req', w')"
    by (intro bexI [of _ h] exI [of _ ?req] exI [of _ w]) (simp_all add: boot0_def)
qed

lemma web1_laws: "default_endpoints_law web1" "static_law web1"
proof -
  show "default_endpoints_law web1" using default_endpoints_sample by (simp add: default_endpoints_law_def web1_def)
  have found: "find (\<lambda>(m', path', t'). m' = m \<and> path' = path) rs = Some (m, path, t)"
    if "(m, path, t) \<in> set rs" "distinct (map (\<lambda>(m, path, t). (m, path)) rs)" for rs m path and t :: target
    using that by (induction rs) (force simp: image_iff)+
  show "static_law web1"
    unfolding static_law_def
  proof (intro allI impI)
    fix rs m path and t :: target assume "(m :: string, path :: string, t) \<in> set rs" "distinct (map (\<lambda>(m, path, t). (m, path)) rs)"
    from found [OF this] show "echo_Route web1 rs m path = Some t" by (simp add: web1_def)
  qed
qed

lemma server0_config: "sv_config server0 = wire_config ext0 tok0 oauth0" "rt_provider (sv_router server0) = Some (NewOAuth2Provider boot0 (sv_config server0)
    (NewOAuth2JWTStrategy boot0 (sv_config server0) prov0) [NewTokenExchangeHandler ext0 tok0, NewClientCredentialsHandlerFactory ext0 tok0])"
  using cmd_serve_Ok [OF started_Ok] oauth0_Ok by (auto simp: conf0_def)

lemma oauth0_issuer: "oc2_AccessTokenIssuer oauth0 = ''https://identity''"
proof -
  have "oc2_AccessTokenIssuer config = of_Issuer f" if "NewOAuth2Config tok0 prov0 f = Ok config" for f config
    using that by (auto simp: NewOAuth2Config_def)
  from this [OF oauth0_Ok] show ?thesis by (simp add: key_files_def)
qed

lemma token_sample:
  "\<exists>resp w'. token_endpoint prov0 boot0 server0 post_token ctx0 (world_of tables1) = (Ok (WriteAccessResponse resp), w') \<and>
     resp_AccessToken resp = ''idntusr-1''"
proof -
  let ?cfg = "sv_config server0" and ?req = "\<lparr>ar_GrantTypes = [GrantTypeTokenExchange], ar_Form = ec_Query post_token, ar_ClientID = [],
    ar_Session = new_session, ar_GrantedAudience = []\<rparr>"
  obtain uid where uid: "generateSubjectID ext0 IdentityUserIDPrefix ''https://iss'' ''ann'' = Ok uid" using ann_facts(9) by blast
  have cfg: "cfg_HasJWKSURIProvider (config_view ?cfg)" "cfg_HasTransactionManager (config_view ?cfg)"
      "url_JoinPath tok0 (cfg_AccessTokenIssuer (config_view ?cfg)) ''userinfo'' = Ok ''https://identity/userinfo''"
    by (simp_all add: server0_config(1) view_of_wired oauth0_issuer) (simp add: tok0_def)
  have form: "Values_Get (ar_Form ?req) ParamSubjectTokenType = TokenTypeJWT" "Values_Get (ar_Form ?req) ParamActorToken = []"
      "Values_Get (ar_Form ?req) ParamSubjectToken = ''ann''" "ar_Session ?req \<noteq> SessOther"
      "Values_Get (ec_Query post_token) ''grant_type'' = GrantTypeTokenExchange"
    by (simp_all add: post_token_def sample_form new_session_def)
  obtain req' w' s where e: "HandleTokenEndpointRequest ext0 tok0 (config_view ?cfg) ctx0 ?req (world_of tables1) = (Ok req', w')"
      "ar_Session req' = SessJWT s" "jc_Subject (js_Claims s) = ''idntusr-1''"
    using exchange_completes [OF jwt_law_sample healthy_sample(1) sample_config(1,2) cfg form(1-3) _ form(4) ann_facts(1)
        mapped_sample(1) [symmetric] mapped_sample(3) [symmetric] _ ann_facts(7)] uid
    by (auto simp: mapped_sample ann_claims_def ann_facts(8) user_for_def user1_def)
  have req: "fosite_NewAccessRequest boot0 (grants ext0 tok0 prov0 boot0 ?cfg) ctx0 post_token new_session (world_of tables1) = (Ok (client1, req'), w')"
    using e(1) form(5) by (simp add: boot0_request grants_def NewTokenExchangeHandler_def token_endpoint_handler_def
        CanHandleTokenEndpointRequest_def CanSkipClientAuth_def go_simps Let_def)
  have "CanHandleTokenEndpointRequest req'"
    using exchange_session [OF e(1)] by (simp add: CanHandleTokenEndpointRequest_def)
  then have "fosite_NewAccessResponse boot0 (grants ext0 tok0 prov0 boot0 ?cfg) ctx0 (client1, req') w' =
      (Ok \<lparr>resp_AccessToken = ''idntusr-1'', resp_IssuedTokenType = TokenTypeJWT, resp_TokenType = BearerAccessToken,
           resp_ExpiresIn = cfg_AccessTokenLifespan (config_view ?cfg)\<rparr>, tick w')"
    using e(2,3) by (simp add: boot0_response boot0_generate grants_def NewTokenExchangeHandler_def token_endpoint_handler_def
        PopulateTokenEndpointResponse_def NewOAuth2JWTStrategy_def with_entropy_def go_simps)
  with req e(2) show ?thesis
    by (simp add: token_endpoint_def server0_config(2) tokenHandler_Handle_def NewAccessRequest_def NewAccessResponse_def
        provider_handlers [OF boot0_laws(1)] go_simps Let_def)
qed

section \<open>Properties\<close>





end
