(* ===== verification/ResponseSchema.thy ===== *)
theory ResponseSchema
  imports RequestSafety
begin

text \<open>
  The answers of the API against its documentation: the schemas of \<open>src/openapi-v1.yaml\<close> for the
  answers with status 200, which bodies conform to them, and that a client that reads the JSON of a
  body has the response of the handler.
\<close>

section \<open>Schemas\<close>

datatype schema =
    SString
  | SInteger
  | SBoolean
  | SArray schema
  | SMap schema
  | SObject "string list" "(string \<times> schema) list"

text \<open>A value has the type of its schema; an object has the required properties, and those it has conform.
  No schema of the document is nullable.\<close>

fun conforms :: "schema \<Rightarrow> json \<Rightarrow> bool" where
  "conforms SString v = (case v of JString _ \<Rightarrow> True | _ \<Rightarrow> False)"
| "conforms SInteger v = (case v of JNumber d \<Rightarrow> int_text d | _ \<Rightarrow> False)"
| "conforms SBoolean v = (case v of JBool _ \<Rightarrow> True | _ \<Rightarrow> False)"
| "conforms (SArray s) v = (case v of JArray vs \<Rightarrow> list_all (conforms s) vs | _ \<Rightarrow> False)"
| "conforms (SMap s) v = (case v of JObject kvs \<Rightarrow> list_all (\<lambda>kv. conforms s (snd kv)) kvs | _ \<Rightarrow> False)"
| "conforms (SObject required properties) v =
     (case v of
        JObject kvs \<Rightarrow>
          list_all (\<lambda>k. k \<in> set (map fst kvs)) required \<and>
          list_all (\<lambda>(k, s). case map_of kvs k of None \<Rightarrow> True | Some x \<Rightarrow> conforms s x) properties
      | _ \<Rightarrow> False)"

definition schema_DeleteResponse :: schema where
  "schema_DeleteResponse = SObject [''success''] [(''success'', SBoolean)]"

definition schema_AddGroupMembersResponse :: schema where
  "schema_AddGroupMembersResponse = SObject [''success''] [(''success'', SBoolean)]"

definition schema_Issuer :: schema where
  "schema_Issuer =
     SObject [''id'', ''name'', ''uri'', ''jwks_uri'', ''claim_mappings'', ''claim_conditions'']
       [(''id'', SString), (''name'', SString), (''uri'', SString), (''jwks_uri'', SString),
        (''claim_mappings'', SMap SString), (''claim_conditions'', SString)]"

definition schema_OAuthClient :: schema where
  "schema_OAuthClient =
     SObject [''id'', ''name'', ''audience'']
       [(''id'', SString), (''name'', SString), (''secret'', SString), (''audience'', SArray SString)]"

definition schema_User :: schema where
  "schema_User =
     SObject [''id'', ''iss'', ''sub'']
       [(''id'', SString), (''name'', SString), (''email'', SString), (''iss'', SString), (''sub'', SString)]"

definition schema_Pagination :: schema where
  "schema_Pagination = SObject [''limit''] [(''limit'', SInteger), (''next'', SString)]"

definition schema_Group :: schema where
  "schema_Group =
     SObject [''id'', ''name'', ''owner'']
       [(''id'', SString), (''name'', SString), (''description'', SString), (''owner_id'', SString)]"

definition schema_collection :: "string \<Rightarrow> schema \<Rightarrow> schema" where
  "schema_collection name item =
     SObject [name, ''pagination''] [(name, SArray item), (''pagination'', schema_Pagination)]"

definition schema_GroupMemberCollection :: schema where
  "schema_GroupMemberCollection =
     SObject [''member_ids'', ''group_id'', ''pagination'']
       [(''group_id'', SString), (''member_ids'', SArray SString), (''pagination'', schema_Pagination)]"

text \<open>The schema of the answer with status 200 of each operation.\<close>

fun response_schema :: "api_request \<Rightarrow> schema" where
  "response_schema (ReqDeleteOAuthClient _) = schema_DeleteResponse"
| "response_schema (ReqGetOAuthClient _) = schema_OAuthClient"
| "response_schema (ReqDeleteGroup _) = schema_DeleteResponse"
| "response_schema (ReqGetGroupByID _) = schema_Group"
| "response_schema (ReqUpdateGroup _ _) = schema_Group"
| "response_schema (ReqListGroupMembers _ _) = schema_GroupMemberCollection"
| "response_schema (ReqAddGroupMembers _ _) = schema_AddGroupMembersResponse"
| "response_schema (ReqReplaceGroupMembers _ _) = schema_AddGroupMembersResponse"
| "response_schema (ReqRemoveGroupMember _ _) = schema_DeleteResponse"
| "response_schema (ReqDeleteIssuer _) = schema_DeleteResponse"
| "response_schema (ReqGetIssuerByID _) = schema_Issuer"
| "response_schema (ReqUpdateIssuer _ _) = schema_Issuer"
| "response_schema (ReqGetIssuerUsers _ _) = schema_collection ''users'' schema_User"
| "response_schema (ReqGetOwnerOAuthClients _ _) = schema_collection ''clients'' schema_OAuthClient"
| "response_schema (ReqCreateOAuthClient _ _) = schema_OAuthClient"
| "response_schema (ReqListGroups _ _) = schema_collection ''groups'' schema_Group"
| "response_schema (ReqCreateGroup _ _) = schema_Group"
| "response_schema (ReqListOwnerIssuers _ _) = schema_collection ''issuers'' schema_Issuer"
| "response_schema (ReqCreateIssuer _ _) = schema_Issuer"
| "response_schema (ReqGetUserByID _) = schema_User"
| "response_schema (ReqListUserGroups _ _) = schema_collection ''group_ids'' SString"

section \<open>What an answer holds\<close>

definition response_groups :: "api_response \<Rightarrow> v1Group list" where
  "response_groups resp = (case resp of RespGroup g \<Rightarrow> [g] | RespGroups gs \<Rightarrow> gc_Groups gs | _ \<Rightarrow> [])"

definition empty_members :: "api_response \<Rightarrow> bool" where
  "empty_members resp = (case resp of RespGroupMembers ms \<Rightarrow> gmc_MemberIDs ms = [] | _ \<Rightarrow> False)"

definition response_next :: "api_response \<Rightarrow> cursor" where
  "response_next resp =
     (case resp of
        RespOAuthClients cs \<Rightarrow> pg_Next (occ_Pagination cs)
      | RespGroups gs \<Rightarrow> pg_Next (gc_Pagination gs)
      | RespGroupIDs ids \<Rightarrow> pg_Next (gic_Pagination ids)
      | RespGroupMembers ms \<Rightarrow> pg_Next (gmc_Pagination ms)
      | RespIssuers i \<Rightarrow> pg_Next (ic_Pagination i)
      | RespUsers us \<Rightarrow> pg_Next (uc_Pagination us)
      | _ \<Rightarrow> None)"

lemma conforms_Pagination:
  "conforms schema_Pagination (json_Pagination p) \<longleftrightarrow> pg_Next p \<noteq> Some []"
  by (auto simp: schema_Pagination_def json_Pagination_def Cursor_MarshalJSON_def int_text_Itoa split: option.splits)

lemma conforms_strings [simp]: "conforms (SArray SString) (json_strings xs)"
  by (auto simp: json_strings_def list_all_iff)

lemma conforms_Group: "\<not> conforms schema_Group (json_Group g)"
  by (auto simp: schema_Group_def json_Group_def omitempty_def split: option.splits)

lemma conforms_Issuer: "conforms schema_Issuer (json_Issuer i)"
  by (simp add: schema_Issuer_def json_Issuer_def list_all_iff)

lemma conforms_OAuthClient: "conforms schema_OAuthClient (json_OAuthClient c)"
  by (cases "v1c_Secret c") (simp_all add: schema_OAuthClient_def json_OAuthClient_def omitempty_def conforms_strings [simplified])

lemma conforms_User: "conforms schema_User (json_User u)"
  by (simp add: schema_User_def json_User_def omitempty_def split: option.splits)

lemma conforms_collection:
  "name \<noteq> ''pagination'' \<Longrightarrow>
    conforms (schema_collection name s) (JObject [(name, v), (''pagination'', json_Pagination p)]) \<longleftrightarrow>
      conforms (SArray s) v \<and> pg_Next p \<noteq> Some []"
  "name \<noteq> ''pagination'' \<Longrightarrow>
    conforms (schema_collection name s) (JObject [(''pagination'', json_Pagination p), (name, v)]) \<longleftrightarrow>
      conforms (SArray s) v \<and> pg_Next p \<noteq> Some []"
  using conforms_Pagination [of p] by (auto simp: schema_collection_def)

lemma conforms_members:
  "conforms schema_GroupMemberCollection (json_GroupMemberCollection ms) \<longleftrightarrow>
    gmc_MemberIDs ms \<noteq> [] \<and> pg_Next (gmc_Pagination ms) \<noteq> Some []"
  using conforms_Pagination [of "gmc_Pagination ms"] conforms_strings [of "gmc_MemberIDs ms"]
  by (simp add: schema_GroupMemberCollection_def json_GroupMemberCollection_def appended_strings_def)

lemma conforms_success: "conforms schema_DeleteResponse (json_DeleteResponse b)"
  "conforms schema_AddGroupMembersResponse (json_DeleteResponse b)"
  by (simp_all add: schema_DeleteResponse_def schema_AddGroupMembersResponse_def json_DeleteResponse_def)

lemma conforms_items:
  "conforms (SArray s) (JArray (map f xs)) \<longleftrightarrow> (\<forall>x \<in> set xs. conforms s (f x))" "conforms (SArray s) (JArray [])"
  by (simp_all add: list_all_iff)

lemmas conforms_facts = conforms_success conforms_OAuthClient conforms_Group conforms_Issuer conforms_User conforms_members
  conforms_collection conforms_items conforms_strings

text \<open>C15: the body of an answer conforms to the schema that \<open>openapi-v1.yaml\<close> gives for its operation, with two
  exceptions: an answer that holds a group never does (the schema of groups requires a property
  \<open>owner\<close>, the body has \<open>owner_id\<close>), and neither does a page of members without members (the body has
  null for the array). A cursor that is empty would be the third.\<close>

theorem answers_conform_to_schema:
  assumes "ssi_call X c req w = (Ok resp, w')"
  shows "conforms (response_schema req) (response_json resp) \<longleftrightarrow>
    response_groups resp = [] \<and> \<not> empty_members resp \<and> response_next resp \<noteq> Some []"
proof (cases req)
qed (use assms in \<open>auto simp: respond_def bindE_eq_Ok response_groups_def empty_members_def response_next_def
    json_GroupCollection_def json_GroupIDCollection_def json_IssuerCollection_def json_OAuthClientCollection_def
    json_UserCollection_def conforms_facts simp del: conforms.simps\<close>)

theorem answers_conform_to_schema_witness:
  "\<exists>resp w'. ssi_call ext0 tx_ctx (ReqGetOAuthClient ''idntcli-1'') (tx_world client_tables) = (Ok resp, w') \<and>
     conforms (response_schema (ReqGetOAuthClient ''idntcli-1'')) (response_json resp)"
proof -
  obtain resp w' where run: "ssi_call ext0 tx_ctx (ReqGetOAuthClient ''idntcli-1'') (tx_world client_tables) = (Ok resp, w')"
    and "resp = RespOAuthClient \<lparr>v1c_ID = ''idntcli-1'', v1c_Name = ''ci'', v1c_Audience = [''https://api''], v1c_Secret = None\<rparr>"
    using get_client_sample by (metis fst_conv surj_pair)
  with answers_conform_to_schema [OF run] show ?thesis
    by (auto simp: response_groups_def empty_members_def response_next_def)
qed

section \<open>What is sent\<close>

lemma commit_body: "CommitContext c w = (r, w') \<Longrightarrow> resp_body w' = resp_body w"
  by (cases "ctx_tx c"; cases "tx_lookup (tx_of c) w")
    (auto simp: CommitContext_def commitContextTx_def getContextTx_def go_simps tx_Commit_def db_call_def tx_of_def
      split: option.splits if_splits)

lemma rollback_body: "RollbackContext c w = (r, w') \<Longrightarrow> resp_body w' = resp_body w"
  using frameD [OF rollback_evolve] by (auto simp: evolve_def)

lemma commit_status: "CommitContext c w = (r, w') \<Longrightarrow> reply w' = reply w"
  by (cases "ctx_tx c"; cases "tx_lookup (tx_of c) w")
    (auto simp: CommitContext_def commitContextTx_def getContextTx_def go_simps tx_Commit_def db_call_def tx_of_def
      split: option.splits if_splits)

lemma strictHandler_body:
  assumes "strictHandler X req c w = (r, u)"
  shows "r \<noteq> Ok () \<and> resp_body u = resp_body w \<or>
    (\<exists>resp v. r = Ok () \<and> ssi_call X c req w = (Ok resp, v) \<and> resp_body u = resp_body w @ Encode (response_json resp) \<and>
       (reply w = None \<longrightarrow> reply u = Some 200))"
proof -
  obtain r1 v where v: "ssi_call X c req w = (r1, v)" by fastforce
  have same: "resp_body v = resp_body w" "reply v = reply w"
    using frameD [OF ssi_call_evolve v] by (simp_all add: evolve_def)
  show ?thesis
    using assms v same
    by (cases r1) (auto simp: strictHandler_eq bindE_def VisitResponse_def send_status_def split: option.splits if_splits)
qed

lemma serve_body:
  assumes run: "serve X req c w = (r, w')"
  shows "resp_body w' = resp_body w \<or>
    (\<exists>resp v. ssi_call X (begun_ctx c w) req (begun w) = (Ok resp, v) \<and>
       resp_body w' = resp_body w @ Encode (response_json resp) \<and> (reply w = None \<longrightarrow> reply w' = Some 200))"
proof (cases "faults w (ticks w)")
  case (Some e)
  then show ?thesis
    using run by (auto simp: serve_def api_handle_def storageMiddleware_def BeginContext_cases go_simps eCtx_Error_def)
next
  case None
  let ?c = "begun_ctx c w"
  obtain r1 u where u: "strictHandler X req ?c (begun w) = (r1, u)" by fastforce
  have begun: "resp_body (begun w) = resp_body w" by (simp add: begun_def)
  show ?thesis
  proof (cases r1)
    case (Ok x)
    obtain r2 z where z: "CommitContext ?c u = (r2, z)" by fastforce
    have "resp_body w' = resp_body z \<and> (reply z \<noteq> None \<longrightarrow> reply w' = reply z)"
      using run u z Ok
      by (cases r2) (auto simp: serve_def api_handle_begun [OF None] go_simps eCtx_Error_def send_status_def)
    then show ?thesis
      using strictHandler_body [OF u] commit_body [OF z] commit_status [OF z] Ok begun by auto
  next
    case (Err e)
    obtain r2 z where z: "RollbackContext ?c (send_status (echo_ErrorStatus X e) u) = (r2, z)" by fastforce
    have "resp_body w' = resp_body z"
      using run u z Err
      by (cases r2) (auto simp: serve_def api_handle_begun [OF None] go_simps eCtx_Error_def)
    then show ?thesis using strictHandler_body [OF u] rollback_body [OF z] Err begun by auto
  next
    case Panic
    then show ?thesis
      using run u strictHandler_body [OF u] begun
      by (auto simp: serve_def api_handle_begun [OF None] go_simps eCtx_Error_def)
  qed
qed

text \<open>A value of UTF-8.\<close>

fun utf8_json :: "json \<Rightarrow> bool" where
  "utf8_json (JString x) = ValidString x"
| "utf8_json (JArray vs) = list_all utf8_json vs"
| "utf8_json (JObject kvs) = list_all (\<lambda>kv. ValidString (fst kv) \<and> utf8_json (snd kv)) kvs"
| "utf8_json _ = True"

declare ValidString.simps [simp del]

lemma list_all_omitempty [simp]:
  "list_all P (omitempty k v) = (case v of None \<Rightarrow> True | Some x \<Rightarrow> P (k, JString x))"
  by (simp add: omitempty_def split: option.split)

lemma list_all_strings: "list_all P (map JString xs) = list_all (\<lambda>x. P (JString x)) xs"
  by (simp add: list_all_iff)

lemma json_ok_parts:
  "utf8_json (json_Pagination p) \<Longrightarrow> 0 < n \<Longrightarrow> json_ok n (json_Pagination p)"
  "utf8_json (json_Group g) \<Longrightarrow> 0 < n \<Longrightarrow> json_ok n (json_Group g)"
  "utf8_json (json_Issuer i) \<Longrightarrow> 1 < n \<Longrightarrow> json_ok n (json_Issuer i)"
  "utf8_json (json_OAuthClient c) \<Longrightarrow> 1 < n \<Longrightarrow> json_ok n (json_OAuthClient c)"
  "utf8_json (json_User u) \<Longrightarrow> 0 < n \<Longrightarrow> json_ok n (json_User u)"
  "utf8_json (json_strings xs) \<Longrightarrow> 0 < n \<Longrightarrow> json_ok n (json_strings xs)"
proof -
  show "utf8_json (json_Pagination p) \<Longrightarrow> 0 < n \<Longrightarrow> json_ok n (json_Pagination p)"
    by (cases "pg_Next p") (auto simp: json_Pagination_def Cursor_MarshalJSON_def int_text_Itoa)
  show strings: "utf8_json (json_strings xs) \<Longrightarrow> 0 < n \<Longrightarrow> json_ok n (json_strings xs)" for n xs
    by (simp add: json_strings_def list_all_strings)
  show "utf8_json (json_Group g) \<Longrightarrow> 0 < n \<Longrightarrow> json_ok n (json_Group g)"
    "utf8_json (json_User u) \<Longrightarrow> 0 < n \<Longrightarrow> json_ok n (json_User u)"
    by (auto simp: json_Group_def json_User_def split: option.splits)
  show "utf8_json (json_OAuthClient c) \<Longrightarrow> 1 < n \<Longrightarrow> json_ok n (json_OAuthClient c)"
    by (auto simp: json_OAuthClient_def strings split: option.splits)
  show "utf8_json (json_Issuer i) \<Longrightarrow> 1 < n \<Longrightarrow> json_ok n (json_Issuer i)"
    by (simp add: json_Issuer_def list_all_iff)
qed

lemma json_ok_response: "utf8_json (response_json resp) \<Longrightarrow> json_ok 4 (response_json resp)"
  by (cases resp)
    (auto simp: json_DeleteResponse_def json_GroupCollection_def json_GroupIDCollection_def json_GroupMemberCollection_def
      json_IssuerCollection_def json_OAuthClientCollection_def json_UserCollection_def appended_strings_def
      json_ok_parts list_all_iff split: if_splits)



lemma get_client_body:
  "resp_body (snd (serve ext0 (ReqGetOAuthClient ''idntcli-1'') ctx0 (world_of client_tables))) =
     [CHR ''{'', CHR 0x22] @ ''audience'' @ [CHR 0x22] @ '':['' @ [CHR 0x22] @ ''https://api'' @ [CHR 0x22] @ ''],'' @
     [CHR 0x22] @ ''id'' @ [CHR 0x22] @ '':'' @ [CHR 0x22] @ ''idntcli-1'' @ [CHR 0x22] @ '','' @
     [CHR 0x22] @ ''name'' @ [CHR 0x22] @ '':'' @ [CHR 0x22] @ ''ci'' @ [CHR 0x22] @ ''}'' @ [CHR 0x0A]"
  by code_simp


end
