(* ===== verification/Spec2Isabelle.thy ===== *)
theory Spec2Isabelle
  imports Service Footprint ServerProperties ResponseSchema
begin

text \<open>
  A verification of \<^emph>\<open>identity-api\<close>, the identity service of Infratographer: it registers token
  issuers, OAuth clients, users and groups of an owner (the management API), and issues access tokens
  (the token endpoint).

  \<^bold>\<open>The program.\<close> A request to the management API passes the storage middleware, which begins a
  transaction and puts it into the request's context; the strict handler of the generated server
  calls one method of \<open>apiHandler\<close>; this checks access with the permissions API, reads and writes
  through the storage engine, and publishes changes of groups to the permissions API; the strict
  handler sends the response and the middleware commits. The token endpoint validates a token of a
  registered issuer, maps its claims, stores the user in a transaction of its own and issues a token
  for it; or it issues a token for an OAuth client.

  \<^bold>\<open>The theories\<close>, from the bottom up, with the sources under \<open>src/\<close> they model.

  \<^item> \<open>Prelude\<close>: Go's errors (\<open>internal/types/errors.go\<close> and the error values of the other packages),
    results and panics, effects as functions of the world, and \<open>frame\<close>, the Hoare-style rule by which
    a fact about a handler is found from the calls it makes (locale \<open>frame_rel\<close>).
  \<^item> \<open>Codec\<close>: base64url, URL escaping and \<open>url.Values\<close> of Go's library, with their round trips;
    \<open>Json\<close>, \<open>JsonValues\<close>: \<open>encoding/json\<close> (UTF-8, escapes, the scanner as a state machine with a stack)
    with the round trips of claim mappings and of nested values; \<open>Sha256\<close>: \<open>crypto/sha256\<close> on 32-bit
    words.
  \<^item> \<open>Pagination\<close>: \<open>internal/crdbx\<close>, cursors, limits, the clauses of a page query and their quoting;
    the locale \<open>paged_listing\<close> is what a listing promises, and shows that following the cursors
    visits every row once.
  \<^item> \<open>Database\<close>: the world. It holds the durable tables, the transactions begun so far (each with
    the tables it started from and those it works on), the messages accepted by the permissions API,
    the response, and the plan of faults: every call to the database counts, and \<open>faults n\<close> says how
    call \<open>n\<close> fails, if it does. \<open>internal/storage/context.go\<close> and \<open>crdb.go\<close> are translated; the SQL
    statements act on lists of rows, and a statement that breaks a key or a reference
    (\<open>schema_ok\<close>, from the migrations) is refused. Transactions are serializable: a commit on
    tables that have changed since is refused.
  \<^item> \<open>Types\<close>: \<open>internal/types\<close>, \<open>internal/celutils\<close>; \<open>Samples\<close>: concrete instances for the witnesses.
  \<^item> \<open>GroupStore\<close>, \<open>IssuerStore\<close>, \<open>UserStore\<close>, \<open>ClientStore\<close>: \<open>internal/storage\<close>, one definition per
    method; \<open>ApiV1\<close>: the types and paginators of \<open>pkg/api/v1\<close>; \<open>GroupEvents\<close>: \<open>internal/events\<close>.
  \<^item> \<open>Responses\<close>: the JSON of the API types and the response objects of \<open>server.gen.go\<close>;
    \<open>HttpServer\<close>: \<open>internal/api/httpsrv\<close>, the middleware and the 21 methods of \<open>apiHandler\<close>.
  \<^item> \<open>RequestSafety\<close> (atomicity, through the locale \<open>transaction_manager\<close>, and access control),
    \<open>ResponseSchema\<close> (the answers against \<open>openapi-v1.yaml\<close>), \<open>PermissionSync\<close> (agreement with the permissions API), \<open>Listings\<close> (the listings as a client
    sees them), \<open>NoPanic\<close>, \<open>Footprint\<close> (what a request may change, and that the owners are separated): what
    holds of whole requests.
  \<^item> \<open>TokenExchange\<close>, \<open>TokenEndpoint\<close>, \<open>TokenProperties\<close>: \<open>internal/rfc8693\<close>, \<open>internal/jwks\<close>,
    \<open>internal/oauth2\<close>, \<open>internal/routes/exchange.go\<close>, \<open>internal/auditx\<close>, \<open>internal/fositex\<close>.
  \<^item> \<open>GeneratedServer\<close>: the routes, parameter binding and strict handlers of \<open>server.gen.go\<close>, which are
    shown to be one decoder before the handlers of \<open>HttpServer\<close>; \<open>WebServer\<close>: the routers, the
    authentication and the pipeline of middlewares (\<open>internal/routes\<close>, \<open>internal/userinfo\<close>,
    \<open>cmd/serve.go\<close>); \<open>Startup\<close>: the storage engine's options, migrations and seeding (\<open>cmd/seed.go\<close>,
    \<open>cmd/migrate.go\<close>).
  \<^item> \<open>Wiring\<close>: how \<open>serve\<close> puts the server together (\<open>cmd/serve.go\<close>, \<open>cmd/root.go\<close>): the strategies of the
    OAuth configuration, the grants registered with the provider (\<open>internal/fositex\<close>), the router's
    options, the audit middleware, the embedded API description (\<open>pkg/api/v1\<close>) and the keys the
    authentication is given. \<open>ServerProperties\<close>: what a server that has started guarantees; the locale
    \<open>token_grant\<close> is what the provider relies on of a grant, interpreted for both.
  \<^item> \<open>ServiceInvariant\<close>, \<open>Service\<close>: the service as a state machine (\<open>service_run\<close>) and its
    invariants by rule induction. This theory states the properties that span components.

  \<^bold>\<open>Libraries.\<close> Code that is not part of the repository is a parameter: the records \<open>ext\<close> (gidx, CEL,
  protobuf, the permissions API, echo's error handler, the password hasher, randomness),
  \<open>tokext\<close> (the JWT package, the JWKS fetcher, the clock), \<open>provext\<close> (fosite, PEM and X.509), \<open>oapi\<close>
  (the runtime of the generated code, echo's \<open>Bind\<close>), \<open>webext\<close> (echo's router, JWT authentication,
  \<open>jose\<close>), \<open>startext\<close> (YAML, the database driver), \<open>viperext\<close> and \<open>bootext\<close> (the constructors \<open>serve\<close> calls,
  fosite's provider, \<open>keyfunc\<close>, \<open>echojwtx\<close>, gzip and the OpenAPI loader).
  What a theorem needs of them is a named hypothesis (\<open>codec_law\<close>, \<open>mapping_law\<close>,
  \<open>gidx_law\<close>, \<open>jwt_law\<close>, \<open>jose_law\<close>, \<open>router_law\<close>, \<open>static_law\<close>, \<open>default_endpoints_law\<close>, \<open>append_law\<close>, \<open>request_law\<close>,
  \<open>response_law\<close>, \<open>keyfunc_law\<close>, \<open>auth_law\<close>, \<open>ext_calm\<close>, \<open>uniform\<close>), and its witness shows an instance.

  \<^bold>\<open>What is shown.\<close> Of each operation of the stores, what it does on every branch, errors included; that
  updates of issuers refine the update of a record; that what was stored is found again; that quoted
  values and cursors cannot leave the place they are put in; that listings followed by their cursors
  end and are complete; that requests are atomic, refused without permission and always answered, change
  only what they name, and leave an owner's objects alone whoever else makes them;
  that the schema holds in every reachable world whatever fails; that the permissions API agrees
  with the tables, with the one request for which it may not; whose token an exchange issues, that
  valid tokens are exchanged, that a started server issues tokens on proof only and accepts the
  tokens it issues at its user info endpoint; that the generated
  server passes requests on as they are, that every route but three needs a token, and that neither
  client secrets nor private keys are published. Some theorems show what the code does not do: an empty update of an
  issuer, a limit above 100, a commit that fails after the response, an exchange that leaves its
  transaction open, two users of different issuers with the same ID.

  \<^bold>\<open>Bounds.\<close> Loops of the code run over lists and are structural recursions. A client that follows
  cursors is given fuel: one more than there are rows, which the listing theorems show to be enough.
  Lengths and limits are unbounded integers, as the code does no arithmetic near the bounds of
  \<open>int\<close>.

  \<^bold>\<open>Not modelled.\<close> Command-line flags, the dispatch of commands (\<open>main.go\<close>), logging, tracing and the
  writing of audit events, which are calls of libraries; fosite's own part of the token endpoint
  (client authentication, the choice of the grant, the bodies of its answers), which is a parameter
  with laws; the bodies of error answers; the text of the embedded API description, which is an
  argument. Parsing of URLs, PEM and X.509 is a parameter. Requests are interleaved only as whole requests: that
  the statements of concurrent transactions do not interfere is left to the database, whose conflicts
  appear as failed commits.
\<close>

section \<open>Samples\<close>

text \<open>The creation of a group by \<open>alice\<close> in an empty database, and what the service is after it.\<close>

definition create_group :: api_request where
  "create_group = ReqCreateGroup ''tnnt-1'' \<lparr>cg_Description = None, cg_Name = ''ops''\<rparr>"

definition created :: world where
  "created = snd (serve ext0 create_group ctx0 (world_of no_tables))"

lemma created_facts:
  "groups (committed created) = [\<lparr>gr_id = ''idntgrp-1'', gr_owner_id = ''tnnt-1'', gr_name = ''ops'', gr_description = []\<rparr>]"
  "reply created = Some 200 \<and> txs created = [TxDone]"
  "fst (api_handle ext0 create_group ctx0 (world_of no_tables)) = Ok ()"
  by code_simp+

lemma world_reply [simp]: "(world_of t)\<lparr>reply := None\<rparr> = world_of t"
  by (simp add: world_of_def)

lemma created_run: "service_run ext0 tok0 config0 created"
proof (rule service_run.api)
  show "service_run ext0 tok0 config0 (world_of no_tables)" by (rule service_run.start) (simp_all add: world_of_def)
  show "serve ext0 create_group ctx0 ((world_of no_tables)\<lparr>reply := None\<rparr>) = (fst (serve ext0 create_group ctx0 (world_of no_tables)), created)"
    by (simp add: created_def)
qed

lemma calm_ext0: "ext_calm ext0"
  by (auto simp: ext_calm_def ext0_def split: list.splits option.splits)

lemma services_ext0: "services_ok ext0"
  by (simp add: services_ok_def calm_ext0) (simp add: gidx_law_def uniform_def ext0_def)

lemma created_healthy: "healthy created"
  using frameD [OF serve_keeps, of ext0 create_group ctx0 "world_of no_tables"] healthy_sample
  by (metis created_def keeps_def prod.collapse)

section \<open>The service\<close>



text \<open>C1: the permissions API and the database agree. After any run in which no call to the database fails
  and the permissions API accepts all messages, or refuses all, the relations that the messages
  amount to are the groups and the memberships of the durable tables.\<close>

theorem permissions_in_sync:
  assumes "service_run X T config w" and "services_ok X" and "healthy w"
  shows "relations w = table_relations (committed w)"
  using service_run_in_sync [OF assms] by (simp add: in_sync_def agree_def)

theorem permissions_in_sync_witness:
  "relations created = table_relations (committed created) \<and> (''idntgrp-1'', GroupParentRelationship, ''tnnt-1'') \<in> relations created"
  using permissions_in_sync [OF created_run services_ext0 created_healthy] created_facts(1) by (simp add: table_relations_def)

definition refuse_additions :: "(string, string) ext" where
  "refuse_additions = ext0\<lparr>permissions_Publish := (\<lambda>n m. if rm_op m = CreateRel then Some (LibError ''unavailable'') else None)\<rparr>"

definition replace_members :: api_request where
  "replace_members = ReqReplaceGroupMembers ''idntgrp-1'' \<lparr>ag_MemberIDs = [''idntusr-2'']\<rparr>"

definition synced1 :: world where
  "synced1 = (world_of tables1)\<lparr>published :=
     [\<lparr>rm_op = CreateRel, rm_topic = GroupTopic, rm_resource = ''idntgrp-1'', rm_rels = [(GroupParentRelationship, ''tnnt-1'')]\<rparr>,
      \<lparr>rm_op = CreateRel, rm_topic = GroupTopic, rm_resource = ''idntgrp-2'', rm_rels = [(GroupParentRelationship, ''tnnt-1'')]\<rparr>,
      \<lparr>rm_op = CreateRel, rm_topic = GroupTopic, rm_resource = ''idntgrp-1'', rm_rels = [(DirectMemberRelationship, ''idntusr-1'')]\<rparr>]\<rparr>"

definition outcome :: "unit res \<times> world \<Rightarrow> unit res \<times> nat option \<times> tables \<times> rel_msg list" where
  "outcome = (\<lambda>(r, w). (r, reply w, committed w, published w))"

lemma replaced_outcome:
  "outcome (serve refuse_additions replace_members ctx0 synced1) =
    (Ok (), Some 500, tables1, published synced1 @
     [\<lparr>rm_op = DeleteRel, rm_topic = GroupTopic, rm_resource = ''idntgrp-1'', rm_rels = [(DirectMemberRelationship, ''idntusr-1'')]\<rparr>])"
  by code_simp

lemma replaced_facts:
  "fst (serve refuse_additions replace_members ctx0 synced1) = Ok ()"
  "reply (snd (serve refuse_additions replace_members ctx0 synced1)) = Some 500"
  "committed (snd (serve refuse_additions replace_members ctx0 synced1)) = tables1"
  "published (snd (serve refuse_additions replace_members ctx0 synced1)) = published synced1 @
     [\<lparr>rm_op = DeleteRel, rm_topic = GroupTopic, rm_resource = ''idntgrp-1'', rm_rels = [(DirectMemberRelationship, ''idntusr-1'')]\<rparr>]"
  using replaced_outcome by (simp_all add: outcome_def split_beta)


section \<open>Requests to the management API\<close>

text \<open>C3: requests are atomic. A request that does not succeed leaves the durable tables as they were, and one
  that succeeds makes them what its handler saw at the end of its transaction; no part of a request
  is ever visible alone, whatever fails.\<close>

theorem requests_are_atomic:
  assumes "api_handle X req c w = (r, w')"
  shows "r \<noteq> Ok () \<and> committed w' = committed w \<or>
    (\<exists>c' v u. BeginContext c w = (Ok c', v) \<and> strictHandler X req c' v = (Ok (), u) \<and> r = Ok () \<and>
       tx_view c' u = Some (committed w'))"
  by (rule api_handle_atomic [OF assms])

theorem requests_are_atomic_witness:
  "\<exists>w' c' v u. api_handle ext0 create_group ctx0 (world_of no_tables) = (Ok (), w') \<and>
     strictHandler ext0 create_group c' v = (Ok (), u) \<and> tx_view c' u = Some (committed w')"
proof -
  obtain w' where run: "api_handle ext0 create_group ctx0 (world_of no_tables) = (Ok (), w')"
    using created_facts(3) by (metis prod.collapse)
  from requests_are_atomic [OF this] run show ?thesis by auto
qed

text \<open>C2: access control. A request whose actor the permissions API does not allow the action, on the
  resource or on the owner that the tables name, does not succeed, whatever its other arguments are;
  it changes nothing and tells the permissions API nothing. The same holds for objects that do not
  exist.\<close>

theorem unauthorised_requests_are_refused:
  assumes "\<not> authorised X (ctx_actor c) req (committed w)" and "api_handle X req c w = (r, w')"
  shows "r \<noteq> Ok () \<and> committed w' = committed w \<and> published w' = published w"
  by (rule api_handle_unauthorised [OF assms])

theorem unauthorised_requests_are_refused_witness:
  "\<exists>r w'. api_handle ext0 (ReqDeleteIssuer ''idntiss-1'') (ctx0\<lparr>ctx_actor := ''mallory''\<rparr>) (world_of tables1) = (r, w') \<and>
     r \<noteq> Ok () \<and> committed w' = tables1"
proof -
  let ?c = "ctx0\<lparr>ctx_actor := ''mallory''\<rparr>"
  obtain r w' where run: "api_handle ext0 (ReqDeleteIssuer ''idntiss-1'') ?c (world_of tables1) = (r, w')" by fastforce
  have "\<not> authorised ext0 (ctx_actor ?c) (ReqDeleteIssuer ''idntiss-1'') (committed (world_of tables1))"
    by (simp add: authorised_def owner_access_def tables1_def issuer1_def ext0_def)
  from unauthorised_requests_are_refused [OF this run] run show ?thesis by simp
qed

text \<open>C10: a request changes only what it names. Whatever fails on the way, the durable tables differ after it only
  in the rows of its footprint: the rows with the ID in its path (and the users of an issuer that is
  deleted, the members of a group that are named), and new rows of the owner in its path; every other
  row is as it was, in its place.\<close>

theorem requests_change_only_what_they_name:
  assumes "serve X req c w = (r, w')"
  shows "within (request_footprint req) (committed w) (committed w')"
  using serve_committed [of X req c w] requests_stay_within assms by fastforce

theorem requests_change_only_what_they_name_witness:
  "\<exists>r w'. serve ext0 (ReqDeleteIssuer ''idntiss-1'') ctx0 (world_of tables1) = (r, w') \<and> issuers (committed w') = [] \<and>
     within (request_footprint (ReqDeleteIssuer ''idntiss-1'')) tables1 (committed w')"
proof -
  obtain r w' where run: "serve ext0 (ReqDeleteIssuer ''idntiss-1'') ctx0 (world_of tables1) = (r, w')" by fastforce
  moreover have "issuers (committed (snd (serve ext0 (ReqDeleteIssuer ''idntiss-1'') ctx0 (world_of tables1)))) = []"
    by code_simp
  ultimately show ?thesis using requests_change_only_what_they_name [OF run] by simp
qed

text \<open>C4: the tenants are separated. However many requests are served and tokens exchanged, as long as the
  actors have no permission on an owner nor on its groups, whatever permissions they have elsewhere,
  the tokens are not signed by an issuer of the owner and no seed names it: the issuers, users,
  clients, groups and members of the owner are as they were, whatever fails.\<close>

theorem tenants_are_separated:
  assumes "jwt_law T" and "world_ok w" and "\<forall>e \<in> set events. outside X T oid (committed w) e"
  shows "tenant oid (committed (fold (handle_event X T config) events w)) = tenant oid (committed w)"
  by (rule outsiders_run [OF assms])

text \<open>Two owners. An actor who may do everything with the one, and none of its groups, adds a group to it and
  tries to delete the group of the other; then a user of the one exchanges a token.\<close>

definition two_tenants :: "(string, string) ext" where
  "two_tenants = ext0\<lparr>permissions_CheckAccess := (\<lambda>actor res act. if res = ''tnnt-1'' then None else Some ErrPermissionDenied)\<rparr>"

definition group3 :: group_row where
  "group3 = \<lparr>gr_id = ''idntgrp-3'', gr_owner_id = ''tnnt-2'', gr_name = ''ops'', gr_description = []\<rparr>"

definition two_tenants_world :: world where
  "two_tenants_world = (world_of (tables1\<lparr>groups := [group3, group2, group1]\<rparr>))\<lparr>ticks := 6\<rparr>"

definition other_events :: "event list" where
  "other_events =
    [ApiCall (ReqCreateGroup ''tnnt-1'' \<lparr>cg_Description = None, cg_Name = ''ops''\<rparr>) (ctx0\<lparr>ctx_actor := ''bob''\<rparr>),
     ApiCall (ReqDeleteGroup ''idntgrp-3'') (ctx0\<lparr>ctx_actor := ''bob''\<rparr>), Exchange (exchange_request ''ann'') ctx0]"

theorem tenants_are_separated_witness:
  "length (groups (committed (handle_event two_tenants tok0 config0 (hd other_events) two_tenants_world))) = 4 \<and>
   tenant ''tnnt-2'' (committed (fold (handle_event two_tenants tok0 config0) other_events two_tenants_world)) =
     no_tables\<lparr>groups := [group3]\<rparr>"
proof
  show "length (groups (committed (handle_event two_tenants tok0 config0 (hd other_events) two_tenants_world))) = 4" by code_simp
  have w: "committed two_tenants_world = tables1\<lparr>groups := [group3, group2, group1]\<rparr>"
    by (simp add: two_tenants_world_def world_of_def)
  have t: "tenant ''tnnt-2'' (committed two_tenants_world) = no_tables\<lparr>groups := [group3]\<rparr>"
    by (simp add: w tenant_def no_tables_def tables1_def issuer1_def user1_def group1_def group2_def group3_def)
  have "schema_ok (committed two_tenants_world)"
    by (simp add: w schema_ok_def keys_ok_def refs_ok_def tables1_def issuer1_def user1_def group1_def group2_def group3_def)
  then have ok: "world_ok two_tenants_world" by (simp add: two_tenants_world_def world_ok_def world_of_def)
  have out: "\<forall>e \<in> set other_events. outside two_tenants tok0 ''tnnt-2'' (committed two_tenants_world) e"
    by (simp add: other_events_def stranger_def t two_tenants_def group3_def signed_by_issuer_def no_tables_def ctx0_def)
  from tenants_are_separated [OF jwt_law_sample ok out] t
  show "tenant ''tnnt-2'' (committed (fold (handle_event two_tenants tok0 config0) other_events two_tenants_world)) =
     no_tables\<lparr>groups := [group3]\<rparr>"
    by simp
qed

lemma send_status_reply [simp]: "\<exists>m. reply (send_status n w) = Some m"
  by (simp add: send_status_def)

lemma VisitResponse_reply: "VisitResponse b w = (r, w') \<Longrightarrow> reply w' \<noteq> None"
  by (auto simp: VisitResponse_def split: option.splits)

text \<open>C17: every request is answered. When the libraries do not panic, a request ends, whatever calls fail: it
  has an answer, and the transaction that was begun for it is over.\<close>

theorem requests_are_answered:
  assumes "ext_calm X"
  shows "\<exists>w'. serve X req c w = (Ok (), w') \<and> reply w' \<noteq> None \<and> (txs w' = txs w \<or> txs w' = txs w @ [TxDone])"
proof -
  obtain r w' where run: "serve X req c w = (r, w')" by fastforce
  obtain r1 v where v: "api_handle X req c w = (r1, v)" "calm r1" "r = Ok ()" "txs w' = txs v"
    using serve_api [OF run assms] by blast
  have "reply w' \<noteq> None"
  proof (cases r1)
    case (Ok x)
    then obtain c' w1 u where "strictHandler X req c' w1 = (Ok (), u)" "CommitContext c' u = (Ok (), v)"
      using v(1) by (auto simp: api_handle_def storageMiddleware_def tryE_eq_Ok bindE_eq_Ok)
    then have "reply v \<noteq> None"
      using commit_status [of c' u] VisitResponse_reply by (fastforce simp: strictHandler_eq bindE_eq_Ok)
    with Ok run v(1) show ?thesis by (simp add: serve_def go_simps)
  qed (use run v in \<open>auto simp: serve_def go_simps eCtx_Error_def\<close>)
  with run v(3,4) api_handle_closes [OF v(1,2)] show ?thesis by auto
qed

theorem requests_are_answered_witness:
  "\<exists>w'. serve ext0 create_group ctx0 ((world_of no_tables)\<lparr>faults := (\<lambda>n. if n = 3 then Some ''lost'' else None)\<rparr>) = (Ok (), w') \<and>
     reply w' \<noteq> None \<and> (txs w' = [] \<or> txs w' = [TxDone])"
  using requests_are_answered [OF calm_ext0, of create_group ctx0 "(world_of no_tables)\<lparr>faults := (\<lambda>n. if n = 3 then Some ''lost'' else None)\<rparr>"]
  by (simp add: world_of_def)

text \<open>C39: the answer is sent before the transaction is committed. When the commit fails after the handler has
  succeeded, the client is told \<open>200\<close> and the durable tables are as before.\<close>

theorem success_is_reported_before_commit:
  assumes "faults w (ticks w) = None" "reply w = None"
    and "strictHandler X req (begun_ctx c w) (begun w) = (Ok (), u)" and "faults w (ticks u) = Some e"
  shows "\<exists>w'. serve X req c w = (Ok (), w') \<and> reply w' = Some 200 \<and> committed w' = committed w"
  by (rule reply_before_commit [OF assms])

definition commit_lost :: world where
  "commit_lost = (world_of no_tables)\<lparr>faults := (\<lambda>n. if n = 6 then Some ''lost'' else None)\<rparr>"

lemma commit_lost_facts:
  "fst (strictHandler ext0 create_group (begun_ctx ctx0 commit_lost) (begun commit_lost)) = Ok ()"
  "ticks (snd (strictHandler ext0 create_group (begun_ctx ctx0 commit_lost) (begun commit_lost))) = 6"
  by code_simp+

theorem success_is_reported_before_commit_witness:
  "\<exists>w'. serve ext0 create_group ctx0 commit_lost = (Ok (), w') \<and> reply w' = Some 200 \<and> groups (committed w') = []"
proof -
  let ?u = "snd (strictHandler ext0 create_group (begun_ctx ctx0 commit_lost) (begun commit_lost))"
  have "strictHandler ext0 create_group (begun_ctx ctx0 commit_lost) (begun commit_lost) = (Ok (), ?u)"
    using commit_lost_facts(1) by (metis prod.collapse)
  moreover have "faults commit_lost (ticks commit_lost) = None" "reply commit_lost = None" "faults commit_lost 6 = Some ''lost''"
      "groups (committed commit_lost) = []"
    by (simp_all add: commit_lost_def world_of_def no_tables_def)
  ultimately show ?thesis
    using success_is_reported_before_commit [of commit_lost ext0 create_group ctx0 ?u "''lost''"] commit_lost_facts(2) by fastforce
qed

end
